(* ===== verification/Prelude.thy ===== *)
theory Prelude
  imports Main "HOL-Library.Sublist" "HOL-Library.Multiset"
begin

text \<open>
  Shared vocabulary of the development: Go's \<open>error\<close> values with their wrapping
  (\<open>errors.New\<close>, \<open>fmt.Errorf\<close> with and without \<open>%w\<close>, \<open>errors.Join\<close>,
  \<open>errors.Is\<close>, \<open>errors.As\<close>), the result type of a function that returns \<open>(T, error)\<close>,
  and the generic list and map lemmas that the component theories share. The lemmas are
  collected in \<open>go_result\<close> (results and errors) and \<open>go_seq\<close> (channels as sequences).
\<close>

named_theorems go_result "results, errors and their combination"
named_theorems go_seq "sequences received from or sent to a channel"

section \<open>Errors\<close>

text \<open>
  The value behind Go's \<open>error\<close> interface. \<open>Sentinel\<close> is a package-level error variable,
  known by its identity; \<open>Errorf\<close> is an error made on the spot by \<open>errors.New\<close> or by
  \<open>fmt.Errorf\<close> without \<open>%w\<close>; \<open>Wrapf p e\<close> is \<open>fmt.Errorf("p%w", e)\<close>;
  \<open>Unhealthy\<close> is the value type \<open>BeaterUnhealthyError\<close> of \<open>launcher/errors.go\<close>;
  \<open>Join\<close> is what \<open>errors.Join\<close> makes of the errors that are not nil.
\<close>

datatype go_error =
    Sentinel string
  | Errorf string
  | Wrapf string go_error
  | Unhealthy string
  | Join "go_error list"

type_synonym 'a result = "go_error + 'a"

text \<open>\<open>(error).Error()\<close>. \<open>errors.Join\<close> separates the texts by a newline.\<close>

fun join_lines :: "string list \<Rightarrow> string" where
  "join_lines [] = []"
| "join_lines [x] = x"
| "join_lines (x # xs) = x @ [CHR 0x0A] @ join_lines xs"

fun error_text :: "go_error \<Rightarrow> string" where
  "error_text (Sentinel t) = t"
| "error_text (Errorf t) = t"
| "error_text (Wrapf p e) = p @ error_text e"
| "error_text (Unhealthy m) = m"
| "error_text (Join es) = join_lines (map error_text es)"

text \<open>\<open>errors.Is (e, target)\<close> for a sentinel \<open>target\<close>, walking the wrapping chain.\<close>

fun errors_is :: "go_error \<Rightarrow> string \<Rightarrow> bool" where
  "errors_is (Sentinel t) s = (t = s)"
| "errors_is (Errorf t) s = False"
| "errors_is (Wrapf p e) s = errors_is e s"
| "errors_is (Unhealthy m) s = False"
| "errors_is (Join es) s = (\<exists>e\<in>set es. errors_is e s)"

text \<open>
  \<open>errors.As (e, &BeaterUnhealthyError{})\<close>: the message of the first such error of the
  chain, \<open>None\<close> where \<open>errors.As\<close> answers false.
\<close>

fun first_some :: "'a option list \<Rightarrow> 'a option" where
  "first_some [] = None"
| "first_some (None # xs) = first_some xs"
| "first_some (Some x # xs) = Some x"

fun errors_as_unhealthy :: "go_error \<Rightarrow> string option" where
  "errors_as_unhealthy (Sentinel t) = None"
| "errors_as_unhealthy (Errorf t) = None"
| "errors_as_unhealthy (Wrapf p e) = errors_as_unhealthy e"
| "errors_as_unhealthy (Unhealthy m) = Some m"
| "errors_as_unhealthy (Join es) = first_some (map errors_as_unhealthy es)"

text \<open>\<open>errors.Join\<close>: nil errors are discarded, and all-nil gives nil.\<close>

definition errors_join :: "go_error option list \<Rightarrow> go_error option" where
  "errors_join es =
     (let xs = List.map_filter id es in if xs = [] then None else Some (Join xs))"

lemma map_filter_id_Nil [simp]: "List.map_filter id es = [] \<longleftrightarrow> (\<forall>e\<in>set es. e = None)"
  by (induction es) (auto simp: List.map_filter_simps split: option.splits)

lemma errors_join_None [simp]: "errors_join es = None \<longleftrightarrow> (\<forall>e\<in>set es. e = None)"
  by (simp add: errors_join_def Let_def)

lemma errors_is_Wrapf [go_result]: "errors_is (Wrapf p e) s \<longleftrightarrow> errors_is e s"
  by simp

section \<open>Results\<close>

definition is_ok :: "'a result \<Rightarrow> bool" where
  "is_ok r = (case r of Inl _ \<Rightarrow> False | Inr _ \<Rightarrow> True)"

lemma is_ok_simps [simp]: "is_ok (Inr x)" "\<not> is_ok (Inl e)"
  by (simp_all add: is_ok_def)

lemma is_ok_iff [go_result]: "is_ok r \<longleftrightarrow> (\<exists>x. r = Inr x)"
  by (cases r) auto

text \<open>The nil test on the error of a result: \<open>err != nil\<close>.\<close>

definition error_of :: "'a result \<Rightarrow> go_error option" where
  "error_of r = (case r of Inl e \<Rightarrow> Some e | Inr _ \<Rightarrow> None)"

lemma error_of_simps [simp]: "error_of (Inl e) = Some e" "error_of (Inr x) = None"
  by (simp_all add: error_of_def)

text \<open>
  The values of the successful results, in order: what a loop that logs an error and goes on
  with \<open>continue\<close> delivers.
\<close>

fun oks :: "'a result list \<Rightarrow> 'a list" where
  "oks [] = []"
| "oks (Inl e # rs) = oks rs"
| "oks (Inr x # rs) = x # oks rs"

lemma oks_append [simp]: "oks (rs @ ss) = oks rs @ oks ss"
  by (induction rs rule: oks.induct) auto

lemma set_oks [simp]: "set (oks rs) = {x. Inr x \<in> set rs}"
  by (induction rs rule: oks.induct) auto

lemma length_oks_le [go_seq]: "length (oks rs) \<le> length rs"
  by (induction rs rule: oks.induct) auto

lemma oks_all_ok [go_seq]: "oks (map Inr xs) = xs"
  by (induction xs) auto

lemma oks_map_Inr [simp]: "oks (map (\<lambda>x. Inr (f x)) xs) = map f xs"
  by (induction xs) auto

text \<open>A call that may panic.\<close>

datatype 'a outcome = Panics | Returns 'a

text \<open>\<open>errs = errors.Join (errs, err)\<close>.\<close>

definition join_err :: "go_error option \<Rightarrow> go_error option \<Rightarrow> go_error option" where
  "join_err errs err = errors_join [errs, err]"

lemma join_err_None [simp]: "join_err e None = None \<longleftrightarrow> e = None" "join_err None e = None \<longleftrightarrow> e = None"
  "join_err e e' = None \<longleftrightarrow> e = None \<and> e' = None"
  by (auto simp: join_err_def)

section \<open>Sequences\<close>

lemma concat_prefix [go_seq]: "prefix xs ys \<Longrightarrow> prefix (concat xs) (concat ys)"
  by (auto simp: prefix_def)

lemma prefix_map [go_seq]: "prefix xs ys \<Longrightarrow> prefix (map f xs) (map f ys)"
  by (auto simp: prefix_def)

lemma prefix_oks [go_seq]: "prefix rs ss \<Longrightarrow> prefix (oks rs) (oks ss)"
  by (auto simp: prefix_def)

lemma foldl_result_stop [go_result]:
  "foldl (\<lambda>r x. case r of Inl e \<Rightarrow> Inl e | Inr s \<Rightarrow> f s x) (Inl e) xs = Inl e"
  by (induction xs) auto

section \<open>Cancellation\<close>

text \<open>
  The cancellation of a context as a budget: the number of \<open>select\<close> statements that pass before one
  picks \<open>ctx.Done ()\<close>, \<open>None\<close> where none ever does.
\<close>

type_synonym budget = "nat option"

fun sel_ctx :: "budget \<Rightarrow> budget option" where
  "sel_ctx None = Some None"
| "sel_ctx (Some 0) = None"
| "sel_ctx (Some (Suc n)) = Some (Some n)"

text \<open>Sending a list on a channel, each send in a \<open>select\<close>: what is sent, and the budget left.\<close>

fun send_all :: "budget \<Rightarrow> 'a list \<Rightarrow> 'a list \<times> budget option" where
  "send_all c [] = ([], Some c)"
| "send_all c (x # xs) =
     (case sel_ctx c of
        None \<Rightarrow> ([], None)
      | Some c' \<Rightarrow> (let (ys, r) = send_all c' xs in (x # ys, r)))"

lemma send_all_uncancelled [simp]: "send_all None xs = (xs, Some None)"
  by (induction xs) auto

lemma send_all_prefix: "prefix (fst (send_all c xs)) xs"
  by (induction xs arbitrary: c) (auto simp: Let_def case_prod_beta split: option.splits)

text \<open>The sends that pass before the context is done.\<close>

definition within :: "budget \<Rightarrow> 'a list \<Rightarrow> 'a list" where
  "within c xs = (case c of None \<Rightarrow> xs | Some n \<Rightarrow> take n xs)"

lemma within_simps [simp]: "within None xs = xs" "within (Some n) xs = take n xs" "within c [] = []"
  by (simp_all add: within_def split: option.splits)

lemma send_all_within: "fst (send_all c xs) = within c xs"
proof (induction xs arbitrary: c)
  case (Cons x xs)
  show ?case
  proof (cases "sel_ctx c")
    case None
    then show ?thesis by (cases c rule: sel_ctx.cases) simp_all
  next
    case (Some c')
    then have "within c (x # xs) = x # within c' xs" by (cases c rule: sel_ctx.cases) auto
    then show ?thesis using Some Cons.IH [of c'] by (simp add: case_prod_beta Let_def)
  qed
qed simp

end
