(* ===== verification/GoText.thy ===== *)
theory GoText
  imports Prelude "HOL-Library.Char_ord"
begin

text \<open>
  The functions of Go's packages \<open>strings\<close>, \<open>bytes\<close>, \<open>strconv\<close> and
  \<open>path/filepath\<close> that the program calls. A Go string is a sequence of bytes, here a
  \<open>string\<close> (a list of \<open>char\<close>, each one byte). Only ASCII white space is trimmed by
  \<open>trim_space\<close>: the program trims lines of passwd and group files.
\<close>

section \<open>strings and bytes\<close>

definition has_prefix :: "string \<Rightarrow> string \<Rightarrow> bool" where
  "has_prefix s p = (take (length p) s = p)"

definition trim_prefix :: "string \<Rightarrow> string \<Rightarrow> string" where
  "trim_prefix s p = (if has_prefix s p then drop (length p) s else s)"

fun str_contains :: "string \<Rightarrow> string \<Rightarrow> bool" where
  "str_contains [] p = (p = [])"
| "str_contains (c # s) p = (has_prefix (c # s) p \<or> str_contains s p)"

definition count_byte :: "string \<Rightarrow> char \<Rightarrow> nat" where
  "count_byte s c = length (filter (\<lambda>d. d = c) s)"

text \<open>\<open>strings.Split(s, sep)\<close> for a separator of one byte.\<close>

fun split_on :: "char \<Rightarrow> string \<Rightarrow> string list" where
  "split_on c [] = [[]]"
| "split_on c (d # s) =
     (if d = c then [] # split_on c s
      else (case split_on c s of [] \<Rightarrow> [[d]] | x # xs \<Rightarrow> (d # x) # xs))"

text \<open>\<open>strings.SplitN(s, sep, n)\<close> for a separator of one byte and \<open>n > 0\<close>.\<close>

fun split_n :: "char \<Rightarrow> nat \<Rightarrow> string \<Rightarrow> string list" where
  "split_n c 0 s = []"
| "split_n c (Suc 0) s = [s]"
| "split_n c (Suc (Suc n)) [] = [[]]"
| "split_n c (Suc (Suc n)) (d # s) =
     (if d = c then [] # split_n c (Suc n) s
      else (case split_n c (Suc (Suc n)) s of [] \<Rightarrow> [[d]] | x # xs \<Rightarrow> (d # x) # xs))"

text \<open>\<open>strings.Join\<close> with a separator of one byte.\<close>

fun join_with :: "char \<Rightarrow> string list \<Rightarrow> string" where
  "join_with c [] = []"
| "join_with c [x] = x"
| "join_with c (x # xs) = x @ [c] @ join_with c xs"

text \<open>\<open>strings.Split(s, sep)\<close> for a separator of two bytes (\<open>"**"\<close> in \<open>Glob\<close>).\<close>

fun split_on2 :: "char \<Rightarrow> char \<Rightarrow> string \<Rightarrow> string list" where
  "split_on2 c d [] = [[]]"
| "split_on2 c d [a] = [[a]]"
| "split_on2 c d (a # b # s) =
     (if a = c \<and> b = d then [] # split_on2 c d s
      else (case split_on2 c d (b # s) of [] \<Rightarrow> [[a]] | x # xs \<Rightarrow> (a # x) # xs))"

definition is_space :: "char \<Rightarrow> bool" where
  "is_space c = (c \<in> {CHR 0x09, CHR 0x0A, CHR 0x0B, CHR 0x0C, CHR 0x0D, CHR 0x20})"

definition trim_space :: "string \<Rightarrow> string" where
  "trim_space s = rev (dropWhile is_space (rev (dropWhile is_space s)))"

text \<open>\<open>strings.Index(s, c)\<close> followed by \<open>s[:i]\<close> when it is found: the part before \<open>c\<close>.\<close>

definition before_byte :: "char \<Rightarrow> string \<Rightarrow> string" where
  "before_byte c s = takeWhile (\<lambda>d. d \<noteq> c) s"

lemma split_on_ne [simp]: "split_on c s \<noteq> []"
  by (induction s) (auto split: list.splits)

lemma split_n_ne [simp]: "split_n c (Suc n) s \<noteq> []"
  by (cases n; cases s) (auto split: list.splits)

lemma split_on2_ne [simp]: "split_on2 c d s \<noteq> []"
  by (induction c d s rule: split_on2.induct) (auto split: list.splits)

lemma split_on_noc: "c \<notin> set s \<Longrightarrow> split_on c s = [s]"
  by (induction s) auto

lemma split_on_append: "c \<notin> set x \<Longrightarrow> split_on c (x @ c # s) = x # split_on c s"
  by (induction x) (auto split: list.splits)

lemma join_with_Cons: "xs \<noteq> [] \<Longrightarrow> join_with c (x # xs) = x @ c # join_with c xs"
  by (cases xs) auto

lemma join_with_cons_char: "join_with c ((d # x) # xs) = d # join_with c (x # xs)"
  by (cases xs) auto

lemma join_split [simp]: "join_with c (split_on c s) = s"
  by (induction s) (auto simp: join_with_Cons join_with_cons_char split: list.splits)

lemma split_join:
  "xs \<noteq> [] \<Longrightarrow> (\<forall>x\<in>set xs. c \<notin> set x) \<Longrightarrow> split_on c (join_with c xs) = xs"
  by (induction xs rule: join_with.induct) (auto simp: split_on_noc split_on_append)

lemma split_on_parts: "x \<in> set (split_on c s) \<Longrightarrow> c \<notin> set x"
  by (induction s arbitrary: x) (auto split: list.splits if_splits)

lemma split_n_noc: "c \<notin> set s \<Longrightarrow> split_n c (Suc n) s = [s]"
  by (induction c "Suc n" s rule: split_n.induct) (auto split: list.splits)

lemma split_n_append:
  "c \<notin> set x \<Longrightarrow> split_n c (Suc (Suc n)) (x @ c # s) = x # split_n c (Suc n) s"
  by (induction x) auto

lemma join_split_n [simp]: "join_with c (split_n c (Suc n) s) = s"
proof (induction c "Suc n" s arbitrary: n rule: split_n.induct)
  case (4 c n d s)
  then show ?case
    by (auto simp: join_with_Cons join_with_cons_char split: list.splits)
qed auto

lemma length_split_n: "length (split_n c (Suc n) s) \<le> Suc n"
  by (induction c "Suc n" s arbitrary: n rule: split_n.induct) (auto split: list.splits)

lemma count_byte_append [simp]: "count_byte (s @ t) c = count_byte s c + count_byte t c"
  by (simp add: count_byte_def)

lemma count_byte_Nil [simp]: "count_byte [] c = 0"
  by (simp add: count_byte_def)

lemma count_byte_Cons [simp]: "count_byte (d # s) c = (if d = c then 1 else 0) + count_byte s c"
  by (simp add: count_byte_def)

lemma has_prefix_self [simp]: "has_prefix (p @ s) p"
  by (simp add: has_prefix_def)

lemma has_prefix_iff: "has_prefix s p \<longleftrightarrow> (\<exists>t. s = p @ t)"
  by (auto simp: has_prefix_def) (metis append_take_drop_id)

lemma str_contains_iff: "str_contains s p \<longleftrightarrow> sublist p s"
  by (induction s) (auto simp: has_prefix_iff sublist_Cons_right prefix_def)

section \<open>strconv\<close>

definition is_digit :: "char \<Rightarrow> bool" where
  "is_digit c = (48 \<le> (of_char c :: nat) \<and> (of_char c :: nat) \<le> 57)"

definition digit_val :: "char \<Rightarrow> nat" where
  "digit_val c = (of_char c :: nat) - 48"

fun digits_val :: "nat \<Rightarrow> string \<Rightarrow> nat" where
  "digits_val acc [] = acc"
| "digits_val acc (c # s) = digits_val (10 * acc + digit_val c) s"

text \<open>\<open>strconv.ParseUint(s, 10, 64)\<close>: \<open>None\<close> for a syntax or a range error.\<close>

definition parse_uint64 :: "string \<Rightarrow> nat option" where
  "parse_uint64 s =
     (if s = [] \<or> \<not> list_all is_digit s then None
      else let n = digits_val 0 s in if n < 2 ^ 64 then Some n else None)"

text \<open>\<open>strconv.ParseInt(s, 10, 64)\<close> and \<open>strconv.Atoi\<close> on a 64-bit platform.\<close>

definition parse_int64 :: "string \<Rightarrow> int option" where
  "parse_int64 s =
     (let (neg, ds) = (case s of
          [] \<Rightarrow> (False, [])
        | c # t \<Rightarrow> if c = CHR ''-'' then (True, t) else if c = CHR ''+'' then (False, t) else (False, s))
      in if ds = [] \<or> \<not> list_all is_digit ds then None
         else let n = digits_val 0 ds
              in if neg then (if n \<le> 2 ^ 63 then Some (- int n) else None)
                 else (if n < 2 ^ 63 then Some (int n) else None))"

abbreviation atoi :: "string \<Rightarrow> int option" where
  "atoi \<equiv> parse_int64"

text \<open>\<open>strconv.FormatUint(n, b)\<close> for a base \<open>2 \<le> b \<le> 10\<close>.\<close>

definition digit_char :: "nat \<Rightarrow> char" where
  "digit_char d = char_of (48 + d)"

fun format_uint :: "nat \<Rightarrow> nat \<Rightarrow> string" where
  "format_uint b n =
     (if b < 2 then [] else if n < b then [digit_char n]
      else format_uint b (n div b) @ [digit_char (n mod b)])"

declare format_uint.simps [simp del]

lemma digits_val_append: "digits_val acc (s @ [c]) = 10 * digits_val acc s + digit_val c"
  by (induction s arbitrary: acc) auto

lemma of_char_digit_char: "d < 10 \<Longrightarrow> (of_char (digit_char d) :: nat) = 48 + d"
  by (simp add: digit_char_def)

lemma digit_char_digit: "d < 10 \<Longrightarrow> is_digit (digit_char d) \<and> digit_val (digit_char d) = d"
  by (simp add: is_digit_def digit_val_def of_char_digit_char)

lemma format_uint_ne: "2 \<le> b \<Longrightarrow> format_uint b n \<noteq> []"
  by (simp add: format_uint.simps [of b n])

lemma format_uint_digits: "b \<le> 10 \<Longrightarrow> list_all is_digit (format_uint b n)"
proof (induction b n rule: format_uint.induct)
  case (1 b n)
  then have "2 \<le> b \<Longrightarrow> n mod b < 10"
    using mod_less_divisor [of b n] by linarith
  with 1 show ?case
    by (cases "b < 2"; cases "n < b") (auto simp: format_uint.simps [of b n] digit_char_digit)
qed

lemma digits_val_format: "digits_val 0 (format_uint 10 n) = n"
proof (induction "10::nat" n rule: format_uint.induct)
  case (1 n)
  then show ?case
    by (cases "n < 10")
       (auto simp: format_uint.simps [of 10 n] digit_char_digit digits_val_append)
qed

lemma parse_format_uint: "n < 2 ^ 64 \<Longrightarrow> parse_uint64 (format_uint 10 n) = Some n"
  by (simp add: parse_uint64_def format_uint_ne format_uint_digits digits_val_format)

lemma digit_not_sign: "is_digit c \<Longrightarrow> c \<noteq> CHR ''-'' \<and> c \<noteq> CHR ''+'' \<and> c \<noteq> CHR '':''"
  by (auto simp: is_digit_def)

lemma parse_int64_digits:
  "s \<noteq> [] \<Longrightarrow> list_all is_digit s \<Longrightarrow>
     parse_int64 s = (if digits_val 0 s < 2 ^ 63 then Some (int (digits_val 0 s)) else None)"
  by (cases s) (auto simp: parse_int64_def dest: digit_not_sign)

lemma dropWhile_id: "s = [] \<or> \<not> P (hd s) \<Longrightarrow> dropWhile P s = s"
  by (cases s) auto

lemma trim_space_id:
  "s \<noteq> [] \<Longrightarrow> \<not> is_space (hd s) \<Longrightarrow> \<not> is_space (last s) \<Longrightarrow> trim_space s = s"
  by (simp add: trim_space_def dropWhile_id hd_rev)

lemma split_n_join:
  "xs \<noteq> [] \<Longrightarrow> length xs = n \<Longrightarrow> (\<forall>x\<in>set xs. c \<notin> set x) \<Longrightarrow>
     split_n c n (join_with c xs) = xs"
proof (induction xs arbitrary: n rule: join_with.induct)
  case (2 c x)
  then show ?case by (auto simp: split_n_noc)
next
  case (3 c x y ys)
  then obtain m where "n = Suc (Suc m)" and "length (y # ys) = Suc m" by auto
  with 3 show ?case by (auto simp: split_n_append)
qed auto

section \<open>path/filepath (Unix)\<close>

text \<open>
  \<open>filepath.Clean\<close> works on the elements between slashes: empty elements and \<open>"."\<close> go,
  \<open>".."\<close> removes the element before it, is dropped at the root and kept at the start of a
  relative path. The accumulator holds the elements kept so far, the last one first.
\<close>

fun clean_elems :: "bool \<Rightarrow> string list \<Rightarrow> string list \<Rightarrow> string list" where
  "clean_elems rooted acc [] = rev acc"
| "clean_elems rooted acc (e # es) =
     (if e = [] \<or> e = ''.'' then clean_elems rooted acc es
      else if e = ''..'' then
        (case acc of
           [] \<Rightarrow> if rooted then clean_elems rooted [] es else clean_elems rooted [e] es
         | a # as \<Rightarrow> if a = ''..'' then clean_elems rooted (e # acc) es
                    else clean_elems rooted as es)
      else clean_elems rooted (e # acc) es)"

definition filepath_clean :: "string \<Rightarrow> string" where
  "filepath_clean p =
     (let rooted = (p \<noteq> [] \<and> hd p = CHR ''/'');
          out = (if rooted then ''/'' else []) @
                join_with (CHR ''/'') (clean_elems rooted [] (split_on (CHR ''/'') p))
      in if out = [] then ''.'' else out)"

text \<open>\<open>filepath.Dir\<close>: everything up to and with the last slash, cleaned.\<close>

definition filepath_dir :: "string \<Rightarrow> string" where
  "filepath_dir p = filepath_clean (rev (dropWhile (\<lambda>c. c \<noteq> CHR ''/'') (rev p)))"

text \<open>\<open>filepath.Join\<close> of two elements: empty elements are ignored, the result is cleaned.\<close>

definition filepath_join2 :: "string \<Rightarrow> string \<Rightarrow> string" where
  "filepath_join2 a b =
     (if a = [] then (if b = [] then [] else filepath_clean b)
      else if b = [] then filepath_clean a
      else filepath_clean (a @ ''/'' @ b))"

text \<open>\<open>filepath.Ext\<close>: the suffix from the last dot of the last element, if any.\<close>

definition filepath_ext :: "string \<Rightarrow> string" where
  "filepath_ext p =
     (let base = takeWhile (\<lambda>c. c \<noteq> CHR ''/'') (rev p)
      in if CHR ''.'' \<in> set base
         then rev (takeWhile (\<lambda>c. c \<noteq> CHR ''.'') base @ ''.'') else [])"

section \<open>fmt\<close>

text \<open>\<open>'%s'\<close>: a string between single quotes.\<close>

definition quoted :: "string \<Rightarrow> string" where
  "quoted s = [CHR 0x27] @ s @ [CHR 0x27]"

text \<open>
  \<open>%q\<close> on the bytes below 128; bytes of printable non-ASCII runes are copied.
\<close>

definition hex_char :: "nat \<Rightarrow> char" where
  "hex_char d = (if d < 10 then char_of (48 + d) else char_of (87 + d))"

definition quote_byte :: "char \<Rightarrow> string" where
  "quote_byte c =
     (let n = (of_char c :: nat); bs = [CHR 0x5C]
      in if c = CHR 0x22 \<or> c = CHR 0x5C then bs @ [c]
         else if n = 7 then bs @ ''a'' else if n = 8 then bs @ ''b''
         else if n = 9 then bs @ ''t'' else if n = 10 then bs @ ''n''
         else if n = 11 then bs @ ''v'' else if n = 12 then bs @ ''f''
         else if n = 13 then bs @ ''r''
         else if n < 32 \<or> n = 127 then bs @ ''x'' @ [hex_char (n div 16), hex_char (n mod 16)]
         else [c])"

definition quote_q :: "string \<Rightarrow> string" where
  "quote_q s = [CHR 0x22] @ concat (map quote_byte s) @ [CHR 0x22]"

text \<open>\<open>%d\<close> on an integer.\<close>

definition format_int :: "int \<Rightarrow> string" where
  "format_int i = (if i < 0 then CHR ''-'' # format_uint 10 (nat (- i)) else format_uint 10 (nat i))"

section \<open>time and strconv\<close>

text \<open>
  \<open>time.Parse(time.RFC3339, s)\<close> succeeds: four digits of a year, two of a month and of a day that the
  month has, \<open>T\<close>, one or two digits of an hour, two of minutes and of seconds, an optional fraction after
  a period or a comma, and \<open>Z\<close> or an offset of up to 24 hours and 60 minutes. A parser takes what it
  accepts from the front of the string.
\<close>

definition take_char :: "char \<Rightarrow> string \<Rightarrow> string option" where
  "take_char c s = (case s of [] \<Rightarrow> None | d # r \<Rightarrow> if d = c then Some r else None)"

definition take_digit :: "string \<Rightarrow> (nat \<times> string) option" where
  "take_digit s = (case s of [] \<Rightarrow> None | d # r \<Rightarrow> if is_digit d then Some (digit_val d, r) else None)"

definition take_two :: "string \<Rightarrow> (nat \<times> string) option" where
  "take_two s =
     (case take_digit s of
        None \<Rightarrow> None
      | Some (a, r) \<Rightarrow> (case take_digit r of None \<Rightarrow> None | Some (b, r') \<Rightarrow> Some (10 * a + b, r')))"

definition take_one_or_two :: "string \<Rightarrow> (nat \<times> string) option" where
  "take_one_or_two s = (case take_two s of None \<Rightarrow> take_digit s | Some x \<Rightarrow> Some x)"

definition skip_fraction :: "string \<Rightarrow> string" where
  "skip_fraction s =
     (case s of
        c # d # r \<Rightarrow> if c \<in> {CHR ''.'', CHR '',''} \<and> is_digit d then dropWhile is_digit r else s
      | _ \<Rightarrow> s)"

definition days_in :: "nat \<Rightarrow> nat \<Rightarrow> nat" where
  "days_in month year =
     (if month = 2 then (if year mod 4 = 0 \<and> (year mod 100 \<noteq> 0 \<or> year mod 400 = 0) then 29 else 28)
      else if month \<in> {4, 6, 9, 11} then 30 else 31)"

definition offset_ok :: "string \<Rightarrow> bool" where
  "offset_ok s =
     (s = ''Z'' \<or>
      (case s of
         [] \<Rightarrow> False
       | sign # r \<Rightarrow>
           sign \<in> {CHR ''+'', CHR ''-''} \<and>
           (case take_two r of
              None \<Rightarrow> False
            | Some (hr, r) \<Rightarrow>
                (case take_char CHR '':'' r of
                   None \<Rightarrow> False
                 | Some r \<Rightarrow>
                     (case take_two r of None \<Rightarrow> False | Some (mm, r) \<Rightarrow> r = [] \<and> hr \<le> 24 \<and> mm \<le> 60)))))"

definition clock_ok :: "string \<Rightarrow> bool" where
  "clock_ok s =
     (case take_one_or_two s of
        None \<Rightarrow> False
      | Some (hour, r) \<Rightarrow>
          (case Option.bind (take_char CHR '':'' r) take_two of
             None \<Rightarrow> False
           | Some (minute, r) \<Rightarrow>
               (case Option.bind (take_char CHR '':'' r) take_two of
                  None \<Rightarrow> False
                | Some (sec, r) \<Rightarrow> hour < 24 \<and> minute < 60 \<and> sec < 60 \<and> offset_ok (skip_fraction r))))"

definition rfc3339_ok :: "string \<Rightarrow> bool" where
  "rfc3339_ok s =
     (case take_two s of
        None \<Rightarrow> False
      | Some (century, r) \<Rightarrow>
          (case take_two r of
             None \<Rightarrow> False
           | Some (y, r) \<Rightarrow>
               (case Option.bind (take_char CHR ''-'' r) take_two of
                  None \<Rightarrow> False
                | Some (month, r) \<Rightarrow>
                    (case Option.bind (take_char CHR ''-'' r) take_two of
                       None \<Rightarrow> False
                     | Some (day, r) \<Rightarrow>
                         (case take_char CHR ''T'' r of
                            None \<Rightarrow> False
                          | Some r \<Rightarrow>
                              1 \<le> month \<and> month \<le> 12 \<and> 1 \<le> day \<and> day \<le> days_in month (100 * century + y) \<and>
                              clock_ok r)))))"

lemma rfc3339_ok_digit: "rfc3339_ok s \<Longrightarrow> s \<noteq> [] \<and> is_digit (hd s)"
proof -
  assume ok: "rfc3339_ok s"
  have "take_two s = None \<Longrightarrow> \<not> rfc3339_ok s" by (simp add: rfc3339_ok_def)
  with ok have "take_two s \<noteq> None" by blast
  then show ?thesis by (cases s) (auto simp: take_two_def take_digit_def split: if_splits)
qed

text \<open>\<open>strconv.ParseBool\<close>.\<close>

definition parse_bool :: "string \<Rightarrow> bool option" where
  "parse_bool s =
     (if s \<in> {''1'', ''t'', ''T'', ''true'', ''TRUE'', ''True''} then Some True
      else if s \<in> {''0'', ''f'', ''F'', ''false'', ''FALSE'', ''False''} then Some False
      else None)"

definition has_suffix :: "string \<Rightarrow> string \<Rightarrow> bool" where
  "has_suffix s p = has_prefix (rev s) (rev p)"

text \<open>\<open>strings.ToLower\<close> on the bytes below 128.\<close>

definition to_lower :: "string \<Rightarrow> string" where
  "to_lower s = map (\<lambda>c. let n = (of_char c :: nat) in if 65 \<le> n \<and> n \<le> 90 then char_of (n + 32) else c) s"

end
