(* ===== verification/UserLookup.thy ===== *)
theory UserLookup
  imports GoText
begin

text \<open>
  \<open>resources/utils/user/user.go\<close>: the lookup of a user or group name by its numeric id in
  the passwd and group files of the host, \<open>/hostfs/etc/passwd\<close> and \<open>/hostfs/etc/group\<close>.
  The buffered reader is the list of what \<open>bufio.Reader.ReadLine\<close> returns: pairs of a piece
  of a line and \<open>isPrefix\<close> (true when the line did not fit the buffer and goes on in the next
  piece), and the error that ends it (\<open>None\<close> is \<open>io.EOF\<close>). \<open>os.Open\<close> is a parameter.
\<close>

record user =
  Uid :: string
  Gid :: string
  Username :: string
  Name :: string
  HomeDir :: string

record group =
  grp_Gid :: string
  grp_Name :: string

text \<open>A row function returns a value, an error, or \<open>(nil, nil)\<close> to skip the row.\<close>

type_synonym 'v line_func = "string \<Rightarrow> 'v option result"

record reader =
  pieces :: "(string \<times> bool) list"
  end_err :: "go_error option"

section \<open>readColonFile\<close>

text \<open>
  The inner loop: pieces are appended until the line is complete or holds enough columns.
  \<open>None\<close> when \<open>ReadLine\<close> fails.
\<close>

fun gather_line :: "nat \<Rightarrow> string \<Rightarrow> (string \<times> bool) list \<Rightarrow> (string \<times> bool \<times> (string \<times> bool) list) option" where
  "gather_line readCols wholeLine [] = None"
| "gather_line readCols wholeLine ((line, isPrefix) # rest) =
     (if \<not> isPrefix \<and> wholeLine = [] then Some (line, isPrefix, rest)
      else let whole = wholeLine @ line
           in if \<not> isPrefix \<or> readCols \<le> count_byte whole (CHR '':'')
              then Some (whole, isPrefix, rest)
              else gather_line readCols whole rest)"

text \<open>The loop that skips the rest of a line whose last piece read had \<open>isPrefix\<close>.\<close>

fun skip_line :: "bool \<Rightarrow> (string \<times> bool) list \<Rightarrow> (string \<times> bool) list" where
  "skip_line False ps = ps"
| "skip_line True [] = []"
| "skip_line True ((_, p) # ps) = skip_line p ps"

lemma length_gather: "gather_line n w ps = Some (l, p, rest) \<Longrightarrow> length rest < length ps"
  by (induction n w ps rule: gather_line.induct) (auto simp: Let_def split: if_splits)

lemma length_skip: "length (skip_line p ps) \<le> length ps"
  by (induction p ps rule: skip_line.induct) auto

text \<open>
  The whole loop. A comment or blank line is skipped with \<open>continue\<close>, before the loop that
  would drain the rest of a long line.
\<close>

function read_colon_pieces ::
    "'v line_func \<Rightarrow> nat \<Rightarrow> go_error option \<Rightarrow> (string \<times> bool) list \<Rightarrow> 'v option result" where
  "read_colon_pieces fn readCols err ps =
     (case gather_line readCols [] ps of
        None \<Rightarrow> (case err of None \<Rightarrow> Inr None | Some e \<Rightarrow> Inl e)
      | Some (whole, isPrefix, rest) \<Rightarrow>
          let line = trim_space whole
          in if line = [] \<or> hd line = CHR ''#'' then read_colon_pieces fn readCols err rest
             else (case fn line of
                     Inl e \<Rightarrow> Inl e
                   | Inr (Some v) \<Rightarrow> Inr (Some v)
                   | Inr None \<Rightarrow> read_colon_pieces fn readCols err (skip_line isPrefix rest)))"
  by pat_completeness auto
termination
  by (relation "measure (\<lambda>(fn, n, e, ps). length ps)")
     (auto dest: length_gather intro: le_less_trans [OF length_skip])

declare read_colon_pieces.simps [simp del]

definition readColonFile :: "reader \<Rightarrow> 'v line_func \<Rightarrow> nat \<Rightarrow> 'v option result" where
  "readColonFile r fn readCols = read_colon_pieces fn readCols (end_err r) (pieces r)"

section \<open>The row functions\<close>

definition lead_colon :: "nat \<Rightarrow> string" where
  "lead_colon idx = (if 0 < idx then '':'' else [])"

definition matchGroupIndexValue :: "string \<Rightarrow> nat \<Rightarrow> group line_func" where
  "matchGroupIndexValue value idx line =
     (let substr = lead_colon idx @ value @ '':''
      in if \<not> str_contains line substr \<or> count_byte line (CHR '':'') < 3 then Inr None
         else let parts = split_n (CHR '':'') 4 line
              in if length parts < 4 \<or> parts ! 0 = [] \<or> parts ! idx \<noteq> value \<or>
                    hd (parts ! 0) = CHR ''+'' \<or> hd (parts ! 0) = CHR ''-'' then Inr None
                 else if atoi (parts ! 2) = None then Inr None
                 else Inr (Some \<lparr>grp_Gid = parts ! 2, grp_Name = parts ! 0\<rparr>))"

definition matchUserIndexValue :: "string \<Rightarrow> nat \<Rightarrow> user line_func" where
  "matchUserIndexValue value idx line =
     (let substr = lead_colon idx @ value @ '':''
      in if \<not> str_contains line substr \<or> count_byte line (CHR '':'') < 6 then Inr None
         else let parts = split_n (CHR '':'') 7 line
              in if length parts < 6 \<or> parts ! idx \<noteq> value \<or> parts ! 0 = [] \<or>
                    hd (parts ! 0) = CHR ''+'' \<or> hd (parts ! 0) = CHR ''-'' then Inr None
                 else if atoi (parts ! 2) = None then Inr None
                 else if atoi (parts ! 3) = None then Inr None
                 else Inr (Some \<lparr>Uid = parts ! 2, Gid = parts ! 3, Username = parts ! 0,
                                 Name = before_byte (CHR '','') (parts ! 4),
                                 HomeDir = parts ! 5\<rparr>))"

definition findGroupId :: "string \<Rightarrow> reader \<Rightarrow> group result" where
  "findGroupId gid r =
     (case readColonFile r (matchGroupIndexValue gid 2) 3 of
        Inl e \<Rightarrow> Inl e
      | Inr (Some v) \<Rightarrow> Inr v
      | Inr None \<Rightarrow> Inl (Errorf (''Unknown groupId Error, GID: '' @ gid)))"

definition findUserId :: "string \<Rightarrow> reader \<Rightarrow> user result" where
  "findUserId uid r =
     (case atoi uid of
        None \<Rightarrow> Inl (Errorf (''user: invalid userid '' @ uid))
      | Some _ \<Rightarrow>
          (case readColonFile r (matchUserIndexValue uid 2) 6 of
             Inl e \<Rightarrow> Inl e
           | Inr (Some v) \<Rightarrow> Inr v
           | Inr None \<Rightarrow> Inl (Errorf (''Unknown UserId Error, UID: '' @ uid))))"

definition lookupGroupId :: "(string \<Rightarrow> reader result) \<Rightarrow> string \<Rightarrow> string \<Rightarrow> group result" where
  "lookupGroupId os_open gid path =
     (case os_open path of Inl e \<Rightarrow> Inl e | Inr f \<Rightarrow> findGroupId gid f)"

definition lookupUserId :: "(string \<Rightarrow> reader result) \<Rightarrow> string \<Rightarrow> string \<Rightarrow> user result" where
  "lookupUserId os_open uid path =
     (case os_open path of Inl e \<Rightarrow> Inl e | Inr f \<Rightarrow> findUserId uid f)"

text \<open>The two methods return a pair of a name, empty on an error, and the error.\<close>

definition GetUserNameFromID :: "(string \<Rightarrow> reader result) \<Rightarrow> string \<Rightarrow> string \<Rightarrow> string \<times> go_error option" where
  "GetUserNameFromID os_open uid path =
     (case lookupUserId os_open uid path of Inl e \<Rightarrow> ([], Some e) | Inr u \<Rightarrow> (Username u, None))"

definition GetGroupNameFromID :: "(string \<Rightarrow> reader result) \<Rightarrow> string \<Rightarrow> string \<Rightarrow> string \<times> go_error option" where
  "GetGroupNameFromID os_open gid path =
     (case lookupGroupId os_open gid path of Inl e \<Rightarrow> ([], Some e) | Inr g \<Rightarrow> (grp_Name g, None))"

section \<open>The rows of a file\<close>

text \<open>
  The rows that reach the row function when it never returns a value: the reader's loop with
  the row function taken out.
\<close>

function rows :: "nat \<Rightarrow> (string \<times> bool) list \<Rightarrow> string list" where
  "rows readCols ps =
     (case gather_line readCols [] ps of
        None \<Rightarrow> []
      | Some (whole, isPrefix, rest) \<Rightarrow>
          let line = trim_space whole
          in if line = [] \<or> hd line = CHR ''#'' then rows readCols rest
             else line # rows readCols (skip_line isPrefix rest))"
  by pat_completeness auto
termination
  by (relation "measure (\<lambda>(n, ps). length ps)")
     (auto dest: length_gather intro: le_less_trans [OF length_skip])

declare rows.simps [simp del]

fun first_match :: "'v line_func \<Rightarrow> go_error option \<Rightarrow> string list \<Rightarrow> 'v option result" where
  "first_match fn err [] = (case err of None \<Rightarrow> Inr None | Some e \<Rightarrow> Inl e)"
| "first_match fn err (l # ls) =
     (case fn l of Inl e \<Rightarrow> Inl e | Inr (Some v) \<Rightarrow> Inr (Some v) | Inr None \<Rightarrow> first_match fn err ls)"

lemma read_pieces_rows:
  "read_colon_pieces fn n err ps = first_match fn err (rows n ps)"
proof (induction n ps rule: rows.induct)
  case (1 n ps)
  show ?case
  proof (cases "gather_line n [] ps")
    case None
    then show ?thesis
      by (simp add: read_colon_pieces.simps [of fn n err ps] rows.simps [of n ps])
  next
    case (Some t)
    obtain whole isPrefix rest where t: "t = (whole, isPrefix, rest)" by (cases t)
    note gather = Some [unfolded t]
    show ?thesis
    proof (cases "trim_space whole = [] \<or> hd (trim_space whole) = CHR ''#''")
      case True
      then show ?thesis
        using "1.IH"(1) [OF gather refl refl refl] gather
        by (simp add: read_colon_pieces.simps [of fn n err ps] rows.simps [of n ps] Let_def)
    next
      case False
      then show ?thesis
        using "1.IH"(2) [OF gather refl refl refl] gather
        by (simp add: read_colon_pieces.simps [of fn n err ps] rows.simps [of n ps] Let_def
                split: sum.split option.split)
    qed
  qed
qed

text \<open>Lines that fit the buffer are the rows, trimmed, without comments and blank lines.\<close>

definition is_row :: "string \<Rightarrow> bool" where
  "is_row l = (l \<noteq> [] \<and> hd l \<noteq> CHR ''#'')"

lemma rows_short: "rows n (map (\<lambda>l. (l, False)) ls) = filter is_row (map trim_space ls)"
  by (induction ls)
     (simp_all add: rows.simps [of n "[]"] rows.simps [of n "(_, False) # _"] is_row_def Let_def)

section \<open>The contract of a row function\<close>

text \<open>
  What \<open>readColonFile\<close> relies on: a row function never fails, and a value it returns carries
  the key that was asked for.
\<close>

locale row_matcher =
  fixes fn :: "'v line_func" and key :: "'v \<Rightarrow> string" and wanted :: string
  assumes fn_total: "\<exists>r. fn line = Inr r"
    and fn_key: "fn line = Inr (Some v) \<Longrightarrow> key v = wanted"
begin

lemma match_key: "first_match fn err ls = Inr (Some v) \<Longrightarrow> key v = wanted"
  by (induction ls) (auto split: option.splits sum.splits dest: fn_key)

lemma match_eof: "\<exists>r. first_match fn None ls = Inr r"
proof (induction ls)
  case (Cons l ls)
  then show ?case using fn_total [of l] by (auto split: option.splits)
qed simp

lemma match_error: "first_match fn err ls = Inl e \<Longrightarrow> err = Some e"
proof (induction ls)
  case (Cons l ls)
  then show ?case using fn_total [of l] by (auto split: option.splits)
qed (auto split: option.splits)

lemma match_in:
  "first_match fn err ls = Inr (Some v) \<Longrightarrow> \<exists>l\<in>set ls. fn l = Inr (Some v)"
  by (induction ls) (auto split: option.splits sum.splits)

end

lemma user_row_key: "matchUserIndexValue value 2 line = Inr (Some u) \<Longrightarrow> Uid u = value"
  by (auto simp: matchUserIndexValue_def Let_def split: if_splits)

lemma group_row_key: "matchGroupIndexValue value 2 line = Inr (Some g) \<Longrightarrow> grp_Gid g = value"
  by (auto simp: matchGroupIndexValue_def Let_def split: if_splits)

lemma user_row_total: "\<exists>r. matchUserIndexValue value idx line = Inr r"
  by (simp add: matchUserIndexValue_def Let_def)

lemma group_row_total: "\<exists>r. matchGroupIndexValue value idx line = Inr r"
  by (simp add: matchGroupIndexValue_def Let_def)

interpretation user_rows: row_matcher "matchUserIndexValue uid 2" Uid uid
  by unfold_locales (rule user_row_total, erule user_row_key)

interpretation group_rows: row_matcher "matchGroupIndexValue gid 2" grp_Gid gid
  by unfold_locales (rule group_row_total, erule group_row_key)

section \<open>Entries of a passwd file\<close>

text \<open>A passwd file as it is written: entries of seven fields, and comment lines.\<close>

record passwd_entry =
  pw_name :: string
  pw_passwd :: string
  pw_uid :: string
  pw_gid :: string
  pw_gecos :: string
  pw_home :: string
  pw_shell :: string

datatype passwd_row = Entry passwd_entry | Comment string

definition entry_fields :: "passwd_entry \<Rightarrow> string list" where
  "entry_fields e =
     [pw_name e, pw_passwd e, pw_uid e, pw_gid e, pw_gecos e, pw_home e, pw_shell e]"

definition passwd_line :: "passwd_entry \<Rightarrow> string" where
  "passwd_line e = join_with (CHR '':'') (entry_fields e)"

fun render_row :: "passwd_row \<Rightarrow> string" where
  "render_row (Entry e) = passwd_line e"
| "render_row (Comment c) = CHR ''#'' # c"

fun entries_of :: "passwd_row list \<Rightarrow> passwd_entry list" where
  "entries_of [] = []"
| "entries_of (Entry e # rs) = e # entries_of rs"
| "entries_of (Comment c # rs) = entries_of rs"

definition wf_entry :: "passwd_entry \<Rightarrow> bool" where
  "wf_entry e =
     (list_all (\<lambda>f. CHR '':'' \<notin> set f) (entry_fields e) \<and>
      pw_name e \<noteq> [] \<and> hd (pw_name e) \<notin> {CHR ''+'', CHR ''-'', CHR ''#''} \<and>
      \<not> is_space (hd (pw_name e)) \<and> (pw_shell e = [] \<or> \<not> is_space (last (pw_shell e))) \<and>
      atoi (pw_uid e) \<noteq> None \<and> atoi (pw_gid e) \<noteq> None)"

definition user_of :: "passwd_entry \<Rightarrow> user" where
  "user_of e = \<lparr>Uid = pw_uid e, Gid = pw_gid e, Username = pw_name e,
                Name = before_byte (CHR '','') (pw_gecos e), HomeDir = pw_home e\<rparr>"

lemma is_space_colon [simp]: "\<not> is_space (CHR '':'')"
  by (simp add: is_space_def)

lemma passwd_line_ends:
  assumes "wf_entry e"
  shows "passwd_line e \<noteq> []" "hd (passwd_line e) = hd (pw_name e)" "\<not> is_space (last (passwd_line e))"
  using assms by (auto simp: passwd_line_def entry_fields_def wf_entry_def)

lemma trim_passwd_line: "wf_entry e \<Longrightarrow> trim_space (passwd_line e) = passwd_line e"
  by (rule trim_space_id) (auto simp: passwd_line_ends, simp add: wf_entry_def)

lemma is_row_passwd_line: "wf_entry e \<Longrightarrow> is_row (passwd_line e)"
  using passwd_line_ends [of e] by (auto simp: is_row_def wf_entry_def)

lemma split_passwd_line: "wf_entry e \<Longrightarrow> split_n (CHR '':'') 7 (passwd_line e) = entry_fields e"
  unfolding passwd_line_def
  by (rule split_n_join) (auto simp: entry_fields_def wf_entry_def)

lemma user_row_entry:
  assumes "wf_entry e"
  shows "matchUserIndexValue uid 2 (passwd_line e) = Inr (if pw_uid e = uid then Some (user_of e) else None)"
proof -
  have line: "passwd_line e = (pw_name e @ '':'' @ pw_passwd e) @ ('':'' @ pw_uid e @ '':'') @
      join_with (CHR '':'') [pw_gid e, pw_gecos e, pw_home e, pw_shell e]"
    by (simp add: passwd_line_def entry_fields_def)
  have "str_contains (passwd_line e) ('':'' @ pw_uid e @ '':'')"
    unfolding str_contains_iff line by (simp only: sublist_appendI)
  moreover have "6 \<le> count_byte (passwd_line e) (CHR '':'')"
    by (simp add: passwd_line_def entry_fields_def)
  moreover have "pw_name e \<noteq> []" "hd (pw_name e) \<noteq> CHR ''+''" "hd (pw_name e) \<noteq> CHR ''-''"
    "atoi (pw_uid e) \<noteq> None" "atoi (pw_gid e) \<noteq> None"
    using assms by (auto simp: wf_entry_def)
  ultimately show ?thesis
    by (auto simp: matchUserIndexValue_def lead_colon_def Let_def split_passwd_line [OF assms]
        entry_fields_def user_of_def)
qed

lemma trim_comment: "\<not> is_row (trim_space (CHR ''#'' # c))"
proof -
  have "dropWhile is_space (rev c @ ''#'') = dropWhile is_space (rev c) @ ''#''"
    by (cases "\<forall>x\<in>set (rev c). is_space x")
       (auto simp: dropWhile_append is_space_def)
  then show ?thesis
    by (simp add: trim_space_def is_row_def is_space_def)
qed

lemma rows_entries:
  "\<forall>e. Entry e \<in> set rs \<longrightarrow> wf_entry e \<Longrightarrow>
     filter is_row (map trim_space (map render_row rs)) = map passwd_line (entries_of rs)"
  by (induction rs rule: entries_of.induct)
     (auto simp: trim_passwd_line is_row_passwd_line trim_comment)

lemma first_match_entries:
  "list_all wf_entry es \<Longrightarrow>
     first_match (matchUserIndexValue uid 2) None (map passwd_line es) =
       Inr (map_option user_of (find (\<lambda>e. pw_uid e = uid) es))"
  by (induction es) (auto simp: user_row_entry)

lemma list_all_entries: "list_all P (entries_of rs) \<longleftrightarrow> (\<forall>e. Entry e \<in> set rs \<longrightarrow> P e)"
  by (induction rs rule: entries_of.induct) auto

definition passwd_reader :: "passwd_row list \<Rightarrow> reader" where
  "passwd_reader rs = \<lparr>pieces = map (\<lambda>r. (render_row r, False)) rs, end_err = None\<rparr>"

lemma readColonFile_passwd:
  assumes "list_all wf_entry (entries_of rs)"
  shows "readColonFile (passwd_reader rs) (matchUserIndexValue uid 2) n =
    Inr (map_option user_of (find (\<lambda>e. pw_uid e = uid) (entries_of rs)))"
proof -
  have "rows n (map (\<lambda>r. (render_row r, False)) rs) = map passwd_line (entries_of rs)"
    using rows_short [of n "map render_row rs"] rows_entries [of rs] assms
    by (simp add: list_all_entries comp_def)
  then show ?thesis
    using first_match_entries [OF assms]
    by (simp add: readColonFile_def read_pieces_rows passwd_reader_def)
qed

section \<open>Properties\<close>

text \<open>
  \<open>readColonFile\<close> is a search: it runs the row function on the trimmed, non-blank,
  non-comment lines in order and stops at the first value or error; when no line has one the
  result is \<open>(nil, nil)\<close> at the end of the file and the reader's error otherwise. For lines that
  fit the reader's buffer these are the lines of the file.
\<close>

lemma readColonFile_is_search:
  "readColonFile r fn readCols = first_match fn (end_err r) (rows readCols (pieces r)) \<and>
   (\<forall>ls. rows readCols (map (\<lambda>l. (l, False)) ls) = filter is_row (map trim_space ls))"
  by (simp add: readColonFile_def read_pieces_rows rows_short)


definition passwd_example :: "passwd_row list" where
  "passwd_example =
     [Comment ''system users'',
      Entry \<lparr>pw_name = ''root'', pw_passwd = ''x'', pw_uid = ''0'', pw_gid = ''0'', pw_gecos = ''root'',
             pw_home = ''/root'', pw_shell = ''/bin/sh''\<rparr>,
      Entry \<lparr>pw_name = ''etcd'', pw_passwd = ''x'', pw_uid = ''998'', pw_gid = ''997'',
             pw_gecos = ''Etcd,,,'', pw_home = [], pw_shell = []\<rparr>]"


text \<open>
  A user or group that the lookup returns comes from a row of the file that has the id that
  was asked for, and its name is not empty.
\<close>

lemma lookup_returns_wanted_id:
  "(\<forall>u. lookupUserId os_open uid path = Inr u \<longrightarrow> Uid u = uid \<and> Username u \<noteq> []) \<and>
   (\<forall>g. lookupGroupId os_open gid path = Inr g \<longrightarrow> grp_Gid g = gid \<and> grp_Name g \<noteq> [])"
proof -
  have u: "Username v \<noteq> []" if "matchUserIndexValue uid 2 l = Inr (Some v)" for l v
    using that by (auto simp: matchUserIndexValue_def Let_def split: if_splits)
  have g: "grp_Name v \<noteq> []" if "matchGroupIndexValue gid 2 l = Inr (Some v)" for l v
    using that by (auto simp: matchGroupIndexValue_def Let_def split: if_splits)
  have "Uid v = uid \<and> Username v \<noteq> []" if "findUserId uid r = Inr v" for r v
  proof -
    from that have "first_match (matchUserIndexValue uid 2) (end_err r) (rows 6 (pieces r)) = Inr (Some v)"
      by (auto simp: findUserId_def readColonFile_def read_pieces_rows split: option.splits sum.splits)
    from user_rows.match_key [OF this] user_rows.match_in [OF this] u show ?thesis by blast
  qed
  moreover have "grp_Gid v = gid \<and> grp_Name v \<noteq> []" if "findGroupId gid r = Inr v" for r v
  proof -
    from that have "first_match (matchGroupIndexValue gid 2) (end_err r) (rows 3 (pieces r)) = Inr (Some v)"
      by (auto simp: findGroupId_def readColonFile_def read_pieces_rows split: option.splits sum.splits)
    from group_rows.match_key [OF this] group_rows.match_in [OF this] g show ?thesis by blast
  qed
  ultimately show ?thesis
    by (auto simp: lookupUserId_def lookupGroupId_def split: sum.splits)
qed

end
