(* ===== verification/Config_Model.thy ===== *)
theory Config_Model
  imports GoText
begin

text \<open>
  \<open>config/config.go\<close>, \<open>config/benchmark.go\<close> and \<open>beater/validator.go\<close>: the configuration
  records, the defaults and the validation that every (re)configuration goes through.
  \<open>os.Executable\<close> and \<open>(*config.C).Unpack\<close> of elastic-agent-libs are parameters:
  \<open>unpack c\<close> is the configuration after unpacking over the defaults \<open>c\<close>. The AWS
  credentials (\<open>aws.ConfigAWS\<close> of beats) and the processors' configuration are type variables.
\<close>

section \<open>Constants\<close>

definition DefaultNamespace :: string where
  "DefaultNamespace = ''default''"

definition VulnerabilityType :: string where
  "VulnerabilityType = ''vuln_mgmt''"

definition ResultsDatastreamIndexPrefix :: string where
  "ResultsDatastreamIndexPrefix = ''logs-cloud_security_posture.findings''"

definition AzureClientCredentialsTypeARMTemplate :: string where
  "AzureClientCredentialsTypeARMTemplate = ''arm_template''"

definition AzureClientCredentialsTypeManagedIdentity :: string where
  "AzureClientCredentialsTypeManagedIdentity = ''managed_identity''"

definition AzureClientCredentialsTypeManual :: string where
  "AzureClientCredentialsTypeManual = ''manual''"

definition AzureClientCredentialsTypeSecret :: string where
  "AzureClientCredentialsTypeSecret = ''service_principal_with_client_secret''"

definition AzureClientCredentialsTypeCertificate :: string where
  "AzureClientCredentialsTypeCertificate = ''service_principal_with_client_certificate''"

definition AzureClientCredentialsTypeUsernamePassword :: string where
  "AzureClientCredentialsTypeUsernamePassword =
     ''service_principal_with_client_username_and_password''"

definition SingleAccount :: string where
  "SingleAccount = ''single-account''"

definition OrganizationAccount :: string where
  "OrganizationAccount = ''organization-account''"

definition CIS_K8S :: string where "CIS_K8S = ''cis_k8s''"
definition CIS_EKS :: string where "CIS_EKS = ''cis_eks''"
definition CIS_AWS :: string where "CIS_AWS = ''cis_aws''"
definition CIS_GCP :: string where "CIS_GCP = ''cis_gcp''"
definition CIS_AZURE :: string where "CIS_AZURE = ''cis_azure''"

definition SupportedCIS :: "string list" where
  "SupportedCIS = [CIS_AWS, CIS_K8S, CIS_EKS, CIS_GCP, CIS_AZURE]"

lemmas cis_defs = CIS_K8S_def CIS_EKS_def CIS_AWS_def CIS_GCP_def CIS_AZURE_def

section \<open>Records\<close>

record 'cred aws_config =
  aws_Cred :: 'cred
  aws_AccountType :: string

record gcp_client_opt =
  CredentialsJSON :: string
  CredentialsFilePath :: string

record gcp_config =
  ProjectId :: string
  OrganizationId :: string
  gcp_AccountType :: string
  GcpClientOpt :: gcp_client_opt

record azure_client_opt =
  ClientCredentialsType :: string
  ClientID :: string
  TenantID :: string
  ClientSecret :: string
  ClientUsername :: string
  ClientPassword :: string
  ClientCertificatePath :: string
  ClientCertificatePassword :: string

record azure_config =
  azure_Credentials :: azure_client_opt
  azure_AccountType :: string

record 'cred cloud_config =
  Aws :: "'cred aws_config"
  Gcp :: gcp_config
  Azure :: azure_config

text \<open>A \<open>time.Duration\<close> is a number of nanoseconds.\<close>

record ('cred, 'proc) config =
  Benchmark :: string
  Type :: string
  Deployment :: string
  CloudConfig :: "'cred cloud_config"
  KubeConfig :: string
  Period :: int
  Processors :: "'proc list"
  BundlePath :: string
  PackagePolicyId :: string
  PackagePolicyRevision :: int

definition time_Second :: int where "time_Second = 10 ^ 9"
definition time_Minute :: int where "time_Minute = 60 * time_Second"
definition time_Hour :: int where "time_Hour = 60 * time_Minute"

text \<open>The zero values of the records; \<open>cred0\<close> is the zero value of \<open>aws.ConfigAWS\<close>.\<close>

definition zero_gcp :: gcp_config where
  "zero_gcp = \<lparr>ProjectId = [], OrganizationId = [], gcp_AccountType = [],
               GcpClientOpt = \<lparr>CredentialsJSON = [], CredentialsFilePath = []\<rparr>\<rparr>"

definition zero_azure :: azure_config where
  "zero_azure =
     \<lparr>azure_Credentials =
        \<lparr>ClientCredentialsType = [], ClientID = [], TenantID = [], ClientSecret = [],
         ClientUsername = [], ClientPassword = [], ClientCertificatePath = [],
         ClientCertificatePassword = []\<rparr>,
      azure_AccountType = []\<rparr>"

definition zero_cloud :: "'cred \<Rightarrow> 'cred cloud_config" where
  "zero_cloud cred0 =
     \<lparr>Aws = \<lparr>aws_Cred = cred0, aws_AccountType = []\<rparr>, Gcp = zero_gcp, Azure = zero_azure\<rparr>"

section \<open>New\<close>

definition isSupportedBenchmark :: "string \<Rightarrow> bool" where
  "isSupportedBenchmark benchmark = list_ex (\<lambda>s. benchmark = s) SupportedCIS"

definition getBundlePath :: "string result \<Rightarrow> string result" where
  "getBundlePath executable =
     (case executable of
        Inl e \<Rightarrow> Inl e
      | Inr ex \<Rightarrow> Inr (filepath_join2 (filepath_dir ex) ''bundle.tar.gz''))"

definition defaultConfig :: "'cred \<Rightarrow> string result \<Rightarrow> ('cred, 'proc) config result" where
  "defaultConfig cred0 executable =
     (case getBundlePath executable of
        Inl e \<Rightarrow> Inl e
      | Inr bundle \<Rightarrow>
          Inr \<lparr>Benchmark = [], Type = [], Deployment = [], CloudConfig = zero_cloud cred0,
               KubeConfig = [], Period = 4 * time_Hour, Processors = [], BundlePath = bundle,
               PackagePolicyId = [], PackagePolicyRevision = 0\<rparr>)"

text \<open>
  \<open>New\<close> returns a configuration and an error; an unsupported benchmark is the one error that
  comes with a configuration.
\<close>

definition config_New ::
  "'cred \<Rightarrow> string result \<Rightarrow> (('cred, 'proc) config \<Rightarrow> ('cred, 'proc) config result) \<Rightarrow>
     ('cred, 'proc) config option \<times> go_error option" where
  "config_New cred0 executable unpack =
     (case defaultConfig cred0 executable of
        Inl e \<Rightarrow> (None, Some e)
      | Inr d \<Rightarrow>
          (case unpack d of
             Inl e \<Rightarrow> (None, Some e)
           | Inr c \<Rightarrow>
               if Benchmark c \<noteq> [] \<and> \<not> isSupportedBenchmark (Benchmark c) then
                 (Some c, Some (Unhealthy (''benchmark '' @ quoted (Benchmark c) @ '' is not supported'')))
               else if aws_AccountType (Aws (CloudConfig c)) \<notin> {[], SingleAccount, OrganizationAccount} then
                 (None, Some (Unhealthy (''aws.account_type '' @
                    quoted (aws_AccountType (Aws (CloudConfig c))) @ '' is not supported'')))
               else if azure_AccountType (Azure (CloudConfig c)) \<notin> {[], SingleAccount, OrganizationAccount} then
                 (None, Some (Unhealthy (''azure.account_type '' @
                    quoted (azure_AccountType (Azure (CloudConfig c))) @ '' is not supported'')))
               else (Some c, None)))"

definition Datastream :: "string \<Rightarrow> string \<Rightarrow> string" where
  "Datastream namespace indexPrefix =
     (let ns = (if namespace = [] then DefaultNamespace else namespace)
      in indexPrefix @ ''-'' @ ns)"

text \<open>
  \<open>validator.Validate\<close>; \<open>keys\<close> is the printed list of the keys of the reconfiguration.
\<close>

definition validator_Validate ::
  "'cred \<Rightarrow> string result \<Rightarrow> ('raw \<Rightarrow> ('cred, 'proc) config \<Rightarrow> ('cred, 'proc) config result) \<Rightarrow>
     ('raw \<Rightarrow> string) \<Rightarrow> 'raw \<Rightarrow> go_error option" where
  "validator_Validate cred0 executable unpack keys cfg =
     (case config_New cred0 executable (unpack cfg) of
        (_, Some err) \<Rightarrow>
          Some (Wrapf (''could not parse reconfiguration '' @ keys cfg @ '', skipping with error: '') err)
      | (_, None) \<Rightarrow> None)"

section \<open>What New accepts\<close>

text \<open>The contract of the validation, as the comments and the constants state it.\<close>

definition account_type_ok :: "string \<Rightarrow> bool" where
  "account_type_ok t = (t = [] \<or> t = SingleAccount \<or> t = OrganizationAccount)"

definition config_ok :: "('cred, 'proc) config \<Rightarrow> bool" where
  "config_ok c =
     ((Benchmark c = [] \<or> Benchmark c \<in> set SupportedCIS) \<and>
      account_type_ok (aws_AccountType (Aws (CloudConfig c))) \<and>
      account_type_ok (azure_AccountType (Azure (CloudConfig c))))"

lemma isSupportedBenchmark_iff [simp]: "isSupportedBenchmark b \<longleftrightarrow> b \<in> set SupportedCIS"
  by (auto simp: isSupportedBenchmark_def list_ex_iff)

lemma defaultConfig_ok: "defaultConfig cred0 ex = Inr d \<Longrightarrow> config_ok d"
  by (auto simp: defaultConfig_def config_ok_def account_type_ok_def zero_cloud_def zero_azure_def
      split: sum.splits)

lemma config_New_unpacked:
  assumes "defaultConfig cred0 ex = Inr d" and "unpack d = Inr c"
  shows "snd (config_New cred0 ex unpack) = None \<longleftrightarrow> config_ok c"
    and "config_ok c \<Longrightarrow> config_New cred0 ex unpack = (Some c, None)"
    and "\<not> config_ok c \<Longrightarrow> \<exists>m. snd (config_New cred0 ex unpack) = Some (Unhealthy m)"
  using assms by (auto simp: config_New_def config_ok_def account_type_ok_def)

text \<open>
  \<open>New\<close> returns a configuration without an error exactly when the defaults could be made,
  the raw configuration could be unpacked over them, and the benchmark and the AWS and Azure
  account types are empty or among the supported ones; the configuration is the unpacked one.
\<close>

lemma config_New_accepts_iff:
  "config_New cred0 ex unpack = (Some c, None) \<longleftrightarrow>
     (\<exists>d. defaultConfig cred0 ex = Inr d \<and> unpack d = Inr c \<and> config_ok c)"
  by (auto simp: config_New_def config_ok_def account_type_ok_def split: sum.splits if_splits)

text \<open>
  Every reconfiguration that unpacks but is not acceptable is refused by \<open>Validate\<close> with an
  error in whose chain \<open>errors.As\<close> finds a \<open>BeaterUnhealthyError\<close>, so that the launcher can
  report it; an acceptable one is not refused.
\<close>

lemma Validate_reports_unhealthy:
  assumes "defaultConfig cred0 ex = Inr d" and "unpack raw d = Inr c"
  shows "(validator_Validate cred0 ex unpack keys raw = None \<longleftrightarrow> config_ok c) \<and>
    (\<not> config_ok c \<longrightarrow>
      (\<exists>e m. validator_Validate cred0 ex unpack keys raw = Some e \<and> errors_as_unhealthy e = Some m))"
  using config_New_unpacked [where unpack = "unpack raw", OF assms]
  by (cases "config_New cred0 ex (unpack raw)")
     (auto simp: validator_Validate_def split: option.splits)

definition default_for_witness :: "(unit, unit) config" where
  "default_for_witness =
     \<lparr>Benchmark = [], Type = [], Deployment = [], CloudConfig = zero_cloud (),
      KubeConfig = [], Period = 4 * time_Hour, Processors = [],
      BundlePath = ''/opt/cloudbeat/bundle.tar.gz'',
      PackagePolicyId = [], PackagePolicyRevision = 0\<rparr>"

lemma default_at_opt:
  "defaultConfig () (Inr ''/opt/cloudbeat/cloudbeat'') = Inr default_for_witness"
  by (simp add: defaultConfig_def getBundlePath_def filepath_join2_def filepath_dir_def
      filepath_clean_def default_for_witness_def)

lemma Validate_reports_unhealthy_witness:
  "\<exists>e m. validator_Validate () (Inr ''/opt/cloudbeat/cloudbeat'')
     (\<lambda>b d. Inr ((d :: (unit, unit) config)\<lparr>Benchmark := b\<rparr>)) (\<lambda>_. ''[]'') ''cis_unknown'' = Some e \<and>
     errors_as_unhealthy e = Some m"
proof -
  have "\<not> config_ok (default_for_witness\<lparr>Benchmark := ''cis_unknown''\<rparr>)"
    by (simp add: config_ok_def SupportedCIS_def cis_defs)
  then show ?thesis
    using Validate_reports_unhealthy [where unpack = "\<lambda>b d. Inr (d\<lparr>Benchmark := b\<rparr>)"
        and raw = "''cis_unknown''" and keys = "\<lambda>_. ''[]''", OF default_at_opt refl]
    by blast
qed

end
