(* ===== verification/Progress.thy ===== *)
theory Progress
  imports Main
begin

text \<open>
  Progress of goroutines. A run is a sequence of states; it is maximal when it goes on as long as
  some step is possible, which is all that is assumed of the scheduler. The locale has what a
  component shows of its steps to come to rest: an invariant, and a number that every step
  lowers.
\<close>

definition maximal_run :: "('s \<Rightarrow> 's \<Rightarrow> bool) \<Rightarrow> (nat \<Rightarrow> 's) \<Rightarrow> bool" where
  "maximal_run step f \<longleftrightarrow>
     (\<forall>i. step (f i) (f (Suc i)) \<or> (f (Suc i) = f i \<and> (\<forall>t. \<not> step (f i) t)))"

lemma maximal_run_cases [consumes 1, case_names steps rests]:
  assumes "maximal_run step f"
    and "step (f i) (f (Suc i)) \<Longrightarrow> P" and "f (Suc i) = f i \<Longrightarrow> \<forall>t. \<not> step (f i) t \<Longrightarrow> P"
  shows P
  using assms unfolding maximal_run_def by blast

lemma maximal_run_rests:
  assumes "maximal_run step f" and "\<forall>t. \<not> step (f k) t"
  shows "k \<le> j \<Longrightarrow> f j = f k"
proof (induction j rule: dec_induct)
  case (step n)
  with assms(2) show ?case by (metis assms(1) maximal_run_cases)
qed simp

locale coming_to_rest =
  fixes step :: "'s \<Rightarrow> 's \<Rightarrow> bool" and inv :: "'s \<Rightarrow> bool" and remaining :: "'s \<Rightarrow> nat"
  assumes step_inv: "inv s \<Longrightarrow> step s t \<Longrightarrow> inv t"
    and step_less: "inv s \<Longrightarrow> step s t \<Longrightarrow> remaining t < remaining s"
begin

lemma run_inv: "maximal_run step f \<Longrightarrow> inv (f 0) \<Longrightarrow> inv (f i)"
proof (induction i)
  case (Suc i)
  then show ?case using step_inv by (metis maximal_run_cases)
qed

lemma moving_run:
  assumes "maximal_run step f" and "inv (f 0)" and "\<And>i. i < n \<Longrightarrow> \<exists>t. step (f i) t"
  shows "remaining (f n) + n \<le> remaining (f 0)"
  using assms(3)
proof (induction n)
  case (Suc n)
  then have "step (f n) (f (Suc n))" using maximal_run_cases [OF assms(1), of n] by auto
  from step_less [OF run_inv [OF assms(1,2)] this] Suc show ?case by force
qed simp

lemma comes_to_rest:
  assumes "maximal_run step f" and "inv (f 0)"
  obtains k where "k \<le> remaining (f 0)" "inv (f k)" "\<forall>t. \<not> step (f k) t" "\<And>j. k \<le> j \<Longrightarrow> f j = f k"
proof -
  have "\<exists>k \<le> remaining (f 0). \<forall>t. \<not> step (f k) t"
  proof (rule ccontr)
    assume "\<not> (\<exists>k \<le> remaining (f 0). \<forall>t. \<not> step (f k) t)"
    then have moves: "i < Suc (remaining (f 0)) \<Longrightarrow> \<exists>t. step (f i) t" for i by auto
    show False using moving_run [OF assms, where n = "Suc (remaining (f 0))"] moves by simp
  qed
  then show thesis using that run_inv [OF assms] maximal_run_rests [OF assms(1)] by blast
qed

end

end
