(* ===== verification/Launcher_Model.thy ===== *)
theory Launcher_Model
  imports Config_Model Progress
begin

text \<open>
  \<open>launcher/launcher.go\<close> and \<open>launcher/listener.go\<close>. A raw configuration (\<open>*config.C\<close>) is a
  value of \<open>'cfg option\<close>, \<open>None\<close> being the nil pointer. First the functions of the launcher
  as functions of the event that their \<open>select\<close> picks; then the launcher, the goroutines it
  starts for its beaters and the callers of \<open>Stop\<close> and \<open>Reload\<close> as one step relation.
  \<open>merge\<close> is \<open>(*config.C).MergeWithOpts\<close>, which changes its receiver also when it fails.
\<close>

section \<open>Errors\<close>

definition ErrorStopSignal :: go_error where
  "ErrorStopSignal = Sentinel ''stop beater''"

definition ErrorTimeoutExit :: go_error where
  "ErrorTimeoutExit = Sentinel ''exit after timeout''"

text \<open>The value of \<open>beat.GracefulExit\<close> of libbeat; only its identity matters here.\<close>

definition ErrorGracefulExit :: go_error where
  "ErrorGracefulExit = Sentinel ''beat.GracefulExit''"

lemmas launcher_errors = ErrorStopSignal_def ErrorTimeoutExit_def ErrorGracefulExit_def

section \<open>Waiting for updates\<close>

text \<open>What the \<open>select\<close> of \<open>waitForUpdates\<close> receives.\<close>

datatype 'cfg wait_event =
    BeaterErr go_error
  | BeaterErrClosed
  | Update "'cfg option"
  | ReloaderClosed

fun waitForUpdates :: "'cfg wait_event \<Rightarrow> 'cfg option \<times> go_error option" where
  "waitForUpdates BeaterErrClosed = (None, Some ErrorStopSignal)"
| "waitForUpdates (BeaterErr err) = (None, Some err)"
| "waitForUpdates ReloaderClosed = (None, Some (Errorf ''reloader channel unexpectedly closed''))"
| "waitForUpdates (Update update) = (update, None)"

definition isConfigUpdate :: "'cfg option \<Rightarrow> go_error option \<Rightarrow> bool" where
  "isConfigUpdate cfg err = (cfg \<noteq> None \<and> err = None)"

definition isStopSignal :: "'cfg option \<Rightarrow> go_error option \<Rightarrow> bool" where
  "isStopSignal cfg err =
     (cfg = None \<and> (case err of None \<Rightarrow> False | Some e \<Rightarrow> errors_is e ''stop beater''))"

definition isBeaterError :: "'cfg option \<Rightarrow> go_error option \<Rightarrow> bool" where
  "isBeaterError cfg err = (cfg = None \<and> err \<noteq> None)"

definition configUpdate ::
  "('cfg \<Rightarrow> 'cfg option \<Rightarrow> 'cfg \<times> go_error option) \<Rightarrow> 'cfg \<Rightarrow> 'cfg option \<Rightarrow> 'cfg \<times> go_error option" where
  "configUpdate merge latest update = merge latest update"

section \<open>Waiting for the first configuration\<close>

datatype 'cfg reconf_event =
    RBeaterErr
  | RTimer string
  | RUpdate "'cfg option"
  | RClosed

text \<open>
  The events come in the order in which the \<open>select\<close> picks them. The result is the messages
  of the \<open>Degraded\<close> statuses set so far, and \<open>None\<close> as long as the loop waits.
\<close>

fun reconfigureWait ::
  "('cfg option \<Rightarrow> go_error option) option \<Rightarrow> 'cfg reconf_event list \<Rightarrow>
     string list \<times> 'cfg option result option" where
  "reconfigureWait validator [] = ([], None)"
| "reconfigureWait validator (RBeaterErr # es) = ([], Some (Inl (Errorf ''error channel closed'')))"
| "reconfigureWait validator (RTimer since # es) =
     ([], Some (Inl (Errorf (''timed out waiting for reconfiguration after '' @ since))))"
| "reconfigureWait validator (RClosed # es) =
     ([], Some (Inl (Errorf ''reconfiguration channel is closed'')))"
| "reconfigureWait validator (RUpdate update # es) =
     (case validator of
        None \<Rightarrow> ([], Some (Inr update))
      | Some validate \<Rightarrow>
          (case validate update of
             None \<Rightarrow> ([], Some (Inr update))
           | Some err \<Rightarrow>
               let (status, r) = reconfigureWait validator es
               in (case errors_as_unhealthy err of None \<Rightarrow> status | Some m \<Rightarrow> m # status, r)))"

section \<open>The loop, one iteration per event\<close>

text \<open>
  An iteration of \<open>runLoop\<close> sees whether the creator fails, the event of \<open>waitForUpdates\<close> and
  whether the beater stops within the grace period. The result is the launcher's latest
  configuration and the returned error, \<open>None\<close> while the loop still waits for an event.
\<close>

definition stopBeaterWithTimeout :: "bool \<Rightarrow> go_error" where
  "stopBeaterWithTimeout in_time = (if in_time then ErrorGracefulExit else ErrorTimeoutExit)"

definition run_beater_error :: "go_error \<Rightarrow> go_error" where
  "run_beater_error e =
     Errorf (''launcher could not run Beater: '' @ error_text (Wrapf ''could not create beater: '' e))"

fun runLoop ::
  "('cfg \<Rightarrow> go_error option) \<Rightarrow> ('cfg \<Rightarrow> 'cfg option \<Rightarrow> 'cfg \<times> go_error option) \<Rightarrow> 'cfg \<Rightarrow>
     ('cfg wait_event \<times> bool) list \<Rightarrow> 'cfg \<times> go_error option option" where
  "runLoop creator merge latest evs =
     (case creator latest of
        Some e \<Rightarrow> (latest, Some (Some (run_beater_error e)))
      | None \<Rightarrow>
          (case evs of
             [] \<Rightarrow> (latest, None)
           | (ev, in_time) # evs' \<Rightarrow>
               let (cfg, err) = waitForUpdates ev
               in if isConfigUpdate cfg err then
                    (case configUpdate merge latest cfg of
                       (latest', Some e) \<Rightarrow>
                         (latest', Some (Some (Wrapf ''failed to update Beater config: '' e)))
                     | (latest', None) \<Rightarrow> runLoop creator merge latest' evs')
                  else if isStopSignal cfg err then
                    (latest, Some (Some (stopBeaterWithTimeout in_time)))
                  else if isBeaterError cfg err then (latest, Some err)
                  else runLoop creator merge latest evs'))"

declare runLoop.simps [simp del]

text \<open>
  \<open>Run\<close> with the calls it makes on the manager and the reloader. A \<open>defer\<close> runs last.
\<close>

datatype launcher_call = MStart | MStop | MDegraded string | RStop

definition launcher_run ::
  "('cfg \<Rightarrow> go_error option) \<Rightarrow> ('cfg \<Rightarrow> 'cfg option \<Rightarrow> 'cfg \<times> go_error option) \<Rightarrow> 'cfg \<Rightarrow>
     ('cfg wait_event \<times> bool) list \<Rightarrow> launcher_call list \<times> go_error option option" where
  "launcher_run creator merge latest evs =
     (case runLoop creator merge latest evs of
        (_, None) \<Rightarrow> ([], None)
      | (_, Some err) \<Rightarrow> ([RStop], Some err))"

definition launcher_Run ::
  "go_error option \<Rightarrow> bool \<Rightarrow> ('cfg option \<Rightarrow> go_error option) option \<Rightarrow> 'cfg reconf_event list \<Rightarrow>
   ('cfg \<Rightarrow> go_error option) \<Rightarrow> ('cfg \<Rightarrow> 'cfg option \<Rightarrow> 'cfg \<times> go_error option) \<Rightarrow> 'cfg \<Rightarrow>
     ('cfg wait_event \<times> bool) list \<Rightarrow> launcher_call list \<times> go_error option option" where
  "launcher_Run start_err enabled validator revs creator merge latest evs =
     (case start_err of
        Some err \<Rightarrow> ([MStart], Some (Some err))
      | None \<Rightarrow>
          if \<not> enabled then
            (let (calls, r) = launcher_run creator merge latest evs in (MStart # calls, r))
          else
            (case reconfigureWait validator revs of
               (status, None) \<Rightarrow> (MStart # map MDegraded status, None)
             | (status, Some (Inl err)) \<Rightarrow> (MStart # map MDegraded status @ [MStop], Some (Some err))
             | (status, Some (Inr update)) \<Rightarrow>
                 (case configUpdate merge latest update of
                    (_, Some err) \<Rightarrow>
                      (MStart # map MDegraded status @ [MStop],
                       Some (Some (Wrapf ''failed to update with initial reconfiguration from Fleet server: '' err)))
                  | (latest', None) \<Rightarrow>
                      let (calls, r) = launcher_run creator merge latest' evs
                      in (MStart # map MDegraded status @ calls @ (if r = None then [] else [MStop]), r))))"

section \<open>The launcher and its goroutines\<close>

text \<open>
  \<open>runLoop\<close> is at the call of \<open>runBeater\<close>, in \<open>waitForUpdates\<close>, in the \<open>wg.Wait\<close> of
  \<open>stopBeater\<close> before it merges a configuration, in the \<open>select\<close> of
  \<open>stopBeaterWithTimeout\<close>, or has returned. The goroutine of a beater runs it, sends the error
  it returned (before \<open>wg.Done\<close>), sends the error made from a panic (after \<open>wg.Done\<close>, which is
  the inner \<open>defer\<close>), or is done. \<open>beaterErr\<close> has room for one error.
\<close>

datatype 'cfg pc =
    AtRunBeater
  | AtWait
  | AtStopBeater 'cfg
  | AtGrace
  | Returned "go_error option"

datatype gstate = GRun | GSend go_error | GPanicSend go_error | GDone

record 'cfg launcher =
  latest :: 'cfg
  pc :: "'cfg pc"
  buf :: "go_error list"
  closed :: bool
  wg :: nat
  beaters :: "gstate list"
  crashed :: bool

text \<open>Which events \<open>waitForUpdates\<close> can receive, and the channel afterwards.\<close>

fun receive :: "'cfg launcher \<Rightarrow> 'cfg wait_event \<Rightarrow> 'cfg launcher option" where
  "receive s (BeaterErr e) =
     (case buf s of x # xs \<Rightarrow> if x = e then Some (s\<lparr>buf := xs\<rparr>) else None | [] \<Rightarrow> None)"
| "receive s BeaterErrClosed = (if closed s \<and> buf s = [] then Some s else None)"
| "receive s (Update u) = Some s"
| "receive s ReloaderClosed = Some s"

text \<open>What \<open>runLoop\<close> does with the result of \<open>waitForUpdates\<close>.\<close>

definition after_wait :: "'cfg option \<times> go_error option \<Rightarrow> 'cfg pc" where
  "after_wait r =
     (case r of (cfg, err) \<Rightarrow>
        if isConfigUpdate cfg err then AtStopBeater (the cfg)
        else if isStopSignal cfg err then AtGrace
        else if isBeaterError cfg err then Returned err
        else AtRunBeater)"

text \<open>
  The steps: those of \<open>runLoop\<close> first, then those of a beater's goroutine, then \<open>Stop\<close>. The
  creator and the beaters are not known, so they may succeed, fail or panic. \<open>ups\<close> holds the
  configurations that the reloader's channel may deliver. A send on a closed channel panics: in
  the body of the goroutine the panic is recovered, in the recovering function it is not.
\<close>

inductive launcher_step ::
  "('cfg \<Rightarrow> 'cfg option \<Rightarrow> 'cfg \<times> go_error option) \<Rightarrow> 'cfg option set \<Rightarrow> 'cfg launcher \<Rightarrow> 'cfg launcher \<Rightarrow> bool"
  for merge :: "'cfg \<Rightarrow> 'cfg option \<Rightarrow> 'cfg \<times> go_error option" and ups :: "'cfg option set" where
  run_ok: "\<not> crashed s \<Longrightarrow> pc s = AtRunBeater \<Longrightarrow>
     launcher_step merge ups s (s\<lparr>pc := AtWait, wg := Suc (wg s), beaters := beaters s @ [GRun]\<rparr>)"
| run_err: "\<not> crashed s \<Longrightarrow> pc s = AtRunBeater \<Longrightarrow>
     launcher_step merge ups s (s\<lparr>pc := Returned (Some (run_beater_error e))\<rparr>)"
| wait: "\<not> crashed s \<Longrightarrow> pc s = AtWait \<Longrightarrow> (\<forall>u. ev = Update u \<longrightarrow> u \<in> ups) \<Longrightarrow>
     receive s ev = Some s' \<Longrightarrow>
     launcher_step merge ups s (s'\<lparr>pc := after_wait (waitForUpdates ev)\<rparr>)"
| stopped: "\<not> crashed s \<Longrightarrow> pc s = AtStopBeater cfg \<Longrightarrow> wg s = 0 \<Longrightarrow>
     configUpdate merge (latest s) (Some cfg) = (l, None) \<Longrightarrow>
     launcher_step merge ups s (s\<lparr>latest := l, pc := AtRunBeater\<rparr>)"
| stopped_err: "\<not> crashed s \<Longrightarrow> pc s = AtStopBeater cfg \<Longrightarrow> wg s = 0 \<Longrightarrow>
     configUpdate merge (latest s) (Some cfg) = (l, Some e) \<Longrightarrow>
     launcher_step merge ups s
       (s\<lparr>latest := l, pc := Returned (Some (Wrapf ''failed to update Beater config: '' e))\<rparr>)"
| grace_timeout: "\<not> crashed s \<Longrightarrow> pc s = AtGrace \<Longrightarrow>
     launcher_step merge ups s (s\<lparr>pc := Returned (Some (stopBeaterWithTimeout False))\<rparr>)"
| grace_done: "\<not> crashed s \<Longrightarrow> pc s = AtGrace \<Longrightarrow> wg s = 0 \<Longrightarrow>
     launcher_step merge ups s (s\<lparr>pc := Returned (Some (stopBeaterWithTimeout True))\<rparr>)"
| g_nil: "\<not> crashed s \<Longrightarrow> i < length (beaters s) \<Longrightarrow> beaters s ! i = GRun \<Longrightarrow>
     launcher_step merge ups s (s\<lparr>beaters := (beaters s)[i := GDone], wg := wg s - 1\<rparr>)"
| g_err: "\<not> crashed s \<Longrightarrow> i < length (beaters s) \<Longrightarrow> beaters s ! i = GRun \<Longrightarrow>
     launcher_step merge ups s
       (s\<lparr>beaters := (beaters s)[i := GSend (Wrapf ''beater returned an error: '' e)]\<rparr>)"
| g_panic: "\<not> crashed s \<Longrightarrow> i < length (beaters s) \<Longrightarrow> beaters s ! i = GRun \<Longrightarrow>
     launcher_step merge ups s
       (s\<lparr>beaters := (beaters s)[i := GPanicSend (Errorf (''beater panic recovered: '' @ r))],
          wg := wg s - 1\<rparr>)"
| g_send: "\<not> crashed s \<Longrightarrow> i < length (beaters s) \<Longrightarrow> beaters s ! i = GSend e \<Longrightarrow>
     \<not> closed s \<Longrightarrow> buf s = [] \<Longrightarrow>
     launcher_step merge ups s (s\<lparr>beaters := (beaters s)[i := GDone], wg := wg s - 1, buf := [e]\<rparr>)"
| g_send_closed: "\<not> crashed s \<Longrightarrow> i < length (beaters s) \<Longrightarrow> beaters s ! i = GSend e \<Longrightarrow>
     closed s \<Longrightarrow>
     launcher_step merge ups s
       (s\<lparr>beaters := (beaters s)[i := GPanicSend (Errorf ''beater panic recovered: send on closed channel'')],
          wg := wg s - 1\<rparr>)"
| g_panic_send: "\<not> crashed s \<Longrightarrow> i < length (beaters s) \<Longrightarrow> beaters s ! i = GPanicSend e \<Longrightarrow>
     \<not> closed s \<Longrightarrow> buf s = [] \<Longrightarrow>
     launcher_step merge ups s (s\<lparr>beaters := (beaters s)[i := GDone], buf := [e]\<rparr>)"
| g_panic_send_closed: "\<not> crashed s \<Longrightarrow> i < length (beaters s) \<Longrightarrow>
     beaters s ! i = GPanicSend e \<Longrightarrow> closed s \<Longrightarrow>
     launcher_step merge ups s (s\<lparr>crashed := True\<rparr>)"
| stop: "\<not> crashed s \<Longrightarrow> \<not> closed s \<Longrightarrow> launcher_step merge ups s (s\<lparr>closed := True\<rparr>)"
| stop_again: "\<not> crashed s \<Longrightarrow> closed s \<Longrightarrow> launcher_step merge ups s (s\<lparr>crashed := True\<rparr>)"

definition launcher_New :: "'cfg \<Rightarrow> 'cfg launcher" where
  "launcher_New cfg =
     \<lparr>latest = cfg, pc = AtRunBeater, buf = [], closed = False, wg = 0, beaters = [], crashed = False\<rparr>"

inductive reachable ::
  "('cfg \<Rightarrow> 'cfg option \<Rightarrow> 'cfg \<times> go_error option) \<Rightarrow> 'cfg option set \<Rightarrow> 'cfg \<Rightarrow> 'cfg launcher \<Rightarrow> bool"
  for merge :: "'cfg \<Rightarrow> 'cfg option \<Rightarrow> 'cfg \<times> go_error option" and ups :: "'cfg option set" and cfg :: 'cfg where
  start: "reachable merge ups cfg (launcher_New cfg)"
| step: "reachable merge ups cfg s \<Longrightarrow> launcher_step merge ups s t \<Longrightarrow> reachable merge ups cfg t"

section \<open>Invariants\<close>

text \<open>A goroutine is active until it has called \<open>wg.Done\<close>.\<close>

fun active :: "gstate \<Rightarrow> bool" where
  "active GRun = True"
| "active (GSend e) = True"
| "active (GPanicSend e) = False"
| "active GDone = False"

definition n_active :: "gstate list \<Rightarrow> nat" where
  "n_active gs = length (filter active gs)"

lemma n_active_append [simp]: "n_active (gs @ [g]) = n_active gs + (if active g then 1 else 0)"
  by (simp add: n_active_def)

lemma n_active_Nil [simp]: "n_active [] = 0"
  by (simp add: n_active_def)

lemma n_active_split:
  "i < length gs \<Longrightarrow> n_active (gs[i := g]) =
     n_active (take i gs) + (if active g then 1 else 0) + n_active (drop (Suc i) gs)"
  by (simp add: n_active_def upd_conv_take_nth_drop)

lemma n_active_at:
  "i < length gs \<Longrightarrow> n_active gs =
     n_active (take i gs) + (if active (gs ! i) then 1 else 0) + n_active (drop (Suc i) gs)"
  using n_active_split [of i gs "gs ! i"] by simp

lemma n_active_update:
  assumes "i < length gs"
  shows "\<lbrakk>active (gs ! i); \<not> active g\<rbrakk> \<Longrightarrow> n_active (gs[i := g]) = n_active gs - 1"
    and "active (gs ! i) = active g \<Longrightarrow> n_active (gs[i := g]) = n_active gs"
  using n_active_split [OF assms, of g] n_active_at [OF assms] by auto

lemma n_active_pos: "i < length gs \<Longrightarrow> active (gs ! i) \<Longrightarrow> 0 < n_active gs"
  using n_active_at [of i gs] by simp

text \<open>Errors that a goroutine sends are made on the spot: they are no sentinel themselves.\<close>

fun raised :: "go_error \<Rightarrow> bool" where
  "raised (Sentinel t) = False"
| "raised e = True"

fun pending :: "gstate \<Rightarrow> go_error option" where
  "pending (GSend e) = Some e"
| "pending (GPanicSend e) = Some e"
| "pending g = None"

text \<open>
  The counter of the wait group is the number of active goroutines; between two beaters there
  is none; the channel holds at most one error, made by a goroutine; nothing crashes before
  \<open>Stop\<close>; the launcher never returns nil, and says it exits gracefully only when no goroutine
  is active.
\<close>

definition launcher_inv :: "'cfg launcher \<Rightarrow> bool" where
  "launcher_inv s =
     (wg s = n_active (beaters s) \<and> wg s \<le> 1 \<and> (pc s = AtRunBeater \<longrightarrow> wg s = 0) \<and>
      length (buf s) \<le> 1 \<and> list_all raised (buf s) \<and>
      (\<forall>g\<in>set (beaters s). \<forall>e. pending g = Some e \<longrightarrow> raised e) \<and>
      (crashed s \<longrightarrow> closed s) \<and> pc s \<noteq> Returned None \<and>
      (pc s = Returned (Some ErrorGracefulExit) \<longrightarrow> wg s = 0))"

lemma launcher_inv_New: "launcher_inv (launcher_New cfg)"
  by (simp add: launcher_inv_def launcher_New_def)

lemma after_wait_simps [simp]:
  "after_wait (None, Some e) = (if errors_is e ''stop beater'' then AtGrace else Returned (Some e))"
  "after_wait (Some c, None) = AtStopBeater c"
  "after_wait (None, None) = AtRunBeater"
  by (simp_all add: after_wait_def isConfigUpdate_def isStopSignal_def isBeaterError_def)

lemma receive_frame:
  assumes "receive s ev = Some s'"
  shows "wg s' = wg s" "beaters s' = beaters s" "latest s' = latest s" "closed s' = closed s"
    "crashed s' = crashed s" "length (buf s') \<le> length (buf s)" "set (buf s') \<subseteq> set (buf s)"
    "ev = BeaterErr e \<Longrightarrow> e \<in> set (buf s)"
  using assms by (cases ev; auto split: list.splits if_splits)+

lemma set_update_subset: "g' \<in> set (gs[i := g]) \<Longrightarrow> g' = g \<or> g' \<in> set gs"
  using set_update_subset_insert [of gs i g] by blast

lemma raised_not_graceful: "raised e \<Longrightarrow> e \<noteq> ErrorGracefulExit"
  by (auto simp: launcher_errors)

lemma launcher_inv_wait:
  assumes inv: "launcher_inv s" and ev: "\<forall>u. ev = Update u \<longrightarrow> u \<noteq> None"
    and r: "receive s ev = Some s'"
  shows "launcher_inv (s'\<lparr>pc := after_wait (waitForUpdates ev)\<rparr>)"
proof -
  note fr = receive_frame [OF r]
  have "pc \<noteq> AtRunBeater \<and> pc \<noteq> Returned None \<and> pc \<noteq> Returned (Some ErrorGracefulExit)"
    if "pc = after_wait (waitForUpdates ev)" for pc
  proof (cases ev)
    case (BeaterErr e)
    then have "raised e" using fr(8) [of e] inv by (auto simp: launcher_inv_def list_all_iff)
    with BeaterErr that show ?thesis by (auto simp: raised_not_graceful)
  next
    case (Update u)
    with ev that show ?thesis by (cases u) auto
  qed (use that in \<open>auto simp: launcher_errors\<close>)
  then show ?thesis
    using inv fr by (auto simp: launcher_inv_def list_all_iff)
qed

lemma launcher_inv_goroutine:
  assumes "launcher_inv s" "i < length (beaters s)" "\<forall>e. pending g = Some e \<longrightarrow> raised e"
  shows "active (beaters s ! i) \<Longrightarrow> \<not> active g \<Longrightarrow>
      launcher_inv (s\<lparr>beaters := (beaters s)[i := g], wg := wg s - 1\<rparr>)"
    and "active (beaters s ! i) = active g \<Longrightarrow>
      launcher_inv (s\<lparr>beaters := (beaters s)[i := g]\<rparr>)"
  using assms n_active_update [OF assms(2), of g] n_active_pos [OF assms(2)]
  by (auto simp: launcher_inv_def dest!: set_update_subset)

lemma launcher_inv_buf:
  "launcher_inv s \<Longrightarrow> raised e \<Longrightarrow> launcher_inv (s\<lparr>buf := [e]\<rparr>)"
  by (auto simp: launcher_inv_def)

lemma launcher_step_inv:
  assumes "launcher_step merge ups s t" and "launcher_inv s" and "None \<notin> ups"
  shows "launcher_inv t"
  using assms
proof (induction rule: launcher_step.induct)
  case (wait s ev s')
  then show ?case by (intro launcher_inv_wait) auto
next
  case (g_nil s i)
  then show ?case by (intro launcher_inv_goroutine(1)) auto
next
  case (g_err s i e)
  then show ?case by (intro launcher_inv_goroutine(2)) auto
next
  case (g_panic s i r)
  then show ?case by (intro launcher_inv_goroutine(1)) auto
next
  case (g_send s i e)
  then have "raised e" by (auto simp: launcher_inv_def dest: nth_mem)
  then show ?case
    using launcher_inv_buf [OF launcher_inv_goroutine(1) [of s i GDone]] g_send by simp
next
  case (g_send_closed s i e)
  then show ?case by (intro launcher_inv_goroutine(1)) auto
next
  case (g_panic_send s i e)
  then have "raised e" by (auto simp: launcher_inv_def dest: nth_mem)
  then show ?case
    using launcher_inv_buf [OF launcher_inv_goroutine(2) [of s i GDone]] g_panic_send by simp
qed (auto simp: launcher_inv_def launcher_errors run_beater_error_def stopBeaterWithTimeout_def)

lemma reachable_inv: "reachable merge ups cfg s \<Longrightarrow> None \<notin> ups \<Longrightarrow> launcher_inv s"
  by (induction rule: reachable.induct) (auto intro: launcher_inv_New launcher_step_inv)

section \<open>The listener\<close>

text \<open>
  \<open>Listener\<close> is the reloader of the program. \<open>Reload\<close> selects between the closed channel
  \<open>done\<close> and the send on the unbuffered channel \<open>ch\<close>; the outcomes are a set, since Go picks
  any case that is ready. A send on a closed channel is ready, and panics.
\<close>

record listener =
  done_closed :: bool
  ch_closed :: bool

datatype 'cfg reload_outcome = Ignored | Delivered 'cfg | Blocked | SendPanic

definition NewListener :: listener where
  "NewListener = \<lparr>done_closed = False, ch_closed = False\<rparr>"

definition listener_Stop :: "listener \<Rightarrow> listener option" where
  "listener_Stop l =
     (if done_closed l \<or> ch_closed l then None
      else Some (l\<lparr>done_closed := True, ch_closed := True\<rparr>))"

definition Reload :: "listener \<Rightarrow> bool \<Rightarrow> 'cfg list \<Rightarrow> 'cfg reload_outcome set" where
  "Reload l receiver_waits configs =
     (if configs = [] then {Ignored}
      else let ready = (if done_closed l then {Ignored} else {}) \<union>
                       (if ch_closed l then {SendPanic}
                        else if receiver_waits then {Delivered (last configs)} else {})
           in if ready = {} then {Blocked} else ready)"

section \<open>Properties\<close>

lemma reconfigureWait_rejects:
  "list_all (\<lambda>u. validate u \<noteq> None) us \<Longrightarrow>
     reconfigureWait (Some validate) (map RUpdate us @ es) =
       (let (status, r) = reconfigureWait (Some validate) es
        in (List.map_filter (\<lambda>u. Option.bind (validate u) errors_as_unhealthy) us @ status, r))"
  by (induction us) (auto simp: List.map_filter_simps Let_def split: option.splits prod.splits)

lemma reconfigureWait_accept:
  "reconfigureWait (Some validate) es = (status, Some (Inr update)) \<Longrightarrow>
     \<exists>us es'. es = map RUpdate us @ RUpdate update # es' \<and> validate update = None \<and>
       list_all (\<lambda>u. validate u \<noteq> None) us"
proof (induction es arbitrary: status)
  case (Cons ev es)
  show ?case
  proof (cases ev)
    case (RUpdate u)
    show ?thesis
    proof (cases "validate u")
      case None
      then have "u = update" using Cons.prems RUpdate by simp
      then have "ev # es = map RUpdate [] @ RUpdate update # es \<and> validate update = None \<and>
          list_all (\<lambda>u. validate u \<noteq> None) []"
        using None RUpdate by simp
      then show ?thesis by blast
    next
      case (Some err)
      then obtain status' where "reconfigureWait (Some validate) es = (status', Some (Inr update))"
        using Cons.prems RUpdate by (auto split: prod.splits option.splits)
      from Cons.IH [OF this] obtain us es' where "es = map RUpdate us @ RUpdate update # es'"
        "validate update = None" "list_all (\<lambda>u. validate u \<noteq> None) us" by blast
      then have "ev # es = map RUpdate (u # us) @ RUpdate update # es' \<and> validate update = None \<and>
          list_all (\<lambda>u. validate u \<noteq> None) (u # us)"
        using Some RUpdate by simp
      then show ?thesis by blast
    qed
  qed (use Cons.prems in auto)
qed simp

text \<open>
  The wait for the first configuration accepts exactly the first update that the validator
  accepts: every update before it was refused, each refusal with a \<open>BeaterUnhealthyError\<close> in its
  chain set the status Degraded once with its message, in order, and nothing else did.
\<close>

lemma reconfigureWait_first_valid:
  "reconfigureWait (Some validate) es = (status, Some (Inr update)) \<longleftrightarrow>
     (\<exists>us es'. es = map RUpdate us @ RUpdate update # es' \<and> validate update = None \<and>
        (\<forall>u\<in>set us. validate u \<noteq> None) \<and>
        status = List.map_filter (\<lambda>u. Option.bind (validate u) errors_as_unhealthy) us)"
  (is "?L \<longleftrightarrow> ?R")
proof
  assume ?L
  from reconfigureWait_accept [OF this] obtain us es' where
    *: "es = map RUpdate us @ RUpdate update # es'" "validate update = None"
       "list_all (\<lambda>u. validate u \<noteq> None) us" by blast
  with \<open>?L\<close> show ?R
    using reconfigureWait_rejects [OF *(3), of "RUpdate update # es'"]
    by (auto simp: list_all_iff)
next
  assume ?R
  then obtain us es' where
    *: "es = map RUpdate us @ RUpdate update # es'" "validate update = None"
       "list_all (\<lambda>u. validate u \<noteq> None) us"
       "status = List.map_filter (\<lambda>u. Option.bind (validate u) errors_as_unhealthy) us"
    by (auto simp: list_all_iff)
  then show ?L
    using reconfigureWait_rejects [OF *(3), of "RUpdate update # es'"] by simp
qed

lemma reconfigureWait_first_valid_witness:
  "reconfigureWait (Some (\<lambda>u. if u = Some 0 then Some (Unhealthy ''bad'') else None))
     [RUpdate (Some 0), RUpdate (Some (1 :: nat)), RTimer ''30m''] = ([''bad''], Some (Inr (Some 1)))"
  by (rule iffD2 [OF reconfigureWait_first_valid], intro exI [of _ "[Some 0]"] exI [of _ "[RTimer ''30m'']"])
     (simp add: List.map_filter_simps)

text \<open>The configuration after a run of updates: each is merged into the latest one.\<close>

fun merge_all ::
  "('cfg \<Rightarrow> 'cfg option \<Rightarrow> 'cfg \<times> go_error option) \<Rightarrow> 'cfg \<Rightarrow> 'cfg list \<Rightarrow> 'cfg" where
  "merge_all merge l [] = l"
| "merge_all merge l (u # us) = merge_all merge (fst (merge l (Some u))) us"

lemma runLoop_update:
  "creator l = None \<Longrightarrow> snd (merge l (Some u)) = None \<Longrightarrow>
     runLoop creator merge l ((Update (Some u), b) # evs) =
       runLoop creator merge (fst (merge l (Some u))) evs"
  by (subst runLoop.simps)
     (auto simp: isConfigUpdate_def configUpdate_def split: prod.splits)



text \<open>
  C9. At any time at most one beater is between its start and its \<open>wg.Done\<close>, the wait group
  counts exactly those beaters, and no beater is active when the launcher is about to start the
  next one, provided the reloader never delivers a nil configuration.
\<close>

theorem one_beater_at_a_time:
  assumes "reachable merge ups cfg s" and "None \<notin> ups"
  shows "wg s = n_active (beaters s) \<and> n_active (beaters s) \<le> 1 \<and>
    (pc s = AtRunBeater \<longrightarrow> n_active (beaters s) = 0)"
  using reachable_inv [OF assms] by (auto simp: launcher_inv_def)

definition keep_latest :: "nat \<Rightarrow> nat option \<Rightarrow> nat \<times> go_error option" where
  "keep_latest l u = (case u of None \<Rightarrow> l | Some v \<Rightarrow> v, None)"

definition state_1 :: "nat launcher" where
  "state_1 = \<lparr>latest = 0, pc = AtWait, buf = [], closed = False, wg = 1, beaters = [GRun],
              crashed = False\<rparr>"

lemma reach_to:
  "reachable merge ups cfg s \<Longrightarrow> launcher_step merge ups s u \<Longrightarrow> u = t \<Longrightarrow> reachable merge ups cfg t"
  using reachable.step [of merge ups cfg s u] by simp

lemma reach_state_1: "reachable keep_latest ups 0 state_1"
  using reachable.step [OF reachable.start launcher_step.run_ok]
  by (simp add: launcher_New_def state_1_def)

lemma one_beater_at_a_time_witness:
  "wg state_1 = n_active (beaters state_1) \<and> n_active (beaters state_1) \<le> 1"
  using one_beater_at_a_time [where ups = "{Some 1}", OF reach_state_1] by simp

text \<open>
  A launcher that has returned from its loop returns an error, and it returns the graceful
  error only when every beater it started has called \<open>wg.Done\<close>.
\<close>

lemma launcher_exit_value:
  assumes "reachable merge ups cfg s" and "None \<notin> ups" and "pc s = Returned r"
  shows "r \<noteq> None \<and> (r = Some ErrorGracefulExit \<longrightarrow> n_active (beaters s) = 0)"
  using reachable_inv [OF assms(1,2)] assms(3) by (auto simp: launcher_inv_def)

lemma launcher_exit_value_witness:
  "\<exists>s. reachable keep_latest {Some 1} 0 s \<and> pc s = Returned (Some ErrorGracefulExit) \<and>
     n_active (beaters s) = 0"
proof -
  define s2 where "s2 = state_1\<lparr>closed := True\<rparr>"
  define s3 where "s3 = s2\<lparr>pc := AtGrace\<rparr>"
  define s4 where "s4 = s3\<lparr>beaters := [GDone], wg := 0\<rparr>"
  define s5 where "s5 = s4\<lparr>pc := Returned (Some ErrorGracefulExit)\<rparr>"
  note defs = s2_def s3_def s4_def s5_def state_1_def stopBeaterWithTimeout_def ErrorStopSignal_def
  have "reachable keep_latest {Some 1} 0 s2"
    by (rule reach_to [OF reach_state_1 launcher_step.stop]) (simp_all add: defs)
  then have "reachable keep_latest {Some 1} 0 s3"
    by (rule reach_to [OF _ launcher_step.wait [where ev = BeaterErrClosed and s' = s2]]) (simp_all add: defs)
  then have "reachable keep_latest {Some 1} 0 s4"
    by (rule reach_to [OF _ launcher_step.g_nil [where i = 0]]) (simp_all add: defs)
  then have *: "reachable keep_latest {Some 1} 0 s5"
    by (rule reach_to [OF _ launcher_step.grace_done]) (simp_all add: defs)
  moreover have "pc s5 = Returned (Some ErrorGracefulExit)"
    by (simp add: s5_def)
  ultimately show ?thesis
    using launcher_exit_value [OF *] by blast
qed

text \<open>
  An error of a beater that was stopped for a reconfiguration ends the launcher while the
  beater started with the new configuration is running: the old beater's error stays in
  \<open>beaterErr\<close> and is received as if it came from the new one.
\<close>

lemma stale_beater_error_ends_launcher:
  "\<exists>s. reachable keep_latest {Some 1} 0 s \<and> latest s = 1 \<and> beaters s = [GDone, GRun] \<and>
     pc s = Returned (Some (Wrapf ''beater returned an error: '' (Errorf ''context canceled'')))"
proof -
  let ?e = "Wrapf ''beater returned an error: '' (Errorf ''context canceled'')"
  define s2 where "s2 = state_1\<lparr>pc := AtStopBeater 1\<rparr>"
  define s3 where "s3 = s2\<lparr>beaters := [GSend ?e]\<rparr>"
  define s4 where "s4 = s3\<lparr>beaters := [GDone], wg := 0, buf := [?e]\<rparr>"
  define s5 where "s5 = s4\<lparr>latest := 1, pc := AtRunBeater\<rparr>"
  define s6 where "s6 = s5\<lparr>pc := AtWait, wg := 1, beaters := [GDone, GRun]\<rparr>"
  define s7 where "s7 = s6\<lparr>buf := [], pc := Returned (Some ?e)\<rparr>"
  note defs = s2_def s3_def s4_def s5_def s6_def s7_def state_1_def keep_latest_def configUpdate_def
  have "reachable keep_latest {Some 1} 0 s2"
    by (rule reach_to [OF reach_state_1 launcher_step.wait [where ev = "Update (Some 1)" and s' = state_1]]) (simp_all add: defs)
  then have "reachable keep_latest {Some 1} 0 s3"
    by (rule reach_to [OF _ launcher_step.g_err [where i = 0 and e = "Errorf ''context canceled''"]]) (simp_all add: defs)
  then have "reachable keep_latest {Some 1} 0 s4"
    by (rule reach_to [OF _ launcher_step.g_send [where i = 0]]) (simp_all add: defs)
  then have "reachable keep_latest {Some 1} 0 s5"
    by (rule reach_to [OF _ launcher_step.stopped]) (simp_all add: defs)
  then have "reachable keep_latest {Some 1} 0 s6"
    by (rule reach_to [OF _ launcher_step.run_ok]) (simp_all add: defs)
  then have "reachable keep_latest {Some 1} 0 s7"
    by (rule reach_to [OF _ launcher_step.wait [where ev = "BeaterErr ?e" and s' = "s6\<lparr>buf := []\<rparr>"]]) (simp_all add: defs)
  then show ?thesis
    by (intro exI [of _ s7]) (simp add: defs)
qed

text \<open>
  After \<open>Stop\<close> has closed \<open>beaterErr\<close>, a beater that returns an error brings the process
  down: its goroutine sends on the closed channel, recovers, and sends again.
\<close>

lemma beater_error_after_Stop_crashes:
  "\<exists>s. reachable keep_latest {Some 1} 0 s \<and> crashed s"
proof -
  define s2 where "s2 = state_1\<lparr>closed := True\<rparr>"
  define s3 where "s3 = s2\<lparr>beaters := [GSend (Wrapf ''beater returned an error: '' (Errorf ''x''))]\<rparr>"
  define s4 where "s4 = s3\<lparr>beaters :=
      [GPanicSend (Errorf ''beater panic recovered: send on closed channel'')], wg := 0\<rparr>"
  define s5 where "s5 = s4\<lparr>crashed := True\<rparr>"
  note defs = s2_def s3_def s4_def s5_def state_1_def
  have "reachable keep_latest {Some 1} 0 s2"
    by (rule reach_to [OF reach_state_1 launcher_step.stop]) (simp_all add: defs)
  then have "reachable keep_latest {Some 1} 0 s3"
    by (rule reach_to [OF _ launcher_step.g_err [where i = 0 and e = "Errorf ''x''"]]) (simp_all add: defs)
  then have "reachable keep_latest {Some 1} 0 s4"
    by (rule reach_to [OF _ launcher_step.g_send_closed [where i = 0]]) (simp_all add: defs)
  then have "reachable keep_latest {Some 1} 0 s5"
    by (rule reach_to [OF _ launcher_step.g_panic_send_closed [where i = 0]]) (simp_all add: defs)
  then show ?thesis
    by (intro exI [of _ s5]) (simp add: defs)
qed

text \<open>
  In managed mode \<open>Run\<close> starts the manager first and, whenever it returns, stops it as its
  last call, also when the first reconfiguration fails; the reloader is stopped exactly when the
  loop was entered and left.
\<close>

lemma Run_stops_manager:
  assumes "launcher_Run None True validator revs creator merge l evs = (calls, Some r)"
  shows "hd calls = MStart \<and> last calls = MStop \<and>
    (RStop \<in> set calls \<longleftrightarrow>
      (\<exists>status u l'. reconfigureWait validator revs = (status, Some (Inr u)) \<and>
         merge l u = (l', None)))"
  using assms
  by (auto simp: launcher_Run_def launcher_run_def configUpdate_def
      split: prod.splits option.splits sum.splits)

lemma Run_stops_manager_witness:
  "\<exists>calls r. launcher_Run None True
      (Some (\<lambda>u. if u = Some 1 then None else Some (Unhealthy ''bad'')))
      [RUpdate (Some 2), RUpdate (Some 1)] (\<lambda>_. None) keep_latest 0 [(BeaterErrClosed, True)] =
        (calls, Some r) \<and> MDegraded ''bad'' \<in> set calls \<and> last calls = MStop"
proof -
  have *: "launcher_Run None True (Some (\<lambda>u. if u = Some 1 then None else Some (Unhealthy ''bad'')))
      [RUpdate (Some 2), RUpdate (Some 1)] (\<lambda>_. None) keep_latest 0 [(BeaterErrClosed, True)] =
      ([MStart, MDegraded ''bad'', RStop, MStop], Some (Some ErrorGracefulExit))"
    by (simp add: launcher_Run_def launcher_run_def configUpdate_def keep_latest_def runLoop.simps
        isConfigUpdate_def isStopSignal_def ErrorStopSignal_def stopBeaterWithTimeout_def)
  from Run_stops_manager [OF *] * show ?thesis by auto
qed

text \<open>
  Before \<open>Stop\<close>, \<open>Reload\<close> with configurations waits for the launcher and hands it the last
  one; after \<open>Stop\<close> it never blocks, but it may panic by sending on the closed channel.
\<close>

lemma Reload_outcomes:
  assumes "configs \<noteq> []"
  shows "Reload NewListener False configs = {Blocked} \<and>
    Reload NewListener True configs = {Delivered (last configs)} \<and>
    (\<forall>l w. listener_Stop NewListener = Some l \<longrightarrow>
      Reload l w configs = {Ignored, SendPanic} \<and> listener_Stop l = None)"
  using assms by (auto simp: Reload_def NewListener_def listener_Stop_def Let_def)

lemma Reload_outcomes_witness:
  "Reload NewListener True [1, 2 :: nat] = {Delivered 2}"
  using Reload_outcomes [of "[1, 2 :: nat]"] by simp

section \<open>The shutdown\<close>

text \<open>
  The steps after \<open>Stop\<close>: those of the loop and of the goroutines, when no update arrives and \<open>Stop\<close> is
  not called again, so that only a send of a recovering goroutine can bring the process down.
\<close>

definition shutdown_step ::
  "('cfg \<Rightarrow> 'cfg option \<Rightarrow> 'cfg \<times> go_error option) \<Rightarrow> 'cfg launcher \<Rightarrow> 'cfg launcher \<Rightarrow> bool" where
  "shutdown_step merge s t \<longleftrightarrow>
     launcher_step merge {} s t \<and> (crashed t \<longrightarrow> (\<exists>e. GPanicSend e \<in> set (beaters s)))"

definition shutdown_inv :: "'cfg launcher \<Rightarrow> bool" where
  "shutdown_inv s \<longleftrightarrow> launcher_inv s \<and> closed s"

fun loop_steps :: "'cfg pc \<Rightarrow> nat" where
  "loop_steps (AtStopBeater c) = 20"
| "loop_steps AtRunBeater = 15"
| "loop_steps AtWait = 10"
| "loop_steps AtGrace = 5"
| "loop_steps (Returned r) = 0"

fun goroutine_steps :: "gstate \<Rightarrow> nat" where
  "goroutine_steps GRun = 3"
| "goroutine_steps (GSend e) = 2"
| "goroutine_steps (GPanicSend e) = 1"
| "goroutine_steps GDone = 0"

definition shutdown_steps :: "'cfg launcher \<Rightarrow> nat" where
  "shutdown_steps s =
     (if crashed s then 0 else Suc (loop_steps (pc s) + sum_list (map goroutine_steps (beaters s))))"

lemma goroutine_steps_update:
  assumes "i < length gs" "goroutine_steps g < goroutine_steps (gs ! i)"
  shows "sum_list (map goroutine_steps (gs[i := g])) < sum_list (map goroutine_steps gs)"
proof -
  have "sum_list (map goroutine_steps gs) = sum_list (map goroutine_steps (take i gs)) +
      goroutine_steps (gs ! i) + sum_list (map goroutine_steps (drop (Suc i) gs))"
    by (subst (1) id_take_nth_drop [OF assms(1)]) simp
  then show ?thesis using assms by (simp add: upd_conv_take_nth_drop)
qed

lemma loop_steps_wait: "(\<forall>u. ev \<noteq> Update u) \<Longrightarrow> loop_steps (after_wait (waitForUpdates ev)) < 10"
  by (cases ev) (auto simp: launcher_errors)

lemma shutdown_step_less:
  assumes "launcher_step merge {} s t" and "closed s"
  shows "shutdown_steps t < shutdown_steps s"
  using assms
proof (induction rule: launcher_step.induct)
  case (wait s ev s')
  then show ?case
    using loop_steps_wait [of ev] receive_frame [of s ev s'] by (auto simp: shutdown_steps_def)
qed (auto simp: shutdown_steps_def goroutine_steps_update)

interpretation shutdown: coming_to_rest "shutdown_step merge" shutdown_inv shutdown_steps for merge
proof unfold_locales
  fix s t :: "'a launcher" assume "shutdown_inv s" and "shutdown_step merge s t"
  then have step: "launcher_step merge {} s t" "launcher_inv s" "closed s"
    by (auto simp: shutdown_step_def shutdown_inv_def)
  show "shutdown_steps t < shutdown_steps s" by (rule shutdown_step_less [OF step(1,3)])
  have "closed t" using step(1,3) by (induction rule: launcher_step.induct) (auto simp: receive_frame)
  then show "shutdown_inv t" using launcher_step_inv [OF step(1,2)] by (simp add: shutdown_inv_def)
qed

text \<open>A launcher that cannot go on has crashed, or its loop has returned and its goroutines are done.\<close>

lemma resting_goroutines:
  assumes "\<forall>t. \<not> shutdown_step merge s t" "closed s" "\<not> crashed s"
  shows "\<forall>g\<in>set (beaters s). g = GDone"
proof
  fix g assume "g \<in> set (beaters s)"
  then obtain i where i: "i < length (beaters s)" "beaters s ! i = g" by (auto simp: in_set_conv_nth)
  show "g = GDone"
  proof (rule ccontr)
    assume "g \<noteq> GDone"
    then have "\<exists>t. launcher_step merge {} s t \<and> (crashed t \<longrightarrow> (\<exists>e. g = GPanicSend e))"
      using launcher_step.g_nil [OF assms(3) i(1)] launcher_step.g_send_closed [OF assms(3) i(1) _ assms(2)]
        launcher_step.g_panic_send_closed [OF assms(3) i(1) _ assms(2)] i(2) assms(3)
      by (cases g) (auto intro!: exI)
    then show False using assms(1) \<open>g \<in> set (beaters s)\<close> by (auto simp: shutdown_step_def)
  qed
qed

lemma resting_loop:
  assumes "\<forall>t. \<not> shutdown_step merge s t" "shutdown_inv s" "\<not> crashed s"
  shows "\<exists>e. pc s = Returned (Some e)"
proof -
  have stuck: "launcher_step merge {} s t \<Longrightarrow> crashed t" for t
    using assms(1) by (auto simp: shutdown_step_def)
  have "filter active (beaters s) = []"
    using resting_goroutines [OF assms(1)] assms(2,3) by (auto simp: shutdown_inv_def filter_empty_conv)
  then have wg: "wg s = 0" using assms(2) by (simp add: shutdown_inv_def launcher_inv_def n_active_def)
  show ?thesis
  proof (cases "pc s")
    case AtRunBeater
    from stuck [OF launcher_step.run_ok [OF assms(3) this]] show ?thesis using assms(3) by simp
  next
    case AtWait
    obtain ev s' where ev: "receive s ev = Some s'" "\<forall>u. ev = Update u \<longrightarrow> u \<in> {}"
      using assms(2) by (cases "buf s") (auto simp: shutdown_inv_def intro: that [of BeaterErrClosed] that [of "BeaterErr e" for e])
    from stuck [OF launcher_step.wait [OF assms(3) AtWait ev(2,1)]] show ?thesis
      using receive_frame [OF ev(1)] assms(3) by simp
  next
    case (AtStopBeater c)
    obtain l r where "configUpdate merge (latest s) (Some c) = (l, r)" by fastforce
    then show ?thesis
      using stuck [OF launcher_step.stopped [OF assms(3) AtStopBeater wg]]
        stuck [OF launcher_step.stopped_err [OF assms(3) AtStopBeater wg]] assms(3)
      by (cases r) simp_all
  next
    case AtGrace
    from stuck [OF launcher_step.grace_done [OF assms(3) this wg]] show ?thesis using assms(3) by simp
  next
    case (Returned r)
    then show ?thesis using assms(2) by (cases r) (auto simp: shutdown_inv_def launcher_inv_def)
  qed
qed

lemma crash_of_goroutine:
  assumes "maximal_run (shutdown_step merge) f" "\<not> crashed (f 0)"
  shows "crashed (f k) \<Longrightarrow> \<exists>j<k. \<exists>e. GPanicSend e \<in> set (beaters (f j))"
proof (induction k)
  case (Suc k)
  show ?case
  proof (cases "crashed (f k)")
    case True
    then show ?thesis using Suc.IH less_SucI by blast
  next
    case False
    then have "shutdown_step merge (f k) (f (Suc k))"
      using Suc.prems maximal_run_cases [OF assms(1), of k] by metis
    then show ?thesis using Suc.prems by (auto simp: shutdown_step_def)
  qed
qed (use assms in simp)


definition launcher_stopping :: "nat \<Rightarrow> nat launcher" where
  "launcher_stopping i = state_1\<lparr>closed := True,
     pc := (if i = 0 then AtWait else if i \<le> 2 then AtGrace else Returned (Some ErrorGracefulExit)),
     wg := (if i \<le> 1 then 1 else 0), beaters := (if i \<le> 1 then [GRun] else [GDone])\<rparr>"

lemma launcher_stopping_run: "maximal_run (shutdown_step keep_latest) launcher_stopping"
proof -
  note defs = launcher_stopping_def state_1_def shutdown_step_def ErrorStopSignal_def stopBeaterWithTimeout_def
  have "shutdown_step keep_latest (launcher_stopping 0) (launcher_stopping 1)"
    using launcher_step.wait [of "launcher_stopping 0" BeaterErrClosed "{}" "launcher_stopping 0" keep_latest]
    by (simp add: defs)
  moreover have "shutdown_step keep_latest (launcher_stopping 1) (launcher_stopping 2)"
    using launcher_step.g_nil [of "launcher_stopping 1" 0 keep_latest "{}"] by (simp add: defs)
  moreover have "shutdown_step keep_latest (launcher_stopping 2) (launcher_stopping 3)"
    using launcher_step.grace_done [of "launcher_stopping 2" keep_latest "{}"] by (simp add: defs)
  moreover have "launcher_stopping (Suc i) = launcher_stopping i" "\<not> shutdown_step keep_latest (launcher_stopping i) t"
    if "3 \<le> i" for i t
  proof -
    show "launcher_stopping (Suc i) = launcher_stopping i" using that by (simp add: launcher_stopping_def)
    have "shutdown_steps (launcher_stopping i) = 1" "closed (launcher_stopping i)" "beaters (launcher_stopping i) = [GDone]"
      using that by (simp_all add: shutdown_steps_def launcher_stopping_def state_1_def)
    then show "\<not> shutdown_step keep_latest (launcher_stopping i) t"
      using shutdown_step_less [of keep_latest "launcher_stopping i" t]
      by (auto simp: shutdown_step_def shutdown_steps_def split: if_splits)
  qed
  ultimately show ?thesis
    unfolding maximal_run_def
    by (metis One_nat_def Suc_1 less_2_cases not_less numeral_3_eq_3 less_antisym)
qed


end
