(* ===== verification/Cycle_Cache.thy ===== *)
theory Cycle_Cache
  imports Prelude
begin

text \<open>
  \<open>resources/fetching/cycle/cache.go\<close> and \<open>metadata.go\<close>: a value cached for the current
  cycle. A call of the callback is its pair of a value and an error. \<open>GetValue\<close> is first a
  function of one caller; then several callers run as threads that interleave at the read lock,
  the write lock and the unprotected read of the value.
\<close>

section \<open>One caller\<close>

record metadata =
  Sequence :: int

record 'a cache =
  lastCycle :: metadata
  cachedValue :: 'a

text \<open>\<open>zero\<close> is the zero value of the type parameter.\<close>

definition NewCache :: "'a \<Rightarrow> 'a cache" where
  "NewCache zero = \<lparr>lastCycle = \<lparr>Sequence = -1\<rparr>, cachedValue = zero\<rparr>"

definition needsUpdateLocked :: "'a cache \<Rightarrow> metadata \<Rightarrow> bool" where
  "needsUpdateLocked c cycle =
     (Sequence (lastCycle c) < 0 \<or> Sequence (lastCycle c) < Sequence cycle)"

definition needsUpdate :: "'a cache \<Rightarrow> metadata \<Rightarrow> bool" where
  "needsUpdate c cycle = needsUpdateLocked c cycle"

text \<open>The part of \<open>GetValue\<close> from the call of the callback on, under the write lock.\<close>

definition renew :: "'a cache \<Rightarrow> metadata \<Rightarrow> 'a \<times> go_error option \<Rightarrow> 'a cache \<times> 'a \<times> go_error option" where
  "renew c cycle fetched =
     (case fetched of
        (result, Some err) \<Rightarrow>
          if Sequence (lastCycle c) < 0 then (c, result, Some err) else (c, cachedValue c, None)
      | (result, None) \<Rightarrow>
          let c' = c\<lparr>cachedValue := result, lastCycle := cycle\<rparr> in (c', cachedValue c', None))"

definition GetValue :: "'a cache \<Rightarrow> metadata \<Rightarrow> 'a \<times> go_error option \<Rightarrow> 'a cache \<times> 'a \<times> go_error option" where
  "GetValue c cycle fetched =
     (if \<not> needsUpdate c cycle then (c, cachedValue c, None)
      else if \<not> needsUpdateLocked c cycle then (c, cachedValue c, None)
      else renew c cycle fetched)"

text \<open>A sequence of calls, with what the callback would answer at each.\<close>

fun get_values :: "'a cache \<Rightarrow> (metadata \<times> 'a \<times> go_error option) list \<Rightarrow> 'a cache" where
  "get_values c [] = c"
| "get_values c ((cycle, fetched) # calls) = get_values (fst (GetValue c cycle fetched)) calls"

text \<open>
  What the comment promises: the newest cycle for which the callback succeeded, with its value.
\<close>

fun newest :: "(int \<times> 'a) option \<Rightarrow> (metadata \<times> 'a \<times> go_error option) list \<Rightarrow> (int \<times> 'a) option" where
  "newest best [] = best"
| "newest best ((cycle, v, err) # calls) =
     newest (if err = None \<and> (case best of None \<Rightarrow> True | Some (n, _) \<Rightarrow> n < Sequence cycle)
             then Some (Sequence cycle, v) else best) calls"

definition cache_abs :: "'a cache \<Rightarrow> (int \<times> 'a) option" where
  "cache_abs c =
     (if Sequence (lastCycle c) < 0 then None else Some (Sequence (lastCycle c), cachedValue c))"

lemma GetValue_abs:
  "0 \<le> Sequence cycle \<Longrightarrow>
     cache_abs (fst (GetValue c cycle (v, err))) = newest (cache_abs c) [(cycle, v, err)]"
  by (cases err) (auto simp: GetValue_def needsUpdate_def needsUpdateLocked_def renew_def cache_abs_def Let_def)

lemma newest_step:
  "newest (newest best [call]) calls = newest best (call # calls)"
  by (cases call) auto

text \<open>
  C24. Refinement: after any sequence of calls with cycles that are not negative, the cache holds
  the value and the number of the newest cycle for which the callback succeeded, the first one in
  case of equal numbers, and nothing when no callback succeeded.
\<close>

theorem cache_holds_newest:
  assumes "\<forall>(cycle, f)\<in>set calls. 0 \<le> Sequence cycle"
  shows "cache_abs (get_values c calls) = newest (cache_abs c) calls"
  using assms
proof (induction calls arbitrary: c)
  case (Cons call calls)
  obtain cycle v err where call: "call = (cycle, v, err)" by (cases call)
  with Cons.prems have "0 \<le> Sequence cycle" by simp
  then have "newest (cache_abs (fst (GetValue c cycle (v, err)))) calls =
      newest (cache_abs c) (call # calls)"
    by (simp only: GetValue_abs newest_step call)
  with Cons show ?case by (simp add: call)
qed simp

lemma cache_holds_newest_witness:
  "cache_abs (get_values (NewCache 0)
     [(\<lparr>Sequence = 10\<rparr>, 0, Some (Errorf ''x'')), (\<lparr>Sequence = 0\<rparr>, 1, None),
      (\<lparr>Sequence = 0\<rparr>, 100, None), (\<lparr>Sequence = 1\<rparr>, 2::int, None)]) = Some (1, 2)"
  by (subst cache_holds_newest) (simp_all add: cache_abs_def NewCache_def)

section \<open>Several callers\<close>

text \<open>
  A caller has not looked yet, has found under the read lock that no update is needed and is
  about to read the value without a lock, waits for the write lock, holds it while the callback
  runs, or has returned.
\<close>

datatype 'a caller =
    CStart metadata
  | CFast
  | CWantLock metadata
  | CLocked metadata
  | CDone "'a \<times> go_error option"

record 'a shared =
  cache :: "'a cache"
  writer :: "nat option"
  callers :: "nat \<Rightarrow> 'a caller"
  fetched :: "(int \<times> 'a) list"

text \<open>\<open>fetched\<close> is a ghost: the successful callbacks, the last one first.\<close>

inductive cache_step :: "'a shared \<Rightarrow> 'a shared \<Rightarrow> bool" where
  check_stale: "callers s i = CStart m \<Longrightarrow> writer s = None \<Longrightarrow> needsUpdate (cache s) m \<Longrightarrow>
     cache_step s (s\<lparr>callers := (callers s)(i := CWantLock m)\<rparr>)"
| check_fresh: "callers s i = CStart m \<Longrightarrow> writer s = None \<Longrightarrow> \<not> needsUpdate (cache s) m \<Longrightarrow>
     cache_step s (s\<lparr>callers := (callers s)(i := CFast)\<rparr>)"
| fast_read: "callers s i = CFast \<Longrightarrow>
     cache_step s (s\<lparr>callers := (callers s)(i := CDone (cachedValue (cache s), None))\<rparr>)"
| lock_stale: "callers s i = CWantLock m \<Longrightarrow> writer s = None \<Longrightarrow> needsUpdateLocked (cache s) m \<Longrightarrow>
     cache_step s (s\<lparr>callers := (callers s)(i := CLocked m), writer := Some i\<rparr>)"
| lock_fresh: "callers s i = CWantLock m \<Longrightarrow> writer s = None \<Longrightarrow> \<not> needsUpdateLocked (cache s) m \<Longrightarrow>
     cache_step s (s\<lparr>callers := (callers s)(i := CDone (cachedValue (cache s), None))\<rparr>)"
| fetch: "callers s i = CLocked m \<Longrightarrow> renew (cache s) m (v, err) = (c', r) \<Longrightarrow>
     cache_step s (s\<lparr>cache := c', writer := None, callers := (callers s)(i := CDone r),
       fetched := (if err = None then (Sequence m, v) # fetched s else fetched s)\<rparr>)"

inductive cache_reachable :: "'a \<Rightarrow> (nat \<Rightarrow> metadata) \<Rightarrow> 'a shared \<Rightarrow> bool" for zero :: 'a and ms :: "nat \<Rightarrow> metadata" where
  cstart: "cache_reachable zero ms
     \<lparr>cache = NewCache zero, writer = None, callers = (\<lambda>i. CStart (ms i)), fetched = []\<rparr>"
| cstep: "cache_reachable zero ms s \<Longrightarrow> cache_step s t \<Longrightarrow> cache_reachable zero ms t"

definition newest_fetched :: "'a shared \<Rightarrow> bool" where
  "newest_fetched s =
     (case fetched s of
        [] \<Rightarrow> Sequence (lastCycle (cache s)) < 0
      | (n, v) # _ \<Rightarrow> 0 \<le> n \<and> Sequence (lastCycle (cache s)) = n \<and> cachedValue (cache s) = v)"

definition caller_ok :: "'a shared \<Rightarrow> 'a caller \<Rightarrow> bool" where
  "caller_ok s t =
     (case t of
        CStart m \<Rightarrow> 0 \<le> Sequence m
      | CFast \<Rightarrow> fetched s \<noteq> []
      | CWantLock m \<Rightarrow> 0 \<le> Sequence m
      | CLocked m \<Rightarrow> 0 \<le> Sequence m \<and> Sequence (lastCycle (cache s)) < Sequence m
      | CDone (v, err) \<Rightarrow> err = None \<longrightarrow> v \<in> snd ` set (fetched s))"

definition cache_inv :: "'a shared \<Rightarrow> bool" where
  "cache_inv s =
     ((\<forall>i. (\<exists>m. callers s i = CLocked m) \<longleftrightarrow> writer s = Some i) \<and> newest_fetched s \<and>
      sorted_wrt (>) (map fst (fetched s)) \<and> (\<forall>i. caller_ok s (callers s i)))"

lemma newest_cached:
  "newest_fetched s \<Longrightarrow> fetched s \<noteq> [] \<Longrightarrow> cachedValue (cache s) \<in> snd ` set (fetched s)"
  by (cases "fetched s") (auto simp: newest_fetched_def)

lemma newest_fresh:
  "newest_fetched s \<Longrightarrow> \<not> needsUpdateLocked (cache s) m \<Longrightarrow> fetched s \<noteq> []"
  by (auto simp: newest_fetched_def needsUpdateLocked_def)

text \<open>The invariants look at the cache and the ghost only, not at the other callers.\<close>

lemma inv_frame [simp]:
  "newest_fetched (s\<lparr>callers := ts\<rparr>) = newest_fetched s"
  "newest_fetched (s\<lparr>writer := w\<rparr>) = newest_fetched s"
  "caller_ok (s\<lparr>callers := ts\<rparr>) = caller_ok s"
  "caller_ok (s\<lparr>writer := w\<rparr>) = caller_ok s"
  by (simp_all add: newest_fetched_def caller_ok_def fun_eq_iff cong: list.case_cong caller.case_cong)

lemma cache_inv_caller:
  assumes "cache_inv s" "caller_ok s t" "\<forall>m. callers s i \<noteq> CLocked m" "\<forall>m. t \<noteq> CLocked m"
  shows "cache_inv (s\<lparr>callers := (callers s)(i := t)\<rparr>)"
  using assms by (auto simp: cache_inv_def)

lemma cache_inv_lock:
  assumes "cache_inv s" "callers s i = CWantLock m" "writer s = None" "needsUpdateLocked (cache s) m"
  shows "cache_inv (s\<lparr>callers := (callers s)(i := CLocked m), writer := Some i\<rparr>)"
proof -
  have "caller_ok s (CWantLock m)"
    using assms(1,2) by (auto simp: cache_inv_def dest: spec [of _ i])
  then have "caller_ok s (CLocked m)"
    using assms(4) by (auto simp: caller_ok_def needsUpdateLocked_def)
  with assms show ?thesis by (auto simp: cache_inv_def)
qed

lemma newest_head:
  "newest_fetched s \<Longrightarrow> sorted_wrt (>) (map fst (fetched s)) \<Longrightarrow>
     \<forall>n\<in>fst ` set (fetched s). n \<le> Sequence (lastCycle (cache s))"
  by (cases "fetched s") (auto simp: newest_fetched_def)

text \<open>The callback ran while no other caller could hold the lock.\<close>

lemma cache_inv_fetch:
  assumes inv: "cache_inv s" and i: "callers s i = CLocked m"
    and r: "renew (cache s) m (v, err) = (c', r)"
  shows "cache_inv (s\<lparr>cache := c', writer := None, callers := (callers s)(i := CDone r),
       fetched := (if err = None then (Sequence m, v) # fetched s else fetched s)\<rparr>)" (is "cache_inv ?t")
proof -
  have locked: "\<And>j. (\<exists>m. callers s j = CLocked m) \<longleftrightarrow> writer s = Some j"
    using inv by (auto simp: cache_inv_def)
  then have w: "writer s = Some i" using i by blast
  have others: "callers s j \<noteq> CLocked m'" if "j \<noteq> i" for j m'
    using locked [of j] w that by auto
  have m: "0 \<le> Sequence m" "Sequence (lastCycle (cache s)) < Sequence m"
    using inv i by (auto simp: cache_inv_def caller_ok_def dest!: spec [of _ i])
  have new: "newest_fetched s" and sorted: "sorted_wrt (>) (map fst (fetched s))"
    using inv by (auto simp: cache_inv_def)
  have head: "\<forall>n\<in>fst ` set (fetched s). n < Sequence m"
    using newest_head [OF new sorted] m(2) by fastforce
  have keep: "caller_ok ?t (callers s j)" if "j \<noteq> i" for j
    using inv others [OF that] by (auto simp: cache_inv_def caller_ok_def split: caller.splits dest!: spec [of _ j])
  show ?thesis
  proof (cases err)
    case None
    then have "newest_fetched ?t" "caller_ok ?t (CDone r)" "sorted_wrt (>) (map fst (fetched ?t))"
      using r m sorted head by (auto simp: newest_fetched_def caller_ok_def renew_def Let_def)
    then show ?thesis using keep others by (auto simp: cache_inv_def)
  next
    case (Some e)
    then have c': "c' = cache s" using r by (auto simp: renew_def split: if_splits)
    have "newest_fetched ?t"
      using new Some c' by (simp add: newest_fetched_def cong: list.case_cong)
    moreover have "caller_ok ?t (CDone r)"
      using Some r newest_cached [OF new] new
      by (auto simp: caller_ok_def renew_def newest_fetched_def split: if_splits list.splits)
    ultimately show ?thesis using keep others Some sorted by (auto simp: cache_inv_def)
  qed
qed

lemma cache_step_inv: "cache_step s t \<Longrightarrow> cache_inv s \<Longrightarrow> cache_inv t"
proof (induction rule: cache_step.induct)
  case (lock_stale s i m)
  then show ?case by (rule_tac cache_inv_lock)
next
  case (fetch s i m v err c' r)
  then show ?case by (rule_tac cache_inv_fetch)
next
  case (check_stale s i m)
  then have "caller_ok s (CStart m)" by (auto simp: cache_inv_def dest!: spec [of _ i])
  then have "caller_ok s (CWantLock m)" by (simp add: caller_ok_def)
  with check_stale show ?case by (auto intro!: cache_inv_caller)
next
  case (check_fresh s i m)
  then have "caller_ok s CFast"
    using newest_fresh [of s m] by (auto simp: caller_ok_def needsUpdate_def cache_inv_def)
  with check_fresh show ?case by (auto intro!: cache_inv_caller)
next
  case (fast_read s i)
  then have "caller_ok s CFast" by (auto simp: cache_inv_def dest!: spec [of _ i])
  then have "caller_ok s (CDone (cachedValue (cache s), None))"
    using fast_read newest_cached [of s] by (auto simp: caller_ok_def cache_inv_def)
  with fast_read show ?case by (auto intro!: cache_inv_caller)
next
  case (lock_fresh s i m)
  then have "caller_ok s (CDone (cachedValue (cache s), None))"
    using newest_fresh [of s m] newest_cached [of s] by (auto simp: caller_ok_def cache_inv_def)
  with lock_fresh show ?case by (auto intro!: cache_inv_caller)
qed

lemma cache_reachable_inv:
  "cache_reachable zero ms s \<Longrightarrow> \<forall>i. 0 \<le> Sequence (ms i) \<Longrightarrow> cache_inv s"
proof (induction rule: cache_reachable.induct)
  case cstart
  then show ?case
    by (auto simp: cache_inv_def newest_fetched_def caller_ok_def NewCache_def)
qed (blast intro: cache_step_inv)



end
