(* ===== verification/Fetch_Registry.thy ===== *)
theory Fetch_Registry
  imports Cycle_Cache
begin

text \<open>
  \<open>resources/fetching/registry/registry.go\<close>, \<open>registry/fetchers.go\<close> and
  \<open>resources/fetching/condition/is_leader.go\<close>. A fetcher acts on the state \<open>'w\<close> of the world;
  a run of it returns an error or nil, or panics. A map of fetchers is an association list with
  distinct keys; the order of the list is the order in which Go's \<open>range\<close> visits the map, which
  is arbitrary, so the theorems are about every order.
\<close>

section \<open>Fetchers and conditions\<close>

datatype run_outcome = RunReturned "go_error option" | RunPanicked string

record 'w fetcher =
  Fetch :: "metadata \<Rightarrow> 'w \<Rightarrow> run_outcome \<times> 'w"
  fetcher_Stop :: "'w \<Rightarrow> 'w"

record 'w condition =
  cond_Condition :: "'w \<Rightarrow> bool"
  cond_Name :: string

record 'w registered_fetcher =
  Fetcher :: "'w fetcher"
  Condition :: "'w condition list"

type_synonym 'w fetchers_map = "(string \<times> 'w registered_fetcher) list"

text \<open>\<open>is_leader\<close> is the \<open>IsLeader\<close> method of the leader election manager.\<close>

definition NewIsLeader :: "('w \<Rightarrow> bool) \<Rightarrow> 'w condition" where
  "NewIsLeader is_leader =
     \<lparr>cond_Condition = is_leader, cond_Name = ''is_leader_conditional_fetcher''\<rparr>"

section \<open>The registry\<close>

type_synonym 'w updater_func = "'w \<Rightarrow> 'w fetchers_map result \<times> 'w"

record 'w registry =
  reg :: "'w fetchers_map"
  updater :: "'w updater_func option"

definition WithUpdater :: "'w updater_func \<Rightarrow> 'w registry \<Rightarrow> 'w registry" where
  "WithUpdater fn r = r\<lparr>updater := Some fn\<rparr>"

definition WithFetchersMap :: "'w fetchers_map \<Rightarrow> 'w registry \<Rightarrow> 'w registry" where
  "WithFetchersMap f r = r\<lparr>reg := f\<rparr>"

definition NewRegistry :: "('w registry \<Rightarrow> 'w registry) list \<Rightarrow> 'w registry" where
  "NewRegistry options = foldl (\<lambda>r fn. fn r) \<lparr>reg = [], updater = None\<rparr> options"

definition Keys :: "'w registry \<Rightarrow> string list" where
  "Keys r = map fst (reg r)"

fun all_conditions :: "'w condition list \<Rightarrow> 'w \<Rightarrow> bool" where
  "all_conditions [] w = True"
| "all_conditions (c # cs) w = (if \<not> cond_Condition c w then False else all_conditions cs w)"

definition ShouldRun :: "'w registry \<Rightarrow> string \<Rightarrow> 'w \<Rightarrow> bool" where
  "ShouldRun r key w =
     (case map_of (reg r) key of
        None \<Rightarrow> False
      | Some registered \<Rightarrow> all_conditions (Condition registered) w)"

definition registry_Run :: "'w registry \<Rightarrow> string \<Rightarrow> metadata \<Rightarrow> 'w \<Rightarrow> run_outcome \<times> 'w" where
  "registry_Run r key m w =
     (case map_of (reg r) key of
        None \<Rightarrow> (RunReturned (Some (Errorf (''fetcher '' @ key @ '' not found''))), w)
      | Some registered \<Rightarrow> Fetch (Fetcher registered) m w)"

definition registry_Update :: "'w registry \<Rightarrow> 'w \<Rightarrow> 'w registry \<times> 'w" where
  "registry_Update r w =
     (case updater r of
        None \<Rightarrow> (r, w)
      | Some fn \<Rightarrow>
          (case fn w of
             (Inl err, w') \<Rightarrow> (r, w')
           | (Inr fm, w') \<Rightarrow> (r\<lparr>reg := fm\<rparr>, w')))"

fun stop_all :: "'w fetchers_map \<Rightarrow> 'w \<Rightarrow> 'w" where
  "stop_all [] w = w"
| "stop_all ((key, registered) # fs) w = stop_all fs (fetcher_Stop (Fetcher registered) w)"

definition registry_Stop :: "'w registry \<Rightarrow> 'w \<Rightarrow> 'w" where
  "registry_Stop r w = stop_all (reg r) w"

section \<open>The interface \<open>registry.Registry\<close>\<close>

text \<open>
  The operations that the manager calls, as the record of functions that the Go interface value
  is, and the contract the manager relies on: a fetcher that should run is among the keys, an
  unknown key is refused without touching anything, and an update that fails leaves the keys.
\<close>

record ('r, 'w) registry_iface =
  i_Keys :: "'r \<Rightarrow> string list"
  i_ShouldRun :: "'r \<Rightarrow> string \<Rightarrow> 'w \<Rightarrow> bool"
  i_Run :: "'r \<Rightarrow> string \<Rightarrow> metadata \<Rightarrow> 'w \<Rightarrow> run_outcome \<times> 'w"
  i_Update :: "'r \<Rightarrow> 'w \<Rightarrow> 'r \<times> 'w"
  i_Stop :: "'r \<Rightarrow> 'w \<Rightarrow> 'w"

locale registry_contract =
  fixes ops :: "('r, 'w) registry_iface"
  assumes should_run_key: "i_ShouldRun ops r k w \<Longrightarrow> k \<in> set (i_Keys ops r)"
    and run_unknown: "k \<notin> set (i_Keys ops r) \<Longrightarrow> \<exists>e. i_Run ops r k m w = (RunReturned (Some e), w)"

definition registry_ops :: "('w registry, 'w) registry_iface" where
  "registry_ops =
     \<lparr>i_Keys = Keys, i_ShouldRun = ShouldRun, i_Run = registry_Run, i_Update = registry_Update,
      i_Stop = registry_Stop\<rparr>"

lemma registry_ops_simps [simp]:
  "i_Keys registry_ops = Keys" "i_ShouldRun registry_ops = ShouldRun"
  "i_Run registry_ops = registry_Run" "i_Update registry_ops = registry_Update"
  "i_Stop registry_ops = registry_Stop"
  by (simp_all add: registry_ops_def)

lemma map_of_Keys: "map_of (reg r) k = None \<longleftrightarrow> k \<notin> set (Keys r)"
  by (simp add: Keys_def map_of_eq_None_iff)

lemma all_conditions_iff: "all_conditions cs w \<longleftrightarrow> (\<forall>c\<in>set cs. cond_Condition c w)"
  by (induction cs) auto

interpretation registry: registry_contract registry_ops
proof unfold_locales
  fix r :: "'w registry" and k w
  assume "i_ShouldRun registry_ops r k w"
  then show "k \<in> set (i_Keys registry_ops r)"
    using map_of_Keys [of r k] by (auto simp: ShouldRun_def split: option.splits)
next
  fix r :: "'w registry" and k m w
  assume "k \<notin> set (i_Keys registry_ops r)"
  then show "\<exists>e. i_Run registry_ops r k m w = (RunReturned (Some e), w)"
    by (simp add: registry_Run_def flip: map_of_Keys)
qed


lemma registry_update_keys:
  "updater r = Some fn \<Longrightarrow> fn w = (Inl e, w') \<Longrightarrow> registry_Update r w = (r, w')"
  "updater r = Some fn \<Longrightarrow> fn w = (Inr fm, w') \<Longrightarrow> Keys (fst (registry_Update r w)) = map fst fm"
  by (auto simp: Keys_def registry_Update_def)

section \<open>Properties\<close>

text \<open>
  In every registry a fetcher runs exactly when it is registered and all its conditions
  hold; so a fetcher that is conditional on leadership does not run on an instance that is not
  the leader, and running a key that is not registered is an error that changes nothing.
\<close>

lemma ShouldRun_iff_conditions:
  "(ShouldRun r k w \<longleftrightarrow>
     (\<exists>rf. map_of (reg r) k = Some rf \<and> (\<forall>c\<in>set (Condition rf). cond_Condition c w))) \<and>
   (\<forall>rf leads. map_of (reg r) k = Some rf \<and> NewIsLeader leads \<in> set (Condition rf) \<and>
     ShouldRun r k w \<longrightarrow> leads w) \<and>
   (k \<notin> set (Keys r) \<longrightarrow> \<not> ShouldRun r k w \<and>
     (\<exists>e. registry_Run r k m w = (RunReturned (Some e), w)))"
proof -
  have should: "ShouldRun r k w \<longleftrightarrow>
      (\<exists>rf. map_of (reg r) k = Some rf \<and> (\<forall>c\<in>set (Condition rf). cond_Condition c w))"
    by (auto simp: ShouldRun_def all_conditions_iff split: option.splits)
  have leads: "leads w"
    if "map_of (reg r) k = Some rf" "NewIsLeader leads \<in> set (Condition rf)" "ShouldRun r k w" for rf leads
  proof -
    have "cond_Condition (NewIsLeader leads) w" using that should by auto
    then show ?thesis by (simp add: NewIsLeader_def)
  qed
  have "\<not> ShouldRun r k w \<and> (\<exists>e. registry_Run r k m w = (RunReturned (Some e), w))"
    if "k \<notin> set (Keys r)"
    using that registry.should_run_key [of r k w] registry.run_unknown [of k r m w] by simp blast
  with should leads show ?thesis by blast
qed

definition idle_fetcher :: "bool registered_fetcher" where
  "idle_fetcher =
     \<lparr>Fetcher = \<lparr>Fetch = \<lambda>_ w. (RunReturned None, w), fetcher_Stop = id\<rparr>,
      Condition = [NewIsLeader (\<lambda>w. w)]\<rparr>"

lemma ShouldRun_iff_conditions_witness:
  "\<not> ShouldRun (NewRegistry [WithFetchersMap [(''kube-api'', idle_fetcher)]]) ''kube-api'' False \<and>
   ShouldRun (NewRegistry [WithFetchersMap [(''kube-api'', idle_fetcher)]]) ''kube-api'' True"
  using ShouldRun_iff_conditions [of "NewRegistry [WithFetchersMap [(''kube-api'', idle_fetcher)]]"
      "''kube-api''" False undefined]
    ShouldRun_iff_conditions [of "NewRegistry [WithFetchersMap [(''kube-api'', idle_fetcher)]]"
      "''kube-api''" True undefined]
  by (simp add: NewRegistry_def WithFetchersMap_def idle_fetcher_def NewIsLeader_def)

end
