(* ===== verification/Fetch_Manager.thy ===== *)
theory Fetch_Manager
  imports Fetch_Registry Config_Model
begin

text \<open>
  \<open>resources/fetching/manager/manager.go\<close>: the manager that runs the fetchers of the registry in
  cycles. It calls the registry through its interface. The \<open>select\<close> of \<open>fetchSingle\<close> picks
  either the end of the context or the result; the fetcher itself is not interrupted, so its
  effect on the world happens in both cases.
\<close>

section \<open>One fetcher\<close>

datatype ctx_err = DeadlineExceeded | Canceled | OtherErr string

datatype single_event = CtxDone ctx_err | Finished

definition fetchProtected ::
  "('r, 'w) registry_iface \<Rightarrow> 'r \<Rightarrow> string \<Rightarrow> metadata \<Rightarrow> 'w \<Rightarrow> go_error option \<times> 'w" where
  "fetchProtected ops r k m w =
     (case i_Run ops r k m w of
        (RunReturned err, w') \<Rightarrow> (err, w')
      | (RunPanicked p, w') \<Rightarrow>
          (Some (Errorf (''fetcher '' @ k @ '' recovered from panic: '' @ p)), w'))"

text \<open>\<open>secs\<close> is the printed number of seconds of the manager's timeout.\<close>

definition fetchSingle ::
  "('r, 'w) registry_iface \<Rightarrow> string \<Rightarrow> 'r \<Rightarrow> string \<Rightarrow> metadata \<Rightarrow> single_event \<Rightarrow> 'w \<Rightarrow> go_error option \<times> 'w" where
  "fetchSingle ops secs r k m ev w =
     (if \<not> i_ShouldRun ops r k w then (None, w)
      else let (err, w') = fetchProtected ops r k m w
           in case ev of
                CtxDone DeadlineExceeded \<Rightarrow>
                  (Some (Errorf (''fetcher '' @ k @ '' reached a timeout after '' @ secs @ '' seconds'')), w')
              | CtxDone Canceled \<Rightarrow> (Some (Errorf (''fetcher '' @ k @ '' was canceled'')), w')
              | CtxDone (OtherErr e) \<Rightarrow>
                  (Some (Errorf (''fetcher '' @ k @ '' failed with an unknown error: '' @ e)), w')
              | Finished \<Rightarrow> (err, w'))"

section \<open>One iteration\<close>

text \<open>
  The goroutines of an iteration, in the order of the keys; the iteration waits for all of them.
  An error is logged with its key and does not keep the other fetchers from running.
\<close>

fun fetch_keys ::
  "('r, 'w) registry_iface \<Rightarrow> string \<Rightarrow> 'r \<Rightarrow> metadata \<Rightarrow> (string \<Rightarrow> single_event) \<Rightarrow> string list \<Rightarrow> 'w \<Rightarrow>
     (string \<times> go_error) list \<times> 'w" where
  "fetch_keys ops secs r m evs [] w = ([], w)"
| "fetch_keys ops secs r m evs (key # keys) w =
     (let (err, w') = fetchSingle ops secs r key m (evs key) w;
          (errs, w'') = fetch_keys ops secs r m evs keys w'
      in (case err of None \<Rightarrow> errs | Some e \<Rightarrow> (key, e) # errs, w''))"

definition fetchIteration ::
  "('r, 'w) registry_iface \<Rightarrow> string \<Rightarrow> 'r \<Rightarrow> int \<Rightarrow> (string \<Rightarrow> single_event) \<Rightarrow> 'w \<Rightarrow>
     'r \<times> (string \<times> go_error) list \<times> 'w" where
  "fetchIteration ops secs r now evs w =
     (let (r', w') = i_Update ops r w;
          (errs, w'') = fetch_keys ops secs r' \<lparr>Sequence = now\<rparr> evs (i_Keys ops r') w'
      in (r', errs, w''))"

section \<open>The cycles\<close>

text \<open>
  The loop of \<open>fetchAndSleep\<close> starts an iteration in a goroutine at every tick and returns when
  the context is done. The state holds the iterations that are running.
\<close>

record manager_state =
  m_canceled :: bool
  m_looping :: bool
  m_iterations :: nat

definition manager_Run :: manager_state where
  "manager_Run = \<lparr>m_canceled = False, m_looping = True, m_iterations = 0\<rparr>"

inductive manager_step :: "manager_state \<Rightarrow> manager_state \<Rightarrow> bool" where
  tick: "m_looping s \<Longrightarrow> manager_step s (s\<lparr>m_iterations := Suc (m_iterations s)\<rparr>)"
| ctx_done: "m_looping s \<Longrightarrow> m_canceled s \<Longrightarrow> manager_step s (s\<lparr>m_looping := False\<rparr>)"
| iteration_end: "0 < m_iterations s \<Longrightarrow> manager_step s (s\<lparr>m_iterations := m_iterations s - 1\<rparr>)"
| stop: "manager_step s (s\<lparr>m_canceled := True\<rparr>)"

text \<open>
  With time: the tick of iteration \<open>k\<close> comes at \<open>k * interval\<close>; a fetcher that needs \<open>d\<close> keeps
  its \<open>fetchSingle\<close> for at most the timeout; the iteration waits for the slowest.
\<close>

definition single_time :: "int \<Rightarrow> int \<Rightarrow> int" where
  "single_time timeout d = min d timeout"

definition iteration_time :: "int \<Rightarrow> int list \<Rightarrow> int" where
  "iteration_time timeout ds = foldr max (map (single_time timeout) ds) 0"

definition tick_time :: "int \<Rightarrow> nat \<Rightarrow> int" where
  "tick_time interval k = int k * interval"

definition overlap :: "int \<Rightarrow> int \<Rightarrow> (nat \<Rightarrow> int list) \<Rightarrow> bool" where
  "overlap interval timeout ds =
     (\<exists>j k. j < k \<and> tick_time interval k < tick_time interval j + iteration_time timeout (ds j))"

text \<open>The timeout that \<open>builder.New\<close> gives the manager.\<close>

definition defaultManagerTimeout :: int where
  "defaultManagerTimeout = 10 * time_Minute"

section \<open>Lemmas inside the registry's contract\<close>

context registry_contract
begin

lemma fetchSingle_unregistered:
  "k \<notin> set (i_Keys ops r) \<Longrightarrow> fetchSingle ops secs r k m ev w = (None, w)"
  using should_run_key [of r k w] by (auto simp: fetchSingle_def)

lemma fetch_keys_append:
  "fetch_keys ops secs r m evs (ks @ ls) w =
     (let (errs, w') = fetch_keys ops secs r m evs ks w;
          (errs', w'') = fetch_keys ops secs r m evs ls w'
      in (errs @ errs', w''))"
  by (induction ks arbitrary: w) (simp_all add: Let_def split: prod.splits option.splits)

lemma fetch_keys_logged:
  assumes "fetch_keys ops secs r m evs keys w = (errs, w')" "(k, e) \<in> set errs"
  shows "k \<in> set keys \<and> k \<in> set (i_Keys ops r)"
  using assms
proof (induction keys arbitrary: w errs)
  case (Cons key keys)
  obtain err w1 where 1: "fetchSingle ops secs r key m (evs key) w = (err, w1)" by fastforce
  obtain errs2 w2 where 2: "fetch_keys ops secs r m evs keys w1 = (errs2, w2)" by fastforce
  have errs: "errs = (case err of None \<Rightarrow> errs2 | Some e \<Rightarrow> (key, e) # errs2)" "w2 = w'"
    using Cons.prems(1) 1 2 by simp_all
  show ?case
  proof (cases "(k, e) \<in> set errs2")
    case True
    then show ?thesis using Cons.IH [of w1 errs2] 2 errs by simp
  next
    case False
    then have "k = key" "err = Some e" using Cons.prems(2) errs by (auto split: option.splits)
    moreover have "key \<in> set (i_Keys ops r)"
      using 1 \<open>err = Some e\<close> should_run_key [of r key w]
      by (auto simp: fetchSingle_def split: if_splits)
    ultimately show ?thesis by simp
  qed
qed simp

text \<open>A key that runs is given what its own run answers, wherever it stands among the keys.\<close>

lemma fetch_keys_middle:
  assumes "fetch_keys ops secs r m evs ks w = (errs1, w1)"
    and "fetchSingle ops secs r k m (evs k) w1 = (err, w2)"
    and "fetch_keys ops secs r m evs ls w2 = (errs2, w3)"
  shows "fetch_keys ops secs r m evs (ks @ k # ls) w =
    (errs1 @ (case err of None \<Rightarrow> [] | Some e \<Rightarrow> [(k, e)]) @ errs2, w3)"
  using assms by (simp add: fetch_keys_append split: option.splits)

end

lemma fetchSingle_panic:
  "i_ShouldRun ops r k w \<Longrightarrow> i_Run ops r k m w = (RunPanicked p, w') \<Longrightarrow>
   fetchSingle ops secs r k m Finished w =
     (Some (Errorf (''fetcher '' @ k @ '' recovered from panic: '' @ p)), w')"
  by (simp add: fetchSingle_def fetchProtected_def)

section \<open>Properties\<close>

text \<open>
  C10. A fetcher that panics is isolated: the iteration turns its panic into a logged error of
  its own key, and the fetchers before and after it report exactly what they report without it
  (after it, from the world that the panicking fetcher leaves). Only registered keys are logged.
\<close>

theorem fetchIteration_isolates_panic:
  assumes "registry_Update r w = (r', wu)" "Keys r' = ks @ k # ls"
    and "fetch_keys registry_ops secs r' \<lparr>Sequence = now\<rparr> evs ks wu = (ea, wa)"
    and "ShouldRun r' k wa" "registry_Run r' k \<lparr>Sequence = now\<rparr> wa = (RunPanicked p, wb)"
    and "evs k = Finished"
    and "fetch_keys registry_ops secs r' \<lparr>Sequence = now\<rparr> evs ls wb = (eb, wc)"
  shows "fetchIteration registry_ops secs r now evs w =
      (r', ea @ (k, Errorf (''fetcher '' @ k @ '' recovered from panic: '' @ p)) # eb, wc) \<and>
    (\<forall>e\<in>set (ea @ eb). fst e \<in> set (Keys r'))"
proof -
  have single: "fetchSingle registry_ops secs r' k \<lparr>Sequence = now\<rparr> (evs k) wa =
      (Some (Errorf (''fetcher '' @ k @ '' recovered from panic: '' @ p)), wb)"
    using fetchSingle_panic [of registry_ops r' k wa "\<lparr>Sequence = now\<rparr>" p wb secs] assms(4,5,6) by simp
  have "fst e \<in> set (Keys r')" if "e \<in> set (ea @ eb)" for e
    using registry.fetch_keys_logged [OF assms(3), of "fst e" "snd e"]
      registry.fetch_keys_logged [OF assms(7), of "fst e" "snd e"] that by auto
  then show ?thesis
    using registry.fetch_keys_middle [OF assms(3) single assms(7)] assms(1,2)
    by (auto simp: fetchIteration_def)
qed

definition logging_fetcher :: "string \<Rightarrow> run_outcome \<Rightarrow> string list registered_fetcher" where
  "logging_fetcher k out =
     \<lparr>Fetcher = \<lparr>Fetch = \<lambda>_ w. (out, w @ [k]), fetcher_Stop = id\<rparr>, Condition = []\<rparr>"

definition sample_registry :: "string list registry" where
  "sample_registry =
     \<lparr>reg = [(''a'', logging_fetcher ''a'' (RunReturned (Some (Errorf ''denied'')))),
             (''b'', logging_fetcher ''b'' (RunPanicked ''nil'')),
             (''c'', logging_fetcher ''c'' (RunReturned None))],
      updater = None\<rparr>"

lemma fetchIteration_isolates_panic_witness:
  "fetchIteration registry_ops ''600'' sample_registry 7 (\<lambda>_. Finished) [] =
     (sample_registry, [(''a'', Errorf ''denied''), (''b'', Errorf ''fetcher b recovered from panic: nil'')],
      [''a'', ''b'', ''c''])"
  using fetchIteration_isolates_panic [where r = sample_registry and w = "[]" and r' = sample_registry
      and wu = "[]" and ks = "[''a'']" and k = "''b''" and ls = "[''c'']" and secs = "''600''" and now = 7
      and evs = "\<lambda>_. Finished" and ea = "[(''a'', Errorf ''denied'')]" and wa = "[''a'']"
      and p = "''nil''" and wb = "[''a'', ''b'']" and eb = "[]" and wc = "[''a'', ''b'', ''c'']"]
  by (simp add: registry_Update_def sample_registry_def Keys_def ShouldRun_def registry_Run_def
      fetchSingle_def fetchProtected_def logging_fetcher_def)

lemma iteration_time_le: "0 \<le> timeout \<Longrightarrow> iteration_time timeout ds \<le> timeout"
  by (induction ds) (auto simp: iteration_time_def single_time_def)

lemma no_overlap:
  assumes "0 < interval" "0 \<le> timeout" "timeout \<le> interval"
  shows "\<not> overlap interval timeout ds"
proof -
  have "tick_time interval j + iteration_time timeout (ds j) \<le> tick_time interval k" if "j < k" for j k
  proof -
    have "iteration_time timeout (ds j) \<le> interval"
      using iteration_time_le [of timeout "ds j"] assms by linarith
    moreover have "(int j + 1) * interval \<le> int k * interval"
      using that assms(1) by (intro mult_right_mono) auto
    ultimately show ?thesis by (simp add: tick_time_def algebra_simps)
  qed
  then show ?thesis by (force simp: overlap_def)
qed

text \<open>
  Two iterations can be in progress at the same time exactly when the manager's timeout is
  larger than its interval: the loop starts an iteration in a goroutine at every tick and does
  not wait for the one before. With the timeout of \<open>builder.New\<close> this cannot happen for an
  interval of ten minutes or more.
\<close>

lemma iterations_overlap_iff:
  assumes "0 < interval" "0 \<le> timeout"
  shows "((\<exists>ds. overlap interval timeout ds) \<longleftrightarrow> interval < timeout) \<and>
    (timeout = defaultManagerTimeout \<and> 10 * time_Minute \<le> interval \<longrightarrow> \<not> overlap interval timeout ds)"
proof -
  have "overlap interval timeout (\<lambda>_. [timeout])" if "interval < timeout"
    unfolding overlap_def using that assms
    by (intro exI [of _ 0] exI [of _ 1]) (simp add: tick_time_def iteration_time_def single_time_def)
  moreover have "interval < timeout" if "overlap interval timeout ds" for ds
    using that no_overlap [OF assms, of ds] by linarith
  ultimately show ?thesis
    using no_overlap [OF assms, of ds] by (auto simp: defaultManagerTimeout_def)
qed

lemma iterations_overlap_iff_witness:
  "(\<exists>ds. overlap (5 * time_Minute) defaultManagerTimeout ds) \<and>
   \<not> overlap (4 * time_Hour) defaultManagerTimeout (\<lambda>_. [])"
  using iterations_overlap_iff [of "5 * time_Minute" defaultManagerTimeout "\<lambda>_. []"]
    iterations_overlap_iff [of "4 * time_Hour" defaultManagerTimeout "\<lambda>_. []"]
  by (simp add: defaultManagerTimeout_def time_Hour_def time_Minute_def time_Second_def)

end
