(* ===== verification/Pipeline_Step.thy ===== *)
theory Pipeline_Step
  imports Prelude
begin

text \<open>
  \<open>pipeline/pipeline.go\<close>: a stage of the pipeline between the fetchers and the publisher, a
  goroutine that reads a channel, applies a function and writes what it returns on a channel with
  a buffer of ten. The first part models Go's buffered channels, the second the goroutine as a
  step relation in which the producer and the consumer move at any time, the third the interface
  of a stage as the sequence function it computes.
\<close>

section \<open>Channels\<close>

text \<open>A channel with a buffer: what is in it, whether it is closed, how much it holds.\<close>

record 'a chan =
  buf :: "'a list"
  closed :: bool
  capacity :: nat

definition make_chan :: "nat \<Rightarrow> 'a chan" where
  "make_chan n = \<lparr>buf = [], closed = False, capacity = n\<rparr>"

text \<open>The outcome of a send: it succeeds, blocks, or panics on a closed channel.\<close>

datatype 'a send_outcome = Sent "'a chan" | SendBlocks | SendPanics

definition chan_send :: "'a chan \<Rightarrow> 'a \<Rightarrow> 'a send_outcome" where
  "chan_send c x =
     (if closed c then SendPanics
      else if length (buf c) < capacity c then Sent (c\<lparr>buf := buf c @ [x]\<rparr>)
      else SendBlocks)"

datatype 'a recv_outcome = Received 'a "'a chan" | RecvBlocks | RecvClosed

definition chan_recv :: "'a chan \<Rightarrow> 'a recv_outcome" where
  "chan_recv c =
     (case buf c of
        x # xs \<Rightarrow> Received x (c\<lparr>buf := xs\<rparr>)
      | [] \<Rightarrow> if closed c then RecvClosed else RecvBlocks)"

definition chan_close :: "'a chan \<Rightarrow> 'a chan" where
  "chan_close c = c\<lparr>closed := True\<rparr>"

lemma chan_send_Sent_iff:
  "chan_send c x = Sent c' \<longleftrightarrow>
     \<not> closed c \<and> length (buf c) < capacity c \<and> c' = c\<lparr>buf := buf c @ [x]\<rparr>"
  by (auto simp: chan_send_def)

lemma chan_recv_Received_iff:
  "chan_recv c = Received x c' \<longleftrightarrow> (\<exists>xs. buf c = x # xs \<and> c' = c\<lparr>buf := xs\<rparr>)"
  by (auto simp: chan_recv_def split: list.splits)

lemma chan_recv_RecvClosed_iff: "chan_recv c = RecvClosed \<longleftrightarrow> buf c = [] \<and> closed c"
  by (auto simp: chan_recv_def split: list.splits)

lemmas chan_iffs = chan_send_Sent_iff chan_recv_Received_iff chan_recv_RecvClosed_iff

lemma make_chan_simps [simp]:
  "buf (make_chan n) = []" "\<not> closed (make_chan n)" "capacity (make_chan n) = n"
  by (simp_all add: make_chan_def)

section \<open>The stage as a function of sequences\<close>

text \<open>
  What the loop body does to one value: an error is logged and dropped (\<open>continue\<close>), a value
  goes out. \<open>fn\<close> may have effects, on a state \<open>'w\<close>.
\<close>

type_synonym ('w, 'a, 'b) stage_fn = "'w \<Rightarrow> 'a \<Rightarrow> 'b result \<times> 'w"

fun step_all :: "('w, 'a, 'b) stage_fn \<Rightarrow> 'w \<Rightarrow> 'a list \<Rightarrow> 'b list \<times> 'w" where
  "step_all fn w [] = ([], w)"
| "step_all fn w (s # ss) =
     (case fn w s of
        (Inl err, w') \<Rightarrow> step_all fn w' ss
      | (Inr val, w') \<Rightarrow> (let (vals, w'') = step_all fn w' ss in (val # vals, w'')))"

lemma step_all_append:
  "step_all fn w (xs @ ys) =
     (let (vs, w') = step_all fn w xs; (us, w'') = step_all fn w' ys in (vs @ us, w''))"
  by (induction xs arbitrary: w) (simp_all add: Let_def split: prod.splits sum.splits)

text \<open>A stage whose function has no effects keeps exactly the successful values.\<close>

lemma step_all_pure: "step_all (\<lambda>w x. (f x, w)) w xs = (oks (map f xs), w)"
proof (induction xs)
  case (Cons x xs)
  then show ?case by (cases "f x") simp_all
qed simp

text \<open>
  The contract of a stage that the components after it rely on: it works value by value, so
  that what it has sent for a prefix of its input does not depend on what comes later.
\<close>

locale stream_stage =
  fixes run :: "'w \<Rightarrow> 'a list \<Rightarrow> 'b list \<times> 'w"
  assumes run_Nil: "run w [] = ([], w)"
    and run_append: "run w (xs @ ys) =
      (let (vs, w') = run w xs; (us, w'') = run w' ys in (vs @ us, w''))"
begin

lemma run_prefix: "prefix xs zs \<Longrightarrow> prefix (fst (run w xs)) (fst (run w zs))"
  by (auto simp: prefix_def run_append split: prod.splits)

lemma run_snoc:
  "run w xs = (vs, w') \<Longrightarrow> run w' [x] = (us, w'') \<Longrightarrow> run w (xs @ [x]) = (vs @ us, w'')"
  by (simp add: run_append)

lemma run_Cons:
  "run w [x] = (us, w') \<Longrightarrow> run w' xs = (vs, w'') \<Longrightarrow> run w (x # xs) = (us @ vs, w'')"
  using run_append [of w "[x]" xs] by simp

end

interpretation step: stream_stage "step_all fn" for fn
  by unfold_locales (simp_all add: step_all_append)

text \<open>Two stages one after the other, the second reading what the first sends.\<close>

definition pipe ::
  "('v \<Rightarrow> 'a list \<Rightarrow> 'b list \<times> 'v) \<Rightarrow> ('w \<Rightarrow> 'b list \<Rightarrow> 'c list \<times> 'w) \<Rightarrow>
     'v \<times> 'w \<Rightarrow> 'a list \<Rightarrow> 'c list \<times> ('v \<times> 'w)" where
  "pipe run1 run2 w xs =
     (let (ys, v') = run1 (fst w) xs; (zs, w') = run2 (snd w) ys in (zs, (v', w')))"

locale two_stages = first: stream_stage run1 + second: stream_stage run2
  for run1 :: "'v \<Rightarrow> 'a list \<Rightarrow> 'b list \<times> 'v" and run2 :: "'w \<Rightarrow> 'b list \<Rightarrow> 'c list \<times> 'w"

sublocale two_stages \<subseteq> both: stream_stage "pipe run1 run2"
proof unfold_locales
  show "pipe run1 run2 w [] = ([], w)" for w
    by (simp add: pipe_def first.run_Nil second.run_Nil)
  show "pipe run1 run2 w (xs @ ys) =
      (let (vs, w') = pipe run1 run2 w xs; (us, w'') = pipe run1 run2 w' ys in (vs @ us, w''))" for w xs ys
    by (simp add: pipe_def Let_def first.run_append second.run_append split: prod.splits)
qed

interpretation two_steps: two_stages "step_all fn1" "step_all fn2" for fn1 fn2
  by unfold_locales

text \<open>Value by value: what two stages deliver are the successful outcomes, in the order of the input.\<close>

lemma step_all_oks:
  "\<exists>opts. fst (step_all fn w xs) = oks opts \<and> list_all2 (\<lambda>x r. \<exists>v. r = fst (fn v x)) xs opts"
proof (induction xs arbitrary: w)
  case (Cons x xs)
  obtain r w' where step: "fn w x = (r, w')" by fastforce
  obtain opts where opts: "fst (step_all fn w' xs) = oks opts"
      "list_all2 (\<lambda>x r. \<exists>v. r = fst (fn v x)) xs opts"
    using Cons.IH [of w'] by blast
  have "\<exists>v. r = fst (fn v x)" using step by (intro exI [of _ w]) simp
  then show ?case
    using step opts by (intro exI [of _ "r # opts"]) (cases r; simp add: case_prod_beta)
qed simp

definition outcome_bind :: "('a \<Rightarrow> 'b result \<Rightarrow> bool) \<Rightarrow> ('b \<Rightarrow> 'c result \<Rightarrow> bool) \<Rightarrow> 'a \<Rightarrow> 'c result \<Rightarrow> bool" where
  "outcome_bind P Q x r \<longleftrightarrow> (\<exists>o1. P x o1 \<and> (case o1 of Inl e \<Rightarrow> r = Inl e | Inr y \<Rightarrow> Q y r))"

lemma list_all2_oks_bind:
  "list_all2 P xs opts \<Longrightarrow> list_all2 Q (oks opts) outs \<Longrightarrow>
   \<exists>res. oks outs = oks res \<and> list_all2 (outcome_bind P Q) xs res"
proof (induction xs opts arbitrary: outs rule: list_all2_induct)
  case Nil
  then show ?case by simp
next
  case (Cons x xs o1 opts)
  show ?case
  proof (cases o1)
    case (Inl e)
    then obtain res where res: "oks outs = oks res" "list_all2 (outcome_bind P Q) xs res"
      using Cons.IH [of outs] Cons.prems by auto
    have "outcome_bind P Q x (Inl e)" using Cons.hyps(1) Inl by (force simp: outcome_bind_def)
    then show ?thesis using res by (intro exI [of _ "Inl e # res"]) simp
  next
    case (Inr y)
    then obtain r outs' where outs: "outs = r # outs'" "Q y r" "list_all2 Q (oks opts) outs'"
      using Cons.prems by (auto simp: list_all2_Cons1)
    then obtain res where res: "oks outs' = oks res" "list_all2 (outcome_bind P Q) xs res"
      using Cons.IH [of outs'] by auto
    have "outcome_bind P Q x r" using Cons.hyps(1) Inr outs(2) by (force simp: outcome_bind_def)
    then show ?thesis
      using outs(1) res by (intro exI [of _ "r # res"]) (cases r; simp)
  qed
qed

lemma pipe_oks:
  "\<exists>res. fst (pipe (step_all fn1) (step_all fn2) w xs) = oks res \<and>
     list_all2 (\<lambda>x r. \<exists>v1 v2. r = (case fst (fn1 v1 x) of Inl e \<Rightarrow> Inl e | Inr y \<Rightarrow> fst (fn2 v2 y))) xs res"
proof -
  obtain ys v' where ys: "step_all fn1 (fst w) xs = (ys, v')" by fastforce
  obtain opts where opts: "ys = oks opts" "list_all2 (\<lambda>x r. \<exists>v. r = fst (fn1 v x)) xs opts"
    using step_all_oks [of fn1 "fst w" xs] ys by auto
  obtain outs where outs: "fst (step_all fn2 (snd w) ys) = oks outs"
      "list_all2 (\<lambda>y r. \<exists>v. r = fst (fn2 v y)) ys outs"
    using step_all_oks [of fn2 "snd w" ys] by auto
  from list_all2_oks_bind [OF opts(2) outs(2) [unfolded opts(1)]]
  obtain res where res: "oks outs = oks res"
    "list_all2 (outcome_bind (\<lambda>x r. \<exists>v. r = fst (fn1 v x)) (\<lambda>y r. \<exists>v. r = fst (fn2 v y))) xs res"
    by blast
  have "\<exists>v1 v2. r = (case fst (fn1 v1 x) of Inl e \<Rightarrow> Inl e | Inr y \<Rightarrow> fst (fn2 v2 y))"
    if bind: "outcome_bind (\<lambda>x r. \<exists>v. r = fst (fn1 v x)) (\<lambda>y r. \<exists>v. r = fst (fn2 v y)) x r" for x r
  proof -
    obtain v where v: "case fst (fn1 v x) of Inl e \<Rightarrow> r = Inl e | Inr y \<Rightarrow> \<exists>v2. r = fst (fn2 v2 y)"
      using bind unfolding outcome_bind_def by blast
    show ?thesis using v by (intro exI [of _ v]) (cases "fst (fn1 v x)"; simp)
  qed
  then have "list_all2 (\<lambda>x r. \<exists>v1 v2. r = (case fst (fn1 v1 x) of Inl e \<Rightarrow> Inl e | Inr y \<Rightarrow> fst (fn2 v2 y))) xs res"
    by (rule list_all2_mono [OF res(2)])
  moreover have "fst (pipe (step_all fn1) (step_all fn2) w xs) = oks res"
    using ys outs(1) res(1) by (simp add: pipe_def case_prod_beta)
  ultimately show ?thesis by blast
qed

section \<open>The goroutine\<close>

text \<open>
  \<open>AtRange\<close>: at the head of \<open>for s := range inputCh\<close>; \<open>HasValue v\<close>: at the send of \<open>v\<close>;
  \<open>StepDone\<close>: returned, the deferred \<open>close(outputCh)\<close> done. \<open>sent\<close> and \<open>taken\<close> record
  what the producer has sent to the stage and what the consumer has taken from it.
\<close>

datatype 'b step_pc = AtRange | HasValue 'b | StepDone

record ('w, 'a, 'b) step_state =
  inputCh :: "'a chan"
  outputCh :: "'b chan"
  pc :: "'b step_pc"
  fn_world :: 'w
  sent :: "'a list"
  taken :: "'b list"

definition chBuffer :: nat where "chBuffer = 10"

definition Step :: "'a chan \<Rightarrow> 'w \<Rightarrow> ('w, 'a, 'b) step_state" where
  "Step inputChannel w =
     \<lparr>inputCh = inputChannel, outputCh = make_chan chBuffer, pc = AtRange, fn_world = w,
      sent = buf inputChannel, taken = []\<rparr>"

text \<open>The moves of the goroutine itself.\<close>

fun goroutine :: "('w, 'a, 'b) stage_fn \<Rightarrow> ('w, 'a, 'b) step_state \<Rightarrow> ('w, 'a, 'b) step_state option" where
  "goroutine fn s =
     (case pc s of
        AtRange \<Rightarrow>
          (case chan_recv (inputCh s) of
             RecvBlocks \<Rightarrow> None
           | RecvClosed \<Rightarrow> Some (s\<lparr>pc := StepDone, outputCh := chan_close (outputCh s)\<rparr>)
           | Received x c \<Rightarrow>
               (case fn (fn_world s) x of
                  (Inl err, w) \<Rightarrow> Some (s\<lparr>inputCh := c, fn_world := w\<rparr>)
                | (Inr val, w) \<Rightarrow> Some (s\<lparr>inputCh := c, fn_world := w, pc := HasValue val\<rparr>)))
      | HasValue v \<Rightarrow>
          (case chan_send (outputCh s) v of
             Sent c \<Rightarrow> Some (s\<lparr>outputCh := c, pc := AtRange\<rparr>)
           | _ \<Rightarrow> None)
      | StepDone \<Rightarrow> None)"

text \<open>The consumer takes a value. The producer sends a value or closes the channel.\<close>

fun consumer :: "('w, 'a, 'b) step_state \<Rightarrow> ('w, 'a, 'b) step_state option" where
  "consumer s =
     (case chan_recv (outputCh s) of
        Received v c \<Rightarrow> Some (s\<lparr>outputCh := c, taken := taken s @ [v]\<rparr>)
      | _ \<Rightarrow> None)"

inductive inner_step :: "('w, 'a, 'b) stage_fn \<Rightarrow> ('w, 'a, 'b) step_state \<Rightarrow> ('w, 'a, 'b) step_state \<Rightarrow> bool"
  for fn where
  by_goroutine: "goroutine fn s = Some s' \<Longrightarrow> inner_step fn s s'"
| by_consumer: "consumer s = Some s' \<Longrightarrow> inner_step fn s s'"

inductive stage_step :: "('w, 'a, 'b) stage_fn \<Rightarrow> ('w, 'a, 'b) step_state \<Rightarrow> ('w, 'a, 'b) step_state \<Rightarrow> bool"
  for fn where
  inner: "inner_step fn s s' \<Longrightarrow> stage_step fn s s'"
| producer_sends: "chan_send (inputCh s) x = Sent c \<Longrightarrow>
    stage_step fn s (s\<lparr>inputCh := c, sent := sent s @ [x]\<rparr>)"
| producer_closes: "\<not> closed (inputCh s) \<Longrightarrow> stage_step fn s (s\<lparr>inputCh := chan_close (inputCh s)\<rparr>)"

declare goroutine.simps [simp del] and consumer.simps [simp del]

lemmas stage_moves = goroutine.simps consumer.simps

inductive_cases inner_stepE: "inner_step fn s s'"
inductive_cases stage_stepE: "stage_step fn s s'"

inductive stage_reachable :: "('w, 'a, 'b) stage_fn \<Rightarrow> ('w, 'a, 'b) step_state \<Rightarrow> ('w, 'a, 'b) step_state \<Rightarrow> bool"
  for fn where
  stage_init: "stage_reachable fn s s"
| stage_next: "stage_reachable fn s t \<Longrightarrow> stage_step fn t u \<Longrightarrow> stage_reachable fn s u"

section \<open>The invariant\<close>

fun pending :: "'b step_pc \<Rightarrow> 'b list" where
  "pending (HasValue v) = [v]"
| "pending _ = []"

text \<open>
  What is taken, what waits in the output and what is about to be sent, followed by what the
  function will make of the rest of the input, is what the function makes of all the input.
\<close>

definition stage_inv :: "('w, 'a, 'b) stage_fn \<Rightarrow> 'w \<Rightarrow> ('w, 'a, 'b) step_state \<Rightarrow> bool" where
  "stage_inv fn w s \<longleftrightarrow>
     fst (step_all fn w (sent s)) =
       taken s @ buf (outputCh s) @ pending (pc s) @ fst (step_all fn (fn_world s) (buf (inputCh s))) \<and>
     snd (step_all fn w (sent s)) = snd (step_all fn (fn_world s) (buf (inputCh s))) \<and>
     length (buf (outputCh s)) \<le> chBuffer \<and> capacity (outputCh s) = chBuffer \<and>
     (closed (outputCh s) \<longleftrightarrow> pc s = StepDone) \<and>
     (pc s = StepDone \<longrightarrow> buf (inputCh s) = [] \<and> closed (inputCh s))"

lemma stage_inv_init: "stage_inv fn w (Step c w)"
  by (simp add: stage_inv_def Step_def)

lemma stage_inv_goroutine: "goroutine fn s = Some s' \<Longrightarrow> stage_inv fn w s \<Longrightarrow> stage_inv fn w s'"
  by (cases "pc s")
     (auto simp: stage_inv_def chan_iffs chan_close_def Let_def stage_moves
       split: recv_outcome.splits send_outcome.splits prod.splits sum.splits)

lemma stage_inv_consumer: "consumer s = Some s' \<Longrightarrow> stage_inv fn w s \<Longrightarrow> stage_inv fn w s'"
  by (auto simp: stage_inv_def chan_iffs stage_moves split: recv_outcome.splits)

lemma stage_inv_step: "stage_step fn s s' \<Longrightarrow> stage_inv fn w s \<Longrightarrow> stage_inv fn w s'"
proof (induction rule: stage_step.induct)
  case (inner s s')
  then show ?case by (blast elim: inner_stepE intro: stage_inv_goroutine stage_inv_consumer)
next
  case (producer_sends s x c)
  then show ?case
    by (auto simp: stage_inv_def chan_iffs step_all_append Let_def split: prod.splits)
next
  case (producer_closes s)
  then show ?case by (auto simp: stage_inv_def chan_close_def)
qed

lemma stage_inv_reachable: "stage_reachable fn s t \<Longrightarrow> stage_inv fn w s \<Longrightarrow> stage_inv fn w t"
  by (induction rule: stage_reachable.induct) (auto intro: stage_inv_step)

section \<open>Progress\<close>

text \<open>Every move of the goroutine or of the consumer brings the stage nearer to its end.\<close>

definition work_left :: "('w, 'a, 'b) step_state \<Rightarrow> nat" where
  "work_left s =
     3 * length (buf (inputCh s)) + 2 * length (pending (pc s)) + length (buf (outputCh s)) +
     (if pc s = StepDone then 0 else 1)"

lemma goroutine_decreases: "goroutine fn s = Some s' \<Longrightarrow> work_left s' < work_left s"
  by (cases "pc s")
     (auto simp: work_left_def chan_iffs chan_close_def stage_moves
       split: recv_outcome.splits send_outcome.splits prod.splits sum.splits)

lemma consumer_decreases: "consumer s = Some s' \<Longrightarrow> work_left s' < work_left s"
  by (auto simp: work_left_def chan_iffs stage_moves split: recv_outcome.splits)

lemma inner_step_decreases: "inner_step fn s s' \<Longrightarrow> work_left s' < work_left s"
  by (auto elim!: inner_stepE intro: goroutine_decreases consumer_decreases)

lemma inner_step_exists:
  assumes "stage_inv fn w s" "closed (inputCh s)" "pc s \<noteq> StepDone"
  shows "\<exists>s'. inner_step fn s s'"
proof (cases "buf (outputCh s)")
  case (Cons v vs)
  then have "\<exists>s'. consumer s = Some s'" by (simp add: chan_recv_def consumer.simps)
  then show ?thesis by (blast intro: by_consumer)
next
  case Nil
  have "\<exists>s'. goroutine fn s = Some s'"
    using assms Nil
    by (cases "pc s")
       (auto simp: stage_inv_def chan_send_def chan_recv_def chBuffer_def goroutine.simps
         split: recv_outcome.splits list.splits prod.splits sum.splits)
  then show ?thesis by (blast intro: by_goroutine)
qed

section \<open>Properties\<close>

text \<open>
  C8. Whatever the interleaving of producer, stage and consumer, the consumer has received a
  prefix of what the function makes of the values sent, in their order, nothing lost, duplicated
  or sent on a closed channel, with at most ten values waiting; and once the stage is done, all
  of it has been received or waits in the closed output.
\<close>

theorem Step_delivers_in_order:
  assumes "stage_reachable fn (Step (make_chan n) w) s"
  shows "prefix (taken s @ buf (outputCh s)) (fst (step_all fn w (sent s))) \<and>
    length (buf (outputCh s)) \<le> chBuffer \<and>
    (\<forall>v. pc s = HasValue v \<longrightarrow> chan_send (outputCh s) v \<noteq> SendPanics) \<and>
    (pc s = StepDone \<longrightarrow> closed (outputCh s) \<and>
      (taken s @ buf (outputCh s), fn_world s) = step_all fn w (sent s))"
proof -
  have inv: "stage_inv fn w s" using stage_inv_reachable [OF assms stage_inv_init] .
  have "prefix (taken s @ buf (outputCh s)) (fst (step_all fn w (sent s)))"
    using inv unfolding stage_inv_def prefix_def by auto
  moreover have "(taken s @ buf (outputCh s), fn_world s) = step_all fn w (sent s)" if "pc s = StepDone"
    using inv that by (auto simp: stage_inv_def intro: prod_eqI)
  ultimately show ?thesis using inv by (auto simp: stage_inv_def chan_send_def)
qed

definition half :: "unit \<Rightarrow> nat \<Rightarrow> nat result \<times> unit" where
  "half w n = (if even n then Inr (n div 2) else Inl (Errorf ''odd''), w)"

lemma Step_delivers_in_order_witness:
  "stage_reachable half (Step (make_chan 2) ())
     \<lparr>inputCh = (make_chan 2)\<lparr>buf := [5]\<rparr>, outputCh = make_chan chBuffer, pc = HasValue 2,
      fn_world = (), sent = [4, 5], taken = []\<rparr> \<and>
   chan_send ((make_chan chBuffer) :: nat chan) 2 \<noteq> SendPanics"
proof -
  let ?c = "make_chan 2 :: nat chan"
  let ?start = "Step ?c () :: (unit, nat, nat) step_state"
  let ?s = "\<lparr>inputCh = ?c\<lparr>buf := [5]\<rparr>, outputCh = make_chan chBuffer, pc = HasValue 2,
      fn_world = (), sent = [4, 5], taken = []\<rparr>"
  have "stage_step half ?start (?start\<lparr>inputCh := ?c\<lparr>buf := [4]\<rparr>, sent := [4]\<rparr>)" (is "stage_step _ _ ?onesent")
    using producer_sends [of ?start 4 "?c\<lparr>buf := [4]\<rparr>" half] by (simp add: Step_def chan_iffs)
  moreover have "stage_step half ?onesent (?start\<lparr>inputCh := ?c\<lparr>buf := [4, 5]\<rparr>, sent := [4, 5]\<rparr>)" (is "stage_step _ _ ?twosent")
    using producer_sends [of ?onesent 5 "?c\<lparr>buf := [4, 5]\<rparr>" half] by (simp add: Step_def chan_iffs)
  moreover have "stage_step half ?twosent ?s"
    by (rule inner, rule by_goroutine) (simp add: Step_def chan_recv_def half_def goroutine.simps)
  ultimately have r: "stage_reachable half ?start ?s"
    by (blast intro: stage_next stage_init)
  show ?thesis using Step_delivers_in_order [OF r] r by simp
qed



end
