(* ===== verification/Publisher_Model.thy ===== *)
theory Publisher_Model
  imports Config_Model
begin

text \<open>
  \<open>flavors/publisher.go\<close> and \<open>flavors/repeater.go\<close>. A \<open>select\<close> loop is a recursion over the
  sequence of the cases that it picks: the sequence is arbitrary, since the environment and the
  scheduler decide what is ready and what is picked. A loop for which the sequence runs out is
  still waiting.
\<close>

section \<open>The publisher\<close>

definition flushInterval :: int where "flushInterval = 10 * time_Second"
definition eventsThreshold :: int where "eventsThreshold = 75"

record publisher =
  interval :: int
  threshold :: int

definition NewPublisher :: "int \<Rightarrow> int \<Rightarrow> publisher" where
  "NewPublisher i t = \<lparr>interval = i, threshold = t\<rparr>"

text \<open>The cases of the \<open>select\<close>; a receive that reports a closed channel is \<open>ChClosed\<close>.\<close>

datatype 'e pub_event = PubCtxDone | FlushTick | Events "'e list" | ChClosed

text \<open>\<open>publish\<close> hands a batch to the client (appended to the batches handed over so far).\<close>

definition publish :: "'e list \<Rightarrow> 'e list list \<Rightarrow> 'e list \<times> 'e list list" where
  "publish events batches = (if events = [] then (events, batches) else ([], batches @ [events]))"

datatype 'e pub_outcome = HandleReturned | HandleWaiting "'e list"

fun HandleEvents ::
  "publisher \<Rightarrow> 'e pub_event list \<Rightarrow> 'e list \<Rightarrow> 'e list list \<Rightarrow> 'e list list \<times> 'e pub_outcome" where
  "HandleEvents p [] eventsToSend batches = (batches, HandleWaiting eventsToSend)"
| "HandleEvents p (PubCtxDone # es) eventsToSend batches =
     (snd (publish eventsToSend batches), HandleReturned)"
| "HandleEvents p (FlushTick # es) eventsToSend batches =
     (if length eventsToSend = 0 then HandleEvents p es eventsToSend batches
      else let (rest, batches') = publish eventsToSend batches in HandleEvents p es rest batches')"
| "HandleEvents p (ChClosed # es) eventsToSend batches =
     (snd (publish eventsToSend batches), HandleReturned)"
| "HandleEvents p (Events event # es) eventsToSend batches =
     (let eventsToSend' = eventsToSend @ event
      in if int (length eventsToSend') < threshold p then HandleEvents p es eventsToSend' batches
         else let (rest, batches') = publish eventsToSend' batches in HandleEvents p es rest batches')"

text \<open>What the loop reads from the channel before it returns.\<close>

fun events_read :: "'e pub_event list \<Rightarrow> 'e list list" where
  "events_read [] = []"
| "events_read (Events event # es) = event # events_read es"
| "events_read (FlushTick # es) = events_read es"
| "events_read (PubCtxDone # es) = []"
| "events_read (ChClosed # es) = []"

fun pub_ends :: "'e pub_event list \<Rightarrow> bool" where
  "pub_ends [] = False"
| "pub_ends (e # es) = (e = PubCtxDone \<or> e = ChClosed \<or> pub_ends es)"

fun waiting :: "'e pub_outcome \<Rightarrow> 'e list" where
  "waiting HandleReturned = []"
| "waiting (HandleWaiting xs) = xs"

lemma publish_concat: "publish xs bs = (ys, cs) \<Longrightarrow> ys = [] \<and> concat cs = concat bs @ xs"
  by (auto simp: publish_def split: if_splits)

lemma publish_nonempty: "publish xs bs = (ys, cs) \<Longrightarrow> [] \<notin> set bs \<Longrightarrow> [] \<notin> set cs"
  by (auto simp: publish_def split: if_splits)

lemma HandleEvents_concat:
  "HandleEvents p es xs bs = (cs, out) \<Longrightarrow>
   concat cs @ waiting out = concat bs @ xs @ concat (events_read es)"
  by (induction p es xs bs rule: HandleEvents.induct)
     (auto simp: Let_def publish_def split: if_splits)

lemma HandleEvents_nonempty:
  "HandleEvents p es xs bs = (cs, out) \<Longrightarrow> [] \<notin> set bs \<Longrightarrow> [] \<notin> set cs"
  by (induction p es xs bs rule: HandleEvents.induct)
     (auto simp: Let_def publish_def split: if_splits)

lemma HandleEvents_returns: "snd (HandleEvents p es xs bs) = HandleReturned \<longleftrightarrow> pub_ends es"
  by (induction p es xs bs rule: HandleEvents.induct)
     (auto simp: Let_def publish_def split: if_splits)

text \<open>
  A buffer that starts below the threshold stays below it, and a batch exceeds it by less than
  what was read last.
\<close>

lemma HandleEvents_bound:
  assumes "HandleEvents p es xs bs = (cs, out)" "int (length xs) < threshold p"
    and "\<forall>ev\<in>set (events_read es). int (length ev) \<le> n"
    and "\<forall>b\<in>set bs. int (length b) < threshold p + n" "0 \<le> n"
  shows "(\<forall>b\<in>set cs. int (length b) < threshold p + n) \<and> int (length (waiting out)) < threshold p"
  using assms
  by (induction p es xs bs rule: HandleEvents.induct)
     (auto simp: Let_def publish_def split: if_splits)

section \<open>The repeater\<close>

datatype repeat_event = RepCtxDone | Immediate | Tick

datatype repeat_outcome = RepReturned "go_error option" | RepWaiting

text \<open>\<open>fn\<close> is the function of an iteration, acting on the state \<open>'w\<close>.\<close>

fun Repeater_Run ::
  "('w \<Rightarrow> go_error option \<times> 'w) \<Rightarrow> repeat_event list \<Rightarrow> 'w \<Rightarrow> repeat_outcome \<times> 'w" where
  "Repeater_Run fn [] w = (RepWaiting, w)"
| "Repeater_Run fn (e # es) w =
     (if e = RepCtxDone then (RepReturned None, w)
      else case fn w of
             (Some err, w') \<Rightarrow> (RepReturned (Some err), w')
           | (None, w') \<Rightarrow> Repeater_Run fn es w')"

text \<open>The same iterations one by one, none after an error or the end of the context.\<close>

fun iterate :: "('w \<Rightarrow> go_error option \<times> 'w) \<Rightarrow> nat \<Rightarrow> 'w \<Rightarrow> 'w" where
  "iterate fn 0 w = w"
| "iterate fn (Suc n) w = iterate fn n (snd (fn w))"

fun good_iterations :: "('w \<Rightarrow> go_error option \<times> 'w) \<Rightarrow> nat \<Rightarrow> 'w \<Rightarrow> bool" where
  "good_iterations fn 0 w = True"
| "good_iterations fn (Suc n) w = (fst (fn w) = None \<and> good_iterations fn n (snd (fn w)))"

lemma Repeater_Run_ticks:
  assumes "good_iterations fn (length ticks) w" "RepCtxDone \<notin> set ticks"
  shows "Repeater_Run fn (ticks @ es) w = Repeater_Run fn es (iterate fn (length ticks) w)"
  using assms by (induction ticks arbitrary: w) (auto split: prod.splits)

section \<open>Properties\<close>

text \<open>
  C7. The publisher neither loses, duplicates nor reorders events: the batches handed to the
  client, followed by what waits in the buffer, are exactly the events read from the channel, in
  order; no batch is empty; and the loop returns, with nothing left in the buffer, exactly when
  the context is done or the channel closed.
\<close>

theorem HandleEvents_loses_nothing:
  "(let (batches, out) = HandleEvents p es [] []
    in concat batches @ waiting out = concat (events_read es) \<and> [] \<notin> set batches \<and>
       (out = HandleReturned \<longleftrightarrow> pub_ends es))"
  using HandleEvents_concat [of p es "[]" "[]"] HandleEvents_nonempty [of p es "[]" "[]"]
    HandleEvents_returns [of p es "[]" "[]"]
  by (cases "HandleEvents p es [] []") simp

text \<open>
  The buffer of the publisher stays below its threshold, and a batch exceeds the threshold by
  less than the size of one read: with reads of at most \<open>n\<close> events, no batch has
  \<open>eventsThreshold + n\<close> events.
\<close>

lemma HandleEvents_batch_bound:
  assumes "\<forall>ev\<in>set (events_read es). int (length ev) \<le> n" "0 \<le> n"
    and "HandleEvents (NewPublisher flushInterval eventsThreshold) es [] [] = (batches, out)"
  shows "(\<forall>b\<in>set batches. int (length b) < eventsThreshold + n) \<and>
    int (length (waiting out)) < eventsThreshold"
  using HandleEvents_bound [OF assms(3) _ _ _ assms(2)] assms(1)
  by (simp add: NewPublisher_def eventsThreshold_def)

lemma HandleEvents_batch_bound_witness:
  "\<exists>batches out. HandleEvents (NewPublisher flushInterval eventsThreshold)
      [Events (replicate 74 (0::nat)), Events (replicate 3 1), Events [2], FlushTick] [] [] = (batches, out) \<and>
    (\<forall>b\<in>set batches. int (length b) < 149)"
proof -
  let ?es = "[Events (replicate 74 (0::nat)), Events (replicate 3 1), Events [2], FlushTick]"
  obtain batches out where run:
      "HandleEvents (NewPublisher flushInterval eventsThreshold) ?es [] [] = (batches, out)"
    by fastforce
  show ?thesis
    using HandleEvents_batch_bound [OF _ _ run, of 74] run
    by (auto simp: eventsThreshold_def)
qed

end
