(* ===== verification/Vuln_Types.thy ===== *)
theory Vuln_Types
  imports GoText
begin

text \<open>
  The types of \<open>vulnerability/events_creator.go\<close>: what the scanner reports (the fields of trivy's
  values that the code reads) and the sections of a vulnerability event. A CVSS score, which has one
  decimal digit, is kept as its number of tenths.
\<close>

type_synonym tenths = int

section \<open>What the scanner reports\<close>

record db_cvss =
  db_V2Vector :: string
  db_V3Vector :: string
  db_V2Score :: tenths
  db_V3Score :: tenths

record db_data_source =
  db_ID :: string
  db_Name :: string
  db_URL :: string

text \<open>The map from sources to CVSS values is an association list with distinct keys.\<close>

record detected_vulnerability =
  VulnerabilityID :: string
  PkgName :: string
  InstalledVersion :: string
  FixedVersion :: string
  DataSource :: "db_data_source option"
  PrimaryURL :: string
  dv_Title :: string
  dv_Description :: string
  dv_Severity :: string
  CweIDs :: "string list"
  dv_CVSS :: "(string \<times> db_cvss) list"
  PublishedDate :: "int option"

record report_result =
  rep_Target :: string
  rep_Class :: string
  rep_Type :: string

section \<open>The sections of an event\<close>

record service_section =
  service_Name :: string

record instance_section =
  instance_Id :: string
  instance_Name :: string

record auth_info =
  Key :: "string option"

record machine_section =
  machine_Type :: string
  Authentication :: auth_info
  machine_LaunchTime :: "int option"
  Image :: "string option"

record security_section =
  security_Groups :: "(string option \<times> string option) list"

record cloud_section =
  cloud_Service :: service_section
  Machine :: machine_section
  cloud_Tags :: "(string \<times> string) list"
  cloud_AvailabilityZone :: "string option"
  cloud_Region :: string
  cloud_Instance :: instance_section
  Security :: security_section

record network_section =
  PrivateIp :: "string option"
  PublicIp :: "string option"
  net_MacAddresses :: "string list"

record os_section =
  Platform :: "string option"

record host_section =
  host_Architecture :: string
  Os :: os_section
  host_Name :: string

record cvss =
  V2Vector :: string
  V3Vector :: string
  V2Score :: tenths
  V3Score :: tenths

record data_source =
  ds_ID :: string
  ds_Name :: string
  ds_URL :: string

record package =
  pkg_Version :: string
  pkg_Name :: string
  pkg_Type :: string
  pkg_Path :: string
  pkg_FixedVersion :: string

record scanner =
  scanner_Version :: string
  Vendor :: string

record score =
  Base :: tenths
  score_Version :: string

record vulnerability_section =
  vs_Cvss :: "(string \<times> cvss) list"
  vs_DataSource :: "data_source option"
  vs_Scanner :: scanner
  vs_Score :: score
  vs_Package :: package
  Cwe :: "string list"
  vs_ID :: string
  vs_Title :: string
  Enumeration :: string
  Reference :: string
  vs_Description :: string
  vs_Severity :: string
  Classification :: string
  vs_PublishedDate :: "int option"
  ReportId :: int
  vs_Class :: string
  vs_Category :: string

record resource_section =
  rs_ID :: string
  rs_Name :: string

end
