(* ===== verification/Data_Model.thy ===== *)
theory Data_Model
  imports GoText Cycle_Cache Vuln_Types
begin

text \<open>
  The data that the components exchange: the types of \<open>resources/fetching/fetcher.go\<close>
  (resources, their metadata, the names of their types), of \<open>evaluator/evaluator.go\<close> (rules,
  findings, event data), \<open>version/version.go\<close>, the events of libbeat with the two operations the
  code uses on them, and \<open>resources/utils/strings/strings.go\<close>.
\<close>

section \<open>Values\<close>

text \<open>A value of type \<open>any\<close> as the code builds or inspects it; \<open>VOpaque\<close> is a value of an SDK.\<close>

datatype any =
    VNil
  | VStr string
  | VInt int
  | VBool bool
  | VList "any list"
  | VMap "(string \<times> any) list"
  | VOpaque string

section \<open>Strings\<close>

fun FirstNonEmpty :: "string list \<Rightarrow> string" where
  "FirstNonEmpty [] = []"
| "FirstNonEmpty (arg # args) = (if arg \<noteq> [] then arg else FirstNonEmpty args)"

definition Dereference :: "string option \<Rightarrow> string" where
  "Dereference s = (case s of None \<Rightarrow> [] | Some v \<Rightarrow> v)"

definition FromMap :: "(string \<times> any) list \<Rightarrow> string \<Rightarrow> string" where
  "FromMap data key = (case map_of data key of Some (VStr v) \<Rightarrow> v | _ \<Rightarrow> [])"

lemma FirstNonEmpty_empty_iff [simp]: "FirstNonEmpty args = [] \<longleftrightarrow> (\<forall>a\<in>set args. a = [])"
  by (induction args) auto

lemma FirstNonEmpty_two: "FirstNonEmpty [a, b] = (if a = [] then b else a)"
  by simp

section \<open>Maps as association lists\<close>

text \<open>\<open>m[k] = v\<close> and \<open>delete (m, k)\<close> on a map kept as an association list with distinct keys.\<close>

definition map_put :: "string \<Rightarrow> 'v \<Rightarrow> (string \<times> 'v) list \<Rightarrow> (string \<times> 'v) list" where
  "map_put k v m = (k, v) # filter (\<lambda>e. fst e \<noteq> k) m"

definition map_delete :: "string \<Rightarrow> (string \<times> 'v) list \<Rightarrow> (string \<times> 'v) list" where
  "map_delete k m = filter (\<lambda>e. fst e \<noteq> k) m"

lemma map_of_filter_key: "map_of (filter (\<lambda>e. fst e \<noteq> k) m) j = (if j = k then None else map_of m j)"
  by (induction m) auto

lemma map_of_map_put [simp]: "map_of (map_put k v m) = (map_of m)(k \<mapsto> v)"
  by (auto simp: map_put_def map_of_filter_key)

lemma map_of_map_delete [simp]: "map_of (map_delete k m) = (map_of m)(k := None)"
  by (auto simp: map_delete_def map_of_filter_key)

lemma distinct_map_put: "distinct (map fst m) \<Longrightarrow> distinct (map fst (map_put k v m))"
  by (induction m) (auto simp: map_put_def)

text \<open>\<open>m[k] = append (m[k], x)\<close> on a map of slices: the missing slice is nil.\<close>

definition map_append :: "string \<Rightarrow> 'a \<Rightarrow> (string \<times> 'a list) list \<Rightarrow> (string \<times> 'a list) list" where
  "map_append k x m = map_put k ((case map_of m k of None \<Rightarrow> [] | Some xs \<Rightarrow> xs) @ [x]) m"

lemma map_of_map_append [simp]:
  "map_of (map_append k x m) = (map_of m)(k \<mapsto> (case map_of m k of None \<Rightarrow> [] | Some xs \<Rightarrow> xs) @ [x])"
  by (simp add: map_append_def)

lemma distinct_map_append [simp]: "distinct (map fst m) \<Longrightarrow> distinct (map fst (map_append k x m))"
  by (simp add: map_append_def distinct_map_put)

text \<open>\<open>lo.GroupBy\<close>: the groups of a key, each in the order of the elements.\<close>

definition group_by :: "('a \<Rightarrow> string) \<Rightarrow> 'a list \<Rightarrow> (string \<times> 'a list) list" where
  "group_by key xs = fold (\<lambda>x. map_append (key x) x) xs []"

definition group_at :: "(string \<times> 'a list) list \<Rightarrow> string \<Rightarrow> 'a list" where
  "group_at m k = (case map_of m k of None \<Rightarrow> [] | Some xs \<Rightarrow> xs)"

lemma group_by_groups:
  "distinct (map fst (group_by key xs))"
  "map_of (group_by key xs) = (\<lambda>k. let g = filter (\<lambda>x. key x = k) xs in if g = [] then None else Some g)"
proof -
  define g where "g = (\<lambda>xs k. let ys = filter (\<lambda>x. key x = k) xs in if ys = [] then None else Some (ys :: 'a list))"
  have "distinct (map fst m) \<Longrightarrow> map_of m = g seen \<Longrightarrow>
      distinct (map fst (fold (\<lambda>x. map_append (key x) x) xs m)) \<and>
      map_of (fold (\<lambda>x. map_append (key x) x) xs m) = g (seen @ xs)" for seen m
  proof (induction xs arbitrary: seen m)
    case (Cons x xs)
    have "map_of (map_append (key x) x m) = g (seen @ [x])"
      unfolding map_of_map_append Cons.prems(2) by (auto simp: g_def fun_eq_iff Let_def)
    from Cons.IH [OF _ this] Cons.prems(1) show ?case by simp
  qed simp
  from this [of "[]" "[]"]
  show "distinct (map fst (group_by key xs))"
    "map_of (group_by key xs) = (\<lambda>k. let g = filter (\<lambda>x. key x = k) xs in if g = [] then None else Some g)"
    by (simp_all add: group_by_def g_def fun_eq_iff)
qed

lemma group_at_group_by [simp]: "group_at (group_by key xs) k = filter (\<lambda>x. key x = k) xs"
  by (simp add: group_at_def group_by_groups Let_def)

text \<open>Whatever is made of the groups, element by element, is a multiset with one more element.\<close>

lemma mset_groups_split:
  "distinct (map fst m) \<Longrightarrow> mset (concat (map (\<lambda>(j, xs). map (f j) xs) m)) =
     mset (map (f k) (case map_of m k of None \<Rightarrow> [] | Some xs \<Rightarrow> xs)) +
     mset (concat (map (\<lambda>(j, xs). map (f j) xs) (filter (\<lambda>e. fst e \<noteq> k) m)))"
proof (induction m)
  case (Cons e m)
  have "map_of m k = None \<Longrightarrow> filter (\<lambda>e. fst e \<noteq> k) m = m"
    by (simp add: map_of_eq_None_iff filter_id_conv image_iff) metis
  then show ?case using Cons by (cases e) (auto simp: map_of_eq_None_iff [symmetric])
qed simp

lemma mset_map_append:
  assumes "distinct (map fst m)"
  shows "mset (concat (map (\<lambda>(j, xs). map (f j) xs) (map_append k x m))) =
    add_mset (f k x) (mset (concat (map (\<lambda>(j, xs). map (f j) xs) m)))"
  using mset_groups_split [OF assms, of f k] by (simp add: map_append_def map_put_def)

section \<open>Resource types\<close>

text \<open>The constant block of \<open>fetcher.go\<close>.\<close>

definition fetching_constants :: "(string \<times> string) list" where
  "fetching_constants =
     [(''FileSystemType'', ''file-system''),
      (''KubeAPIType'', ''kube-api''),
      (''ProcessType'', ''process''),
      (''AccessAnalyzers'', ''aws-access-analyzers''),
      (''AwsMonitoringType'', ''aws-monitoring''),
      (''ConfigServiceResourceType'', ''aws-config''),
      (''EBSSnapshotType'', ''aws-ebs-snapshot''),
      (''EBSType'', ''aws-ebs''),
      (''EC2NetworkingType'', ''aws-ec2-network''),
      (''EC2Type'', ''aws-ec2''),
      (''EcrType'', ''aws-ecr''),
      (''ElbType'', ''aws-elb''),
      (''IAMServerCertificateType'', ''aws-iam-server-certificate''),
      (''IAMType'', ''aws-iam''),
      (''IAMUserType'', ''aws-iam-user''),
      (''KmsType'', ''aws-kms''),
      (''MultiTrailsType'', ''aws-multi-trails''),
      (''NetworkNACLType'', ''aws-nacl''),
      (''PolicyType'', ''aws-policy''),
      (''PwdPolicyType'', ''aws-password-policy''),
      (''RdsType'', ''aws-rds''),
      (''S3Type'', ''aws-s3''),
      (''SecurityGroupType'', ''aws-security-group''),
      (''SecurityHubType'', ''aws-securityhub''),
      (''TrailType'', ''aws-trail''),
      (''VpcType'', ''aws-vpc''),
      (''GcpLoggingType'', ''gcp-logging''),
      (''GcpMonitoringType'', ''gcp-monitoring''),
      (''GcpPolicies'', ''gcp-policies''),
      (''GcpServiceUsage'', ''gcp-service-usage''),
      (''AzureActivityLogAlertType'', ''azure-activity-log-alert''),
      (''AzureBastionType'', ''azure-bastion''),
      (''AzureClassicStorageAccountType'', ''azure-classic-storage-account''),
      (''AzureDiagnosticSettingsType'', ''azure-diagnostic-settings''),
      (''AzureDiskType'', ''azure-disk''),
      (''AzureDocumentDBDatabaseAccountType'', ''azure-document-db-database-account''),
      (''AzureInsightsComponentType'', ''azure-insights-component''),
      (''AzureMySQLDBType'', ''azure-mysql-server-db''),
      (''AzureNetworkWatchersFlowLogType'', ''azure-network-watchers-flow-log''),
      (''AzureNetworkWatchersType'', ''azure-network-watcher''),
      (''AzureNetworkSecurityGroupType'', ''azure-network-group''),
      (''AzurePostgreSQLDBType'', ''azure-postgresql-server-db''),
      (''AzureSQLServerType'', ''azure-sql-server''),
      (''AzureStorageAccountType'', ''azure-storage-account''),
      (''AzureVMType'', ''azure-vm''),
      (''AzureVaultType'', ''azure-vault''),
      (''AzureWebSiteType'', ''azure-web-site''),
      (''AzureRoleDefinitionType'', ''azure-role-definition''),
      (''CloudAudit'', ''cloud-audit''),
      (''CloudCompute'', ''cloud-compute''),
      (''CloudConfig'', ''cloud-config''),
      (''CloudContainerMgmt'', ''caas''),
      (''CloudContainerRegistry'', ''container-registry''),
      (''CloudDatabase'', ''cloud-database''),
      (''CloudDns'', ''cloud-dns''),
      (''CloudIdentity'', ''identity-management''),
      (''CloudLoadBalancer'', ''load-balancer''),
      (''CloudStorage'', ''cloud-storage''),
      (''DataProcessing'', ''data-processing''),
      (''KeyManagement'', ''key-management''),
      (''LoggingIdentity'', ''logging''),
      (''MonitoringIdentity'', ''monitoring''),
      (''ProjectManagement'', ''project-management'')]"

abbreviation "FileSystemType \<equiv> ''file-system''"
abbreviation "KubeAPIType \<equiv> ''kube-api''"
abbreviation "ProcessType \<equiv> ''process''"
abbreviation "CloudContainerMgmt \<equiv> ''caas''"
abbreviation "CloudContainerRegistry \<equiv> ''container-registry''"
abbreviation "CloudIdentity \<equiv> ''identity-management''"
abbreviation "CloudLoadBalancer \<equiv> ''load-balancer''"

lemma fetching_constants_distinct:
  "distinct (map fst fetching_constants)" "distinct (map snd fetching_constants)"
  by (simp_all add: fetching_constants_def)

section \<open>Resources\<close>

record cloud_account_metadata =
  AccountId :: string
  AccountName :: string
  OrganisationId :: string
  account_OrganizationName :: string

record resource_metadata = cloud_account_metadata +
  ID :: string
  md_Type :: string
  SubType :: string
  md_Name :: string
  Region :: string

definition no_account :: cloud_account_metadata where
  "no_account = \<lparr>AccountId = [], AccountName = [], OrganisationId = [], account_OrganizationName = []\<rparr>"

text \<open>
  The interface \<open>Resource\<close>: what its three methods answer. A resource that a provider of an SDK
  fills is a value of its own; the fetchers build it.
\<close>

record resource =
  GetMetadata :: "resource_metadata result"
  GetData :: any
  GetElasticCommonData :: "(string \<times> any) list result"

record resource_info = resource +
  CycleMetadata :: metadata

record fetching_result =
  res_Type :: string
  res_SubType :: string
  Resource :: any

record resource_fields =
  fields_Metadata :: resource_metadata
  Raw :: any

section \<open>Findings\<close>

record rule_metadata =
  opa_Version :: string
  CreatedAt :: int

record benchmark_info =
  bench_Id :: string
  bench_Name :: string
  bench_Version :: string
  Rule_Number :: string
  Posture_Type :: string

record rule =
  Id :: string
  rule_Name :: string
  Profile_Applicability :: string
  Description :: string
  Rationale :: string
  Audit :: string
  Remediation :: string
  Impact :: string
  Default_Value :: string
  References :: string
  Section :: string
  rule_Version :: string
  Tags :: "string list"
  rule_Benchmark :: benchmark_info

record eval_result =
  Evaluation :: string
  Expected :: any
  Evidence :: any

record finding =
  Result :: eval_result
  Rule :: rule

record rule_result =
  Findings :: "finding list"
  rr_Metadata :: rule_metadata
  rr_Resource :: any

record event_data =
  RuleResult :: rule_result
  ResourceInfo :: resource_info

section \<open>Versions\<close>

record version =
  v_Version :: string
  CommitHash :: string
  CommitTime :: string

record cloudbeat_version_info =
  version_info :: version
  Policy :: version

section \<open>Events\<close>

record ecs_event =
  Category :: "string list"
  Created :: int
  ecs_ID :: string
  Kind :: string
  ecs_Sequence :: int
  Outcome :: string
  ecs_Type :: "string list"

text \<open>The values that the code puts under the fields of an event.\<close>

datatype field_value =
    FAny any
  | FEvent ecs_event
  | FResource resource_fields
  | FResult eval_result
  | FRule rule
  | FPackage package
  | FVulnerability vulnerability_section
  | FScanned resource_section

type_synonym fields = "(string \<times> field_value) list"

record beat_event =
  Meta :: "(string \<times> string) list"
  Timestamp :: int
  Fields :: fields

text \<open>
  \<open>mapstr.M.Put\<close> and \<open>beat.Event.PutValue\<close> are not under \<open>src/\<close>: they are parameters. Both
  answer an error or nil and the changed map or event.
\<close>

record beat_api =
  fields_Put :: "string \<Rightarrow> any \<Rightarrow> fields \<Rightarrow> go_error option \<times> fields"
  event_PutValue :: "string \<Rightarrow> any \<Rightarrow> beat_event \<Rightarrow> go_error option \<times> beat_event"

text \<open>The first segment of a dotted key.\<close>

definition key_root :: "string \<Rightarrow> string" where
  "key_root k = before_byte CHR ''.'' k"

text \<open>
  The documented behaviour that the proofs use: to put a value under a dotted key touches only
  the top-level field that the key starts with, and \<open>PutValue\<close>, for a key outside of
  \<open>@timestamp\<close> and \<open>@metadata\<close>, is \<open>Put\<close> on the fields.
\<close>

definition put_only_touches_root :: "beat_api \<Rightarrow> bool" where
  "put_only_touches_root api \<longleftrightarrow>
     (\<forall>k v m t. t \<noteq> key_root k \<longrightarrow> map_of (snd (fields_Put api k v m)) t = map_of m t) \<and>
     (\<forall>k v e. key_root k \<notin> {''@timestamp'', ''@metadata''} \<longrightarrow>
        event_PutValue api k v e =
          (let (err, m) = fields_Put api k v (Fields e) in (err, e\<lparr>Fields := m\<rparr>)))"

text \<open>A concrete \<open>Put\<close> with that behaviour: it keeps the flattened keys under their root.\<close>

definition flat_put :: "string \<Rightarrow> any \<Rightarrow> fields \<Rightarrow> go_error option \<times> fields" where
  "flat_put k v m =
     (None, (key_root k, FAny (VMap ((k, v) #
        (case map_of m (key_root k) of Some (FAny (VMap xs)) \<Rightarrow> xs | _ \<Rightarrow> [])))) # m)"

definition flat_api :: beat_api where
  "flat_api =
     \<lparr>fields_Put = flat_put,
      event_PutValue = (\<lambda>k v e. let (err, m) = flat_put k v (Fields e) in (err, e\<lparr>Fields := m\<rparr>))\<rparr>"

lemma flat_api_ok: "put_only_touches_root flat_api"
  by (simp add: put_only_touches_root_def flat_api_def flat_put_def)

lemma put_other_root:
  "put_only_touches_root api \<Longrightarrow> t \<noteq> key_root k \<Longrightarrow> map_of (snd (fields_Put api k v m)) t = map_of m t"
  by (simp add: put_only_touches_root_def)

lemma put_value_is_put:
  assumes "put_only_touches_root api" "key_root k \<notin> {''@timestamp'', ''@metadata''}"
  shows "event_PutValue api k v e =
    (fst (fields_Put api k v (Fields e)), e\<lparr>Fields := snd (fields_Put api k v (Fields e))\<rparr>)"
  using assms by (simp add: put_only_touches_root_def split: prod.splits)

end
