(* ===== verification/Data_Providers.thy ===== *)
theory Data_Providers
  imports Data_Model Config_Model
begin

text \<open>
  The data providers that enrich an event: \<open>dataprovider/enrich.go\<close>, the cloud provider
  (\<open>dataprovider/providers/cloud\<close>), the Kubernetes provider and its id provider
  (\<open>dataprovider/providers/k8s\<close>) and the common data (\<open>dataprovider/providers/common\<close>).
  \<open>mapstructure.Decode\<close>, \<open>uuid.NewV5\<close> and the Kubernetes clients are parameters.
\<close>

section \<open>Enriching an event\<close>

text \<open>\<open>(*Enricher).EnrichEvent\<close>: the map is visited in some order, the first error ends it.\<close>

fun put_values :: "beat_api \<Rightarrow> (string \<times> any) list \<Rightarrow> beat_event \<Rightarrow> go_error option \<times> beat_event" where
  "put_values api [] event = (None, event)"
| "put_values api ((k, v) # ecsData) event =
     (case event_PutValue api k v event of
        (Some err, event') \<Rightarrow> (Some err, event')
      | (None, event') \<Rightarrow> put_values api ecsData event')"

definition Enricher_EnrichEvent ::
  "beat_api \<Rightarrow> (string \<times> any) list result \<Rightarrow> beat_event \<Rightarrow> go_error option \<times> beat_event" where
  "Enricher_EnrichEvent api commonData event =
     (case commonData of
        Inl err \<Rightarrow> (Some err, event)
      | Inr ecsData \<Rightarrow> put_values api ecsData event)"

text \<open>\<open>insert\<close> and \<open>insertIfNotEmpty\<close>, and the arguments of \<open>errors.Join\<close> evaluated in order.\<close>

type_synonym inserter = "beat_event \<Rightarrow> go_error option \<times> beat_event"

definition insert_field :: "beat_api \<Rightarrow> string \<Rightarrow> string \<Rightarrow> inserter" where
  "insert_field api field value event =
     (let (err, m) = fields_Put api field (VStr value) (Fields event) in (err, event\<lparr>Fields := m\<rparr>))"

definition insertIfNotEmpty :: "beat_api \<Rightarrow> string \<Rightarrow> string \<Rightarrow> inserter" where
  "insertIfNotEmpty api field value event =
     (if value \<noteq> []
      then let (err, m) = fields_Put api field (VStr value) (Fields event) in (err, event\<lparr>Fields := m\<rparr>)
      else (None, event))"

fun insert_all :: "inserter list \<Rightarrow> beat_event \<Rightarrow> go_error option list \<times> beat_event" where
  "insert_all [] event = ([], event)"
| "insert_all (i # is) event =
     (let (err, event') = i event; (errs, event'') = insert_all is event' in (err # errs, event''))"

definition join_inserts :: "inserter list \<Rightarrow> inserter" where
  "join_inserts is event = (let (errs, event') = insert_all is event in (errors_join errs, event'))"

section \<open>The cloud provider\<close>

abbreviation "cloudAccountIdField \<equiv> ''cloud.account.id''"
abbreviation "cloudAccountNameField \<equiv> ''cloud.account.name''"
abbreviation "cloudProviderField \<equiv> ''cloud.provider''"
abbreviation "cloudRegionField \<equiv> ''cloud.region''"
abbreviation "cloudOrganizationIdField \<equiv> ''cloud.Organization.id''"
abbreviation "cloudOrganizationNameField \<equiv> ''cloud.Organization.name''"

record identity =
  Provider :: string
  Account :: string
  AccountAlias :: string
  OrganizationId :: string
  OrganizationName :: string

record cloud_data_provider =
  accountId :: string
  accountName :: string
  providerName :: string

definition WithAccount :: "identity \<Rightarrow> cloud_data_provider \<Rightarrow> cloud_data_provider" where
  "WithAccount identity dp =
     dp\<lparr>accountId := Account identity, accountName := AccountAlias identity,
        providerName := Provider identity\<rparr>"

definition cloud_NewDataProvider :: "(cloud_data_provider \<Rightarrow> cloud_data_provider) list \<Rightarrow> cloud_data_provider" where
  "cloud_NewDataProvider options =
     foldl (\<lambda>adp opt. opt adp) \<lparr>accountId = [], accountName = [], providerName = []\<rparr> options"

definition cloud_EnrichEvent ::
  "beat_api \<Rightarrow> cloud_data_provider \<Rightarrow> resource_metadata \<Rightarrow> inserter" where
  "cloud_EnrichEvent api a resMetadata =
     join_inserts
       [insert_field api cloudAccountIdField (FirstNonEmpty [AccountId resMetadata, accountId a]),
        insertIfNotEmpty api cloudAccountNameField (FirstNonEmpty [AccountName resMetadata, accountName a]),
        insertIfNotEmpty api cloudProviderField (providerName a),
        insertIfNotEmpty api cloudRegionField (Region resMetadata),
        insertIfNotEmpty api cloudOrganizationIdField (OrganisationId resMetadata),
        insertIfNotEmpty api cloudOrganizationNameField (account_OrganizationName resMetadata)]"

section \<open>The Kubernetes provider\<close>

abbreviation "clusterNameField \<equiv> ''orchestrator.cluster.name''"
abbreviation "clusterVersionField \<equiv> ''orchestrator.cluster.version''"
abbreviation "clusterIdField \<equiv> ''orchestrator.cluster.id''"
abbreviation "orchestratorType \<equiv> ''orchestrator.type''"
abbreviation "orchestratorName \<equiv> ''kubernetes''"

record k8s_data_provider =
  cluster :: string
  clusterID :: string
  clusterVersion :: string

definition WithClusterVersion :: "string \<Rightarrow> k8s_data_provider \<Rightarrow> k8s_data_provider" where
  "WithClusterVersion v dp = dp\<lparr>clusterVersion := v\<rparr>"
definition WithClusterName :: "string \<Rightarrow> k8s_data_provider \<Rightarrow> k8s_data_provider" where
  "WithClusterName n dp = dp\<lparr>cluster := n\<rparr>"
definition WithClusterID :: "string \<Rightarrow> k8s_data_provider \<Rightarrow> k8s_data_provider" where
  "WithClusterID i dp = dp\<lparr>clusterID := i\<rparr>"

definition k8s_New :: "(k8s_data_provider \<Rightarrow> k8s_data_provider) list \<Rightarrow> k8s_data_provider" where
  "k8s_New options = foldl (\<lambda>kdp opt. opt kdp) \<lparr>cluster = [], clusterID = [], clusterVersion = []\<rparr> options"

definition k8s_EnrichEvent :: "beat_api \<Rightarrow> k8s_data_provider \<Rightarrow> resource_metadata \<Rightarrow> inserter" where
  "k8s_EnrichEvent api k _ =
     join_inserts
       [insertIfNotEmpty api clusterNameField (cluster k),
        insertIfNotEmpty api clusterIdField (clusterID k),
        insertIfNotEmpty api clusterVersionField (clusterVersion k),
        insertIfNotEmpty api orchestratorType orchestratorName]"

text \<open>The id provider; \<open>NewV5\<close> answers the text of the name-based UUID in a namespace.\<close>

record id_provider =
  namespace :: string
  idp_clusterID :: string
  nodeID :: string

abbreviation "ProcessResourceType \<equiv> ''process''"
abbreviation "FSResourceType \<equiv> ''file''"

definition uuidNamespace :: string where
  "uuidNamespace = ''971a1103-6b5d-4b60-ab3d-8a339a58c6c8''"

definition NewIdProvider :: "string \<Rightarrow> string \<Rightarrow> id_provider" where
  "NewIdProvider cluster_id node_id =
     \<lparr>namespace = uuidNamespace, idp_clusterID = cluster_id, nodeID = node_id\<rparr>"

definition getIdInCluster :: "id_provider \<Rightarrow> string \<Rightarrow> string \<Rightarrow> string" where
  "getIdInCluster p resourceType resourceId =
     (if resourceType \<in> {ProcessResourceType, FSResourceType}
      then idp_clusterID p @ nodeID p @ resourceId
      else if resourceType \<in> {CloudContainerMgmt, CloudIdentity, CloudLoadBalancer, CloudContainerRegistry}
      then idp_clusterID p
      else resourceId)"

definition k8s_GetId :: "(string \<Rightarrow> string \<Rightarrow> string) \<Rightarrow> id_provider \<Rightarrow> string \<Rightarrow> string \<Rightarrow> string" where
  "k8s_GetId NewV5 p resourceType resourceId =
     NewV5 (namespace p) (getIdInCluster p resourceType resourceId)"

section \<open>Common data\<close>

text \<open>\<open>decode\<close> is \<open>mapstructure.Decode\<close> of the version information into a map.\<close>

record ('cred, 'proc) common_data_provider =
  info :: "(string \<times> any) list"
  cdp_cfg :: "('cred, 'proc) config option"

definition common_New ::
  "(cloudbeat_version_info \<Rightarrow> (string \<times> any) list result) \<Rightarrow> cloudbeat_version_info \<Rightarrow>
     ('cred, 'proc) config option \<Rightarrow> ('cred, 'proc) common_data_provider result" where
  "common_New decode cloudbeatVersionInfo cfg =
     (case decode cloudbeatVersionInfo of
        Inl err \<Rightarrow> Inl err
      | Inr m \<Rightarrow> Inr \<lparr>info = m, cdp_cfg = cfg\<rparr>)"

definition common_GetElasticCommonData ::
  "('cred, 'proc) common_data_provider \<Rightarrow> (string \<times> any) list result" where
  "common_GetElasticCommonData c =
     Inr ((''cloudbeat'', VMap (info c)) #
       (case cdp_cfg c of
          None \<Rightarrow> []
        | Some cfg \<Rightarrow>
            [(''cloud_security_posture.package_policy'',
              VMap [(''id'', VStr (PackagePolicyId cfg)), (''revision'', VInt (PackagePolicyRevision cfg))])]))"

section \<open>The clients of the Kubernetes provider\<close>

text \<open>
  \<open>KubernetesClusterNameProvider.GetClusterName\<close> and \<open>EKSClusterNameProvider.GetClusterName\<close>:
  the libraries they call are the parameters.
\<close>

definition Kubernetes_GetClusterName ::
  "('cfg \<Rightarrow> 'agentcfg result) \<Rightarrow> ('agentcfg \<Rightarrow> string result) \<Rightarrow> 'cfg \<Rightarrow> string result" where
  "Kubernetes_GetClusterName newConfigFrom getIdentifierName cfg =
     (case newConfigFrom cfg of
        Inl err \<Rightarrow> Inl (Errorf (''failed to create agent config: '' @ error_text err))
      | Inr agentConfig \<Rightarrow>
          (case getIdentifierName agentConfig of
             Inl err \<Rightarrow> Inl (Errorf (''fail to resolve the name of the cluster: '' @ error_text err))
           | Inr clusterName \<Rightarrow> Inr clusterName))"

definition EKS_GetClusterName ::
  "('aws \<Rightarrow> string result) \<Rightarrow> ('aws \<Rightarrow> string \<Rightarrow> string result) \<Rightarrow> 'aws \<Rightarrow> string result" where
  "EKS_GetClusterName getInstanceID getClusterName awsCfg =
     (case getInstanceID awsCfg of
        Inl err \<Rightarrow>
          Inl (Errorf (''failed to get the ec2 metadata required for identifying the cluster name: '' @ error_text err))
      | Inr instanceId \<Rightarrow> getClusterName awsCfg instanceId)"

section \<open>The interface \<open>CommonDataProvider\<close>\<close>

text \<open>
  What the transformer relies on: to enrich an event changes neither its metadata nor its
  timestamp, and of its fields only those under the provider's own top-level names.
\<close>

locale event_enricher =
  fixes enrich :: "beat_api \<Rightarrow> resource_metadata \<Rightarrow> inserter"
    and roots :: "string set"
  assumes enrich_frame: "put_only_touches_root api \<Longrightarrow>
      Meta (snd (enrich api md event)) = Meta event \<and> Timestamp (snd (enrich api md event)) = Timestamp event"
    and enrich_other_root: "put_only_touches_root api \<Longrightarrow> t \<notin> roots \<Longrightarrow>
      map_of (Fields (snd (enrich api md event))) t = map_of (Fields event) t"
begin

lemma enrich_result:
  assumes "put_only_touches_root api" "enrich api md event = (err, event')"
  shows "Meta event' = Meta event" "Timestamp event' = Timestamp event"
    "t \<notin> roots \<Longrightarrow> map_of (Fields event') t = map_of (Fields event) t"
  using enrich_frame [OF assms(1), of md event] enrich_other_root [OF assms(1), of t md event] assms(2)
  by simp_all

end

text \<open>An inserter that changes only the fields under \<open>roots\<close>.\<close>

definition same_outside :: "string set \<Rightarrow> beat_event \<Rightarrow> beat_event \<Rightarrow> bool" where
  "same_outside roots e e' \<longleftrightarrow>
     Meta e' = Meta e \<and> Timestamp e' = Timestamp e \<and>
     (\<forall>t. t \<notin> roots \<longrightarrow> map_of (Fields e') t = map_of (Fields e) t)"

definition only_changes :: "string set \<Rightarrow> inserter \<Rightarrow> bool" where
  "only_changes roots i \<longleftrightarrow> (\<forall>e. same_outside roots e (snd (i e)))"

lemma same_outside_refl [simp]: "same_outside roots e e"
  by (simp add: same_outside_def)

lemma same_outside_trans [trans]:
  "same_outside roots e1 e2 \<Longrightarrow> same_outside roots e2 e3 \<Longrightarrow> same_outside roots e1 e3"
  by (auto simp: same_outside_def)

lemma same_outside_put:
  "put_only_touches_root api \<Longrightarrow> key_root k \<in> roots \<Longrightarrow>
   same_outside roots e (e\<lparr>Fields := snd (fields_Put api k v (Fields e))\<rparr>)"
  by (auto simp: same_outside_def intro!: put_other_root)

lemma only_changes_insert_field:
  "put_only_touches_root api \<Longrightarrow> key_root k \<in> roots \<Longrightarrow> only_changes roots (insert_field api k v)"
  by (simp add: only_changes_def insert_field_def case_prod_beta same_outside_put)

lemma only_changes_insertIfNotEmpty:
  "put_only_touches_root api \<Longrightarrow> key_root k \<in> roots \<Longrightarrow> only_changes roots (insertIfNotEmpty api k v)"
  using only_changes_insert_field [of api k roots v]
  by (auto simp: only_changes_def insertIfNotEmpty_def insert_field_def)

lemma only_changes_all:
  "\<forall>i\<in>set is. only_changes roots i \<Longrightarrow> only_changes roots (join_inserts is)"
proof (induction "is")
  case Nil
  then show ?case by (simp add: only_changes_def join_inserts_def)
next
  case (Cons i "is")
  then have "only_changes roots i" "only_changes roots (join_inserts is)" by auto
  then show ?case
    by (auto simp: only_changes_def join_inserts_def case_prod_beta Let_def intro: same_outside_trans)
qed

lemma key_roots [simp]:
  "key_root cloudAccountIdField = ''cloud''" "key_root cloudAccountNameField = ''cloud''"
  "key_root cloudProviderField = ''cloud''" "key_root cloudRegionField = ''cloud''"
  "key_root cloudOrganizationIdField = ''cloud''" "key_root cloudOrganizationNameField = ''cloud''"
  "key_root clusterNameField = ''orchestrator''" "key_root clusterVersionField = ''orchestrator''"
  "key_root clusterIdField = ''orchestrator''" "key_root orchestratorType = ''orchestrator''"
  "key_root ''cloudbeat'' = ''cloudbeat''"
  "key_root ''cloud_security_posture.package_policy'' = ''cloud_security_posture''"
  by (simp_all add: key_root_def before_byte_def)

lemma only_changes_cloud:
  "put_only_touches_root api \<Longrightarrow> only_changes {''cloud''} (cloud_EnrichEvent api a md)"
  unfolding cloud_EnrichEvent_def
  by (rule only_changes_all) (simp add: only_changes_insert_field only_changes_insertIfNotEmpty)

lemma only_changes_k8s:
  "put_only_touches_root api \<Longrightarrow> only_changes {''orchestrator''} (k8s_EnrichEvent api k md)"
  unfolding k8s_EnrichEvent_def
  by (rule only_changes_all) (simp add: only_changes_insertIfNotEmpty)

interpretation cloud: event_enricher "\<lambda>api. cloud_EnrichEvent api a" "{''cloud''}" for a
  by unfold_locales (use only_changes_cloud in \<open>auto simp: only_changes_def same_outside_def\<close>)

interpretation k8s: event_enricher "\<lambda>api. k8s_EnrichEvent api k" "{''orchestrator''}" for k
  by unfold_locales (use only_changes_k8s in \<open>auto simp: only_changes_def same_outside_def\<close>)

lemma put_values_frame:
  assumes "put_only_touches_root api" "\<forall>k\<in>fst ` set kvs. key_root k \<in> roots"
    "''@timestamp'' \<notin> roots" "''@metadata'' \<notin> roots"
  shows "only_changes roots (put_values api kvs)"
  using assms(2)
proof (induction kvs)
  case Nil
  then show ?case by (simp add: only_changes_def)
next
  case (Cons kv kvs)
  obtain k v where kv: "kv = (k, v)" by fastforce
  have root: "key_root k \<in> roots" using Cons.prems kv by simp
  then have special: "key_root k \<notin> {''@timestamp'', ''@metadata''}" using assms(3,4) by auto
  have "only_changes roots (put_values api kvs)" using Cons by simp
  then have rest: "same_outside roots e (snd (put_values api kvs e))" for e
    by (simp add: only_changes_def)
  note put = same_outside_put [OF assms(1) root]
  show ?case
    using put same_outside_trans [OF put rest] unfolding only_changes_def kv
    by (auto simp: put_value_is_put [OF assms(1) special] split: option.splits)
qed

section \<open>Properties\<close>

text \<open>
  The identifiers of processes and files are unique across nodes and clusters whose ids have
  the same length (they are UUIDs): two of them agree exactly when cluster, node and resource
  agree, whatever the two types; for the cloud types that stand for a whole cluster the
  identifier is that of the cluster, and for all other types that of the resource.
\<close>

lemma getIdInCluster_unique:
  assumes "length c1 = length c2" "length n1 = length n2"
    and "{t1, t2} \<subseteq> {ProcessResourceType, FSResourceType}"
  shows "(getIdInCluster (NewIdProvider c1 n1) t1 r1 = getIdInCluster (NewIdProvider c2 n2) t2 r2 \<longleftrightarrow>
      c1 = c2 \<and> n1 = n2 \<and> r1 = r2) \<and>
    (\<forall>t. t \<in> {CloudContainerMgmt, CloudIdentity, CloudLoadBalancer, CloudContainerRegistry} \<longrightarrow>
      getIdInCluster (NewIdProvider c1 n1) t r1 = c1) \<and>
    (\<forall>t. t \<notin> {ProcessResourceType, FSResourceType, CloudContainerMgmt, CloudIdentity,
        CloudLoadBalancer, CloudContainerRegistry} \<longrightarrow>
      getIdInCluster (NewIdProvider c1 n1) t r1 = r1)"
  using assms by (auto simp: getIdInCluster_def NewIdProvider_def)

lemma getIdInCluster_unique_witness:
  "getIdInCluster (NewIdProvider ''c1'' ''n1'') ''process'' ''42'' \<noteq>
     getIdInCluster (NewIdProvider ''c1'' ''n2'') ''file'' ''42'' \<and>
   getIdInCluster (NewIdProvider ''c1'' ''n1'') ''process'' ''42'' =
     getIdInCluster (NewIdProvider ''c1'' ''n1'') ''file'' ''42''"
  using getIdInCluster_unique [of "''c1''" "''c1''" "''n1''" "''n2''" "''process''" "''file''" "''42''" "''42''"]
    getIdInCluster_unique [of "''c1''" "''c1''" "''n1''" "''n1''" "''process''" "''file''" "''42''" "''42''"]
  by simp

end
