(* ===== verification/Evaluator_Model.thy ===== *)
theory Evaluator_Model
  imports Data_Model Config_Model
begin

text \<open>
  \<open>evaluator/opa.go\<close>, \<open>evaluator/logger.go\<close> and \<open>evaluator/debug_logger\<close>: the stage that asks
  OPA for the decision on a resource, and the loggers handed to OPA. OPA's SDK, the decoding of a
  decision by \<open>mapstructure\<close>, \<open>json\<close> and the clock are parameters.
\<close>

section \<open>Configuration of OPA\<close>

definition PluginName :: string where "PluginName = ''debug_decision_logs''"

abbreviation newline :: string where "newline \<equiv> [CHR 0x0A]"
abbreviation tab :: string where "tab \<equiv> [CHR 0x09]"

definition logPlugin :: "string \<Rightarrow> string \<Rightarrow> string" where
  "logPlugin plugin1 plugin2 =
     newline @ tab @ ''\"decision_logs\": {'' @ newline @
     tab @ tab @ ''\"plugin\": \"'' @ plugin1 @ ''\"'' @ newline @
     tab @ ''},'' @ newline @
     tab @ ''\"plugins\": {'' @ newline @
     tab @ tab @ ''\"'' @ plugin2 @ ''\": {}'' @ newline @
     tab @ ''}''"

definition opaConfig :: "string \<Rightarrow> string \<Rightarrow> string" where
  "opaConfig bundlePath plugin =
     ''{'' @ newline @
     tab @ ''\"bundles\": {'' @ newline @
     tab @ tab @ ''\"CSP\": {'' @ newline @
     tab @ tab @ tab @ ''\"resource\": \"file://'' @ bundlePath @ ''\"'' @ newline @
     tab @ tab @ ''}'' @ newline @
     tab @ ''},'' @ newline @
     plugin @ newline @ ''}''"

record 'opa opa_evaluator =
  opa_sdk :: 'opa
  benchmark :: string

definition NewOpaEvaluator ::
  "(string \<Rightarrow> 'opa result) \<Rightarrow> ('cred, 'proc) config \<Rightarrow> 'opa opa_evaluator result" where
  "NewOpaEvaluator sdkNew cfg =
     (let plugin = logPlugin PluginName PluginName;
          opaCfg = opaConfig (BundlePath cfg) plugin
      in case sdkNew opaCfg of
           Inl err \<Rightarrow> Inl (Errorf (''fail to init opa: '' @ error_text err))
         | Inr opa \<Rightarrow>
             Inr \<lparr>opa_sdk = opa,
                  benchmark = (if Benchmark cfg \<noteq> [] then Benchmark cfg else [])\<rparr>)"

section \<open>Evaluating a resource\<close>

text \<open>\<open>sdkStop\<close> is \<open>Stop\<close> of OPA's SDK, over its surroundings.\<close>

definition OpaEvaluator_Stop :: "('opa \<Rightarrow> 'w \<Rightarrow> 'w) \<Rightarrow> 'opa opa_evaluator \<Rightarrow> 'w \<Rightarrow> 'w" where
  "OpaEvaluator_Stop sdkStop ev w = sdkStop (opa_sdk ev) w"

record opa_input =
  input_Result :: fetching_result
  input_Benchmark :: string

text \<open>\<open>Decision opa input\<close> is the answer of OPA for the path \<open>main\<close>.\<close>

definition opa_decision :: "('opa \<Rightarrow> opa_input \<Rightarrow> any result) \<Rightarrow> 'opa opa_evaluator \<Rightarrow> opa_input \<Rightarrow> any result" where
  "opa_decision Decision ev input =
     (case Decision (opa_sdk ev) input of Inl err \<Rightarrow> Inl err | Inr result \<Rightarrow> Inr result)"

text \<open>
  \<open>decode\<close> answers what has been decoded and an error or nil; the time is set in both cases.
\<close>

definition opa_decode ::
  "(any \<Rightarrow> rule_result \<times> go_error option) \<Rightarrow> int \<Rightarrow> any \<Rightarrow> rule_result \<times> go_error option" where
  "opa_decode decode now result =
     (let (opaResult, err) = decode result
      in (opaResult\<lparr>rr_Metadata := (rr_Metadata opaResult)\<lparr>CreatedAt := now\<rparr>\<rparr>, err))"

definition Eval ::
  "('opa \<Rightarrow> opa_input \<Rightarrow> any result) \<Rightarrow> (any \<Rightarrow> rule_result \<times> go_error option) \<Rightarrow> int \<Rightarrow>
     'opa opa_evaluator \<Rightarrow> resource_info \<Rightarrow> event_data result" where
  "Eval Decision decode now ev resourceInfo =
     (case GetMetadata resourceInfo of
        Inl err \<Rightarrow> Inl (Errorf (''failed to get resource metadata: '' @ error_text err))
      | Inr resMetadata \<Rightarrow>
          (let fetcherResult = \<lparr>res_Type = md_Type resMetadata, res_SubType = SubType resMetadata,
                                Resource = GetData resourceInfo\<rparr>
           in case opa_decision Decision ev
                     \<lparr>input_Result = fetcherResult, input_Benchmark = benchmark ev\<rparr> of
                Inl err \<Rightarrow> Inl (Errorf (''error running the policy: '' @ error_text err))
              | Inr result \<Rightarrow>
                  (case opa_decode decode now result of
                     (_, Some err) \<Rightarrow> Inl (Errorf (''error decoding findings: '' @ error_text err))
                   | (ruleResults, None) \<Rightarrow>
                       Inr \<lparr>RuleResult = ruleResults, ResourceInfo = resourceInfo\<rparr>)))"

lemma Eval_ok_iff:
  "Eval Decision decode now ev ri = Inr d \<longleftrightarrow>
     (\<exists>md v rr. GetMetadata ri = Inr md \<and>
        Decision (opa_sdk ev) \<lparr>input_Result = \<lparr>res_Type = md_Type md, res_SubType = SubType md,
           Resource = GetData ri\<rparr>, input_Benchmark = benchmark ev\<rparr> = Inr v \<and>
        decode v = (rr, None) \<and>
        d = \<lparr>RuleResult = rr\<lparr>rr_Metadata := (rr_Metadata rr)\<lparr>CreatedAt := now\<rparr>\<rparr>, ResourceInfo = ri\<rparr>)"
  by (auto simp: Eval_def opa_decision_def opa_decode_def Let_def
      split: sum.splits prod.splits option.splits)

section \<open>The loggers\<close>

text \<open>The levels of OPA and of zap, and the loggers that translate between them.\<close>

datatype opa_level = OpaError | OpaWarn | OpaInfo | OpaDebug

datatype zap_level = ZapDebug | ZapInfo | ZapWarn | ZapError | ZapDPanic | ZapPanic | ZapFatal

text \<open>Both packages order their levels: OPA from errors to debug lines, zap the other way round.\<close>

fun opa_rank :: "opa_level \<Rightarrow> nat" where
  "opa_rank OpaError = 0"
| "opa_rank OpaWarn = 1"
| "opa_rank OpaInfo = 2"
| "opa_rank OpaDebug = 3"

fun zap_rank :: "zap_level \<Rightarrow> nat" where
  "zap_rank ZapDebug = 0"
| "zap_rank ZapInfo = 1"
| "zap_rank ZapWarn = 2"
| "zap_rank ZapError = 3"
| "zap_rank ZapDPanic = 4"
| "zap_rank ZapPanic = 5"
| "zap_rank ZapFatal = 6"

lemma opa_rank_eq [simp]: "opa_rank a = opa_rank b \<longleftrightarrow> a = b"
  by (cases a; cases b) simp_all

lemma zap_rank_eq [simp]: "zap_rank a = zap_rank b \<longleftrightarrow> a = b"
  by (cases a; cases b) simp_all

instantiation opa_level :: linorder
begin

definition less_eq_opa_level :: "opa_level \<Rightarrow> opa_level \<Rightarrow> bool" where
  "less_eq_opa_level a b = (opa_rank a \<le> opa_rank b)"

definition less_opa_level :: "opa_level \<Rightarrow> opa_level \<Rightarrow> bool" where
  "less_opa_level a b = (opa_rank a < opa_rank b)"

instance
  by standard (auto simp: less_eq_opa_level_def less_opa_level_def dest: antisym)

end

instantiation zap_level :: linorder
begin

definition less_eq_zap_level :: "zap_level \<Rightarrow> zap_level \<Rightarrow> bool" where
  "less_eq_zap_level a b = (zap_rank a \<le> zap_rank b)"

definition less_zap_level :: "zap_level \<Rightarrow> zap_level \<Rightarrow> bool" where
  "less_zap_level a b = (zap_rank a < zap_rank b)"

instance
  by standard (auto simp: less_eq_zap_level_def less_zap_level_def dest: antisym)

end

definition opaToZapLevelsMap :: "opa_level \<rightharpoonup> zap_level" where
  "opaToZapLevelsMap =
     [OpaError \<mapsto> ZapError, OpaWarn \<mapsto> ZapWarn, OpaInfo \<mapsto> ZapInfo, OpaDebug \<mapsto> ZapDebug]"

definition zapToOpaLevelsMap :: "zap_level \<rightharpoonup> opa_level" where
  "zapToOpaLevelsMap =
     [ZapError \<mapsto> OpaError, ZapWarn \<mapsto> OpaWarn, ZapInfo \<mapsto> OpaInfo, ZapDebug \<mapsto> OpaDebug]"

definition toZapLevel :: "opa_level \<Rightarrow> zap_level" where
  "toZapLevel l = (case opaToZapLevelsMap l of Some res \<Rightarrow> res | None \<Rightarrow> ZapDebug)"

definition toOpaLevel :: "zap_level \<Rightarrow> opa_level" where
  "toOpaLevel l = (case zapToOpaLevelsMap l of Some res \<Rightarrow> res | None \<Rightarrow> OpaDebug)"

text \<open>
  The lines that a logger has written, with their level, and its fields. \<open>lvl\<close> is the pointer
  inside \<open>zap.AtomicLevel\<close>: \<open>None\<close> for the zero value, on which \<open>Level\<close> and \<open>SetLevel\<close> panic.
\<close>

record logger =
  log_fields :: "any list"
  lvl :: "zap_level option"

definition newLogger :: "zap_level \<Rightarrow> logger" where
  "newLogger level = \<lparr>log_fields = [], lvl = Some level\<rparr>"

fun mapToArray :: "(string \<times> any) list \<Rightarrow> any list" where
  "mapToArray [] = []"
| "mapToArray ((k, v) # m) = VStr k # v # mapToArray m"

definition WithFields :: "logger \<Rightarrow> (string \<times> any) list \<Rightarrow> logger" where
  "WithFields l m = \<lparr>log_fields = log_fields l @ mapToArray m, lvl = None\<rparr>"

definition GetLevel :: "logger \<Rightarrow> opa_level option" where
  "GetLevel l = (case lvl l of None \<Rightarrow> None | Some z \<Rightarrow> Some (toOpaLevel z))"

definition SetLevel :: "logger \<Rightarrow> opa_level \<Rightarrow> logger option" where
  "SetLevel l level = (case lvl l of None \<Rightarrow> None | Some _ \<Rightarrow> Some (l\<lparr>lvl := Some (toZapLevel level)\<rparr>))"

lemma toOpa_toZap: "toOpaLevel (toZapLevel l) = l"
  by (cases l) (simp_all add: toOpaLevel_def toZapLevel_def opaToZapLevelsMap_def zapToOpaLevelsMap_def)

lemma toZapLevel_antimono: "toZapLevel l \<le> toZapLevel m \<longleftrightarrow> m \<le> l"
  by (cases l; cases m)
     (simp_all add: toZapLevel_def opaToZapLevelsMap_def less_eq_opa_level_def less_eq_zap_level_def)

lemma length_mapToArray [simp]: "length (mapToArray m) = 2 * length m"
  by (induction m rule: mapToArray.induct) auto

section \<open>The plugin that logs decisions\<close>

datatype plugin_state = StateNotReady | StateOK | StateErr

definition Factory_New :: "plugin_state" where "Factory_New = StateNotReady"
definition plugin_Start :: "plugin_state \<Rightarrow> plugin_state" where "plugin_Start s = StateOK"
definition plugin_Stop :: "plugin_state \<Rightarrow> plugin_state" where "plugin_Stop s = StateNotReady"
definition plugin_Reconfigure :: "plugin_state \<Rightarrow> plugin_state" where "plugin_Reconfigure s = s"

text \<open>The configuration of the plugin has no fields; it is answered whatever the decoding says.\<close>

definition Factory_Validate :: "(string \<Rightarrow> go_error option) \<Rightarrow> string \<Rightarrow> unit \<times> go_error option" where
  "Factory_Validate unmarshal conf = ((), unmarshal conf)"

record decision_event =
  DecisionID :: string
  Input :: any
  decision_Result :: any

definition createMessage :: "decision_event \<Rightarrow> (string \<times> any) list" where
  "createMessage event =
     [(''decision_id'', VStr (DecisionID event)), (''message'', VStr ''Decision Log''),
      (''input'', Input event), (''result'', decision_Result event)]"

text \<open>
  \<open>Log\<close>: the state of the plugin and the line written on the console, with the fields of the
  logger that writes it; it never answers an error.
\<close>

definition plugin_Log ::
  "(decision_event \<Rightarrow> string result) \<Rightarrow> (string \<Rightarrow> (string \<times> any) list result) \<Rightarrow>
     ((string \<times> any) list \<Rightarrow> string result) \<Rightarrow> logger \<Rightarrow> decision_event \<Rightarrow> plugin_state \<Rightarrow>
     plugin_state \<times> (logger \<times> string) option" where
  "plugin_Log marshalEvent unmarshal marshalMessage console event s =
     (case marshalEvent event of
        Inl err \<Rightarrow> (StateErr, None)
      | Inr eventBuf \<Rightarrow>
          (case unmarshal eventBuf of
             Inl err \<Rightarrow> (StateErr, None)
           | Inr fieldMap \<Rightarrow>
               (case marshalMessage (createMessage event) of
                  Inl err \<Rightarrow> (StateErr, None)
                | Inr messageBytes \<Rightarrow>
                    (s, Some (WithFields (WithFields console fieldMap)
                                [(''type'', VStr ''openpolicyagent.org/decision_logs'')], messageBytes)))))"

section \<open>Properties\<close>

text \<open>
  A logger for OPA answers the level that OPA has set on it. A logger derived from it by
  \<open>WithFields\<close> keeps all the fields but has no level: to read or set its level panics.
\<close>

lemma logger_levels:
  "GetLevel (newLogger z) = Some (toOpaLevel z) \<and>
   (case SetLevel (newLogger z) l of None \<Rightarrow> False | Some lg' \<Rightarrow> GetLevel lg' = Some l) \<and>
   GetLevel (WithFields lg m) = None \<and> SetLevel (WithFields lg m) l = None \<and>
   length (log_fields (WithFields lg m)) = length (log_fields lg) + 2 * length m"
  by (simp add: GetLevel_def SetLevel_def newLogger_def WithFields_def toOpa_toZap)

end
