(* ===== verification/Transformer_Model.thy ===== *)
theory Transformer_Model
  imports Evaluator_Model Data_Providers
begin

text \<open>
  \<open>transformer/events_creator.go\<close>: from the findings of a resource to the events for
  Elasticsearch. The data providers are the functions the transformer is built with; the clock
  and the random UUIDs are parameters (\<open>uuid i\<close> is the one made for the finding number \<open>i\<close>).
\<close>

section \<open>The transformer\<close>

definition resultsIndex :: string where
  "resultsIndex = Datastream [] ResultsDatastreamIndexPrefix"

abbreviation "ecsCategoryConfiguration \<equiv> ''configuration''"
abbreviation "ecsKindState \<equiv> ''state''"
abbreviation "ecsOutcomeSuccess \<equiv> ''success''"
abbreviation "ecsTypeInfo \<equiv> ''info''"
abbreviation "FieldMetaIndex \<equiv> ''index''"

record transformer =
  index :: string
  idProvider :: "string \<Rightarrow> string \<Rightarrow> string"
  benchmarkDataProvider :: "beat_api \<Rightarrow> resource_metadata \<Rightarrow> inserter"
  commonDataProvider :: "(string \<times> any) list result"

definition NewTransformer ::
  "(beat_api \<Rightarrow> resource_metadata \<Rightarrow> inserter) \<Rightarrow> (string \<times> any) list result \<Rightarrow>
     (string \<Rightarrow> string \<Rightarrow> string) \<Rightarrow> transformer" where
  "NewTransformer bdp cdp idp =
     \<lparr>index = resultsIndex, idProvider = idp, benchmarkDataProvider = bdp, commonDataProvider = cdp\<rparr>"

definition BuildECSEvent :: "string \<Rightarrow> int \<Rightarrow> int \<Rightarrow> string list \<Rightarrow> ecs_event" where
  "BuildECSEvent uuid seq created categories =
     \<lparr>Category = categories, Created = created, ecs_ID = uuid, Kind = ecsKindState,
      ecs_Sequence = seq, Outcome = ecsOutcomeSuccess, ecs_Type = [ecsTypeInfo]\<rparr>"

definition rule_message :: "finding \<Rightarrow> string" where
  "rule_message f =
     ''Rule '' @ quote_q (rule_Name (Rule f)) @ '': '' @ Evaluation (Result f)"

text \<open>The event of a finding before it is enriched.\<close>

definition new_event ::
  "transformer \<Rightarrow> int \<Rightarrow> string \<Rightarrow> event_data \<Rightarrow> resource_fields \<Rightarrow> finding \<Rightarrow> beat_event" where
  "new_event t timestamp uuid eventData rsc f =
     \<lparr>Meta = [(FieldMetaIndex, index t)], Timestamp = timestamp,
      Fields =
        [(''event'', FEvent (BuildECSEvent uuid (Sequence (CycleMetadata (ResourceInfo eventData)))
            (CreatedAt (rr_Metadata (RuleResult eventData))) [ecsCategoryConfiguration])),
         (''resource'', FResource rsc), (''result'', FResult (Result f)), (''rule'', FRule (Rule f)),
         (''message'', FAny (VStr (rule_message f)))]\<rparr>"

text \<open>One round of the loop: the three enrichments, each with its early return.\<close>

definition enrich_event ::
  "beat_api \<Rightarrow> transformer \<Rightarrow> event_data \<Rightarrow> resource_metadata \<Rightarrow> beat_event \<Rightarrow> beat_event result" where
  "enrich_event api t eventData md event =
     (case benchmarkDataProvider t api md event of
        (Some err, _) \<Rightarrow>
          Inl (Errorf (''failed to enrich event with benchmark context: '' @ error_text err))
      | (None, e1) \<Rightarrow>
          (case Enricher_EnrichEvent api (commonDataProvider t) e1 of
             (Some err, _) \<Rightarrow>
               Inl (Errorf (''failed to enrich event with global context: '' @ error_text err))
           | (None, e2) \<Rightarrow>
               (case Enricher_EnrichEvent api (GetElasticCommonData (ResourceInfo eventData)) e2 of
                  (Some err, _) \<Rightarrow>
                    Inl (Errorf (''failed to enrich event with resource context: '' @ error_text err))
                | (None, e3) \<Rightarrow> Inr e3)))"

fun create_events ::
  "beat_api \<Rightarrow> transformer \<Rightarrow> int \<Rightarrow> (nat \<Rightarrow> string) \<Rightarrow> event_data \<Rightarrow> resource_metadata \<Rightarrow>
     resource_fields \<Rightarrow> nat \<Rightarrow> finding list \<Rightarrow> beat_event list result" where
  "create_events api t now uuid eventData md rsc i [] = Inr []"
| "create_events api t now uuid eventData md rsc i (f # fs) =
     (case enrich_event api t eventData md (new_event t now (uuid i) eventData rsc f) of
        Inl err \<Rightarrow> Inl err
      | Inr event \<Rightarrow>
          (case create_events api t now uuid eventData md rsc (Suc i) fs of
             Inl err \<Rightarrow> Inl err
           | Inr events \<Rightarrow> Inr (event # events)))"

definition CreateBeatEvents ::
  "beat_api \<Rightarrow> transformer \<Rightarrow> int \<Rightarrow> (nat \<Rightarrow> string) \<Rightarrow> event_data \<Rightarrow> beat_event list result" where
  "CreateBeatEvents api t now uuid eventData =
     (if length (Findings (RuleResult eventData)) = 0 then Inr []
      else case GetMetadata (ResourceInfo eventData) of
             Inl err \<Rightarrow> Inl (Errorf (''failed to get resource metadata: '' @ error_text err))
           | Inr resMetadata \<Rightarrow>
               (let newId = idProvider t (md_Type resMetadata) (ID resMetadata);
                    md = resMetadata\<lparr>ID := newId\<rparr>;
                    rsc = \<lparr>fields_Metadata = md, Raw = rr_Resource (RuleResult eventData)\<rparr>
                in create_events api t now uuid eventData md rsc 0 (Findings (RuleResult eventData))))"

section \<open>Lemmas\<close>

lemma create_events_list_all2:
  "create_events api t now uuid d md rsc i fs = Inr events \<Longrightarrow>
   list_all2 (\<lambda>f e. \<exists>j. enrich_event api t d md (new_event t now (uuid j) d rsc f) = Inr e) fs events"
  by (induction fs arbitrary: i events) (auto split: sum.splits)

lemma create_events_error:
  "create_events api t now uuid d md rsc i fs = Inl err \<Longrightarrow>
   \<exists>j f. f \<in> set fs \<and> enrich_event api t d md (new_event t now (uuid j) d rsc f) = Inl err"
proof (induction fs arbitrary: i)
  case (Cons f fs)
  show ?case
  proof (cases "enrich_event api t d md (new_event t now (uuid i) d rsc f)")
    case (Inr e)
    then have "create_events api t now uuid d md rsc (Suc i) fs = Inl err"
      using Cons.prems by (auto split: sum.splits)
    then show ?thesis using Cons.IH [of "Suc i"] by auto
  qed (use Cons.prems in auto)
qed simp

text \<open>The top-level fields that the transformer itself sets.\<close>

definition own_fields :: "string set" where
  "own_fields = {''event'', ''resource'', ''result'', ''rule'', ''message''}"

definition foreign_keys :: "(string \<times> any) list result \<Rightarrow> bool" where
  "foreign_keys r \<longleftrightarrow>
     (\<forall>kvs. r = Inr kvs \<longrightarrow>
        (\<forall>k\<in>fst ` set kvs. key_root k \<notin> own_fields \<union> {''@timestamp'', ''@metadata''}))"

lemma foreign_keysI: "list_all (\<lambda>k. key_root k \<notin> own_fields \<union> {''@timestamp'', ''@metadata''}) (map fst kvs) \<Longrightarrow> foreign_keys (Inr kvs)"
  by (auto simp: foreign_keys_def list_all_iff)

text \<open>An enrichment with keys outside of the transformer's own fields leaves them as they are.\<close>

lemma Enricher_keeps:
  assumes "put_only_touches_root api" "foreign_keys r"
    and "Enricher_EnrichEvent api r e = (err, e')"
  shows "same_outside (- (own_fields \<union> {''@timestamp'', ''@metadata''})) e e'"
proof (cases r)
  case (Inl x)
  then show ?thesis using assms(3) by (simp add: Enricher_EnrichEvent_def)
next
  case (Inr kvs)
  have "only_changes (- (own_fields \<union> {''@timestamp'', ''@metadata''})) (put_values api kvs)"
    using assms(1,2) Inr by (intro put_values_frame) (auto simp: foreign_keys_def)
  then show ?thesis
    using assms(3) Inr unfolding only_changes_def Enricher_EnrichEvent_def
    by (metis snd_conv sum.simps(6))
qed

text \<open>What an event says of its finding.\<close>

definition describes ::
  "transformer \<Rightarrow> int \<Rightarrow> event_data \<Rightarrow> resource_metadata \<Rightarrow> finding \<Rightarrow> beat_event \<Rightarrow> bool" where
  "describes t now d md f e \<longleftrightarrow>
     Meta e = [(FieldMetaIndex, index t)] \<and> Timestamp e = now \<and>
     map_of (Fields e) ''result'' = Some (FResult (Result f)) \<and>
     map_of (Fields e) ''rule'' = Some (FRule (Rule f)) \<and>
     map_of (Fields e) ''message'' = Some (FAny (VStr (rule_message f))) \<and>
     map_of (Fields e) ''resource'' =
       Some (FResource \<lparr>fields_Metadata = md\<lparr>ID := idProvider t (md_Type md) (ID md)\<rparr>,
                         Raw = rr_Resource (RuleResult d)\<rparr>) \<and>
     (\<exists>ecs. map_of (Fields e) ''event'' = Some (FEvent ecs) \<and>
        ecs_Sequence ecs = Sequence (CycleMetadata (ResourceInfo d)) \<and>
        Created ecs = CreatedAt (rr_Metadata (RuleResult d)))"

lemma own_fields_mem [simp]:
  "''event'' \<in> own_fields" "''resource'' \<in> own_fields" "''result'' \<in> own_fields"
  "''rule'' \<in> own_fields" "''message'' \<in> own_fields"
  by (simp_all add: own_fields_def)

lemma own_fields_disjoint [simp]: "{''cloud''} \<inter> own_fields = {}" "{''orchestrator''} \<inter> own_fields = {}"
  by (simp_all add: own_fields_def)

lemma describes_new_event:
  assumes "Meta e' = Meta e \<and> Timestamp e' = Timestamp e \<and>
      (\<forall>k\<in>own_fields. map_of (Fields e') k = map_of (Fields e) k)"
    and "e = new_event t now u d \<lparr>fields_Metadata = md\<lparr>ID := idProvider t (md_Type md) (ID md)\<rparr>,
      Raw = rr_Resource (RuleResult d)\<rparr> f"
  shows "describes t now d md f e'"
  using assms by (simp add: describes_def new_event_def BuildECSEvent_def)

context event_enricher
begin

lemma enrich_event_keeps:
  assumes "put_only_touches_root api" "benchmarkDataProvider t = enrich"
    and "roots \<inter> own_fields = {}" "foreign_keys (commonDataProvider t)"
    and "foreign_keys (GetElasticCommonData (ResourceInfo d))"
    and "enrich_event api t d md e = Inr e'"
  shows "Meta e' = Meta e \<and> Timestamp e' = Timestamp e \<and>
    (\<forall>k\<in>own_fields. map_of (Fields e') k = map_of (Fields e) k)"
proof -
  obtain e1 e2 where steps: "enrich api md e = (None, e1)"
      "Enricher_EnrichEvent api (commonDataProvider t) e1 = (None, e2)"
      "Enricher_EnrichEvent api (GetElasticCommonData (ResourceInfo d)) e2 = (None, e')"
    using assms(2,6) unfolding enrich_event_def by (auto split: prod.splits option.splits)
  have "same_outside (- own_fields) e e1"
    using enrich_result [OF assms(1) steps(1)] assms(3) by (auto simp: same_outside_def)
  moreover have "same_outside (- own_fields) e1 e2" "same_outside (- own_fields) e2 e'"
    using Enricher_keeps [OF assms(1,4) steps(2)] Enricher_keeps [OF assms(1,5) steps(3)]
    by (auto simp: same_outside_def)
  ultimately show ?thesis by (auto simp: same_outside_def)
qed

lemma CreateBeatEvents_describes:
  assumes "put_only_touches_root api" "benchmarkDataProvider t = enrich" "roots \<inter> own_fields = {}"
    and "foreign_keys (commonDataProvider t)" "foreign_keys (GetElasticCommonData (ResourceInfo d))"
    and "GetMetadata (ResourceInfo d) = Inr md"
    and "CreateBeatEvents api t now uuid d = Inr events"
  shows "list_all2 (describes t now d md) (Findings (RuleResult d)) events"
proof (cases "Findings (RuleResult d) = []")
  case True
  then show ?thesis using assms(7) by (simp add: CreateBeatEvents_def)
next
  case False
  define md' where "md' = md\<lparr>ID := idProvider t (md_Type md) (ID md)\<rparr>"
  define rsc where "rsc = \<lparr>fields_Metadata = md', Raw = rr_Resource (RuleResult d)\<rparr>"
  have "create_events api t now uuid d md' rsc 0 (Findings (RuleResult d)) = Inr events"
    using assms(6,7) False by (simp add: CreateBeatEvents_def Let_def rsc_def md'_def)
  from create_events_list_all2 [OF this] show ?thesis
  proof (rule list_all2_mono)
    fix f e
    assume "\<exists>j. enrich_event api t d md' (new_event t now (uuid j) d rsc f) = Inr e"
    then obtain j where e: "enrich_event api t d md' (new_event t now (uuid j) d rsc f) = Inr e" ..
    from enrich_event_keeps [OF assms(1-5) e]
    show "describes t now d md f e"
      by (rule describes_new_event) (simp add: rsc_def md'_def)
  qed
qed

end

section \<open>Properties\<close>

text \<open>
  C6. From the evaluation of a resource the transformer makes exactly one event for every
  finding, in the order of the findings, and each event carries the rule, the result and the
  message of its own finding, the resource with the id that the id provider gives it, the
  sequence number of the cycle and the index of the results; no enrichment (of the cloud or the
  Kubernetes provider, of the common data or of the resource, whose keys are outside of these
  fields) overwrites any of it.
\<close>

theorem CreateBeatEvents_one_per_finding:
  assumes "put_only_touches_root api"
    and "benchmarkDataProvider t = (\<lambda>api. cloud_EnrichEvent api a) \<or>
      benchmarkDataProvider t = (\<lambda>api. k8s_EnrichEvent api k)"
    and "foreign_keys (commonDataProvider t)" "foreign_keys (GetElasticCommonData (ResourceInfo d))"
    and "GetMetadata (ResourceInfo d) = Inr md"
    and "CreateBeatEvents api t now uuid d = Inr events"
  shows "list_all2 (describes t now d md) (Findings (RuleResult d)) events"
  using assms(2) cloud.CreateBeatEvents_describes [OF assms(1) _ own_fields_disjoint(1) assms(3-6)]
    k8s.CreateBeatEvents_describes [OF assms(1) _ own_fields_disjoint(2) assms(3-6)] by blast

definition sample_metadata :: resource_metadata where
  "sample_metadata =
     \<lparr>AccountId = ''123'', AccountName = [], OrganisationId = [], account_OrganizationName = [],
      ID = ''bucket'', md_Type = ''cloud-storage'', SubType = ''aws-s3'', md_Name = ''bucket'',
      Region = ''eu-west-1''\<rparr>"

definition sample_rule :: rule where
  "sample_rule =
     \<lparr>Id = ''r'', rule_Name = ''Block public access'', Profile_Applicability = [], Description = [],
      Rationale = [], Audit = [], Remediation = [], Impact = [], Default_Value = [], References = [],
      Section = [], rule_Version = [], Tags = [], rule_Benchmark =
        \<lparr>bench_Id = ''cis_aws'', bench_Name = [], bench_Version = [], Rule_Number = [], Posture_Type = []\<rparr>\<rparr>"

definition sample_event_data :: event_data where
  "sample_event_data =
     \<lparr>RuleResult =
        \<lparr>Findings = [\<lparr>Result = \<lparr>Evaluation = ''passed'', Expected = VNil, Evidence = VNil\<rparr>,
                      Rule = sample_rule\<rparr>],
         rr_Metadata = \<lparr>opa_Version = [], CreatedAt = 5\<rparr>, rr_Resource = VOpaque ''s3''\<rparr>,
      ResourceInfo =
        \<lparr>GetMetadata = Inr sample_metadata, GetData = VOpaque ''s3'', GetElasticCommonData = Inr [],
         CycleMetadata = \<lparr>Sequence = 7\<rparr>\<rparr>\<rparr>"

definition sample_transformer :: transformer where
  "sample_transformer =
     NewTransformer (\<lambda>api. cloud_EnrichEvent api \<lparr>accountId = ''123'', accountName = ''acme'', providerName = ''aws''\<rparr>)
       (Inr [(''cloudbeat'', VMap [])]) (\<lambda>ty i. i)"

lemma CreateBeatEvents_one_per_finding_witness:
  "\<exists>event. CreateBeatEvents flat_api sample_transformer 9 (\<lambda>i. ''u'') sample_event_data = Inr [event] \<and>
     describes sample_transformer 9 sample_event_data sample_metadata
       (hd (Findings (RuleResult sample_event_data))) event"
proof -
  have "\<exists>event. CreateBeatEvents flat_api sample_transformer 9 (\<lambda>i. ''u'') sample_event_data = Inr [event]"
    by (simp add: CreateBeatEvents_def sample_event_data_def sample_transformer_def NewTransformer_def
        enrich_event_def Enricher_EnrichEvent_def cloud_EnrichEvent_def join_inserts_def Let_def
        insert_field_def insertIfNotEmpty_def flat_api_def flat_put_def errors_join_def
        List.map_filter_simps sample_metadata_def)
  then obtain event where ev:
    "CreateBeatEvents flat_api sample_transformer 9 (\<lambda>i. ''u'') sample_event_data = Inr [event]" ..
  have "list_all2 (describes sample_transformer 9 sample_event_data sample_metadata)
      (Findings (RuleResult sample_event_data)) [event]"
    by (rule CreateBeatEvents_one_per_finding [OF flat_api_ok _ _ _ _ ev,
          where a = "\<lparr>accountId = ''123'', accountName = ''acme'', providerName = ''aws''\<rparr>"])
      (simp_all add: sample_transformer_def NewTransformer_def sample_event_data_def foreign_keys_def
        own_fields_def)
  then show ?thesis using ev by (auto simp: sample_event_data_def)
qed

end
