(* ===== verification/FS_Fetcher.thy ===== *)
theory FS_Fetcher
  imports UserLookup Data_Model
begin

text \<open>
  \<open>resources/fetching/fetchers/k8s/glob_matching.go\<close> and \<open>file_system_fetcher.go\<close>: the fetcher
  of files and directories. The operating system is a parameter: \<open>filepath.Glob\<close>, the visits of
  \<open>filepath.Walk\<close>, \<open>os.Stat\<close>, \<open>times.Stat\<close> and the opening of the files of users and groups.
\<close>

section \<open>Globs with double stars\<close>

record os_api =
  os_Glob :: "string \<Rightarrow> string list result"
  os_Walk :: "string \<Rightarrow> (string \<times> go_error option) list"

text \<open>
  One call of \<open>filepath.Walk\<close>: the callback gets the paths in turn, each with an error or nil;
  it keeps the paths not seen before and answers the first error, which ends the walk.
\<close>

fun walk_hits :: "(string \<times> go_error option) list \<Rightarrow> string list \<Rightarrow> string list result" where
  "walk_hits [] hits = Inr hits"
| "walk_hits ((path, Some err) # visits) hits = Inl err"
| "walk_hits ((path, None) # visits) hits =
     walk_hits visits (if path \<in> set hits then hits else hits @ [path])"

fun walk_paths :: "os_api \<Rightarrow> string list \<Rightarrow> string list \<Rightarrow> string list result" where
  "walk_paths os [] hits = Inr hits"
| "walk_paths os (path # paths) hits =
     (case walk_hits (os_Walk os path) hits of
        Inl err \<Rightarrow> Inl err
      | Inr hits' \<Rightarrow> walk_paths os paths hits')"

fun expand_matches :: "os_api \<Rightarrow> string \<Rightarrow> string list \<Rightarrow> string list \<Rightarrow> string list result" where
  "expand_matches os glob [] hits = Inr hits"
| "expand_matches os glob (match # matches) hits =
     (case os_Glob os (match @ glob) of
        Inl err \<Rightarrow> Inl err
      | Inr paths \<Rightarrow>
          (case walk_paths os paths hits of
             Inl err \<Rightarrow> Inl err
           | Inr hits' \<Rightarrow> expand_matches os glob matches hits'))"

fun expand_globs :: "os_api \<Rightarrow> string list \<Rightarrow> string list \<Rightarrow> string list result" where
  "expand_globs os [] matches = Inr matches"
| "expand_globs os (glob # globs) matches =
     (case expand_matches os glob matches [] of
        Inl err \<Rightarrow> Inl err
      | Inr hits \<Rightarrow> expand_globs os globs hits)"

text \<open>A nil \<open>Globs\<close> is the empty list; \<open>strings.Split\<close> never answers one.\<close>

definition Expand :: "os_api \<Rightarrow> string list \<Rightarrow> string list result" where
  "Expand os globs =
     (case expand_globs os globs [[]] of
        Inl err \<Rightarrow> Inl err
      | Inr matches \<Rightarrow>
          Inr (if globs = [] \<and> length matches > 0 \<and> hd matches = [] then tl matches else matches))"

definition Glob :: "os_api \<Rightarrow> string \<Rightarrow> string list result" where
  "Glob os pattern =
     (if \<not> str_contains pattern ''**'' then os_Glob os pattern
      else Expand os (split_on2 CHR ''*'' CHR ''*'' pattern))"

section \<open>What the expansion computes\<close>

text \<open>The paths below one path, and the matches of a list of globs, as sets.\<close>

definition below :: "os_api \<Rightarrow> string \<Rightarrow> string set" where
  "below os path = fst ` set (os_Walk os path)"

definition glob_below :: "os_api \<Rightarrow> string \<Rightarrow> string \<Rightarrow> string set" where
  "glob_below os glob match =
     (case os_Glob os (match @ glob) of Inl _ \<Rightarrow> {} | Inr paths \<Rightarrow> \<Union> (below os ` set paths))"

fun glob_spec :: "os_api \<Rightarrow> string list \<Rightarrow> string set \<Rightarrow> string set" where
  "glob_spec os [] S = S"
| "glob_spec os (glob # globs) S = glob_spec os globs (\<Union> (glob_below os glob ` S))"

lemma walk_hits_spec:
  "walk_hits visits hits = Inr hits' \<Longrightarrow> distinct hits \<Longrightarrow>
   distinct hits' \<and> set hits' = set hits \<union> fst ` set visits"
  by (induction visits hits rule: walk_hits.induct) (auto split: if_splits)

lemma walk_paths_spec:
  "walk_paths os paths hits = Inr hits' \<Longrightarrow> distinct hits \<Longrightarrow>
   distinct hits' \<and> set hits' = set hits \<union> \<Union> (below os ` set paths)"
  by (induction os paths hits rule: walk_paths.induct)
     (auto split: sum.splits dest!: walk_hits_spec simp: below_def)

lemma expand_matches_spec:
  "expand_matches os glob matches hits = Inr hits' \<Longrightarrow> distinct hits \<Longrightarrow>
   distinct hits' \<and> set hits' = set hits \<union> \<Union> (glob_below os glob ` set matches)"
proof (induction matches arbitrary: hits)
  case (Cons match matches)
  obtain paths hits2 where step: "os_Glob os (match @ glob) = Inr paths"
      "walk_paths os paths hits = Inr hits2" "expand_matches os glob matches hits2 = Inr hits'"
    using Cons.prems(1) by (auto split: sum.splits)
  have hits2: "distinct hits2" "set hits2 = set hits \<union> glob_below os glob match"
    using walk_paths_spec [OF step(2) Cons.prems(2)] step(1) by (auto simp: glob_below_def)
  show ?case using Cons.IH [OF step(3) hits2(1)] hits2(2) by auto
qed simp

lemma expand_globs_spec:
  "expand_globs os globs matches = Inr res \<Longrightarrow> distinct matches \<Longrightarrow>
   distinct res \<and> set res = glob_spec os globs (set matches)"
proof (induction globs arbitrary: matches)
  case (Cons glob globs)
  obtain hits where step: "expand_matches os glob matches [] = Inr hits" "expand_globs os globs hits = Inr res"
    using Cons.prems(1) by (auto split: sum.splits)
  have "distinct hits" "set hits = \<Union> (glob_below os glob ` set matches)"
    using expand_matches_spec [OF step(1)] by auto
  then show ?case using Cons.IH [OF step(2)] by simp
qed simp

section \<open>Files\<close>

abbreviation "FSResourceType \<equiv> ''file''"
abbreviation "FileSubType \<equiv> ''file''"
abbreviation "DirSubType \<equiv> ''directory''"
abbreviation "UserFile \<equiv> ''/hostfs/etc/passwd''"
abbreviation "GroupFile \<equiv> ''/hostfs/etc/group''"

record eval_fs_resource =
  fs_Name :: string
  fs_Mode :: string
  fs_Gid :: string
  fs_Uid :: string
  fs_Owner :: string
  fs_Group :: string
  fs_Path :: string
  fs_Inode :: string
  fs_SubType :: string

text \<open>A time is the number of nanoseconds since the epoch, \<open>None\<close> the zero \<open>time.Time\<close>.\<close>

record file_common_data =
  cd_Name :: string
  cd_Mode :: string
  cd_Gid :: string
  cd_Uid :: string
  cd_Owner :: string
  cd_Group :: string
  cd_Path :: string
  cd_Inode :: string
  cd_Extension :: string
  cd_Size :: int
  cd_Type :: string
  cd_Directory :: string
  cd_Accessed :: "int option"
  cd_Mtime :: "int option"
  cd_Ctime :: "int option"

record fs_resource =
  EvalResource :: eval_fs_resource
  ElasticCommon :: file_common_data

text \<open>\<open>os.FileInfo\<close> and \<open>syscall.Stat_t\<close>; \<open>Sys\<close> is \<open>None\<close> for a value of another type.\<close>

record stat_t =
  st_Uid :: nat
  st_Gid :: nat
  st_Ino :: nat
  st_Size :: int

record file_info =
  fi_Name :: string
  fi_Perm :: nat
  fi_IsDir :: bool
  fi_Sys :: "stat_t option"

record file_times =
  AccessTime :: "int option"
  ModTime :: "int option"
  ChangeTime :: "int option"

record fs_api = os_api +
  os_Stat :: "string \<Rightarrow> file_info result"
  times_Stat :: "string \<Rightarrow> file_times result"
  os_Open :: "string \<Rightarrow> reader result"

definition getFSSubType :: "file_info \<Rightarrow> string" where
  "getFSSubType fileInfo = (if fi_IsDir fileInfo then DirSubType else FileSubType)"

definition createFileCommonData ::
  "fs_api \<Rightarrow> stat_t \<Rightarrow> eval_fs_resource \<Rightarrow> string \<Rightarrow> file_common_data" where
  "createFileCommonData os stat data path =
     (let cd = \<lparr>cd_Name = fs_Name data, cd_Mode = fs_Mode data, cd_Gid = fs_Gid data,
                cd_Uid = fs_Uid data, cd_Owner = fs_Owner data, cd_Group = fs_Group data,
                cd_Path = fs_Path data, cd_Inode = fs_Inode data, cd_Extension = filepath_ext path,
                cd_Size = st_Size stat, cd_Type = fs_SubType data, cd_Directory = filepath_dir path,
                cd_Accessed = None, cd_Mtime = None, cd_Ctime = None\<rparr>
      in case times_Stat os path of
           Inl err \<Rightarrow> cd
         | Inr t \<Rightarrow>
             cd\<lparr>cd_Accessed := AccessTime t, cd_Mtime := ModTime t,
                cd_Ctime := (case ChangeTime t of Some c \<Rightarrow> Some c | None \<Rightarrow> None)\<rparr>)"

definition fromFileInfo :: "fs_api \<Rightarrow> file_info option \<Rightarrow> string \<Rightarrow> fs_resource option \<times> go_error option" where
  "fromFileInfo os info path =
     (case info of
        None \<Rightarrow> (None, None)
      | Some info \<Rightarrow>
          (case fi_Sys info of
             None \<Rightarrow> (None, Some (Errorf ''not of type syscall.Stat_t''))
           | Some stat \<Rightarrow>
               (let md = format_uint 8 (fi_Perm info);
                    uid = format_uint 10 (st_Uid stat);
                    gid = format_uint 10 (st_Gid stat);
                    inode = format_uint 10 (st_Ino stat);
                    username = fst (GetUserNameFromID (os_Open os) uid UserFile);
                    groupName = fst (GetGroupNameFromID (os_Open os) gid GroupFile);
                    data = \<lparr>fs_Name = fi_Name info, fs_Mode = md, fs_Gid = gid, fs_Uid = uid,
                            fs_Owner = username, fs_Group = groupName, fs_Path = path,
                            fs_Inode = inode, fs_SubType = getFSSubType info\<rparr>
                in (Some \<lparr>EvalResource = data, ElasticCommon = createFileCommonData os stat data path\<rparr>,
                    None))))"

definition fetchSystemResource :: "fs_api \<Rightarrow> string \<Rightarrow> fs_resource option result" where
  "fetchSystemResource os filePath =
     (case os_Stat os filePath of
        Inl err \<Rightarrow> Inl (Wrapf (''failed to fetch '' @ filePath @ '', error: '') err)
      | Inr info \<Rightarrow> (let (resourceInfo, _) = fromFileInfo os (Some info) filePath in Inr resourceInfo))"

text \<open>What \<open>Fetch\<close> sends, in order; \<open>None\<close> is a nil \<open>*FSResource\<close>.\<close>

record fs_fetcher =
  patterns :: "string list"

definition NewFsFetcher :: "string list \<Rightarrow> fs_fetcher" where
  "NewFsFetcher ps = \<lparr>patterns = ps\<rparr>"

definition glob_or_none :: "fs_api \<Rightarrow> string \<Rightarrow> string list" where
  "glob_or_none os filePattern =
     (case Glob (os_api.truncate os) filePattern of Inl err \<Rightarrow> [] | Inr matchedFiles \<Rightarrow> matchedFiles)"

fun fetch_files :: "fs_api \<Rightarrow> metadata \<Rightarrow> string list \<Rightarrow> (fs_resource option \<times> metadata) list" where
  "fetch_files os cycleMetadata [] = []"
| "fetch_files os cycleMetadata (file # files) =
     (case fetchSystemResource os file of
        Inl err \<Rightarrow> fetch_files os cycleMetadata files
      | Inr rsc \<Rightarrow> (rsc, cycleMetadata) # fetch_files os cycleMetadata files)"

fun fetch_patterns :: "fs_api \<Rightarrow> metadata \<Rightarrow> string list \<Rightarrow> (fs_resource option \<times> metadata) list" where
  "fetch_patterns os cycleMetadata [] = []"
| "fetch_patterns os cycleMetadata (filePattern # ps) =
     fetch_files os cycleMetadata (glob_or_none os filePattern) @ fetch_patterns os cycleMetadata ps"

definition FileSystemFetcher_Fetch ::
  "fs_api \<Rightarrow> fs_fetcher \<Rightarrow> metadata \<Rightarrow> (fs_resource option \<times> metadata) list \<times> go_error option" where
  "FileSystemFetcher_Fetch os f cycleMetadata = (fetch_patterns os cycleMetadata (patterns f), None)"

section \<open>The resource\<close>

definition FSResource_GetElasticCommonData :: "fs_resource \<Rightarrow> (string \<times> any) list result" where
  "FSResource_GetElasticCommonData r =
     (let cd = ElasticCommon r in Inr
        ([(''file.name'', VStr (cd_Name cd)), (''file.mode'', VStr (cd_Mode cd)),
          (''file.gid'', VStr (cd_Gid cd)), (''file.uid'', VStr (cd_Uid cd)),
          (''file.owner'', VStr (cd_Owner cd)), (''file.group'', VStr (cd_Group cd)),
          (''file.path'', VStr (cd_Path cd)), (''file.inode'', VStr (cd_Inode cd)),
          (''file.extension'', VStr (cd_Extension cd)), (''file.directory'', VStr (cd_Directory cd)),
          (''file.size'', VInt (cd_Size cd)), (''file.type'', VStr (cd_Type cd))] @
         (case cd_Accessed cd of Some t \<Rightarrow> [(''file.accessed'', VInt t)] | None \<Rightarrow> []) @
         (case cd_Mtime cd of Some t \<Rightarrow> [(''file.mtime'', VInt t)] | None \<Rightarrow> []) @
         (case cd_Ctime cd of Some t \<Rightarrow> [(''file.ctime'', VInt t)] | None \<Rightarrow> [])))"

definition FSResource_GetMetadata :: "fs_resource \<Rightarrow> resource_metadata result" where
  "FSResource_GetMetadata r = Inr
     (cloud_account_metadata.extend no_account
        (resource_metadata.fields (fs_Path (EvalResource r)) FSResourceType (fs_SubType (EvalResource r))
           (fs_Path (EvalResource r)) []))"

definition FSResource_GetData :: "fs_resource \<Rightarrow> any" where
  "FSResource_GetData r =
     (let d = EvalResource r in VMap
        [(''name'', VStr (fs_Name d)), (''mode'', VStr (fs_Mode d)), (''gid'', VStr (fs_Gid d)),
         (''uid'', VStr (fs_Uid d)), (''owner'', VStr (fs_Owner d)), (''group'', VStr (fs_Group d)),
         (''path'', VStr (fs_Path d)), (''inode'', VStr (fs_Inode d)), (''sub_type'', VStr (fs_SubType d))])"

section \<open>Lemmas\<close>

lemma fetch_files_eq:
  "fetch_files os c files =
     map (\<lambda>r. (r, c)) (oks (map (fetchSystemResource os) files))"
  by (induction files) (auto split: sum.splits)

lemma fetch_patterns_eq:
  "fetch_patterns os c ps = fetch_files os c (concat (map (glob_or_none os) ps))"
  by (induction ps) (simp_all add: fetch_files_eq)

lemma fetchSystemResource_ok:
  "fetchSystemResource os f = Inr r \<longleftrightarrow>
     (\<exists>info. os_Stat os f = Inr info \<and> r = fst (fromFileInfo os (Some info) f))"
  by (auto simp: fetchSystemResource_def split: sum.splits prod.splits)

lemma fromFileInfo_nil: "fst (fromFileInfo os (Some info) f) = None \<longleftrightarrow> fi_Sys info = None"
  by (auto simp: fromFileInfo_def Let_def split: option.splits)

lemma fromFileInfo_path:
  "fst (fromFileInfo os (Some info) f) = Some r \<Longrightarrow> fs_Path (EvalResource r) = f"
  by (auto simp: fromFileInfo_def Let_def split: option.splits)

section \<open>Properties\<close>

text \<open>
  C20. A glob with double stars that expands without an error answers every path once, and the
  paths it answers are exactly those reached by taking, for each part between double stars, the
  matches of the part appended to a path found so far and everything below them.
\<close>

theorem Glob_double_star:
  assumes "str_contains pattern ''**''" "Glob os pattern = Inr files"
  shows "distinct files \<and> set files = glob_spec os (split_on2 CHR ''*'' CHR ''*'' pattern) {[]}"
proof -
  have "expand_globs os (split_on2 CHR ''*'' CHR ''*'' pattern) [[]] = Inr files"
    using assms by (auto simp: Glob_def Expand_def split: sum.splits)
  from expand_globs_spec [OF this] show ?thesis by simp
qed

definition sample_os :: os_api where
  "sample_os =
     \<lparr>os_Glob = (\<lambda>p. Inr (if p \<in> {''/pki/'', ''/pki'', ''/pki/a'', ''/pki/d'', ''/pki/d/b''} then [p] else [])),
      os_Walk = (\<lambda>p. if p = ''/pki/'' then [(''/pki/'', None), (''/pki/a'', None), (''/pki/d'', None), (''/pki/d/b'', None)]
        else if p = ''/pki/d'' then [(''/pki/d'', None), (''/pki/d/b'', None)] else [(p, None)])\<rparr>"

lemma Glob_double_star_witness:
  "Glob sample_os ''/pki/**'' = Inr [''/pki/'', ''/pki/a'', ''/pki/d'', ''/pki/d/b''] \<and>
   glob_spec sample_os [''/pki/'', []] {[]} = {''/pki/'', ''/pki/a'', ''/pki/d'', ''/pki/d/b''}"
proof -
  have run: "Glob sample_os ''/pki/**'' = Inr [''/pki/'', ''/pki/a'', ''/pki/d'', ''/pki/d/b'']"
    by (simp add: Glob_def Expand_def sample_os_def has_prefix_def)
  show ?thesis using Glob_double_star [OF _ run] run by (simp add: has_prefix_def)
qed

text \<open>
  The file system fetcher sends, in the order of its patterns and of their matches, exactly
  one resource for every matched file that can be inspected, with the path of the file; files
  that cannot are skipped and it never answers an error. What it sends is a nil resource exactly
  where the file information is not of type \<open>syscall.Stat_t\<close>.
\<close>

lemma FileSystemFetcher_sends_matches:
  "(let files = concat (map (glob_or_none os) (patterns f));
        stated = filter (\<lambda>p. is_ok (os_Stat os p)) files
    in FileSystemFetcher_Fetch os f c =
         (map (\<lambda>r. (r, c)) (oks (map (fetchSystemResource os) files)), None) \<and>
       list_all2 (\<lambda>p (r, c'). c' = c \<and>
           (case r of
              None \<Rightarrow> (\<exists>info. os_Stat os p = Inr info \<and> fi_Sys info = None)
            | Some rsc \<Rightarrow> fs_Path (EvalResource rsc) = p))
         stated (fst (FileSystemFetcher_Fetch os f c)))"
proof -
  let ?Q = "\<lambda>p (r, c'). c' = c \<and>
      (case r of None \<Rightarrow> (\<exists>info. os_Stat os p = Inr info \<and> fi_Sys info = None)
       | Some rsc \<Rightarrow> fs_Path (EvalResource rsc) = p)"
  have "list_all2 ?Q (filter (\<lambda>p. is_ok (os_Stat os p)) files)
      (map (\<lambda>r. (r, c)) (oks (map (fetchSystemResource os) files)))" for files
  proof (induction files)
    case (Cons p files)
    show ?case
    proof (cases "os_Stat os p")
      case (Inl e)
      then show ?thesis using Cons by (simp add: fetchSystemResource_def)
    next
      case (Inr info)
      have "?Q p (fst (fromFileInfo os (Some info) p), c)"
        using Inr fromFileInfo_nil [of os info p] fromFileInfo_path [of os info p]
        by (auto split: option.splits)
      then show ?thesis
        using Cons Inr by (simp add: fetchSystemResource_def case_prod_beta)
    qed
  qed simp
  then show ?thesis
    by (simp add: FileSystemFetcher_Fetch_def fetch_patterns_eq fetch_files_eq)
qed

end
