(* ===== verification/Proc_Fetcher.thy ===== *)
theory Proc_Fetcher
  imports Data_Model
begin

text \<open>
  \<open>resources/fetching/fetchers/k8s/process_fetcher.go\<close>: the fetcher of the processes of a node and
  of the configuration files named on their command lines. The \<open>proc\<close> package, the file system,
  the clock and the parsers of JSON and YAML are parameters.
\<close>

section \<open>Command line flags\<close>

text \<open>
  The regular expression \<open>CMDArgumentMatcher\<close> for a flag: a word boundary, the name, a space or
  an equals sign, an optional slash that is dropped, and the value up to the next space. The
  names of flags of the presets are plain words. The leftmost match wins.
\<close>

definition re_space :: "char \<Rightarrow> bool" where
  "re_space c \<longleftrightarrow> c \<in> {CHR 0x09, CHR 0x0A, CHR 0x0C, CHR 0x0D, CHR '' ''}"

definition re_word :: "char \<Rightarrow> bool" where
  "re_word c \<longleftrightarrow>
     (let n = of_char c :: nat in 48 \<le> n \<and> n \<le> 57 \<or> 65 \<le> n \<and> n \<le> 90 \<or> 97 \<le> n \<and> n \<le> 122 \<or> n = 95)"

text \<open>The part \<open>\/?(\S+)\<close>: the slash is taken when something remains for the value.\<close>

definition capture_value :: "string \<Rightarrow> string option" where
  "capture_value s =
     (let run = takeWhile (\<lambda>c. \<not> re_space c) s
      in case run of
           [] \<Rightarrow> None
         | c # cs \<Rightarrow> Some (if c = CHR ''/'' \<and> cs \<noteq> [] then cs else run))"

definition match_here :: "string \<Rightarrow> char option \<Rightarrow> string \<Rightarrow> string option" where
  "match_here argument prev s =
     (let prev_word = (case prev of None \<Rightarrow> False | Some c \<Rightarrow> re_word c);
          next_word = (case s of [] \<Rightarrow> False | c # _ \<Rightarrow> re_word c)
      in if prev_word \<noteq> next_word \<and> has_prefix s argument
         then case drop (length argument) s of
                d # rest \<Rightarrow> if re_space d \<or> d = CHR ''='' then capture_value rest else None
              | [] \<Rightarrow> None
         else None)"

fun flag_value :: "string \<Rightarrow> char option \<Rightarrow> string \<Rightarrow> string option" where
  "flag_value argument prev [] = match_here argument prev []"
| "flag_value argument prev (c # cs) =
     (case match_here argument prev (c # cs) of
        Some v \<Rightarrow> Some v
      | None \<Rightarrow> flag_value argument (Some c) cs)"

section \<open>Processes\<close>

abbreviation "ProcessSubType \<equiv> ''process''"

record proc_stat =
  ps_Name :: string
  StartTime :: string
  ps_Group :: string
  Parent :: string
  ps_other :: any

record eval_proc_resource =
  PID :: string
  Cmd :: string
  Stat :: proc_stat
  ExternalData :: "(string \<times> any) list"

record proc_common_data =
  parent_PID :: int
  pc_PID :: int
  pc_Name :: string
  PGID :: int
  CommandLine :: string
  Args :: "string list"
  ArgsCount :: int
  Title :: string
  Start :: int
  Uptime :: int

record proc_resource =
  pr_EvalResource :: eval_proc_resource
  pr_ElasticCommon :: proc_common_data

text \<open>\<open>ProcessInputConfiguration\<close> is its one field, the list of flags.\<close>

type_synonym processes_config_map = "(string \<times> string list) list"

text \<open>
  The environment: the \<open>proc\<close> package on the file system of the host, the parsers, the clock
  (\<open>time.Now\<close> and the later \<open>time.Since\<close>) and the conversions through floating point numbers.
\<close>

record proc_api =
  ListFS :: "string list result"
  ReadStatFS :: "string \<Rightarrow> proc_stat result"
  ReadCmdLineFS :: "string \<Rightarrow> string result"
  ReadUptimeFS :: "int \<times> go_error option"
  fs_ReadFile :: "string \<Rightarrow> string result"
  json_Unmarshal :: "string \<Rightarrow> any result"
  yaml_Unmarshal :: "string \<Rightarrow> any result"
  time_Now :: int
  time_Later :: int
  ticksToDuration :: "nat \<Rightarrow> int"
  wholeSeconds :: "int \<Rightarrow> int"

definition readConfigurationFile :: "proc_api \<Rightarrow> string \<Rightarrow> string \<Rightarrow> any result" where
  "readConfigurationFile os path data =
     (let ext = filepath_ext path
      in if ext = ''.json'' then json_Unmarshal os data
         else if ext = ''.yaml'' then yaml_Unmarshal os data
         else Inl (Errorf (ext @ '' type is not supported'')))"

fun config_files :: "proc_api \<Rightarrow> string \<Rightarrow> string list \<Rightarrow> (string \<times> any) list \<Rightarrow> (string \<times> any) list" where
  "config_files os cmd [] configMap = configMap"
| "config_files os cmd (argument # arguments) configMap =
     (case flag_value argument None cmd of
        None \<Rightarrow> config_files os cmd arguments configMap
      | Some argValue \<Rightarrow>
          (case fs_ReadFile os argValue of
             Inl err \<Rightarrow> config_files os cmd arguments configMap
           | Inr data \<Rightarrow>
               (case readConfigurationFile os argValue data of
                  Inl err \<Rightarrow> config_files os cmd arguments configMap
                | Inr configFile \<Rightarrow>
                    config_files os cmd arguments (map_put argument configFile configMap))))"

definition getProcessConfigurationFile :: "proc_api \<Rightarrow> string list \<Rightarrow> string \<Rightarrow> (string \<times> any) list" where
  "getProcessConfigurationFile os processConfig cmd = config_files os cmd processConfig []"

text \<open>The value that \<open>ParseInt\<close> and \<open>ParseUint\<close> answer next to an error: 0, or the nearest bound.\<close>

definition unsigned_digits :: "string \<Rightarrow> bool" where
  "unsigned_digits s \<longleftrightarrow> s \<noteq> [] \<and> list_all is_digit s"

definition parse_int64_value :: "string \<Rightarrow> int" where
  "parse_int64_value s =
     (case parse_int64 s of
        Some v \<Rightarrow> v
      | None \<Rightarrow>
          (case s of
             c # cs \<Rightarrow>
               if c = CHR ''-'' \<and> unsigned_digits cs then - (2 ^ 63)
               else if unsigned_digits s \<or> c = CHR ''+'' \<and> unsigned_digits cs then 2 ^ 63 - 1
               else 0
           | [] \<Rightarrow> 0))"

definition parse_uint64_value :: "string \<Rightarrow> nat" where
  "parse_uint64_value s =
     (case parse_uint64 s of Some v \<Rightarrow> v | None \<Rightarrow> if unsigned_digits s then 2 ^ 64 - 1 else 0)"

definition createProcCommonData :: "proc_api \<Rightarrow> proc_stat \<Rightarrow> string \<Rightarrow> string \<Rightarrow> proc_common_data" where
  "createProcCommonData os stat cmd pid =
     (let processID = parse_int64_value pid;
          startTime = parse_uint64_value (StartTime stat);
          pgid = parse_int64_value (ps_Group stat);
          ppid = parse_int64_value (Parent stat);
          sysUptime = fst (ReadUptimeFS os);
          uptimeDate = time_Now os - sysUptime * 10 ^ 9;
          args = split_on CHR '' '' cmd;
          start = uptimeDate + ticksToDuration os startTime
      in \<lparr>parent_PID = ppid, pc_PID = processID, pc_Name = ps_Name stat, PGID = pgid,
          CommandLine = cmd, Args = args, ArgsCount = int (length args), Title = ps_Name stat,
          Start = start, Uptime = wholeSeconds os (time_Later os - start)\<rparr>)"

definition fetchProcessData ::
  "proc_api \<Rightarrow> proc_stat \<Rightarrow> string list \<Rightarrow> string \<Rightarrow> proc_resource result" where
  "fetchProcessData os procStat processConf processId =
     (case ReadCmdLineFS os processId of
        Inl err \<Rightarrow> Inl err
      | Inr cmd \<Rightarrow>
          (let configMap = getProcessConfigurationFile os processConf cmd;
               evalRes = \<lparr>PID = processId, Cmd = cmd, Stat = procStat, ExternalData = configMap\<rparr>;
               procCd = createProcCommonData os procStat cmd processId
           in Inr \<lparr>pr_EvalResource = evalRes, pr_ElasticCommon = procCd\<rparr>))"

text \<open>The loop of \<open>Fetch\<close>: what it sends and what it answers.\<close>

fun fetch_pids ::
  "proc_api \<Rightarrow> processes_config_map \<Rightarrow> metadata \<Rightarrow> string list \<Rightarrow>
     (proc_resource \<times> metadata) list \<times> go_error option" where
  "fetch_pids os processes c [] = ([], None)"
| "fetch_pids os processes c (p # pids) =
     (case ReadStatFS os p of
        Inl err \<Rightarrow> ([], Some err)
      | Inr stat \<Rightarrow>
          (case map_of processes (ps_Name stat) of
             None \<Rightarrow> fetch_pids os processes c pids
           | Some processConfig \<Rightarrow>
               (case fetchProcessData os stat processConfig p of
                  Inl err \<Rightarrow> fetch_pids os processes c pids
                | Inr fetchedResource \<Rightarrow>
                    (let (sends, err) = fetch_pids os processes c pids
                     in ((fetchedResource, c) # sends, err)))))"

definition ProcessesFetcher_Fetch ::
  "proc_api \<Rightarrow> processes_config_map \<Rightarrow> metadata \<Rightarrow> (proc_resource \<times> metadata) list \<times> go_error option" where
  "ProcessesFetcher_Fetch os processes cycleMetadata =
     (case ListFS os of
        Inl err \<Rightarrow> ([], Some err)
      | Inr pids \<Rightarrow> fetch_pids os processes cycleMetadata pids)"

section \<open>The resource\<close>

definition ProcResource_GetMetadata :: "proc_resource \<Rightarrow> resource_metadata result" where
  "ProcResource_GetMetadata res = Inr
     (cloud_account_metadata.extend no_account
        (resource_metadata.fields (PID (pr_EvalResource res) @ StartTime (Stat (pr_EvalResource res)))
           ''process'' ProcessSubType (ps_Name (Stat (pr_EvalResource res))) []))"

definition ProcResource_GetElasticCommonData :: "proc_resource \<Rightarrow> (string \<times> any) list result" where
  "ProcResource_GetElasticCommonData res =
     (let cd = pr_ElasticCommon res in Inr
        [(''process.parent.pid'', VInt (parent_PID cd)), (''process.pid'', VInt (pc_PID cd)),
         (''process.name'', VStr (pc_Name cd)), (''process.pgid'', VInt (PGID cd)),
         (''process.command_line'', VStr (CommandLine cd)),
         (''process.args'', VList (map VStr (Args cd))), (''process.args_count'', VInt (ArgsCount cd)),
         (''process.title'', VStr (Title cd)), (''process.start'', VInt (Start cd)),
         (''process.uptime'', VInt (Uptime cd))])"

section \<open>Lemmas\<close>

text \<open>The resource of a process: nothing where it is not required or its command line fails.\<close>

definition process_resource :: "proc_api \<Rightarrow> processes_config_map \<Rightarrow> string \<Rightarrow> proc_resource result" where
  "process_resource os processes p =
     (case ReadStatFS os p of
        Inl err \<Rightarrow> Inl err
      | Inr stat \<Rightarrow>
          (case map_of processes (ps_Name stat) of
             None \<Rightarrow> Inl (Errorf ''not required'')
           | Some conf \<Rightarrow> fetchProcessData os stat conf p))"

lemma fetch_pids_readable:
  "\<forall>p\<in>set pids. is_ok (ReadStatFS os p) \<Longrightarrow>
   fetch_pids os processes c pids = (map (\<lambda>r. (r, c)) (oks (map (process_resource os processes) pids)), None)"
  by (induction pids)
     (auto simp: process_resource_def is_ok_iff split: sum.splits option.splits)

lemma fetch_pids_unreadable:
  "\<forall>p\<in>set ps. is_ok (ReadStatFS os p) \<Longrightarrow> ReadStatFS os q = Inl err \<Longrightarrow>
   fetch_pids os processes c (ps @ q # rs) =
     (map (\<lambda>r. (r, c)) (oks (map (process_resource os processes) ps)), Some err)"
  by (induction ps)
     (auto simp: process_resource_def is_ok_iff split: sum.splits option.splits)

lemma fetchProcessData_pid: "fetchProcessData os stat conf p = Inr r \<Longrightarrow> PID (pr_EvalResource r) = p"
  by (auto simp: fetchProcessData_def Let_def split: sum.splits)

section \<open>Properties\<close>

text \<open>
  The process fetcher sends, in the order of the process list, one resource for each process
  that is required and whose command line can be read, and skips the others. The first process
  whose status cannot be read (it has ended since the list was made, say) ends the cycle: what
  comes before it has been sent, nothing after it is, and the error is answered.
\<close>

lemma ProcessesFetcher_stops_at_unreadable:
  assumes "ListFS os = Inr (ps @ rest)" "\<forall>p\<in>set ps. is_ok (ReadStatFS os p)"
    and "rest = [] \<or> (\<exists>err. ReadStatFS os (hd rest) = Inl err)"
  shows "ProcessesFetcher_Fetch os processes c =
    (map (\<lambda>r. (r, c)) (oks (map (process_resource os processes) ps)),
     if rest = [] then None else error_of (ReadStatFS os (hd rest)))"
proof (cases rest)
  case Nil
  then show ?thesis
    using assms(1) fetch_pids_readable [OF assms(2)] by (simp add: ProcessesFetcher_Fetch_def)
next
  case (Cons q rs)
  then obtain err where "ReadStatFS os q = Inl err" using assms(3) by auto
  then show ?thesis
    using assms(1) Cons fetch_pids_unreadable [OF assms(2)] by (simp add: ProcessesFetcher_Fetch_def)
qed

definition sample_stat :: "string \<Rightarrow> proc_stat" where
  "sample_stat n = \<lparr>ps_Name = n, StartTime = ''100'', ps_Group = ''1'', Parent = ''1'', ps_other = VNil\<rparr>"

definition sample_proc :: proc_api where
  "sample_proc =
     \<lparr>ListFS = Inr [''1'', ''7'', ''8'', ''9''],
      ReadStatFS = (\<lambda>p. if p = ''8'' then Inl (Errorf ''no such file'')
                        else Inr (sample_stat (if p = ''1'' then ''init'' else ''kubelet''))),
      ReadCmdLineFS = (\<lambda>p. Inr ''kubelet --config=/var/lib/k.json''),
      ReadUptimeFS = (5, None),
      fs_ReadFile = (\<lambda>f. if f = ''var/lib/k.json'' then Inr ''{}'' else Inl (Errorf ''not found'')),
      json_Unmarshal = (\<lambda>d. Inr (VMap [])), yaml_Unmarshal = (\<lambda>d. Inr VNil),
      time_Now = 10 ^ 12, time_Later = 10 ^ 12, ticksToDuration = (\<lambda>t. 10 ^ 7 * int t),
      wholeSeconds = (\<lambda>d. d div 10 ^ 9)\<rparr>"

lemma ProcessesFetcher_stops_at_unreadable_witness:
  "\<exists>r. ProcessesFetcher_Fetch sample_proc [(''kubelet'', [''config''])] \<lparr>Sequence = 3\<rparr> =
     ([(r, \<lparr>Sequence = 3\<rparr>)], Some (Errorf ''no such file'')) \<and>
     PID (pr_EvalResource r) = ''7'' \<and> map_of (ExternalData (pr_EvalResource r)) ''config'' = Some (VMap [])"
  using ProcessesFetcher_stops_at_unreadable
    [of sample_proc "[''1'', ''7'']" "[''8'', ''9'']" "[(''kubelet'', [''config''])]" "\<lparr>Sequence = 3\<rparr>"]
  by (simp add: sample_proc_def sample_stat_def process_resource_def fetchProcessData_def
      getProcessConfigurationFile_def match_here_def has_prefix_def re_word_def re_space_def
      capture_value_def readConfigurationFile_def filepath_ext_def map_put_def)

end
