(* ===== verification/Kube_Fetcher.thy ===== *)
theory Kube_Fetcher
  imports Data_Model Config_Model
begin

text \<open>
  \<open>resources/fetching/fetchers/k8s/kube_fetcher.go\<close> and \<open>kube_provider.go\<close>: the fetcher of the
  objects of the Kubernetes API. The watchers of \<open>elastic-agent-autodiscover\<close> and the scheme of
  \<open>client-go\<close> are parameters acting on the state \<open>'w\<close>; \<open>'h\<close> is a handle of a watcher.
\<close>

section \<open>Objects\<close>

text \<open>The types of objects that \<open>nullifyManagedFields\<close> distinguishes.\<close>

datatype kube_type =
    Pod | Role | RoleBinding | ClusterRole | ClusterRoleBinding | PodSecurityPolicy
  | ServiceAccount | NetworkPolicy | Node | OtherType

record group_version_kind =
  gvk_Group :: string
  gvk_Version :: string
  gvk_Kind :: string

record object_meta =
  UID :: string
  om_Name :: string

text \<open>
  An object as the code sees it by type switch, type assertion and reflection: the two metadata
  are \<open>None\<close> where the reflected field has another type.
\<close>

record kube_object =
  ko_type :: kube_type
  is_Resource :: bool
  ManagedFields :: "any list"
  ObjectMeta :: "object_meta option"
  TypeMeta :: "group_version_kind option"
  ko_data :: any

definition nullifyManagedFields :: "kube_object \<Rightarrow> kube_object" where
  "nullifyManagedFields r =
     (case ko_type r of OtherType \<Rightarrow> r | _ \<Rightarrow> r\<lparr>ManagedFields := []\<rparr>)"

definition APIVersionInternal :: string where "APIVersionInternal = ''__internal''"

fun first_kind :: "group_version_kind list \<Rightarrow> group_version_kind option" where
  "first_kind [] = None"
| "first_kind (g # gs) =
     (if length (gvk_Kind g) = 0 then first_kind gs
      else if length (gvk_Version g) = 0 \<or> gvk_Version g = APIVersionInternal then first_kind gs
      else Some g)"

definition addTypeInformationToKubeResource ::
  "(kube_object \<Rightarrow> group_version_kind list result) \<Rightarrow> kube_object \<Rightarrow> kube_object result" where
  "addTypeInformationToKubeResource ObjectKinds r =
     (case ObjectKinds r of
        Inl err \<Rightarrow> Inl (Wrapf ''missing apiVersion or kind and cannot assign it; '' err)
      | Inr kinds \<Rightarrow>
          (case first_kind kinds of
             None \<Rightarrow> Inr r
           | Some g \<Rightarrow> Inr (r\<lparr>TypeMeta := Some g\<rparr>)))"

section \<open>The data of the watchers\<close>

fun kube_sends ::
  "(kube_object \<Rightarrow> group_version_kind list result) \<Rightarrow> metadata \<Rightarrow> kube_object list \<Rightarrow>
     (kube_object \<times> metadata) list" where
  "kube_sends ObjectKinds c [] = []"
| "kube_sends ObjectKinds c (r # rs) =
     (let r' = nullifyManagedFields r
      in if \<not> is_Resource r' then kube_sends ObjectKinds c rs
         else case addTypeInformationToKubeResource ObjectKinds r' of
                Inl err \<Rightarrow> kube_sends ObjectKinds c rs
              | Inr rsc \<Rightarrow> (rsc, c) # kube_sends ObjectKinds c rs)"

fun getKubeData ::
  "(kube_object \<Rightarrow> group_version_kind list result) \<Rightarrow> kube_object list list \<Rightarrow> metadata \<Rightarrow>
     (kube_object \<times> metadata) list" where
  "getKubeData ObjectKinds [] c = []"
| "getKubeData ObjectKinds (store # stores) c =
     kube_sends ObjectKinds c store @ getKubeData ObjectKinds stores c"

abbreviation "K8sObjType \<equiv> ''k8s_object''"

definition getK8sObjectMeta :: "kube_object \<Rightarrow> object_meta" where
  "getK8sObjectMeta r = (case ObjectMeta r of Some m \<Rightarrow> m | None \<Rightarrow> \<lparr>UID = [], om_Name = []\<rparr>)"

definition getK8sSubType :: "kube_object \<Rightarrow> string" where
  "getK8sSubType r = (case TypeMeta r of Some t \<Rightarrow> gvk_Kind t | None \<Rightarrow> [])"

definition K8sResource_GetMetadata :: "kube_object \<Rightarrow> resource_metadata result" where
  "K8sResource_GetMetadata r =
     (let k8sObjMeta = getK8sObjectMeta r in Inr
        (cloud_account_metadata.extend no_account
           (resource_metadata.fields (UID k8sObjMeta) K8sObjType (getK8sSubType r) (om_Name k8sObjMeta) [])))"

definition K8sResource_GetElasticCommonData :: "kube_object \<Rightarrow> (string \<times> any) list result" where
  "K8sResource_GetElasticCommonData r =
     (case K8sResource_GetMetadata r of
        Inl err \<Rightarrow> Inl err
      | Inr md \<Rightarrow> Inr
          [(''orchestrator.resource.type'', VStr (SubType md)), (''orchestrator.resource.name'', VStr (md_Name md)),
           (''orchestrator.resource.id'', VStr (ID md))])"

definition K8sResource_GetData :: "kube_object \<Rightarrow> any" where
  "K8sResource_GetData r = ko_data r"

section \<open>The fetcher\<close>

record required_resource =
  rr_type :: kube_type
  rr_namespace :: string

abbreviation allNamespaces :: string where "allNamespaces \<equiv> []"

definition vanillaClusterResources :: "required_resource list" where
  "vanillaClusterResources =
     map (\<lambda>t. \<lparr>rr_type = t, rr_namespace = allNamespaces\<rparr>)
       [Pod, Role, RoleBinding, ClusterRole, ClusterRoleBinding, PodSecurityPolicy, ServiceAccount, Node]"

record ('h, 'w) watcher_api =
  NewWatcher :: "required_resource \<Rightarrow> int \<Rightarrow> 'w \<Rightarrow> 'h result \<times> 'w"
  watcher_Start :: "'h \<Rightarrow> 'w \<Rightarrow> go_error option \<times> 'w"
  watcher_Stop :: "'h \<Rightarrow> 'w \<Rightarrow> 'w"
  Store_List :: "'h \<Rightarrow> 'w \<Rightarrow> kube_object list"

record 'h kube_fetcher =
  watchers :: "'h list"
  watcherLock :: bool

definition NewKubeFetcher :: "'h kube_fetcher" where
  "NewKubeFetcher = \<lparr>watchers = [], watcherLock = False\<rparr>"

text \<open>
  The timeout: \<open>time.Duration.Seconds(30)\<close> is the number of seconds in 30 nanoseconds, a fraction
  that the conversion to \<open>time.Duration\<close> cuts to 0.
\<close>

definition syncTimeout :: int where
  "syncTimeout = 30 div time_Second"

definition initWatcher ::
  "('h, 'w) watcher_api \<Rightarrow> required_resource \<Rightarrow> 'h kube_fetcher \<Rightarrow> 'w \<Rightarrow>
     go_error option \<times> 'h kube_fetcher \<times> 'w" where
  "initWatcher api r f w =
     (case NewWatcher api r syncTimeout w of
        (Inl err, w') \<Rightarrow> (Some (Wrapf ''could not create watcher: '' err), f, w')
      | (Inr watcher, w') \<Rightarrow>
          (case watcher_Start api watcher w' of
             (Some err, w'') \<Rightarrow> (Some (Wrapf ''could not start watcher: '' err), f, w'')
           | (None, w'') \<Rightarrow> (None, f\<lparr>watchers := watchers f @ [watcher]\<rparr>, w'')))"

fun init_resources ::
  "('h, 'w) watcher_api \<Rightarrow> required_resource list \<Rightarrow> 'h kube_fetcher \<Rightarrow> 'w \<Rightarrow>
     go_error option \<times> 'h kube_fetcher \<times> 'w" where
  "init_resources api [] f w = (None, f, w)"
| "init_resources api (r # rs) f w =
     (case initWatcher api r f w of
        (Some err, f', w') \<Rightarrow> (Some err, f', w')
      | (None, f', w') \<Rightarrow> init_resources api rs f' w')"

definition initWatchers ::
  "('h, 'w) watcher_api \<Rightarrow> 'h kube_fetcher \<Rightarrow> 'w \<Rightarrow> go_error option \<times> 'h kube_fetcher \<times> 'w" where
  "initWatchers api f w = init_resources api vanillaClusterResources (f\<lparr>watchers := []\<rparr>) w"

text \<open>\<open>watcherLock\<close> says whether the function of the \<open>sync.Once\<close> has run.\<close>

definition KubeFetcher_Fetch ::
  "('h, 'w) watcher_api \<Rightarrow> (kube_object \<Rightarrow> group_version_kind list result) \<Rightarrow> 'h kube_fetcher \<Rightarrow>
     metadata \<Rightarrow> 'w \<Rightarrow> (kube_object \<times> metadata) list \<times> go_error option \<times> 'h kube_fetcher \<times> 'w" where
  "KubeFetcher_Fetch api ObjectKinds f c w =
     (let (err, f', w') =
        (if watcherLock f then (None, f, w)
         else let (err, f', w') = initWatchers api f w in (err, f'\<lparr>watcherLock := True\<rparr>, w'))
      in case err of
           Some e \<Rightarrow>
             ([], Some (Wrapf ''could not initate Kubernetes watchers: '' e), f'\<lparr>watcherLock := False\<rparr>, w')
         | None \<Rightarrow>
             (getKubeData ObjectKinds (map (\<lambda>h. Store_List api h w') (watchers f')) c, None, f', w'))"

fun stop_watchers :: "('h, 'w) watcher_api \<Rightarrow> 'h list \<Rightarrow> 'w \<Rightarrow> 'w" where
  "stop_watchers api [] w = w"
| "stop_watchers api (h # hs) w = stop_watchers api hs (watcher_Stop api h w)"

definition KubeFetcher_Stop :: "('h, 'w) watcher_api \<Rightarrow> 'h kube_fetcher \<Rightarrow> 'w \<Rightarrow> 'w" where
  "KubeFetcher_Stop api f w = stop_watchers api (watchers f) w"

section \<open>Lemmas\<close>

lemma nullify_clean: "ko_type r \<noteq> OtherType \<Longrightarrow> ManagedFields (nullifyManagedFields r) = []"
  by (cases "ko_type r") (simp_all add: nullifyManagedFields_def)

lemma nullify_same [simp]:
  "ko_type (nullifyManagedFields r) = ko_type r" "is_Resource (nullifyManagedFields r) = is_Resource r"
  "ObjectMeta (nullifyManagedFields r) = ObjectMeta r" "TypeMeta (nullifyManagedFields r) = TypeMeta r"
  "ko_data (nullifyManagedFields r) = ko_data r"
  by (simp_all add: nullifyManagedFields_def split: kube_type.splits)

lemma first_kind_Some:
  "first_kind gs = Some g \<Longrightarrow> g \<in> set gs \<and> gvk_Kind g \<noteq> [] \<and> gvk_Version g \<notin> {[], APIVersionInternal}"
  by (induction gs) (auto split: if_splits)

lemma addType_ok:
  "addTypeInformationToKubeResource ObjectKinds r = Inr r' \<Longrightarrow>
   ko_type r' = ko_type r \<and> ManagedFields r' = ManagedFields r \<and> is_Resource r' = is_Resource r \<and>
   ObjectMeta r' = ObjectMeta r"
  by (auto simp: addTypeInformationToKubeResource_def split: sum.splits option.splits)

text \<open>The object that is sent for an object of a store, if any.\<close>

definition sent_for :: "(kube_object \<Rightarrow> group_version_kind list result) \<Rightarrow> kube_object \<Rightarrow> kube_object result" where
  "sent_for ObjectKinds r =
     (if is_Resource r then addTypeInformationToKubeResource ObjectKinds (nullifyManagedFields r)
      else Inl (Errorf ''not a resource''))"

lemma kube_sends_eq: "kube_sends ObjectKinds c rs = map (\<lambda>r. (r, c)) (oks (map (sent_for ObjectKinds) rs))"
  by (induction rs) (auto simp: sent_for_def Let_def split: sum.splits)

lemma getKubeData_eq:
  "getKubeData ObjectKinds stores c = map (\<lambda>r. (r, c)) (oks (map (sent_for ObjectKinds) (concat stores)))"
  by (induction stores) (simp_all add: kube_sends_eq)

text \<open>A new attempt to start the watchers forgets those of the attempt before, without stopping them.\<close>

lemma initWatchers_forgets: "initWatchers api f w = initWatchers api (f\<lparr>watchers := hs\<rparr>) w"
  by (simp add: initWatchers_def)

lemma init_resources_lock: "init_resources api rs f w = (err, f', w') \<Longrightarrow> watcherLock f' = watcherLock f"
  by (induction rs arbitrary: f w) (auto simp: initWatcher_def split: prod.splits option.splits sum.splits)

lemma init_resources_count:
  "init_resources api rs f w = (None, f', w') \<Longrightarrow> length (watchers f') = length (watchers f) + length rs"
  by (induction rs arbitrary: f w)
     (fastforce simp: initWatcher_def split: prod.splits option.splits sum.splits)+

section \<open>Properties\<close>

text \<open>
  Every cycle of the Kubernetes fetcher that succeeds has its eight watchers started and sends,
  in the order of their stores, each object that is a resource of a known kind, once; no object
  of a type of the API that the code knows is sent with its managed fields. A cycle whose
  watchers cannot be started sends nothing, answers an error and leaves the next cycle to try
  again.
\<close>

lemma KubeFetcher_sends_clean_objects:
  assumes "KubeFetcher_Fetch api ObjectKinds f c w = (sends, err, f', w')"
    and "watcherLock f \<longrightarrow> length (watchers f) = 8"
  shows "(err = None \<longrightarrow> watcherLock f' \<and> length (watchers f') = 8 \<and>
      sends = map (\<lambda>r. (r, c)) (oks (map (sent_for ObjectKinds)
        (concat (map (\<lambda>h. Store_List api h w') (watchers f'))))) \<and>
      (\<forall>(r, c') \<in> set sends. c' = c \<and> is_Resource r \<and> (ko_type r \<noteq> OtherType \<longrightarrow> ManagedFields r = []))) \<and>
    (err \<noteq> None \<longrightarrow> sends = [] \<and> \<not> watcherLock f')"
proof -
  have clean: "is_Resource r \<and> (ko_type r \<noteq> OtherType \<longrightarrow> ManagedFields r = [])"
    if "sent_for ObjectKinds o' = Inr r" for o' r
    using that addType_ok [of ObjectKinds "nullifyManagedFields o'" r] nullify_clean [of o']
    by (auto simp: sent_for_def split: if_splits)
  show ?thesis
  proof (cases "watcherLock f")
    case True
    then show ?thesis
      using assms clean by (auto simp: KubeFetcher_Fetch_def getKubeData_eq)
  next
    case False
    obtain e g v where init: "initWatchers api f w = (e, g, v)" by (metis prod_cases3)
    have "length (watchers g) = 8" if "e = None"
      using init_resources_count [of api vanillaClusterResources "f\<lparr>watchers := []\<rparr>" w g v] init that
      by (simp add: initWatchers_def vanillaClusterResources_def)
    then show ?thesis
      using assms(1) False init clean
      by (cases e) (auto simp: KubeFetcher_Fetch_def getKubeData_eq)
  qed
qed

definition sample_pod :: kube_object where
  "sample_pod =
     \<lparr>ko_type = Pod, is_Resource = True, ManagedFields = [VStr ''kubectl''],
      ObjectMeta = Some \<lparr>UID = ''u1'', om_Name = ''web''\<rparr>, TypeMeta = None, ko_data = VNil\<rparr>"

definition sample_watchers :: "(kube_type, nat) watcher_api" where
  "sample_watchers =
     \<lparr>NewWatcher = (\<lambda>r t w. (Inr (rr_type r), w)), watcher_Start = (\<lambda>h w. (None, Suc w)),
      watcher_Stop = (\<lambda>h w. w - 1), Store_List = (\<lambda>h w. if h = Pod then [sample_pod] else [])\<rparr>"

lemma KubeFetcher_sends_clean_objects_witness:
  "\<exists>sends f' w'. KubeFetcher_Fetch sample_watchers
      (\<lambda>_. Inr [\<lparr>gvk_Group = [], gvk_Version = ''v1'', gvk_Kind = ''Pod''\<rparr>]) NewKubeFetcher \<lparr>Sequence = 1\<rparr> 0 =
        (sends, None, f', w') \<and> length sends = 1 \<and> (\<forall>(r, c') \<in> set sends. c' = \<lparr>Sequence = 1\<rparr> \<and> is_Resource r \<and>
          (ko_type r \<noteq> OtherType \<longrightarrow> ManagedFields r = []))"
proof -
  let ?kinds = "\<lambda>_ :: kube_object. Inr [\<lparr>gvk_Group = [], gvk_Version = ''v1'', gvk_Kind = ''Pod''\<rparr>]"
  have "\<exists>sends f' w'. KubeFetcher_Fetch sample_watchers ?kinds NewKubeFetcher \<lparr>Sequence = 1\<rparr> 0 =
      (sends, None, f', w') \<and> length sends = 1"
    by (simp add: KubeFetcher_Fetch_def NewKubeFetcher_def initWatchers_def vanillaClusterResources_def
        initWatcher_def sample_watchers_def sample_pod_def nullifyManagedFields_def
        addTypeInformationToKubeResource_def APIVersionInternal_def)
  then obtain sends f' w' where run: "KubeFetcher_Fetch sample_watchers ?kinds NewKubeFetcher
      \<lparr>Sequence = 1\<rparr> 0 = (sends, None, f', w')" "length sends = 1" by blast
  show ?thesis
    using KubeFetcher_sends_clean_objects [OF run(1)] run by (auto simp: NewKubeFetcher_def)
qed

end
