(* ===== verification/Preset_Model.thy ===== *)
theory Preset_Model
  imports Fetch_Registry Data_Providers FS_Fetcher Proc_Fetcher
begin

text \<open>
  \<open>resources/fetching/preset\<close>: the fetchers of each benchmark, with their keys and conditions. A
  preset builds its fetchers with the constructors of the fetchers packages; here it gets them in
  a record, and hands them what the code hands them: patterns, processes, identities and regular
  expressions. Of \<open>aws_org_preset.go\<close> the whole refresh of the accounts is modelled, with the
  cache that keeps the fetchers of an account from one refresh to the next.
\<close>

section \<open>Kubernetes\<close>

definition vanillaFsPatterns :: "string list" where
  "vanillaFsPatterns =
     [''/hostfs/etc/kubernetes/scheduler.conf'',
      ''/hostfs/etc/kubernetes/controller-manager.conf'',
      ''/hostfs/etc/kubernetes/admin.conf'',
      ''/hostfs/etc/kubernetes/kubelet.conf'',
      ''/hostfs/etc/kubernetes/manifests/etcd.yaml'',
      ''/hostfs/etc/kubernetes/manifests/kube-apiserver.yaml'',
      ''/hostfs/etc/kubernetes/manifests/kube-controller-manager.yaml'',
      ''/hostfs/etc/kubernetes/manifests/kube-scheduler.yaml'',
      ''/hostfs/etc/systemd/system/kubelet.service.d/10-kubeadm.conf'',
      ''/hostfs/etc/kubernetes/pki/**'',
      ''/hostfs/var/lib/kubelet/config.yaml'',
      ''/hostfs/var/lib/etcd'',
      ''/hostfs/etc/kubernetes/pki'']"

definition vanillaRequiredProcesses :: processes_config_map where
  "vanillaRequiredProcesses =
     [(''etcd'', []), (''kube-apiserver'', []), (''kube-controller'', []), (''kube-scheduler'', []),
      (''kubelet'', [''config''])]"

record 'w k8s_constructors =
  mk_FsFetcher :: "string list \<Rightarrow> 'w fetcher"
  mk_ProcessFetcher :: "processes_config_map \<Rightarrow> 'w fetcher"
  mk_KubeFetcher :: "'w fetcher"

text \<open>\<open>le\<close> is the \<open>IsLeader\<close> method of the leader election manager.\<close>

definition NewCisK8sFetchers :: "('w, 'm) k8s_constructors_scheme \<Rightarrow> ('w \<Rightarrow> bool) \<Rightarrow> 'w fetchers_map" where
  "NewCisK8sFetchers mk le =
     [(FileSystemType, \<lparr>Fetcher = mk_FsFetcher mk vanillaFsPatterns, Condition = []\<rparr>),
      (ProcessType, \<lparr>Fetcher = mk_ProcessFetcher mk vanillaRequiredProcesses, Condition = []\<rparr>),
      (KubeAPIType, \<lparr>Fetcher = mk_KubeFetcher mk, Condition = [NewIsLeader le]\<rparr>)]"

section \<open>EKS\<close>

abbreviation bs :: string where "bs \<equiv> [CHR 0x5C]"

definition elbRegex :: "string \<Rightarrow> string" where
  "elbRegex region =
     ''(['' @ bs @ ''w-]+)-'' @ bs @ ''d+'' @ bs @ ''.'' @ region @ ''.elb.amazonaws.com''"

definition privateRepoRegex :: "string \<Rightarrow> string" where
  "privateRepoRegex account =
     ''^'' @ account @ bs @ ''.dkr'' @ bs @ ''.ecr'' @ bs @ ''.([-'' @ bs @ ''w]+)'' @ bs @ ''.amazonaws'' @ bs @ ''.com'' @ bs @ ''/([-'' @ bs @ ''w'' @ bs @ ''.'' @ bs @ ''/]+)[:,@]?''"

definition eksRequiredProcesses :: processes_config_map where
  "eksRequiredProcesses = [(''kubelet'', [''config''])]"

definition eksFsPatterns :: "string list" where
  "eksFsPatterns =
     [''/hostfs/etc/kubernetes/kubelet/kubelet-config.json'', ''/hostfs/var/lib/kubelet/kubeconfig'']"

record 'w eks_constructors = "'w k8s_constructors" +
  mk_EcrFetcher :: "string \<Rightarrow> 'w fetcher"
  mk_ElbFetcher :: "identity \<Rightarrow> string \<Rightarrow> 'w fetcher"

definition NewCisEksFetchers ::
  "'w eks_constructors \<Rightarrow> string \<Rightarrow> ('w \<Rightarrow> bool) \<Rightarrow> identity option \<Rightarrow> 'w fetchers_map" where
  "NewCisEksFetchers mk region le ident =
     (case ident of
        None \<Rightarrow> []
      | Some identity \<Rightarrow>
          [(''aws-ecr'', \<lparr>Fetcher = mk_EcrFetcher mk (privateRepoRegex (Account identity)),
                         Condition = [NewIsLeader le]\<rparr>),
           (''aws-elb'', \<lparr>Fetcher = mk_ElbFetcher mk identity (elbRegex region),
                         Condition = [NewIsLeader le]\<rparr>)]) @
     [(FileSystemType, \<lparr>Fetcher = mk_FsFetcher mk eksFsPatterns, Condition = []\<rparr>),
      (ProcessType, \<lparr>Fetcher = mk_ProcessFetcher mk eksRequiredProcesses, Condition = []\<rparr>),
      (KubeAPIType, \<lparr>Fetcher = mk_KubeFetcher mk, Condition = [NewIsLeader le]\<rparr>)]"

section \<open>The clouds\<close>

record 'w aws_constructors =
  mk_IAMFetcher :: "identity \<Rightarrow> 'w fetcher"
  mk_KMSFetcher :: "'w fetcher"
  mk_LoggingFetcher :: "identity \<Rightarrow> 'w fetcher"
  mk_MonitoringFetcher :: "identity \<Rightarrow> 'w fetcher"
  mk_NetworkFetcher :: "string \<Rightarrow> 'w fetcher"
  mk_RdsFetcher :: "string \<Rightarrow> 'w fetcher"
  mk_S3Fetcher :: "string \<Rightarrow> 'w fetcher"

definition NewCisAwsFetchers :: "'w aws_constructors \<Rightarrow> identity \<Rightarrow> 'w fetchers_map" where
  "NewCisAwsFetchers mk identity =
     [(''aws-iam'', \<lparr>Fetcher = mk_IAMFetcher mk identity, Condition = []\<rparr>),
      (''aws-kms'', \<lparr>Fetcher = mk_KMSFetcher mk, Condition = []\<rparr>),
      (''aws-trail'', \<lparr>Fetcher = mk_LoggingFetcher mk identity, Condition = []\<rparr>),
      (''aws-monitoring'', \<lparr>Fetcher = mk_MonitoringFetcher mk identity, Condition = []\<rparr>),
      (''aws-ec2-network'', \<lparr>Fetcher = mk_NetworkFetcher mk (Account identity), Condition = []\<rparr>),
      (''aws-rds'', \<lparr>Fetcher = mk_RdsFetcher mk (Account identity), Condition = []\<rparr>),
      (''aws-s3'', \<lparr>Fetcher = mk_S3Fetcher mk (Account identity), Condition = []\<rparr>)]"

record 'w gcp_constructors =
  mk_GcpAssetsFetcher :: "'w fetcher"
  mk_GcpMonitoringFetcher :: "'w fetcher"
  mk_GcpServiceUsageFetcher :: "'w fetcher"
  mk_GcpLogSinkFetcher :: "'w fetcher"
  mk_GcpPoliciesFetcher :: "'w fetcher"

definition NewCisGcpFetchers :: "'w gcp_constructors \<Rightarrow> gcp_config \<Rightarrow> 'w fetchers_map result" where
  "NewCisGcpFetchers mk cfg =
     Inr ([(''gcp_cloud_assets_fetcher'', \<lparr>Fetcher = mk_GcpAssetsFetcher mk, Condition = []\<rparr>),
           (''gcp_monitoring_fetcher'', \<lparr>Fetcher = mk_GcpMonitoringFetcher mk, Condition = []\<rparr>),
           (''gcp_service_usage_fetcher'', \<lparr>Fetcher = mk_GcpServiceUsageFetcher mk, Condition = []\<rparr>)] @
          (if gcp_AccountType cfg = OrganizationAccount
           then [(''gcp_logging_fetcher'', \<lparr>Fetcher = mk_GcpLogSinkFetcher mk, Condition = []\<rparr>),
                 (''gcp_policies_fetcher'', \<lparr>Fetcher = mk_GcpPoliciesFetcher mk, Condition = []\<rparr>)]
           else []))"

record 'w azure_constructors =
  mk_AzureAssetsFetcher :: "'w fetcher"
  mk_AzureBatchAssetFetcher :: "'w fetcher"
  mk_AzureInsightsBatchAssetFetcher :: "'w fetcher"

definition NewCisAzureFactory :: "'w azure_constructors \<Rightarrow> 'w fetchers_map result" where
  "NewCisAzureFactory mk =
     Inr [(''azure_cloud_assets_fetcher'', \<lparr>Fetcher = mk_AzureAssetsFetcher mk, Condition = []\<rparr>),
          (''azure_cloud_batch_asset_fetcher'', \<lparr>Fetcher = mk_AzureBatchAssetFetcher mk, Condition = []\<rparr>),
          (''azure_cloud_insights_batch_asset_fetcher'',
            \<lparr>Fetcher = mk_AzureInsightsBatchAssetFetcher mk, Condition = []\<rparr>)]"

section \<open>The accounts of an AWS organization\<close>

text \<open>
  \<open>wrapResource\<close>: a resource of a member account. What a member's fetchers send is wrapped on its
  way to the common channel.
\<close>

definition wrapResource_GetMetadata :: "identity \<Rightarrow> resource_metadata result \<Rightarrow> resource_metadata result" where
  "wrapResource_GetMetadata ident wrapped =
     (case wrapped of
        Inl err \<Rightarrow> Inl err
      | Inr mdata \<Rightarrow> Inr (mdata\<lparr>AccountName := AccountAlias ident, AccountId := Account ident,
                             OrganisationId := OrganizationId ident,
                             account_OrganizationName := OrganizationName ident\<rparr>))"

definition wrapResource :: "identity \<Rightarrow> resource_info \<Rightarrow> resource_info" where
  "wrapResource ident r = r\<lparr>GetMetadata := wrapResource_GetMetadata ident (GetMetadata r)\<rparr>"

record 'cfg aws_account =
  acc_Identity :: identity
  acc_Config :: 'cfg

text \<open>
  The state of the loop over the accounts: the cache (\<open>None\<close> is a nil map), which cached keys have
  been seen, the result, and the accounts for which fetchers and a forwarding goroutine have been
  started. The factory never answers a nil map.
\<close>

record ('cfg, 'f) org_state =
  org_cache :: "(string \<times> 'f) list option"
  org_seen :: "(string \<times> bool) list"
  org_m :: "(string \<times> 'f) list"
  org_created :: "'cfg aws_account list"

definition cache_lookup :: "(string \<times> 'f) list option \<Rightarrow> string \<Rightarrow> 'f option" where
  "cache_lookup mc k = (case mc of None \<Rightarrow> None | Some c \<Rightarrow> map_of c k)"

definition org_account ::
  "('cfg aws_account \<Rightarrow> 'f) \<Rightarrow> 'cfg aws_account \<Rightarrow> ('cfg, 'f) org_state \<Rightarrow> ('cfg, 'f) org_state" where
  "org_account factory account s =
     (let key = Account (acc_Identity account)
      in case cache_lookup (org_cache s) key of
           Some existing \<Rightarrow>
             s\<lparr>org_m := map_put key existing (org_m s), org_seen := map_put key True (org_seen s)\<rparr>
         | None \<Rightarrow>
             (let f = factory account
              in s\<lparr>org_m := map_put key f (org_m s),
                   org_cache := (case org_cache s of None \<Rightarrow> None | Some c \<Rightarrow> Some (map_put key f c)),
                   org_created := org_created s @ [account]\<rparr>))"

fun org_delete_unseen :: "(string \<times> bool) list \<Rightarrow> (string \<times> 'f) list \<Rightarrow> (string \<times> 'f) list" where
  "org_delete_unseen [] c = c"
| "org_delete_unseen ((key, v) # seen) c =
     org_delete_unseen seen (if \<not> v then map_delete key c else c)"

definition newCisAwsOrganizationFetchers ::
  "'cfg aws_account list \<Rightarrow> (string \<times> 'f) list option \<Rightarrow> ('cfg aws_account \<Rightarrow> 'f) \<Rightarrow>
     (string \<times> 'f) list \<times> (string \<times> 'f) list option \<times> 'cfg aws_account list" where
  "newCisAwsOrganizationFetchers accounts mc factory =
     (let seen = (case mc of None \<Rightarrow> [] | Some c \<Rightarrow> map (\<lambda>(key, _). (key, False)) c);
          s = fold (org_account factory) accounts
                \<lparr>org_cache = mc, org_seen = seen, org_m = [], org_created = []\<rparr>
      in (org_m s,
          (case org_cache s of None \<Rightarrow> None | Some c \<Rightarrow> Some (org_delete_unseen (org_seen s) c)),
          org_created s))"

section \<open>Lemmas on the refresh\<close>

definition cached :: "(string \<times> 'f) list \<Rightarrow> string \<Rightarrow> bool" where
  "cached c k \<longleftrightarrow> map_of c k \<noteq> None"

definition acc_key :: "'cfg aws_account \<Rightarrow> string" where
  "acc_key a = Account (acc_Identity a)"

text \<open>The fetchers of an account: the cached ones where there are, else those of the factory.\<close>

definition org_fetchers :: "('cfg aws_account \<Rightarrow> 'f) \<Rightarrow> (string \<times> 'f) list \<Rightarrow> 'cfg aws_account \<Rightarrow> 'f" where
  "org_fetchers factory c a = (case map_of c (acc_key a) of Some f \<Rightarrow> f | None \<Rightarrow> factory a)"

lemma org_account_cached:
  "org_cache s = Some c \<Longrightarrow> map_of c (acc_key a) = Some f \<Longrightarrow>
   org_account factory a s = s\<lparr>org_m := map_put (acc_key a) f (org_m s),
     org_seen := map_put (acc_key a) True (org_seen s)\<rparr>"
  by (simp add: org_account_def cache_lookup_def acc_key_def Let_def)

lemma org_account_new:
  "org_cache s = Some c \<Longrightarrow> map_of c (acc_key a) = None \<Longrightarrow>
   org_account factory a s = s\<lparr>org_m := map_put (acc_key a) (factory a) (org_m s),
     org_cache := Some (map_put (acc_key a) (factory a) c), org_created := org_created s @ [a]\<rparr>"
  by (simp add: org_account_def cache_lookup_def acc_key_def Let_def)

abbreviation org_table :: "('cfg aws_account \<Rightarrow> 'f) \<Rightarrow> (string \<times> 'f) list \<Rightarrow> 'cfg aws_account list \<Rightarrow> string \<rightharpoonup> 'f" where
  "org_table factory c accounts \<equiv> map_of (map (\<lambda>a. (acc_key a, org_fetchers factory c a)) accounts)"

lemma org_table_None: "org_table factory c accounts k = None \<longleftrightarrow> k \<notin> acc_key ` set accounts"
  by (force simp: map_of_eq_None_iff)

lemma org_table_snoc:
  "acc_key a \<notin> acc_key ` set accounts \<Longrightarrow>
   org_table factory c (accounts @ [a]) = (org_table factory c accounts)(acc_key a \<mapsto> org_fetchers factory c a)"
  using org_table_None [of factory c accounts "acc_key a"]
  by (auto simp: map_add_def fun_eq_iff split: option.splits)

text \<open>What holds after some of the accounts: the loop started with the cache \<open>c\<close>.\<close>

definition org_done ::
  "('cfg aws_account \<Rightarrow> 'f) \<Rightarrow> (string \<times> 'f) list \<Rightarrow> 'cfg aws_account list \<Rightarrow> ('cfg, 'f) org_state \<Rightarrow> bool" where
  "org_done factory c accounts s \<longleftrightarrow>
     (\<exists>c'. org_cache s = Some c' \<and>
        (\<forall>k. map_of c' k = (if k \<in> acc_key ` set accounts then org_table factory c accounts k else map_of c k))) \<and>
     map_of (org_m s) = org_table factory c accounts \<and>
     (\<forall>k. map_of (org_seen s) k =
        (if k \<in> acc_key ` set accounts \<and> cached c k then Some True
         else if cached c k then Some False else None)) \<and>
     org_created s = filter (\<lambda>a. \<not> cached c (acc_key a)) accounts"

lemma org_done_step:
  assumes "org_done factory c accounts s" "acc_key a \<notin> acc_key ` set accounts"
  shows "org_done factory c (accounts @ [a]) (org_account factory a s)"
proof -
  obtain c' where c': "org_cache s = Some c'"
      "\<And>k. map_of c' k = (if k \<in> acc_key ` set accounts then org_table factory c accounts k else map_of c k)"
    using assms(1) by (auto simp: org_done_def)
  have here: "map_of c' (acc_key a) = map_of c (acc_key a)" using c'(2) assms(2) by simp
  note table = org_table_snoc [OF assms(2), of factory c]
  show ?thesis
  proof (cases "map_of c (acc_key a)")
    case (Some f)
    have f: "org_fetchers factory c a = f" using Some by (simp add: org_fetchers_def)
    show ?thesis
      using assms c' Some here org_account_cached [OF c'(1), of a f factory] unfolding org_done_def table
      by (simp add: f cached_def)
  next
    case None
    have f: "org_fetchers factory c a = factory a" using None by (simp add: org_fetchers_def)
    show ?thesis
      using assms c' None here org_account_new [OF c'(1), of a factory] unfolding org_done_def table
      by (simp add: f cached_def)
  qed
qed

lemma org_done_fold:
  assumes "distinct (map acc_key accounts)" "org_done factory c [] s"
  shows "org_done factory c accounts (fold (org_account factory) accounts s)"
  using assms
proof (induction accounts rule: rev_induct)
  case (snoc a accounts)
  then show ?case using org_done_step [of factory c accounts] by simp
qed simp

lemma map_of_delete_unseen:
  assumes "distinct (map fst seen)"
  shows "map_of (org_delete_unseen seen c) k = (if map_of seen k = Some False then None else map_of c k)"
  using assms
proof (induction seen arbitrary: c)
  case (Cons e seen)
  obtain key v where e: "e = (key, v)" by fastforce
  have "map_of seen key = None" using Cons.prems e by (simp add: map_of_eq_None_iff image_iff)
  then show ?case using Cons e by auto
qed simp

lemma distinct_seen:
  "distinct (map fst (org_seen s)) \<Longrightarrow> distinct (map fst (org_seen (org_account factory a s)))"
  by (simp add: org_account_def Let_def distinct_map_put split: option.splits)

lemma distinct_seen_fold:
  "distinct (map fst (org_seen s)) \<Longrightarrow> distinct (map fst (org_seen (fold (org_account factory) accounts s)))"
  by (induction accounts arbitrary: s) (simp_all add: distinct_seen)

lemma map_of_false: "map_of (map (\<lambda>(key, _). (key, False)) c) k = (if cached c k then Some False else None)"
  by (induction c) (auto simp: cached_def)

section \<open>Properties\<close>

text \<open>
  C19. A refresh of the accounts of an organization answers the fetchers of exactly the accounts
  listed: those of an account that was cached are reused, and new fetchers (with their forwarding
  goroutine) are made once for each account that was not. Afterwards the cache holds exactly this
  answer, so that an account that has left the organization is forgotten.
\<close>

theorem organization_refresh:
  assumes "distinct (map acc_key accounts)" "distinct (map fst c)"
    and "newCisAwsOrganizationFetchers accounts (Some c) factory = (m, mc', created)"
  shows "map_of m = org_table factory c accounts \<and>
    (\<exists>c'. mc' = Some c' \<and> map_of c' = map_of m) \<and>
    created = filter (\<lambda>a. \<not> cached c (acc_key a)) accounts"
proof -
  let ?seen = "map (\<lambda>(key, _). (key, False)) c"
  let ?s = "\<lparr>org_cache = Some c, org_seen = ?seen, org_m = [], org_created = []\<rparr>"
  let ?t = "fold (org_account factory) accounts ?s"
  have "org_done factory c [] ?s"
    by (simp add: org_done_def map_of_false fun_eq_iff)
  then have inv: "org_done factory c accounts ?t" by (rule org_done_fold [OF assms(1)])
  have "map fst ?seen = map fst c" by (induction c) auto
  then have distinct: "distinct (map fst (org_seen ?t))"
    using assms(2) by (intro distinct_seen_fold) (simp del: map_map)
  obtain c1 where c1: "org_cache ?t = Some c1"
      "\<And>k. map_of c1 k = (if k \<in> acc_key ` set accounts then org_table factory c accounts k else map_of c k)"
    using inv by (auto simp: org_done_def)
  have res: "m = org_m ?t" "mc' = Some (org_delete_unseen (org_seen ?t) c1)" "created = org_created ?t"
    using assms(3) c1(1) by (simp_all add: newCisAwsOrganizationFetchers_def Let_def)
  have "map_of (org_delete_unseen (org_seen ?t) c1) k = org_table factory c accounts k" for k
    using inv org_table_None [of factory c accounts k]
    by (auto simp: map_of_delete_unseen [OF distinct] c1(2) org_done_def cached_def)
  then show ?thesis using inv res by (auto simp: org_done_def fun_eq_iff)
qed

definition sample_account :: "string \<Rightarrow> unit aws_account" where
  "sample_account k =
     \<lparr>acc_Identity = \<lparr>Provider = ''aws'', Account = k, AccountAlias = [], OrganizationId = [],
        OrganizationName = []\<rparr>, acc_Config = ()\<rparr>"

lemma organization_refresh_witness:
  "\<exists>m c'. newCisAwsOrganizationFetchers [sample_account ''2'', sample_account ''3'']
      (Some [(''1'', ''old 1''), (''2'', ''old 2'')]) (\<lambda>a. ''new '' @ acc_key a) =
        (m, Some c', [sample_account ''3'']) \<and>
     map_of c' = map_of [(''2'', ''old 2''), (''3'', ''new 3'')]"
proof -
  obtain m mc' created where run:
    "newCisAwsOrganizationFetchers [sample_account ''2'', sample_account ''3'']
      (Some [(''1'', ''old 1''), (''2'', ''old 2'')]) (\<lambda>a. ''new '' @ acc_key a) = (m, mc', created)"
    by (metis prod_cases3)
  show ?thesis
    using organization_refresh [OF _ _ run] run
    by (auto simp: acc_key_def sample_account_def org_fetchers_def cached_def)
qed

text \<open>
  In the Kubernetes and EKS benchmarks the fetchers of the node (files and processes) run on
  every instance, and those of the whole cluster (the Kubernetes API, and on EKS with an AWS
  identity the registry and the load balancers) only while the instance is the leader; without an
  identity EKS has no AWS fetchers.
\<close>

lemma cluster_fetchers_need_leader:
  "(ShouldRun (NewRegistry [WithFetchersMap (NewCisK8sFetchers mk8 le)]) k w \<longleftrightarrow>
      k \<in> {FileSystemType, ProcessType} \<or> k = KubeAPIType \<and> le w) \<and>
   (ShouldRun (NewRegistry [WithFetchersMap (NewCisEksFetchers mk region le ident)]) k w \<longleftrightarrow>
      k \<in> {FileSystemType, ProcessType} \<or> k = KubeAPIType \<and> le w \<or>
      k \<in> {''aws-ecr'', ''aws-elb''} \<and> ident \<noteq> None \<and> le w)"
  by (auto simp: ShouldRun_def NewRegistry_def WithFetchersMap_def NewCisK8sFetchers_def
      NewCisEksFetchers_def NewIsLeader_def split: option.splits)

end
