(* ===== verification/Uniqueness_Model.thy ===== *)
theory Uniqueness_Model
  imports GoText Config_Model Progress
begin

text \<open>
  \<open>uniqueness/leaderelection.go\<close>, \<open>leaderelection_const.go\<close> and \<open>default_manager.go\<close>: the
  manager of the election of one leader among the agents of a cluster. The elector of
  \<open>client-go\<close>, the environment and the random UUIDs are parameters; the elector's documented
  behaviour is that its \<open>Run\<close> calls \<open>OnStoppedLeading\<close> once when it ends.
\<close>

section \<open>Constants\<close>

definition LeaseDuration :: int where "LeaseDuration = 5 * time_Second"
definition RenewDeadline :: int where "RenewDeadline = 3 * time_Second"
definition RetryPeriod :: int where "RetryPeriod = 2 * time_Second"
definition FirstLeaderDeadline :: int where "FirstLeaderDeadline = LeaseDuration + 5 * time_Second"

abbreviation "PodNameEnvar \<equiv> ''POD_NAME''"
abbreviation "LeaderLeaseName \<equiv> ''cloudbeat-cluster-leader''"

section \<open>The identity of the candidate\<close>

text \<open>\<open>generateUUID\<close>; \<open>newV4\<close> is what \<open>uuid.NewV4\<close> answers: the text, with an error or nil.\<close>

definition generateUUID :: "string \<times> go_error option \<Rightarrow> string \<times> go_error option" where
  "generateUUID newV4 = (fst newV4, snd newV4)"

definition lastPart :: "string \<times> go_error option \<Rightarrow> string \<Rightarrow> string \<times> go_error option" where
  "lastPart newV4 s =
     (let parts = split_on CHR ''-'' s
      in if length parts = 0 then generateUUID newV4
         else (parts ! (length parts - 1), None))"

text \<open>\<open>pod\<close> is the value of the environment variable, \<open>None\<close> where it is not set.\<close>

definition currentPodID :: "string \<times> go_error option \<Rightarrow> string option \<Rightarrow> string \<times> go_error option" where
  "currentPodID newV4 pod =
     (case pod of
        None \<Rightarrow> generateUUID newV4
      | Some p \<Rightarrow> lastPart newV4 p)"

record le_config =
  Identity :: string
  LeaseName :: string
  LeaseNamespace :: string
  le_LeaseDuration :: int
  le_RenewDeadline :: int
  le_RetryPeriod :: int
  ReleaseOnCancel :: bool

definition buildConfig ::
  "string \<times> go_error option \<Rightarrow> string option \<Rightarrow> string result \<Rightarrow> le_config result" where
  "buildConfig newV4 pod inClusterNamespace =
     (case currentPodID newV4 pod of
        (_, Some err) \<Rightarrow> Inl err
      | (podId, None) \<Rightarrow>
          (let id = LeaderLeaseName @ ''_'' @ podId;
               ns = (case inClusterNamespace of Inl _ \<Rightarrow> ''default'' | Inr n \<Rightarrow> n)
           in Inr \<lparr>Identity = id, LeaseName = LeaderLeaseName, LeaseNamespace = ns,
                   le_LeaseDuration = LeaseDuration, le_RenewDeadline = RenewDeadline,
                   le_RetryPeriod = RetryPeriod, ReleaseOnCancel = True\<rparr>))"

lemma lastPart_spec:
  "lastPart newV4 s = (last (split_on CHR ''-'' s), None) \<and> CHR ''-'' \<notin> set (last (split_on CHR ''-'' s))"
proof -
  have "last (split_on CHR ''-'' s) \<in> set (split_on CHR ''-'' s)" by simp
  then have "CHR ''-'' \<notin> set (last (split_on CHR ''-'' s))" by (rule split_on_parts)
  then show ?thesis by (simp add: lastPart_def last_conv_nth Let_def)
qed

section \<open>The manager\<close>

text \<open>
  The manager with its goroutines. \<open>wg\<close> is the counter of the wait group, \<open>electing\<close> the number
  of calls of the elector's \<open>Run\<close> in progress, and the calls of \<open>OnStoppedLeading\<close> are counted by
  where they are: \<open>stopped\<close> before the \<open>select\<close>, \<open>restarted\<close> between \<open>go m.leader.Run (ctx)\<close> and
  \<open>m.wg.Add (1)\<close>, \<open>leaving\<close> at the deferred \<open>m.wg.Done ()\<close>. \<open>adding\<close> says that the manager's own
  \<open>Run\<close> stands between its \<open>go m.leader.Run (newCtx)\<close> and its \<open>m.wg.Add (1)\<close>.
\<close>

record le_manager =
  has_leader :: bool
  has_cancelFunc :: bool
  le_canceled :: bool
  wg :: int
  electing :: nat
  adding :: bool
  stopped :: nat
  restarted :: nat
  leaving :: nat

datatype uniqueness_manager = DefaultUniqueManager | LeaderelectionManager le_manager

definition new_le_manager :: le_manager where
  "new_le_manager =
     \<lparr>has_leader = False, has_cancelFunc = False, le_canceled = False, wg = 0, electing = 0,
      adding = False, stopped = 0, restarted = 0, leaving = 0\<rparr>"

definition NewLeaderElector :: "'client option \<Rightarrow> uniqueness_manager" where
  "NewLeaderElector client =
     (case client of None \<Rightarrow> DefaultUniqueManager | Some _ \<Rightarrow> LeaderelectionManager new_le_manager)"

text \<open>\<open>IsLeader\<close>: \<open>None\<close> is the nil dereference of an elector that has not been created.\<close>

definition IsLeader :: "bool \<Rightarrow> uniqueness_manager \<Rightarrow> bool option" where
  "IsLeader elector_is_leader m =
     (case m of
        DefaultUniqueManager \<Rightarrow> Some True
      | LeaderelectionManager l \<Rightarrow> if has_leader l then Some elector_is_leader else None)"

text \<open>
  \<open>Run\<close> up to the start of the elector; the error is answered before any goroutine is started.
  \<open>newElector\<close> is \<open>le.NewLeaderElector\<close>.
\<close>

definition leaderManager_Run ::
  "le_config result \<Rightarrow> (le_config \<Rightarrow> go_error option) \<Rightarrow> uniqueness_manager \<Rightarrow>
     go_error option \<times> uniqueness_manager" where
  "leaderManager_Run leConfig newElector m =
     (case m of
        DefaultUniqueManager \<Rightarrow> (None, DefaultUniqueManager)
      | LeaderelectionManager l \<Rightarrow>
          (let l = l\<lparr>has_cancelFunc := True\<rparr>
           in case leConfig of
                Inl err \<Rightarrow> (Some err, LeaderelectionManager l)
              | Inr cfg \<Rightarrow>
                  (case newElector cfg of
                     Some err \<Rightarrow> (Some err, LeaderelectionManager (l\<lparr>has_leader := False\<rparr>))
                   | None \<Rightarrow>
                       (None, LeaderelectionManager
                          (l\<lparr>has_leader := True, electing := Suc (electing l), adding := True\<rparr>)))))"

text \<open>
  What the goroutines do after that, one statement at a time. The counter of a wait group may be
  seen negative here; the Go runtime panics at that point.
\<close>

inductive le_step :: "le_manager \<Rightarrow> le_manager \<Rightarrow> bool" where
  run_adds: "adding l \<Longrightarrow> le_step l (l\<lparr>adding := False, wg := wg l + 1\<rparr>)"
| elector_ends: "0 < electing l \<Longrightarrow>
    le_step l (l\<lparr>electing := electing l - 1, stopped := Suc (stopped l)\<rparr>)"
| callback_canceled: "0 < stopped l \<Longrightarrow> le_canceled l \<Longrightarrow>
    le_step l (l\<lparr>stopped := stopped l - 1, leaving := Suc (leaving l)\<rparr>)"
| callback_reruns: "0 < stopped l \<Longrightarrow> \<not> le_canceled l \<Longrightarrow>
    le_step l (l\<lparr>stopped := stopped l - 1, electing := Suc (electing l), restarted := Suc (restarted l)\<rparr>)"
| callback_adds: "0 < restarted l \<Longrightarrow>
    le_step l (l\<lparr>restarted := restarted l - 1, wg := wg l + 1, leaving := Suc (leaving l)\<rparr>)"
| callback_done: "0 < leaving l \<Longrightarrow> le_step l (l\<lparr>leaving := leaving l - 1, wg := wg l - 1\<rparr>)"
| context_canceled: "le_step l (l\<lparr>le_canceled := True\<rparr>)"

inductive_cases le_stepE: "le_step l l'"

text \<open>\<open>Stop\<close> cancels the context, a \<open>context_canceled\<close> step, and returns when the counter is 0.\<close>

definition leaderManager_Stop_returns :: "le_manager \<Rightarrow> bool" where
  "leaderManager_Stop_returns l \<longleftrightarrow> \<not> has_cancelFunc l \<or> wg l = 0"

inductive le_reachable :: "le_manager \<Rightarrow> bool" where
  le_started: "leaderManager_Run (Inr cfg) newElector (LeaderelectionManager new_le_manager) =
    (None, LeaderelectionManager l) \<Longrightarrow> le_reachable l"
| le_next: "le_reachable l \<Longrightarrow> le_step l l' \<Longrightarrow> le_reachable l'"

text \<open>Every call of \<open>Done\<close> still to come is matched by the counter, or by the one pending \<open>Add\<close>.\<close>

definition le_inv :: "le_manager \<Rightarrow> bool" where
  "le_inv l \<longleftrightarrow>
     wg l + (if adding l then 1 else 0) = int (electing l) + int (stopped l) + int (leaving l) \<and>
     electing l + stopped l \<le> 1 \<and> has_cancelFunc l"

lemma le_inv_step: "le_step l l' \<Longrightarrow> le_inv l \<Longrightarrow> le_inv l'"
  by (induction rule: le_step.induct) (auto simp: le_inv_def split: if_splits)

lemma le_inv_reachable: "le_reachable l \<Longrightarrow> le_inv l"
proof (induction rule: le_reachable.induct)
  case (le_started cfg newElector l)
  then show ?case
    by (auto simp: leaderManager_Run_def new_le_manager_def le_inv_def Let_def split: option.splits)
next
  case (le_next l l')
  then show ?case by (blast intro: le_inv_step)
qed

section \<open>Properties\<close>

text \<open>
  At most one election runs at any time, however often it is lost and started again, and once
  the manager's \<open>Run\<close> has counted its goroutine, the counter of the wait group is never negative
  and \<open>Stop\<close> does not return while an election runs or a callback has yet to decide whether to
  start it again.
\<close>

lemma leader_stop_waits:
  assumes "le_reachable l"
  shows "electing l + stopped l \<le> 1 \<and>
    (\<not> adding l \<longrightarrow> 0 \<le> wg l \<and> (leaderManager_Stop_returns l \<longrightarrow> electing l = 0 \<and> stopped l = 0 \<and> leaving l = 0))"
  using le_inv_reachable [OF assms] by (auto simp: le_inv_def leaderManager_Stop_returns_def)

definition le_example :: le_manager where
  "le_example = new_le_manager\<lparr>has_cancelFunc := True, has_leader := True, electing := 1, adding := True\<rparr>"

lemma le_example_reachable: "le_reachable le_example"
  by (rule le_started [where cfg = undefined and newElector = "\<lambda>_. None"])
     (simp add: leaderManager_Run_def le_example_def new_le_manager_def)

lemma leader_stop_waits_witness:
  "le_reachable (le_example\<lparr>adding := False, wg := 1\<rparr>) \<and>
   \<not> leaderManager_Stop_returns (le_example\<lparr>adding := False, wg := 1\<rparr>)"
proof -
  have "le_step le_example (le_example\<lparr>adding := False, wg := 1\<rparr>)"
    using run_adds [of le_example] by (simp add: le_example_def new_le_manager_def)
  then have r: "le_reachable (le_example\<lparr>adding := False, wg := 1\<rparr>)"
    by (rule le_next [OF le_example_reachable])
  show ?thesis
    using leader_stop_waits [OF r] r by (auto simp: le_example_def new_le_manager_def)
qed

text \<open>
  The order of the start of the elector and of \<open>wg.Add (1)\<close> in \<open>Run\<close> matters: when the
  context is canceled at that moment, the callback can call \<open>wg.Done ()\<close> before the counter has
  been raised, which makes it negative, a panic of the Go runtime.
\<close>

lemma start_race_negative_counter: "\<exists>l. le_reachable l \<and> wg l < 0 \<and> adding l"
proof -
  let ?a = "le_example\<lparr>le_canceled := True\<rparr>"
  let ?b = "?a\<lparr>electing := 0, stopped := 1\<rparr>"
  let ?c = "?b\<lparr>stopped := 0, leaving := 1\<rparr>"
  let ?d = "?c\<lparr>leaving := 0, wg := -1\<rparr>"
  have "le_reachable ?a" by (rule le_next [OF le_example_reachable context_canceled])
  moreover have "le_step ?a ?b" using elector_ends [of ?a] by (simp add: le_example_def new_le_manager_def)
  moreover have "le_step ?b ?c" using callback_canceled [of ?b] by (simp add: le_example_def new_le_manager_def)
  moreover have "le_step ?c ?d" using callback_done [of ?c] by (simp add: le_example_def new_le_manager_def)
  ultimately have "le_reachable ?d" by (blast intro: le_next)
  moreover have "wg ?d < 0 \<and> adding ?d" by (simp add: le_example_def)
  ultimately show ?thesis by blast
qed

section \<open>The stop\<close>

text \<open>The steps of the goroutines; they do not cancel the context, and canceling it again changes nothing.\<close>

definition goroutine_step :: "le_manager \<Rightarrow> le_manager \<Rightarrow> bool" where
  "goroutine_step l l' \<longleftrightarrow> le_step l l' \<and> l' \<noteq> l \<and> le_canceled l' = le_canceled l"

definition canceled_inv :: "le_manager \<Rightarrow> bool" where
  "canceled_inv l \<longleftrightarrow> le_inv l \<and> le_canceled l \<and> \<not> adding l"

definition le_remaining :: "le_manager \<Rightarrow> nat" where
  "le_remaining l = 3 * electing l + 2 * stopped l + 2 * restarted l + leaving l"

interpretation stopping: coming_to_rest goroutine_step canceled_inv le_remaining
proof unfold_locales
  fix l l' assume inv: "canceled_inv l" and "goroutine_step l l'"
  then have step: "le_step l l'" "l' \<noteq> l" by (auto simp: goroutine_step_def)
  show "canceled_inv l'"
    using step inv le_inv_step [OF step(1)] by (cases rule: le_stepE) (auto simp: canceled_inv_def)
  show "le_remaining l' < le_remaining l"
    using step inv by (cases rule: le_stepE) (auto simp: canceled_inv_def le_remaining_def)
qed

lemma resting_manager:
  assumes "canceled_inv l" "\<forall>l'. \<not> goroutine_step l l'"
  shows "electing l = 0 \<and> stopped l = 0 \<and> restarted l = 0 \<and> leaving l = 0"
proof (rule ccontr)
  assume "\<not> ?thesis"
  then consider "0 < electing l" | "0 < stopped l" | "0 < restarted l" | "0 < leaving l" by auto
  then have "\<exists>l'. le_step l l' \<and> le_canceled l' = le_canceled l \<and> le_remaining l' \<noteq> le_remaining l"
  proof cases
    case 1
    then show ?thesis using elector_ends [OF 1] by (auto simp: le_remaining_def intro!: exI)
  next
    case 2
    moreover have "le_canceled l" using assms(1) by (simp add: canceled_inv_def)
    ultimately show ?thesis using callback_canceled [of l] by (auto simp: le_remaining_def intro!: exI)
  next
    case 3
    then show ?thesis using callback_adds [OF 3] by (auto simp: le_remaining_def intro!: exI)
  next
    case 4
    then show ?thesis using callback_done [OF 4] by (auto simp: le_remaining_def intro!: exI)
  qed
  then show False using assms(2) by (auto simp: goroutine_step_def)
qed


definition le_stopping :: "nat \<Rightarrow> le_manager" where
  "le_stopping i = le_example\<lparr>adding := False, le_canceled := True,
     wg := (if i < 3 then 1 else 0), electing := (if i = 0 then 1 else 0),
     stopped := (if i = 1 then 1 else 0), leaving := (if i = 2 then 1 else 0)\<rparr>"

lemma le_stopping_reachable: "le_reachable (le_stopping 0)"
proof -
  have "le_reachable (le_example\<lparr>adding := False, wg := wg le_example + 1\<rparr>)"
    by (rule le_next [OF le_example_reachable run_adds]) (simp add: le_example_def)
  from le_next [OF this context_canceled] show ?thesis
    by (simp add: le_stopping_def le_example_def new_le_manager_def)
qed

lemma le_stopping_run: "maximal_run goroutine_step le_stopping"
proof -
  note defs = le_stopping_def le_example_def new_le_manager_def goroutine_step_def
  have "goroutine_step (le_stopping 0) (le_stopping (Suc 0))"
    using elector_ends [of "le_stopping 0"] by (simp add: defs)
  moreover have "goroutine_step (le_stopping (Suc 0)) (le_stopping 2)"
    using callback_canceled [of "le_stopping (Suc 0)"] by (simp add: defs)
  moreover have "goroutine_step (le_stopping 2) (le_stopping 3)"
    using callback_done [of "le_stopping 2"] by (simp add: defs)
  moreover have "le_stopping (Suc i) = le_stopping i" "\<not> goroutine_step (le_stopping i) t" if "3 \<le> i" for i t
    using that by (auto simp: defs elim!: le_stepE)
  ultimately show ?thesis
    unfolding maximal_run_def by (metis One_nat_def Suc_1 less_2_cases not_less numeral_3_eq_3 less_antisym)
qed


end
