(* ===== verification/Benchmark_Model.thy ===== *)
theory Benchmark_Model
  imports Fetch_Manager Pipeline_Step Transformer_Model Preset_Model Uniqueness_Model
begin

text \<open>
  \<open>flavors/benchmark\<close> and \<open>flavors/benchmark/builder\<close>: the choice of a strategy for the configured
  benchmark, the initialisation of each strategy (its registry of fetchers, its data provider, its
  id provider), and the benchmark that the builder assembles: manager, evaluator, transformer and
  the channel of resources. What the clouds, the cluster and the SDKs answer is in a record of
  functions; a dependency of a strategy is a flag that says whether it is set.
\<close>

section \<open>Strategies\<close>

datatype strategy =
    AWS bool
  | AWSOrg bool bool
  | EKS bool bool bool bool bool
  | K8S bool
  | GCP bool bool
  | Azure_Strategy bool bool

definition GetStrategy :: "('cred, 'proc) config \<Rightarrow> strategy result" where
  "GetStrategy cfg =
     (if Benchmark cfg = CIS_AWS then
        (if aws_AccountType (Aws (CloudConfig cfg)) = OrganizationAccount then Inr (AWSOrg True True)
         else Inr (AWS True))
      else if Benchmark cfg = CIS_EKS then Inr (EKS True True True True True)
      else if Benchmark cfg = CIS_K8S then Inr (K8S True)
      else if Benchmark cfg = CIS_GCP then Inr (GCP True True)
      else if Benchmark cfg = CIS_AZURE then Inr (Azure_Strategy True True)
      else Inl (Errorf (''unknown benchmark: '' @ quoted (Benchmark cfg))))"

definition AWS_checkDependencies :: "bool \<Rightarrow> go_error option" where
  [simp]: "AWS_checkDependencies identityProvider =
     (if \<not> identityProvider then Some (Errorf ''aws identity provider is uninitialized'') else None)"

definition AWSOrg_checkDependencies :: "bool \<Rightarrow> bool \<Rightarrow> go_error option" where
  [simp]: "AWSOrg_checkDependencies identityProvider accountProvider =
     (if \<not> identityProvider then Some (Errorf ''aws identity provider is uninitialized'')
      else if \<not> accountProvider then Some (Errorf ''aws account provider is uninitialized'') else None)"

definition EKS_checkDependencies :: "bool \<Rightarrow> bool \<Rightarrow> bool \<Rightarrow> bool \<Rightarrow> bool \<Rightarrow> go_error option" where
  [simp]: "EKS_checkDependencies cfgProvider identityProvider metadataProvider clusterNameProvider clientProvider =
     (if \<not> cfgProvider then Some (Errorf ''aws config provider is uninitialized'')
      else if \<not> identityProvider then Some (Errorf ''aws identity provider is uninitialized'')
      else if \<not> clientProvider then Some (Errorf ''kubernetes client provider is uninitialized'')
      else if \<not> clusterNameProvider then Some (Errorf ''eks cluster name provider is uninitialized'')
      else if \<not> metadataProvider then Some (Errorf ''aws metadata provider is uninitialized'') else None)"

definition K8S_checkDependencies :: "bool \<Rightarrow> go_error option" where
  [simp]: "K8S_checkDependencies clientProvider =
     (if \<not> clientProvider then Some (Errorf ''kubernetes client provider is uninitialized'') else None)"

definition GCP_checkDependencies :: "bool \<Rightarrow> bool \<Rightarrow> go_error option" where
  [simp]: "GCP_checkDependencies cfgProvider inventoryInitializer =
     (if \<not> cfgProvider then Some (Errorf ''gcp config provider is uninitialized'')
      else if \<not> inventoryInitializer then Some (Errorf ''gcp asset inventory is uninitialized'') else None)"

definition Azure_checkDependencies :: "bool \<Rightarrow> bool \<Rightarrow> go_error option" where
  [simp]: "Azure_checkDependencies cfgProvider providerInitializer =
     (if \<not> cfgProvider then Some (Errorf ''azure config provider is uninitialized'')
      else if \<not> providerInitializer then Some (Errorf ''azure asset inventory is uninitialized'') else None)"

text \<open>The method \<open>checkDependencies\<close> of the interface.\<close>

fun checkDependencies :: "strategy \<Rightarrow> go_error option" where
  "checkDependencies (AWS identityProvider) = AWS_checkDependencies identityProvider"
| "checkDependencies (AWSOrg identityProvider accountProvider) = AWSOrg_checkDependencies identityProvider accountProvider"
| "checkDependencies (EKS cfgProvider identityProvider metadataProvider clusterNameProvider clientProvider) =
     EKS_checkDependencies cfgProvider identityProvider metadataProvider clusterNameProvider clientProvider"
| "checkDependencies (K8S clientProvider) = K8S_checkDependencies clientProvider"
| "checkDependencies (GCP cfgProvider inventoryInitializer) = GCP_checkDependencies cfgProvider inventoryInitializer"
| "checkDependencies (Azure_Strategy cfgProvider providerInitializer) = Azure_checkDependencies cfgProvider providerInitializer"

section \<open>The environment\<close>

record ('cred, 'aws) aws_env =
  InitializeAWSConfig :: "'cred \<Rightarrow> 'aws result"
  eks_InitializeAWSConfig :: "'cred \<Rightarrow> 'aws result"
  GetIdentity :: "'aws \<Rightarrow> identity result"
  AssumeRole :: "'aws \<Rightarrow> 'aws \<Rightarrow> string \<Rightarrow> 'aws"
  aws_Region :: "'aws \<Rightarrow> string"
  no_aws :: 'aws
  no_cred :: 'cred

record ('cred, 'proc, 'kube, 'aws) kube_env =
  GetClient :: "string \<Rightarrow> 'kube result"
  k8s_ClusterName :: "'kube \<Rightarrow> ('cred, 'proc) config \<Rightarrow> string result"
  eks_ClusterName :: "'aws \<Rightarrow> string result"
  ServerVersion :: "'kube \<Rightarrow> string result"
  Namespace_UID :: "'kube \<Rightarrow> string \<Rightarrow> string result"
  DiscoverNode :: "'kube \<Rightarrow> string result"
  Node_UID :: "'kube \<Rightarrow> string \<Rightarrow> string result"
  NewV5 :: "string \<Rightarrow> string \<Rightarrow> string"

type_synonym provider = "beat_api \<Rightarrow> resource_metadata \<Rightarrow> inserter"
type_synonym 'w initialized = "'w registry \<times> provider \<times> (string \<Rightarrow> string \<Rightarrow> string) option"

abbreviation cloud_provider :: "(cloud_data_provider \<Rightarrow> cloud_data_provider) list \<Rightarrow> provider" where
  "cloud_provider options \<equiv> (\<lambda>api. cloud_EnrichEvent api (cloud_NewDataProvider options))"

section \<open>AWS\<close>

definition AWS_initialize ::
  "('cred, 'aws) aws_env \<Rightarrow> ('aws \<Rightarrow> 'w aws_constructors) \<Rightarrow> strategy \<Rightarrow> ('cred, 'proc) config \<Rightarrow>
     'w initialized result" where
  "AWS_initialize env mk a cfg =
     (case checkDependencies a of
        Some err \<Rightarrow> Inl err
      | None \<Rightarrow>
          (case InitializeAWSConfig env (aws_Cred (Aws (CloudConfig cfg))) of
             Inl err \<Rightarrow> Inl (Wrapf ''failed to initialize AWS credentials: '' err)
           | Inr awsConfig \<Rightarrow>
               (case GetIdentity env awsConfig of
                  Inl err \<Rightarrow> Inl (Wrapf ''failed to get AWS identity: '' err)
                | Inr awsIdentity \<Rightarrow>
                    Inr (NewRegistry [WithFetchersMap (NewCisAwsFetchers (mk awsConfig) awsIdentity)],
                         cloud_provider [WithAccount awsIdentity], None))))"

text \<open>The organization: the accounts with the role that reads each of them.\<close>

definition fmtIAMRole :: "string \<Rightarrow> string \<Rightarrow> string" where
  "fmtIAMRole account role = ''arn:aws:iam::'' @ account @ '':role/'' @ role"

text \<open>\<open>AssumeRole client cfg arn\<close>: \<open>cfg\<close> with the credentials that \<open>client\<close> gets for the role.\<close>

definition getAwsAccounts ::
  "('cred, 'aws) aws_env \<Rightarrow> ('aws \<Rightarrow> identity list result) \<Rightarrow> 'aws \<Rightarrow> identity \<Rightarrow> 'aws aws_account list result" where
  "getAwsAccounts env listAccounts initialCfg rootIdentity =
     (let rootCfg = AssumeRole env initialCfg initialCfg (fmtIAMRole (Account rootIdentity) ''cloudbeat-root'')
      in case listAccounts rootCfg of
           Inl err \<Rightarrow> Inl err
         | Inr accountIdentities \<Rightarrow>
             Inr (map (\<lambda>identity.
               \<lparr>acc_Identity = identity,
                acc_Config =
                  (if Account identity = Account rootIdentity then rootCfg
                   else AssumeRole env rootCfg rootCfg
                          (fmtIAMRole (Account identity) ''cloudbeat-securityaudit''))\<rparr>) accountIdentities))"

text \<open>
  The updater of the registry. What the organization lists may change with the state. The cache that the closure captures is a part of the state \<open>'w\<close>,
  read and written by \<open>get_cache\<close> and \<open>set_cache\<close>; a cached value \<open>'f\<close> stands for the fetchers
  \<open>fetchers_of\<close> that the factory has made. The factory takes the address of the identity in the loop's
  variable, which (before Go 1.22) the iterations share: what the fetchers read there later is the identity
  of the last account of the refresh.
\<close>

record ('aws, 'w, 'f) org_env =
  ListAccounts :: "'w \<Rightarrow> 'aws \<Rightarrow> identity list result"
  org_factory :: "'aws aws_account \<Rightarrow> identity \<Rightarrow> 'f"
  fetchers_of :: "'f \<Rightarrow> 'w fetchers_map"
  get_cache :: "'w \<Rightarrow> (string \<times> 'f) list"
  set_cache :: "(string \<times> 'f) list \<Rightarrow> 'w \<Rightarrow> 'w"

definition merge_accounts :: "('f \<Rightarrow> 'w fetchers_map) \<Rightarrow> (string \<times> 'f) list \<Rightarrow> 'w fetchers_map" where
  "merge_accounts fetchersOf fm =
     concat (map (\<lambda>(accountId, f). map (\<lambda>(key, rf). (accountId @ ''-'' @ key, rf)) (fetchersOf f)) fm)"

definition org_updater ::
  "('cred, 'aws) aws_env \<Rightarrow> ('aws, 'w, 'f) org_env \<Rightarrow> 'aws \<Rightarrow> identity \<Rightarrow> 'w updater_func" where
  "org_updater env oenv awsConfig awsIdentity w =
     (case getAwsAccounts env (ListAccounts oenv w) awsConfig awsIdentity of
        Inl err \<Rightarrow> (Inl (Wrapf ''failed to get AWS accounts: '' err), w)
      | Inr accounts \<Rightarrow>
          (let (fm, mc, created) =
             newCisAwsOrganizationFetchers accounts (Some (get_cache oenv w))
               (\<lambda>account. org_factory oenv account (acc_Identity (last accounts)))
           in (Inr (merge_accounts (fetchers_of oenv) fm), set_cache oenv (the mc) w)))"

definition AWSOrg_initialize ::
  "('cred, 'aws) aws_env \<Rightarrow> ('aws, 'w, 'f) org_env \<Rightarrow> strategy \<Rightarrow> ('cred, 'proc) config \<Rightarrow>
     'w initialized result" where
  "AWSOrg_initialize env oenv a cfg =
     (case checkDependencies a of
        Some err \<Rightarrow> Inl err
      | None \<Rightarrow>
          (case InitializeAWSConfig env (aws_Cred (Aws (CloudConfig cfg))) of
             Inl err \<Rightarrow> Inl (Wrapf ''failed to initialize AWS credentials: '' err)
           | Inr awsConfig \<Rightarrow>
               (case GetIdentity env awsConfig of
                  Inl err \<Rightarrow> Inl (Wrapf ''failed to get AWS identity: '' err)
                | Inr awsIdentity \<Rightarrow>
                    Inr (NewRegistry [WithUpdater (org_updater env oenv awsConfig awsIdentity)],
                         cloud_provider [], None))))"

section \<open>GCP and Azure\<close>

definition GCP_initialize ::
  "(gcp_config \<Rightarrow> 'gcp result) \<Rightarrow> ('gcp \<Rightarrow> 'inv result) \<Rightarrow> ('inv \<Rightarrow> 'w gcp_constructors) \<Rightarrow> strategy \<Rightarrow>
     ('cred, 'proc) config \<Rightarrow> 'w initialized result" where
  "GCP_initialize getGcpClientConfig init mk g cfg =
     (case checkDependencies g of
        Some err \<Rightarrow> Inl err
      | None \<Rightarrow>
          (case getGcpClientConfig (Gcp (CloudConfig cfg)) of
             Inl err \<Rightarrow> Inl (Wrapf ''failed to initialize gcp config: '' err)
           | Inr gcpConfig \<Rightarrow>
               (case init gcpConfig of
                  Inl err \<Rightarrow> Inl (Errorf (''failed to initialize gcp asset inventory: '' @ error_text err))
                | Inr assetProvider \<Rightarrow>
                    (case NewCisGcpFetchers (mk assetProvider) (Gcp (CloudConfig cfg)) of
                       Inl err \<Rightarrow> Inl (Errorf (''failed to initialize gcp fetchers: '' @ error_text err))
                     | Inr fetchers \<Rightarrow>
                         Inr (NewRegistry [WithFetchersMap fetchers], cloud_provider [], None)))))"

definition Azure_initialize ::
  "(azure_config \<Rightarrow> 'az result) \<Rightarrow> ('az \<Rightarrow> 'inv result) \<Rightarrow> ('inv \<Rightarrow> 'w azure_constructors) \<Rightarrow> strategy \<Rightarrow>
     ('cred, 'proc) config \<Rightarrow> 'w initialized result" where
  "Azure_initialize getAzureClientConfig init mk a cfg =
     (case checkDependencies a of
        Some err \<Rightarrow> Inl err
      | None \<Rightarrow>
          (case getAzureClientConfig (Azure (CloudConfig cfg)) of
             Inl err \<Rightarrow> Inl (Wrapf ''failed to initialize azure config: '' err)
           | Inr azureConfig \<Rightarrow>
               (case init azureConfig of
                  Inl err \<Rightarrow> Inl (Errorf (''failed to initialize azure asset inventory: '' @ error_text err))
                | Inr prov \<Rightarrow>
                    (case NewCisAzureFactory (mk prov) of
                       Inl err \<Rightarrow> Inl (Errorf (''failed to initialize azure fetchers: '' @ error_text err))
                     | Inr fetchers \<Rightarrow>
                         Inr (NewRegistry [WithFetchersMap fetchers],
                              cloud_provider
                                [WithAccount \<lparr>Provider = ''azure'', Account = [], AccountAlias = [],
                                              OrganizationId = [], OrganizationName = []\<rparr>], None)))))"

section \<open>Kubernetes and EKS\<close>

definition getK8sClusterId :: "('cred, 'proc, 'kube, 'aws) kube_env \<Rightarrow> 'kube \<Rightarrow> string result" where
  "getK8sClusterId env client =
     (case Namespace_UID env client ''kube-system'' of
        Inl err \<Rightarrow> Inl (Wrapf ''failed to get namespace data: '' err)
      | Inr uid \<Rightarrow> Inr uid)"

definition getK8sNodeId :: "('cred, 'proc, 'kube, 'aws) kube_env \<Rightarrow> 'kube \<Rightarrow> string result" where
  "getK8sNodeId env client =
     (case DiscoverNode env client of
        Inl err \<Rightarrow> Inl (Wrapf ''failed to get node name: '' err)
      | Inr nodeName \<Rightarrow>
          (case Node_UID env client nodeName of
             Inl err \<Rightarrow> Inl (Wrapf (''failed to get node data for node '' @ quoted nodeName @ '': '') err)
           | Inr uid \<Rightarrow> Inr uid))"

text \<open>A cluster name that cannot be found is logged and left empty.\<close>

definition GetK8sDataProvider ::
  "('cred, 'proc, 'kube, 'aws) kube_env \<Rightarrow> 'kube \<Rightarrow> string result \<Rightarrow> k8s_data_provider result" where
  "GetK8sDataProvider env client clusterNameResult =
     (let clusterName = (case clusterNameResult of Inl err \<Rightarrow> [] | Inr n \<Rightarrow> n)
      in case ServerVersion env client of
           Inl err \<Rightarrow> Inl (Wrapf ''failed to get server version: '' err)
         | Inr serverVersion \<Rightarrow>
             (case getK8sClusterId env client of
                Inl err \<Rightarrow> Inl (Wrapf ''failed to get cluster id: '' err)
              | Inr clusterId \<Rightarrow>
                  Inr (k8s_New [WithClusterName clusterName, WithClusterID clusterId,
                                WithClusterVersion serverVersion])))"

definition GetK8sIdProvider :: "('cred, 'proc, 'kube, 'aws) kube_env \<Rightarrow> 'kube \<Rightarrow> id_provider result" where
  "GetK8sIdProvider env client =
     (case getK8sNodeId env client of
        Inl err \<Rightarrow> Inl (Wrapf ''failed to get node id: '' err)
      | Inr nodeId \<Rightarrow>
          (case getK8sClusterId env client of
             Inl err \<Rightarrow> Inl (Wrapf ''failed to get cluster id: '' err)
           | Inr clusterId \<Rightarrow> Inr (NewIdProvider clusterId nodeId)))"

text \<open>\<open>leads\<close> is the \<open>IsLeader\<close> method of the elector that the strategy keeps.\<close>

definition K8S_initialize ::
  "('cred, 'proc, 'kube, 'aws) kube_env \<Rightarrow> ('kube \<Rightarrow> 'w k8s_constructors) \<Rightarrow> ('w \<Rightarrow> bool) \<Rightarrow> strategy \<Rightarrow>
     ('cred, 'proc) config \<Rightarrow> ('w initialized \<times> uniqueness_manager) result" where
  "K8S_initialize env mk leads k cfg =
     (case checkDependencies k of
        Some err \<Rightarrow> Inl err
      | None \<Rightarrow>
          (case GetClient env (KubeConfig cfg) of
             Inl err \<Rightarrow> Inl (Wrapf ''failed to create kubernetes client :'' err)
           | Inr kubeClient \<Rightarrow>
               (case GetK8sDataProvider env kubeClient (k8s_ClusterName env kubeClient cfg) of
                  Inl err \<Rightarrow> Inl (Wrapf ''failed to create k8s data provider: '' err)
                | Inr dp \<Rightarrow>
                    (case GetK8sIdProvider env kubeClient of
                       Inl err \<Rightarrow> Inl (Wrapf ''failed to create k8s id provider: '' err)
                     | Inr idp \<Rightarrow>
                         Inr ((NewRegistry [WithFetchersMap (NewCisK8sFetchers (mk kubeClient) leads)],
                               \<lambda>api. k8s_EnrichEvent api dp, Some (k8s_GetId (NewV5 env) idp)),
                              NewLeaderElector (Some kubeClient))))))"

definition getEksAwsConfig ::
  "('cred, 'aws) aws_env \<Rightarrow> ('cred, 'proc) config \<Rightarrow> ('aws \<times> identity option) result" where
  "getEksAwsConfig env cfg =
     (if aws_Cred (Aws (CloudConfig cfg)) = no_cred env then Inr (no_aws env, None)
      else case eks_InitializeAWSConfig env (aws_Cred (Aws (CloudConfig cfg))) of
             Inl err \<Rightarrow> Inl (Wrapf ''failed to initialize AWS credentials: '' err)
           | Inr awsCfg \<Rightarrow>
               (case GetIdentity env awsCfg of
                  Inl err \<Rightarrow> Inl (Wrapf ''failed to get AWS identity: '' err)
                | Inr identity \<Rightarrow> Inr (awsCfg, Some identity)))"

definition EKS_initialize ::
  "('cred, 'aws) aws_env \<Rightarrow> ('cred, 'proc, 'kube, 'aws) kube_env \<Rightarrow> ('aws \<Rightarrow> 'kube \<Rightarrow> 'w eks_constructors) \<Rightarrow>
     ('w \<Rightarrow> bool) \<Rightarrow> strategy \<Rightarrow> ('cred, 'proc) config \<Rightarrow> ('w initialized \<times> uniqueness_manager) result" where
  "EKS_initialize aenv env mk leads k cfg =
     (case checkDependencies k of
        Some err \<Rightarrow> Inl err
      | None \<Rightarrow>
          (case GetClient env (KubeConfig cfg) of
             Inl err \<Rightarrow> Inl (Wrapf ''failed to create kubernetes client: '' err)
           | Inr kubeClient \<Rightarrow>
               (case getEksAwsConfig aenv cfg of
                  Inl err \<Rightarrow> Inl (Wrapf ''failed to initialize AWS config: '' err)
                | Inr (awsConfig, awsIdentity) \<Rightarrow>
                    (case GetK8sDataProvider env kubeClient (eks_ClusterName env awsConfig) of
                       Inl err \<Rightarrow> Inl (Wrapf ''failed to create k8s data provider: '' err)
                     | Inr dp \<Rightarrow>
                         (case GetK8sIdProvider env kubeClient of
                            Inl err \<Rightarrow> Inl (Wrapf ''failed to create k8s id provider: '' err)
                          | Inr idp \<Rightarrow>
                              Inr ((NewRegistry [WithFetchersMap (NewCisEksFetchers (mk awsConfig kubeClient)
                                      (aws_Region aenv awsConfig) leads awsIdentity)],
                                    \<lambda>api. k8s_EnrichEvent api dp, Some (k8s_GetId (NewV5 env) idp)),
                                   NewLeaderElector (Some kubeClient)))))))"

section \<open>The builder\<close>

record builder =
  managerTimeout :: int
  builder_idp :: "string \<Rightarrow> string \<Rightarrow> string"
  builder_bdp :: provider

definition default_GetId :: "string \<Rightarrow> string \<Rightarrow> string" where
  "default_GetId _ resourceId = resourceId"

definition default_EnrichEvent :: provider where
  "default_EnrichEvent api resMetadata event = (None, event)"

definition WithManagerTimeout :: "int \<Rightarrow> builder \<Rightarrow> builder" where
  "WithManagerTimeout timeout b = b\<lparr>managerTimeout := timeout\<rparr>"

definition WithIdProvider :: "(string \<Rightarrow> string \<Rightarrow> string) \<Rightarrow> builder \<Rightarrow> builder" where
  "WithIdProvider idp b = b\<lparr>builder_idp := idp\<rparr>"

definition WithBenchmarkDataProvider :: "provider \<Rightarrow> builder \<Rightarrow> builder" where
  "WithBenchmarkDataProvider cdp b = b\<lparr>builder_bdp := cdp\<rparr>"

definition builder_New :: "(builder \<Rightarrow> builder) list \<Rightarrow> builder" where
  "builder_New options =
     foldl (\<lambda>b fn. fn b)
       \<lparr>managerTimeout = defaultManagerTimeout, builder_idp = default_GetId, builder_bdp = default_EnrichEvent\<rparr>
       options"

text \<open>\<open>leaderElector\<close> is set in a \<open>k8sbenchmark\<close> only.\<close>

record ('w, 'opa) bench =
  bm_interval :: int
  bm_timeout :: int
  bm_registry :: "'w registry"
  bm_evaluator :: "'opa opa_evaluator"
  bm_transformer :: transformer
  bm_resourceCh :: "resource_info chan"
  bm_leaderElector :: "uniqueness_manager option"

definition resourceChBufferSize :: nat where "resourceChBufferSize = 10000"

text \<open>\<open>CloudbeatVersion\<close> is the version information of the build.\<close>

definition buildBase ::
  "(string \<Rightarrow> 'opa result) \<Rightarrow> (cloudbeat_version_info \<Rightarrow> (string \<times> any) list result) \<Rightarrow> version \<Rightarrow> builder \<Rightarrow>
     ('cred, 'proc) config \<Rightarrow> resource_info chan \<Rightarrow> 'w registry \<Rightarrow> ('w, 'opa) bench result" where
  "buildBase sdkNew decodeVersion cloudbeatVersion b cfg resourceCh r =
     (case NewOpaEvaluator sdkNew cfg of
        Inl err \<Rightarrow> Inl err
      | Inr ev \<Rightarrow>
          (case common_New decodeVersion \<lparr>version_info = cloudbeatVersion, Policy = cloudbeatVersion\<rparr> (Some cfg) of
             Inl err \<Rightarrow> Inl err
           | Inr cdp \<Rightarrow>
               Inr \<lparr>bm_interval = Period cfg, bm_timeout = managerTimeout b, bm_registry = r,
                    bm_evaluator = ev,
                    bm_transformer =
                      NewTransformer (builder_bdp b) (common_GetElasticCommonData cdp) (builder_idp b),
                    bm_resourceCh = resourceCh, bm_leaderElector = None\<rparr>))"

definition Build ::
  "(string \<Rightarrow> 'opa result) \<Rightarrow> (cloudbeat_version_info \<Rightarrow> (string \<times> any) list result) \<Rightarrow> version \<Rightarrow> builder \<Rightarrow>
     ('cred, 'proc) config \<Rightarrow> resource_info chan \<Rightarrow> 'w registry \<Rightarrow> ('w, 'opa) bench result" where
  "Build sdkNew decodeVersion cloudbeatVersion b cfg resourceCh r =
     buildBase sdkNew decodeVersion cloudbeatVersion b cfg resourceCh r"

definition BuildK8s ::
  "(string \<Rightarrow> 'opa result) \<Rightarrow> (cloudbeat_version_info \<Rightarrow> (string \<times> any) list result) \<Rightarrow> version \<Rightarrow> builder \<Rightarrow>
     ('cred, 'proc) config \<Rightarrow> resource_info chan \<Rightarrow> 'w registry \<Rightarrow> uniqueness_manager \<Rightarrow> ('w, 'opa) bench result" where
  "BuildK8s sdkNew decodeVersion cloudbeatVersion b cfg resourceCh r k8sLeaderElector =
     (case buildBase sdkNew decodeVersion cloudbeatVersion b cfg resourceCh r of
        Inl err \<Rightarrow> Inl err
      | Inr base \<Rightarrow> Inr (base\<lparr>bm_leaderElector := Some k8sLeaderElector\<rparr>))"

text \<open>
  \<open>NewBenchmark\<close> of the cloud strategies and of the Kubernetes strategies, from what \<open>initialize\<close>
  has answered.
\<close>

definition NewBenchmark_cloud ::
  "(string \<Rightarrow> 'opa result) \<Rightarrow> (cloudbeat_version_info \<Rightarrow> (string \<times> any) list result) \<Rightarrow> version \<Rightarrow>
     ('cred, 'proc) config \<Rightarrow> 'w initialized result \<Rightarrow> ('w, 'opa) bench result" where
  "NewBenchmark_cloud sdkNew decodeVersion ver cfg ini =
     (case ini of
        Inl err \<Rightarrow> Inl err
      | Inr (r, bdp, _) \<Rightarrow>
          Build sdkNew decodeVersion ver (builder_New [WithBenchmarkDataProvider bdp]) cfg
            (make_chan resourceChBufferSize) r)"

definition NewBenchmark_k8s ::
  "(string \<Rightarrow> 'opa result) \<Rightarrow> (cloudbeat_version_info \<Rightarrow> (string \<times> any) list result) \<Rightarrow> version \<Rightarrow>
     ('cred, 'proc) config \<Rightarrow> ('w initialized \<times> uniqueness_manager) result \<Rightarrow> ('w, 'opa) bench result" where
  "NewBenchmark_k8s sdkNew decodeVersion ver cfg ini =
     (case ini of
        Inl err \<Rightarrow> Inl err
      | Inr ((r, bdp, idp), leaderElector) \<Rightarrow>
          BuildK8s sdkNew decodeVersion ver
            (builder_New [WithBenchmarkDataProvider bdp, WithIdProvider (the idp)]) cfg
            (make_chan resourceChBufferSize) r leaderElector)"

section \<open>Running a benchmark\<close>

text \<open>
  The two stages of \<open>Run\<close>. Each call of a stage's function sees its own time and its own random
  UUIDs: the state of a stage counts its calls.
\<close>

definition eval_stage ::
  "('opa \<Rightarrow> opa_input \<Rightarrow> any result) \<Rightarrow> (any \<Rightarrow> rule_result \<times> go_error option) \<Rightarrow> (nat \<Rightarrow> int) \<Rightarrow>
     'opa opa_evaluator \<Rightarrow> (nat, resource_info, event_data) stage_fn" where
  "eval_stage Decision decode clock ev i r = (Eval Decision decode (clock i) ev r, Suc i)"

definition transform_stage ::
  "beat_api \<Rightarrow> (nat \<Rightarrow> int) \<Rightarrow> (nat \<Rightarrow> nat \<Rightarrow> string) \<Rightarrow> transformer \<Rightarrow>
     (nat, event_data, beat_event list) stage_fn" where
  "transform_stage api clock uuid t i d = (CreateBeatEvents api t (clock i) (uuid i) d, Suc i)"

definition basebenchmark_Run ::
  "beat_api \<Rightarrow> ('opa \<Rightarrow> opa_input \<Rightarrow> any result) \<Rightarrow> (any \<Rightarrow> rule_result \<times> go_error option) \<Rightarrow> (nat \<Rightarrow> int) \<Rightarrow>
     (nat \<Rightarrow> nat \<Rightarrow> string) \<Rightarrow> ('w, 'opa) bench \<Rightarrow> resource_info list \<Rightarrow> beat_event list list" where
  "basebenchmark_Run api Decision decode clock uuid b resources =
     fst (pipe (step_all (eval_stage Decision decode clock (bm_evaluator b)))
               (step_all (transform_stage api clock uuid (bm_transformer b))) (0, 0) resources)"

text \<open>\<open>Run\<close> of a \<open>k8sbenchmark\<close>: the election first; the manager starts only when it has started.\<close>

definition bench_Run ::
  "le_config result \<Rightarrow> (le_config \<Rightarrow> go_error option) \<Rightarrow> ('w, 'opa) bench \<Rightarrow>
     go_error option \<times> ('w, 'opa) bench \<times> manager_state option" where
  "bench_Run leConfig newElector b =
     (case bm_leaderElector b of
        None \<Rightarrow> (None, b, Some manager_Run)
      | Some le \<Rightarrow>
          (case leaderManager_Run leConfig newElector le of
             (Some err, le') \<Rightarrow> (Some err, b\<lparr>bm_leaderElector := Some le'\<rparr>, None)
           | (None, le') \<Rightarrow> (None, b\<lparr>bm_leaderElector := Some le'\<rparr>, Some manager_Run)))"

text \<open>\<open>Stop\<close>: the fetchers are stopped and the channel closed; to close it again panics (\<open>None\<close>).\<close>

definition bench_Stop :: "('w, 'opa) bench \<Rightarrow> 'w \<Rightarrow> (('w, 'opa) bench \<times> 'w) option" where
  "bench_Stop b w =
     (if closed (bm_resourceCh b) then None
      else Some (b\<lparr>bm_resourceCh := chan_close (bm_resourceCh b)\<rparr>, registry_Stop (bm_registry b) w))"

section \<open>Lemmas on the builder\<close>

lemma foreign_common: "common_GetElasticCommonData c = r \<Longrightarrow> foreign_keys r"
  by (auto simp: common_GetElasticCommonData_def foreign_keys_def own_fields_def split: option.splits)

lemma NewBenchmark_initialized:
  "NewBenchmark_cloud sdkNew dec ver cfg ini = Inr b \<Longrightarrow> \<exists>i. ini = Inr i"
  "NewBenchmark_k8s sdkNew dec ver cfg ini2 = Inr b2 \<Longrightarrow> \<exists>i. ini2 = Inr i"
  by (auto simp: NewBenchmark_cloud_def NewBenchmark_k8s_def split: sum.splits)

lemma NewBenchmark_cloud_ok:
  "NewBenchmark_cloud sdkNew dec ver cfg (Inr (r, bdp, idp)) = Inr b \<Longrightarrow>
   bm_interval b = Period cfg \<and> bm_timeout b = defaultManagerTimeout \<and> bm_registry b = r \<and>
   benchmark (bm_evaluator b) = Benchmark cfg \<and> benchmarkDataProvider (bm_transformer b) = bdp \<and>
   foreign_keys (commonDataProvider (bm_transformer b)) \<and> idProvider (bm_transformer b) = default_GetId \<and>
   bm_leaderElector b = None \<and> bm_resourceCh b = make_chan resourceChBufferSize"
  by (auto simp: NewBenchmark_cloud_def Build_def buildBase_def builder_New_def WithBenchmarkDataProvider_def
      NewTransformer_def NewOpaEvaluator_def Let_def foreign_common split: sum.splits)

lemma NewBenchmark_k8s_ok:
  "NewBenchmark_k8s sdkNew dec ver cfg (Inr ((r, bdp, Some idp), le)) = Inr b \<Longrightarrow>
   bm_interval b = Period cfg \<and> bm_timeout b = defaultManagerTimeout \<and> bm_registry b = r \<and>
   benchmark (bm_evaluator b) = Benchmark cfg \<and> benchmarkDataProvider (bm_transformer b) = bdp \<and>
   foreign_keys (commonDataProvider (bm_transformer b)) \<and> idProvider (bm_transformer b) = idp \<and>
   bm_leaderElector b = Some le \<and> bm_resourceCh b = make_chan resourceChBufferSize"
  by (auto simp: NewBenchmark_k8s_def BuildK8s_def buildBase_def builder_New_def WithBenchmarkDataProvider_def
      WithIdProvider_def NewTransformer_def NewOpaEvaluator_def Let_def foreign_common split: sum.splits)

text \<open>What the pipeline delivers, one outcome for each resource.\<close>

lemma basebenchmark_Run_outcomes:
  "\<exists>res. basebenchmark_Run api Decision decode clock uuid b rs = oks res \<and>
     list_all2 (\<lambda>r o1. \<exists>i j. o1 = (case Eval Decision decode (clock i) (bm_evaluator b) r of
        Inl e \<Rightarrow> Inl e | Inr d \<Rightarrow> CreateBeatEvents api (bm_transformer b) (clock j) (uuid j) d)) rs res"
  using pipe_oks [of "eval_stage Decision decode clock (bm_evaluator b)"
      "transform_stage api clock uuid (bm_transformer b)" "(0, 0)" rs]
  unfolding basebenchmark_Run_def eval_stage_def transform_stage_def fst_conv .

lemma Eval_keeps_resource: "Eval Decision decode now ev r = Inr d \<Longrightarrow> ResourceInfo d = r \<and> (\<exists>md. GetMetadata r = Inr md)"
  by (auto simp: Eval_ok_iff)

section \<open>Properties\<close>

text \<open>
  Every supported benchmark has a strategy, whose dependencies are all set, and an unsupported
  one is refused; AWS uses the strategy of an organization exactly for the account type
  \<open>organization-account\<close>.
\<close>

lemma GetStrategy_supported:
  "((\<exists>s. GetStrategy cfg = Inr s) \<longleftrightarrow> isSupportedBenchmark (Benchmark cfg)) \<and>
   (\<forall>s. GetStrategy cfg = Inr s \<longrightarrow> checkDependencies s = None \<and>
     (Benchmark cfg = CIS_AWS \<longrightarrow>
        (s = AWSOrg True True \<longleftrightarrow> aws_AccountType (Aws (CloudConfig cfg)) = OrganizationAccount)))"
  by (auto simp: GetStrategy_def isSupportedBenchmark_def SupportedCIS_def cis_defs)

lemma GetStrategy_supported_witness:
  "\<exists>s. GetStrategy (default_for_witness\<lparr>Benchmark := ''cis_aws''\<rparr>) = Inr s \<and> checkDependencies s = None \<and>
     s \<noteq> AWSOrg True True"
proof -
  let ?cfg = "default_for_witness\<lparr>Benchmark := ''cis_aws''\<rparr>"
  have "isSupportedBenchmark (Benchmark ?cfg)"
    by (simp add: isSupportedBenchmark_def SupportedCIS_def cis_defs)
  moreover have "aws_AccountType (Aws (CloudConfig ?cfg)) \<noteq> OrganizationAccount"
    by (simp add: default_for_witness_def zero_cloud_def OrganizationAccount_def)
  moreover have "Benchmark ?cfg = CIS_AWS" by (simp add: cis_defs)
  ultimately show ?thesis using GetStrategy_supported [of ?cfg] by blast
qed

text \<open>What becomes of one resource: the error of the evaluation or of the transformation, or its events.\<close>

definition outcome_of ::
  "beat_api \<Rightarrow> ('opa \<Rightarrow> opa_input \<Rightarrow> any result) \<Rightarrow> (any \<Rightarrow> rule_result \<times> go_error option) \<Rightarrow> (nat \<Rightarrow> int) \<Rightarrow>
     (nat \<Rightarrow> nat \<Rightarrow> string) \<Rightarrow> ('w, 'opa) bench \<Rightarrow> resource_info \<Rightarrow> beat_event list result \<Rightarrow> bool" where
  "outcome_of api Decision decode clock uuid b r outcome \<longleftrightarrow>
     (case outcome of
        Inl e \<Rightarrow>
          (\<exists>i. Eval Decision decode (clock i) (bm_evaluator b) r = Inl e) \<or>
          (\<exists>i j d. Eval Decision decode (clock i) (bm_evaluator b) r = Inr d \<and>
             CreateBeatEvents api (bm_transformer b) (clock j) (uuid j) d = Inl e)
      | Inr events \<Rightarrow>
          (\<exists>i j d md. Eval Decision decode (clock i) (bm_evaluator b) r = Inr d \<and> GetMetadata r = Inr md \<and>
             list_all2 (describes (bm_transformer b) (clock j) d md) (Findings (RuleResult d)) events))"

lemma built_transformer:
  assumes "NewBenchmark_cloud sdkNew dec ver cfg (Inr (rg, cloud_provider opts, None)) = Inr b \<or>
      NewBenchmark_k8s sdkNew dec ver cfg (Inr ((rg, \<lambda>api. k8s_EnrichEvent api dp, Some idp), le)) = Inr b"
  shows "benchmarkDataProvider (bm_transformer b) = (\<lambda>api. cloud_EnrichEvent api (cloud_NewDataProvider opts)) \<or>
      benchmarkDataProvider (bm_transformer b) = (\<lambda>api. k8s_EnrichEvent api dp)"
    "foreign_keys (commonDataProvider (bm_transformer b))"
  using assms NewBenchmark_cloud_ok [of sdkNew dec ver cfg rg "cloud_provider opts" None b]
    NewBenchmark_k8s_ok [of sdkNew dec ver cfg rg "\<lambda>api. k8s_EnrichEvent api dp" idp le b] by blast+

lemma outcome_ofI:
  assumes "put_only_touches_root api" "foreign_keys (GetElasticCommonData r)"
    and t: "benchmarkDataProvider (bm_transformer b) = (\<lambda>api. cloud_EnrichEvent api a) \<or>
      benchmarkDataProvider (bm_transformer b) = (\<lambda>api. k8s_EnrichEvent api dp)"
      "foreign_keys (commonDataProvider (bm_transformer b))"
    and outcome: "outcome = (case Eval Decision decode (clock i) (bm_evaluator b) r of
        Inl e \<Rightarrow> Inl e | Inr d \<Rightarrow> CreateBeatEvents api (bm_transformer b) (clock j) (uuid j) d)"
  shows "outcome_of api Decision decode clock uuid b r outcome"
proof (cases "Eval Decision decode (clock i) (bm_evaluator b) r")
  case (Inl e)
  then show ?thesis using outcome by (auto simp: outcome_of_def)
next
  case (Inr d)
  obtain md where md: "ResourceInfo d = r" "GetMetadata r = Inr md" using Eval_keeps_resource [OF Inr] by auto
  show ?thesis
  proof (cases outcome)
    case (Inl e)
    then have "CreateBeatEvents api (bm_transformer b) (clock j) (uuid j) d = Inl e" using outcome Inr by simp
    then show ?thesis using Inl Inr by (auto simp: outcome_of_def)
  next
    case created: (Inr events)
    then have create: "CreateBeatEvents api (bm_transformer b) (clock j) (uuid j) d = Inr events"
      using outcome Inr by simp
    have "list_all2 (describes (bm_transformer b) (clock j) d md) (Findings (RuleResult d)) events"
      using t(1) cloud.CreateBeatEvents_describes [OF assms(1) _ own_fields_disjoint(1) t(2) _ _ create]
        k8s.CreateBeatEvents_describes [OF assms(1) _ own_fields_disjoint(2) t(2) _ _ create] assms(2) md
      by blast
    then show ?thesis using Inr created md(2) unfolding outcome_of_def created sum.case by blast
  qed
qed

lemma basebenchmark_Run_describes:
  assumes "put_only_touches_root api"
    and "NewBenchmark_cloud sdkNew dec ver cfg (Inr (rg, cloud_provider opts, None)) = Inr b \<or>
      NewBenchmark_k8s sdkNew dec ver cfg (Inr ((rg, \<lambda>api. k8s_EnrichEvent api dp, Some idp), le)) = Inr b"
    and "\<forall>r\<in>set resources. foreign_keys (GetElasticCommonData r)"
  shows "\<exists>outcomes. basebenchmark_Run api Decision decode clock uuid b resources = oks outcomes \<and>
    list_all2 (outcome_of api Decision decode clock uuid b) resources outcomes"
proof -
  obtain res where res: "basebenchmark_Run api Decision decode clock uuid b resources = oks res"
    "list_all2 (\<lambda>r o1. \<exists>i j. o1 = (case Eval Decision decode (clock i) (bm_evaluator b) r of
        Inl e \<Rightarrow> Inl e | Inr d \<Rightarrow> CreateBeatEvents api (bm_transformer b) (clock j) (uuid j) d)) resources res"
    using basebenchmark_Run_outcomes [of api Decision decode clock uuid b resources] by blast
  have "list_all2 (outcome_of api Decision decode clock uuid b) resources res"
  proof (rule list.rel_mono_strong [OF res(2)])
    fix r outcome
    assume r: "r \<in> set resources" and "\<exists>i j. outcome = (case Eval Decision decode (clock i) (bm_evaluator b) r of
        Inl e \<Rightarrow> Inl e | Inr d \<Rightarrow> CreateBeatEvents api (bm_transformer b) (clock j) (uuid j) d)"
    then obtain i j where outcome: "outcome = (case Eval Decision decode (clock i) (bm_evaluator b) r of
        Inl e \<Rightarrow> Inl e | Inr d \<Rightarrow> CreateBeatEvents api (bm_transformer b) (clock j) (uuid j) d)" by blast
    show "outcome_of api Decision decode clock uuid b r outcome"
      by (rule outcome_ofI [where i = i and j = j, OF assms(1) _ built_transformer [OF assms(2)]])
         (use assms(3) r outcome in blast)+
  qed
  then show ?thesis using res(1) by blast
qed

definition sample_bench :: "(bool, unit) bench" where
  "sample_bench =
     \<lparr>bm_interval = Period default_for_witness, bm_timeout = defaultManagerTimeout,
      bm_registry = NewRegistry [], bm_evaluator = \<lparr>opa_sdk = (), benchmark = []\<rparr>,
      bm_transformer = NewTransformer (cloud_provider [])
        (common_GetElasticCommonData \<lparr>info = [], cdp_cfg = Some default_for_witness\<rparr>) default_GetId,
      bm_resourceCh = make_chan resourceChBufferSize, bm_leaderElector = None\<rparr>"

lemma sample_bench_built:
  "NewBenchmark_cloud (\<lambda>_. Inr ()) (\<lambda>_. Inr []) \<lparr>v_Version = ''8.13.0'', CommitHash = [], CommitTime = []\<rparr>
     default_for_witness (Inr (NewRegistry [], cloud_provider [], None)) = Inr sample_bench"
  by (simp add: NewBenchmark_cloud_def Build_def buildBase_def builder_New_def WithBenchmarkDataProvider_def
      NewOpaEvaluator_def common_New_def sample_bench_def default_for_witness_def Let_def)

text \<open>
  To stop a benchmark closes the channel of resources, which is what lets both stages finish;
  from then on every send of a fetcher that still runs panics, and so does a second \<open>Stop\<close>.
\<close>

lemma bench_Stop_closes_channel:
  assumes "bench_Stop b w = Some (b', w')"
  shows "closed (bm_resourceCh b') \<and> buf (bm_resourceCh b') = buf (bm_resourceCh b) \<and>
    chan_send (bm_resourceCh b') r = SendPanics \<and> bench_Stop b' w'' = None"
  using assms by (auto simp: bench_Stop_def chan_close_def chan_send_def split: if_splits)

lemma bench_Stop_closes_channel_witness:
  "\<exists>b' w'. bench_Stop sample_bench True = Some (b', w') \<and> bench_Stop b' False = None"
proof -
  have "\<exists>b' w'. bench_Stop sample_bench True = Some (b', w')"
    by (simp add: bench_Stop_def sample_bench_def)
  then obtain b' w' where stop: "bench_Stop sample_bench True = Some (b', w')" by blast
  show ?thesis using bench_Stop_closes_channel [OF stop] stop by blast
qed

end
