(* ===== verification/AWS_Regions.thy ===== *)
theory AWS_Regions
  imports Data_Model
begin

text \<open>
  \<open>resources/providers/awslib/multi_region.go\<close> and the pagination that the AWS providers share: a
  loop that asks for a page, appends its items and goes on with the token of the page until there
  is none. A client answers a page for a token.
\<close>

section \<open>Pagination\<close>

record ('tok, 'a) page =
  items :: "'a list"
  NextToken :: "'tok option"

type_synonym ('tok, 'a) page_api = "'tok option \<Rightarrow> ('tok, 'a) page result"

text \<open>
  The loop may ask for ever, if the client answers tokens for ever: not returning is the value
  \<open>None\<close>.
\<close>

partial_function (option) paginate ::
  "('tok, 'a) page_api \<Rightarrow> 'tok option \<Rightarrow> 'a list \<Rightarrow> 'a list result option" where
  "paginate call token acc =
     (case call token of
        Inl err \<Rightarrow> Some (Inl err)
      | Inr output \<Rightarrow>
          (case NextToken output of
             None \<Rightarrow> Some (Inr (acc @ items output))
           | Some t \<Rightarrow> paginate call (Some t) (acc @ items output)))"

declare paginate.simps [code]

text \<open>The pages that the client answers one after the other, the last without a token.\<close>

fun page_chain :: "('tok, 'a) page_api \<Rightarrow> 'tok option \<Rightarrow> ('tok, 'a) page list \<Rightarrow> bool" where
  "page_chain call token [] = False"
| "page_chain call token [p] = (call token = Inr p \<and> NextToken p = None)"
| "page_chain call token (p # q # ps) =
     (call token = Inr p \<and> NextToken p \<noteq> None \<and> page_chain call (NextToken p) (q # ps))"

lemma paginate_chain:
  "page_chain call token ps \<Longrightarrow> paginate call token acc = Some (Inr (acc @ concat (map items ps)))"
proof (induction call token ps arbitrary: acc rule: page_chain.induct)
  case (2 call token p)
  then show ?case by (subst paginate.simps) simp
next
  case (3 call token p q ps)
  then obtain t where t: "NextToken p = Some t" by auto
  have "paginate call token acc = paginate call (Some t) (acc @ items p)"
    using 3(2) t by (subst paginate.simps) simp
  also have "\<dots> = Some (Inr ((acc @ items p) @ concat (map items (q # ps))))"
    using 3 t by (auto dest: 3(1))
  finally show ?case by simp
qed simp

text \<open>A page that fails ends the loop with its error, whatever came before.\<close>

fun failing_chain :: "('tok, 'a) page_api \<Rightarrow> 'tok option \<Rightarrow> ('tok, 'a) page list \<Rightarrow> go_error \<Rightarrow> bool" where
  "failing_chain call token [] err = (call token = Inl err)"
| "failing_chain call token (p # ps) err =
     (call token = Inr p \<and> NextToken p \<noteq> None \<and> failing_chain call (NextToken p) ps err)"

lemma paginate_failing: "failing_chain call token ps err \<Longrightarrow> paginate call token acc = Some (Inl err)"
proof (induction call token ps err arbitrary: acc rule: failing_chain.induct)
  case (1 call token err)
  then show ?case by (subst paginate.simps) simp
next
  case (2 call token p ps err)
  then obtain t where t: "NextToken p = Some t" by auto
  show ?case using 2 t by (subst paginate.simps) auto
qed

text \<open>
  The services that page with a flag and a marker, which may be nil: the loop ends where the flag is
  unset and goes on with the marker otherwise.
\<close>

record ('tok, 'a) marker_page =
  mp_items :: "'a list"
  IsTruncated :: bool
  Marker :: "'tok option"

definition marker_api :: "('tok option \<Rightarrow> ('tok, 'a) marker_page result) \<Rightarrow> ('tok option, 'a) page_api" where
  "marker_api call t =
     (case call (case t of None \<Rightarrow> None | Some marker \<Rightarrow> marker) of
        Inl err \<Rightarrow> Inl err
      | Inr output \<Rightarrow>
          Inr \<lparr>items = mp_items output, NextToken = (if \<not> IsTruncated output then None else Some (Marker output))\<rparr>)"

section \<open>Clients of several regions\<close>

type_synonym 'c clients = "(string \<times> 'c) list"

text \<open>
  \<open>NewMultiRegionClients\<close>: one client for each region of the list, or for the configured region
  when the list cannot be had.
\<close>

fun add_clients :: "(string \<Rightarrow> 'c) \<Rightarrow> string list \<Rightarrow> 'c clients \<Rightarrow> 'c clients" where
  "add_clients factory [] m = m"
| "add_clients factory (region # regions) m = add_clients factory regions (map_put region (factory region) m)"

definition NewMultiRegionClients :: "string list result \<Rightarrow> string \<Rightarrow> (string \<Rightarrow> 'c) \<Rightarrow> 'c clients" where
  "NewMultiRegionClients selected cfgRegion factory =
     (let regionList = (case selected of Inl err \<Rightarrow> [cfgRegion] | Inr rs \<Rightarrow> rs)
      in add_clients factory regionList [])"

text \<open>
  \<open>MultiRegionFetch\<close>: one goroutine for each region. The list of clients is in the order in which
  the goroutines append their results, which is arbitrary; of the errors one is answered, the
  first in the channel. \<open>dropped\<close> is \<open>shouldDrop\<close>, true for a nil pointer. A fetcher answers a value
  and an error or nil, and the value is kept even where there is an error.
\<close>

definition region_error :: "string \<Rightarrow> go_error \<Rightarrow> go_error" where
  "region_error region err =
     Errorf (''fail to retrieve aws resources for region: '' @ region @ '', error: '' @ error_text err @ '', '')"

fun fetch_regions ::
  "('k \<Rightarrow> bool) \<Rightarrow> (string \<Rightarrow> 'c \<Rightarrow> 'k \<times> go_error option) \<Rightarrow> 'c clients \<Rightarrow> 'k list \<times> go_error list" where
  "fetch_regions dropped fetcher [] = ([], [])"
| "fetch_regions dropped fetcher ((region, client) # cs) =
     (let (results, fetchErr) = fetcher region client;
          (rs, errs) = fetch_regions dropped fetcher cs
      in (if dropped results then rs else results # rs,
          case fetchErr of None \<Rightarrow> errs | Some err \<Rightarrow> region_error region err # errs))"

definition MultiRegionFetch ::
  "('k \<Rightarrow> bool) \<Rightarrow> 'c clients option \<Rightarrow> (string \<Rightarrow> 'c \<Rightarrow> 'k \<times> go_error option) \<Rightarrow>
     'k list \<times> go_error option" where
  "MultiRegionFetch dropped clientSet fetcher =
     (case clientSet of
        None \<Rightarrow> ([], Some (Errorf ''multi region clients have not been initialized''))
      | Some cs \<Rightarrow>
          (let (rs, errs) = fetch_regions dropped fetcher cs
           in (rs, case errs of [] \<Rightarrow> None | err # _ \<Rightarrow> Some err)))"

text \<open>\<open>GetClient\<close> of \<open>awslib/aws.go\<close>: the client of a region.\<close>

definition ErrClientNotFound :: go_error where
  "ErrClientNotFound = Sentinel ''aws client not found''"

definition getRegion :: "string option \<Rightarrow> string" where
  "getRegion region = (case region of None \<Rightarrow> ''us-east-1'' | Some r \<Rightarrow> r)"

definition GetRegionClient :: "string option \<Rightarrow> 'c clients \<Rightarrow> 'c result" where
  "GetRegionClient region list =
     (case map_of list (getRegion region) of
        None \<Rightarrow> Inl ErrClientNotFound
      | Some c \<Rightarrow> Inr c)"

lemma fetch_regions_results:
  "fst (fetch_regions dropped fetcher cs) = filter (\<lambda>k. \<not> dropped k) (map (\<lambda>(r, c). fst (fetcher r c)) cs)"
  by (induction cs) (auto simp: Let_def split: prod.splits)

lemma fetch_regions_errors:
  "snd (fetch_regions dropped fetcher cs) = [] \<longleftrightarrow> (\<forall>(r, c)\<in>set cs. snd (fetcher r c) = None)"
  by (induction cs) (auto simp: Let_def split: prod.splits option.splits)

lemma map_of_add_clients:
  "map_of (add_clients factory regions m) =
     (\<lambda>r. if r \<in> set regions then Some (factory r) else map_of m r)"
  by (induction regions arbitrary: m) (auto simp: fun_eq_iff)

section \<open>Properties\<close>

text \<open>
  A fetch over several regions answers what every region has answered, apart from nil
  pointers, also for the regions whose fetcher answers an error; it answers an error exactly when
  the clients are missing or some region has failed.
\<close>

lemma MultiRegionFetch_collects:
  "MultiRegionFetch dropped (Some cs) fetcher =
     (filter (\<lambda>k. \<not> dropped k) (map (\<lambda>(r, c). fst (fetcher r c)) cs), snd (MultiRegionFetch dropped (Some cs) fetcher)) \<and>
   (snd (MultiRegionFetch dropped clientSet fetcher) = None \<longleftrightarrow>
     (\<exists>cs. clientSet = Some cs \<and> (\<forall>(r, c)\<in>set cs. snd (fetcher r c) = None)))"
proof -
  have "fst (MultiRegionFetch dropped (Some cs) fetcher) =
      filter (\<lambda>k. \<not> dropped k) (map (\<lambda>(r, c). fst (fetcher r c)) cs)"
    using fetch_regions_results [of dropped fetcher cs] by (simp add: MultiRegionFetch_def case_prod_beta)
  moreover have "snd (MultiRegionFetch dropped (Some ds) fetcher) = None \<longleftrightarrow>
      snd (fetch_regions dropped fetcher ds) = []" for ds
    by (simp add: MultiRegionFetch_def case_prod_beta split: list.splits)
  then have "snd (MultiRegionFetch dropped clientSet fetcher) = None \<longleftrightarrow>
      (\<exists>cs. clientSet = Some cs \<and> (\<forall>(r, c)\<in>set cs. snd (fetcher r c) = None))"
    by (cases clientSet) (simp_all add: fetch_regions_errors MultiRegionFetch_def)
  ultimately show ?thesis by (metis prod.collapse)
qed

lemma MultiRegionFetch_collects_witness:
  "\<exists>err. MultiRegionFetch (\<lambda>k. k = None) (Some [(''us'', 1 :: nat), (''eu'', 2), (''ap'', 3)])
     (\<lambda>r c. if c = 2 then (Some 2, Some (Errorf ''denied'')) else if c = 3 then (None, None) else (Some c, None)) =
     ([Some 1, Some 2], Some err)"
proof -
  let ?f = "\<lambda>(r :: string) c. if c = 2 then (Some 2, Some (Errorf ''denied'')) else if c = 3 then (None, None)
      else (Some (c :: nat), None)"
  let ?cs = "[(''us'', 1 :: nat), (''eu'', 2), (''ap'', 3)]"
  note general = MultiRegionFetch_collects [of "\<lambda>k. k = None" ?cs ?f "Some ?cs"]
  have "snd (MultiRegionFetch (\<lambda>k. k = None) (Some ?cs) ?f) \<noteq> None" using general by simp
  then show ?thesis using general by auto
qed

end
