(* ===== verification/EC2_Model.thy ===== *)
theory EC2_Model
  imports AWS_Regions
begin

text \<open>
  \<open>resources/providers/awslib/ec2\<close>: the types of EC2 (instances, volumes, snapshots, network
  resources) and the provider. The SDK's client of a region is a record of its calls; what it
  answers is a record with the fields that the code reads. A pointer that the code tests for nil is
  an option, and \<open>None\<close> as the answer of a method is its panic; a pointer that the code only
  follows (the id of a snapshot, the key of a tag) is a plain field, since the service always sets
  it. Calls that create or delete act on the state \<open>'w\<close> of the account.
\<close>

section \<open>Volumes and instances\<close>

record volume =
  VolumeId :: string
  vol_InstanceId :: string
  vol_Region :: string
  Size :: int
  Encrypted :: bool
  Device :: string

record sdk_instance =
  InstanceId :: "string option"
  RootDeviceName :: "string option"
  ins_Tags :: "(string \<times> string) list"
  MacAddresses :: "string list"
  SecurityGroups :: "(string option \<times> string option) list"
  InstanceType :: string
  KeyName :: "string option"
  LaunchTime :: "int option"
  ImageId :: "string option"
  AvailabilityZone :: "string option option"
  Architecture :: string
  PlatformDetails :: "string option"
  PrivateIpAddress :: "string option"
  PublicIpAddress :: "string option"

record ec2_instance = sdk_instance +
  ins_Region :: string
  ins_awsAccount :: string
  RootVolume :: "volume option"

definition Ec2Instance_GetResourceArn :: "ec2_instance \<Rightarrow> string" where
  "Ec2Instance_GetResourceArn i =
     (case InstanceId i of
        None \<Rightarrow> []
      | Some rid \<Rightarrow> ''arn:aws:ec2:'' @ ins_Region i @ '':'' @ ins_awsAccount i @ '':ec2/'' @ rid)"

fun name_tag :: "(string \<times> string) list \<Rightarrow> string" where
  "name_tag [] = []"
| "name_tag ((key, val) # tags) = (if key = ''Name'' then val else name_tag tags)"

definition Ec2Instance_GetResourceName :: "ec2_instance \<Rightarrow> string" where
  "Ec2Instance_GetResourceName i = name_tag (ins_Tags i)"

text \<open>The part after the first dash; the index panics where there is none.\<close>

definition Ec2Instance_GetResourceId :: "ec2_instance \<Rightarrow> string option" where
  "Ec2Instance_GetResourceId i =
     (case InstanceId i of
        None \<Rightarrow> Some []
      | Some rid \<Rightarrow>
          (let parts = split_on CHR ''-'' rid in if 1 < length parts then Some (parts ! 1) else None))"

fun tag_map :: "(string \<times> string) list \<Rightarrow> (string \<times> string) list \<Rightarrow> (string \<times> string) list" where
  "tag_map [] m = m"
| "tag_map ((key, val) # tags) m = tag_map tags (map_put key val m)"

definition Ec2Instance_GetResourceTags :: "ec2_instance \<Rightarrow> (string \<times> string) list" where
  "Ec2Instance_GetResourceTags i = tag_map (ins_Tags i) []"

definition Ec2Instance_GetResourceMacAddresses :: "ec2_instance \<Rightarrow> string list" where
  "Ec2Instance_GetResourceMacAddresses i = MacAddresses i"

definition Ec2Instance_GetResourceSecurityGroups :: "ec2_instance \<Rightarrow> (string option \<times> string option) list" where
  "Ec2Instance_GetResourceSecurityGroups i = map (\<lambda>(gid, gname). (gid, gname)) (SecurityGroups i)"

section \<open>Snapshots\<close>

record sdk_snapshot =
  sdk_SnapshotId :: string
  sdk_State :: string
  sdk_VolumeSize :: int
  sdk_Encrypted :: bool

record ebs_snapshot =
  Instance :: ec2_instance
  SnapshotId :: string
  State :: string
  snap_Region :: string
  snap_awsAccount :: string
  VolumeSize :: int
  IsEncrypted :: bool

abbreviation "SnapshotStateCompleted \<equiv> ''completed''"

definition EBSSnapshot_GetResourceArn :: "ebs_snapshot \<Rightarrow> string" where
  "EBSSnapshot_GetResourceArn e =
     ''arn:aws:ec2:'' @ snap_Region e @ '':'' @ snap_awsAccount e @ '':ec2/'' @ SnapshotId e"

definition EBSSnapshot_GetResourceName :: "ebs_snapshot \<Rightarrow> string" where
  "EBSSnapshot_GetResourceName e = ''ebs-snapshot-by-default-'' @ snap_awsAccount e @ ''-'' @ snap_Region e"

definition FromSnapshotInfo :: "sdk_snapshot \<Rightarrow> string \<Rightarrow> string \<Rightarrow> ec2_instance \<Rightarrow> ebs_snapshot" where
  "FromSnapshotInfo snapshot region awsAccount ins =
     \<lparr>Instance = ins, SnapshotId = sdk_SnapshotId snapshot, State = sdk_State snapshot,
      snap_Region = region, snap_awsAccount = awsAccount, VolumeSize = sdk_VolumeSize snapshot,
      IsEncrypted = sdk_Encrypted snapshot\<rparr>"

definition FromSnapshot :: "sdk_snapshot \<Rightarrow> string \<Rightarrow> string \<Rightarrow> ec2_instance \<Rightarrow> ebs_snapshot" where
  "FromSnapshot snapshot region awsAccount ins =
     \<lparr>Instance = ins, SnapshotId = sdk_SnapshotId snapshot, State = sdk_State snapshot,
      snap_Region = region, snap_awsAccount = awsAccount, VolumeSize = sdk_VolumeSize snapshot,
      IsEncrypted = sdk_Encrypted snapshot\<rparr>"

section \<open>Network resources\<close>

record nacl_info =
  NetworkAclId :: "string option"
  nacl_data :: any
  nacl_awsAccount :: string
  nacl_region :: string

definition NACLInfo_GetResourceArn :: "nacl_info \<Rightarrow> string" where
  "NACLInfo_GetResourceArn r =
     (case NetworkAclId r of
        None \<Rightarrow> []
      | Some rid \<Rightarrow> ''arn:aws:ec2:'' @ nacl_region r @ '':'' @ nacl_awsAccount r @ '':network-acl/'' @ rid)"

definition NACLInfo_GetResourceName :: "nacl_info \<Rightarrow> string" where
  "NACLInfo_GetResourceName r = (case NetworkAclId r of None \<Rightarrow> [] | Some rid \<Rightarrow> rid)"

record security_group =
  sg_GroupId :: "string option"
  sg_GroupName :: "string option"
  sg_data :: any
  sg_awsAccount :: string
  sg_region :: string

definition SecurityGroup_GetResourceArn :: "security_group \<Rightarrow> string" where
  "SecurityGroup_GetResourceArn s =
     (case sg_GroupId s of
        None \<Rightarrow> []
      | Some rid \<Rightarrow> ''arn:aws:ec2:'' @ sg_region s @ '':'' @ sg_awsAccount s @ '':security-group/'' @ rid)"

definition SecurityGroup_GetResourceName :: "security_group \<Rightarrow> string" where
  "SecurityGroup_GetResourceName s = (case sg_GroupName s of None \<Rightarrow> [] | Some n \<Rightarrow> n)"

record vpc_info =
  VpcId :: "string option"
  vpc_data :: any
  FlowLogs :: "any list"
  vpc_awsAccount :: string
  vpc_region :: string

definition VpcInfo_GetResourceArn :: "vpc_info \<Rightarrow> string" where
  "VpcInfo_GetResourceArn v =
     (case VpcId v of
        None \<Rightarrow> []
      | Some rid \<Rightarrow> ''arn:aws:ec2:'' @ vpc_region v @ '':'' @ vpc_awsAccount v @ '':vpc/'' @ rid)"

definition VpcInfo_GetResourceName :: "vpc_info \<Rightarrow> string" where
  "VpcInfo_GetResourceName v = (case VpcId v of None \<Rightarrow> [] | Some rid \<Rightarrow> rid)"

record ebs_encryption =
  Enabled :: bool
  ebs_region :: string
  ebs_awsAccount :: string

definition EBSEncryption_GetResourceArn :: "ebs_encryption \<Rightarrow> string" where
  "EBSEncryption_GetResourceArn e = ''ebs-encryption-by-default-'' @ ebs_awsAccount e @ ''-'' @ ebs_region e"

definition EBSEncryption_GetResourceName :: "ebs_encryption \<Rightarrow> string" where
  "EBSEncryption_GetResourceName e = ''ebs-encryption-by-default-'' @ ebs_awsAccount e @ ''-'' @ ebs_region e"

section \<open>The client of a region\<close>

record sdk_volume =
  sv_VolumeId :: string
  sv_Size :: int
  sv_Encrypted :: bool
  sv_Attachments :: "(string \<times> string) list"

record sdk_route_table =
  RouteTableId :: string
  rt_Routes :: "(string option \<times> string option) list"

record 'w ec2_client =
  DescribeNetworkAcls :: "(string, string option \<times> any) page_api"
  c_DescribeSecurityGroups :: "(string, string option \<times> string option \<times> any) page_api"
  DescribeVpcs :: "(string, string \<times> any) page_api"
  DescribeFlowLogs :: "string \<Rightarrow> any list result"
  c_GetEbsEncryptionByDefault :: "bool result"
  c_DescribeInstances :: "(string, sdk_instance list) page_api"
  c_DescribeVolumes :: "string list \<Rightarrow> (string, sdk_volume) page_api"
  c_DescribeSnapshots :: "string list \<Rightarrow> 'w \<Rightarrow> sdk_snapshot list result"
  c_CreateSnapshots :: "string option \<Rightarrow> (string \<times> string) list \<Rightarrow> 'w \<Rightarrow> sdk_snapshot list result \<times> 'w"
  c_DeleteSnapshot :: "string \<Rightarrow> 'w \<Rightarrow> go_error option \<times> 'w"
  DescribeRouteTables :: "(string \<times> string list) list \<Rightarrow> sdk_route_table list result"

record 'w ec2_provider =
  ec2_clients :: "'w ec2_client clients"
  awsAccountID :: string

definition NewEC2Provider ::
  "string list result \<Rightarrow> string \<Rightarrow> (string \<Rightarrow> 'w ec2_client) \<Rightarrow> string \<Rightarrow> 'w ec2_provider" where
  "NewEC2Provider selected cfgRegion factory account =
     \<lparr>ec2_clients = NewMultiRegionClients selected cfgRegion factory, awsAccountID = account\<rparr>"

section \<open>Fetching from all regions\<close>

text \<open>
  The calls that page through a region: all the items, or the error of the first failing page and
  nothing; \<open>None\<close> where the region's loop does not end, and then neither does the whole call.
\<close>

definition region_pages ::
  "('tok, 'a) page_api \<Rightarrow> ('a list \<Rightarrow> 'k list) \<Rightarrow> ('k list \<times> go_error option) option" where
  "region_pages call wrap =
     (case paginate call None [] of
        None \<Rightarrow> None
      | Some (Inl err) \<Rightarrow> Some ([], Some err)
      | Some (Inr all) \<Rightarrow> Some (wrap all, None))"

definition all_regions ::
  "'w ec2_provider \<Rightarrow> (string \<Rightarrow> 'w ec2_client \<Rightarrow> ('k list \<times> go_error option) option) \<Rightarrow>
     ('k list \<times> go_error option) option" where
  "all_regions p fetcher =
     (if \<exists>(region, c) \<in> set (ec2_clients p). fetcher region c = None then None
      else let (xss, err) = MultiRegionFetch (\<lambda>_. False) (Some (ec2_clients p)) (\<lambda>region c. the (fetcher region c))
           in Some (concat xss, err))"

definition DescribeNetworkAcl :: "'w ec2_provider \<Rightarrow> (nacl_info list \<times> go_error option) option" where
  "DescribeNetworkAcl p =
     all_regions p (\<lambda>region c. region_pages (DescribeNetworkAcls c)
       (map (\<lambda>(nid, d). \<lparr>NetworkAclId = nid, nacl_data = d, nacl_awsAccount = awsAccountID p,
                        nacl_region = region\<rparr>)))"

definition DescribeSecurityGroups :: "'w ec2_provider \<Rightarrow> (security_group list \<times> go_error option) option" where
  "DescribeSecurityGroups p =
     all_regions p (\<lambda>region c. region_pages (c_DescribeSecurityGroups c)
       (map (\<lambda>(gid, gname, d). \<lparr>sg_GroupId = gid, sg_GroupName = gname, sg_data = d,
                               sg_awsAccount = awsAccountID p, sg_region = region\<rparr>)))"

text \<open>A VPC whose flow logs cannot be had is logged and left out.\<close>

definition vpcs_with_logs :: "'w ec2_client \<Rightarrow> string \<Rightarrow> string \<Rightarrow> (string \<times> any) list \<Rightarrow> vpc_info list" where
  "vpcs_with_logs c account region vpcs =
     oks (map (\<lambda>(vid, d). case DescribeFlowLogs c vid of
                 Inl err \<Rightarrow> Inl err
               | Inr logs \<Rightarrow> Inr \<lparr>VpcId = Some vid, vpc_data = d, FlowLogs = logs,
                                 vpc_awsAccount = account, vpc_region = region\<rparr>) vpcs)"

definition DescribeVPCs :: "'w ec2_provider \<Rightarrow> (vpc_info list \<times> go_error option) option" where
  "DescribeVPCs p =
     all_regions p (\<lambda>region c. region_pages (DescribeVpcs c) (vpcs_with_logs c (awsAccountID p) region))"

definition GetEbsEncryptionByDefault :: "'w ec2_provider \<Rightarrow> ebs_encryption option list \<times> go_error option" where
  "GetEbsEncryptionByDefault p =
     MultiRegionFetch (\<lambda>k. k = None) (Some (ec2_clients p))
       (\<lambda>region c. case c_GetEbsEncryptionByDefault c of
                      Inl err \<Rightarrow> (None, Some err)
                    | Inr enabled \<Rightarrow>
                        (Some \<lparr>Enabled = enabled, ebs_region = region, ebs_awsAccount = awsAccountID p\<rparr>, None))"

definition in_region :: "string \<Rightarrow> string \<Rightarrow> sdk_instance \<Rightarrow> ec2_instance" where
  "in_region account region i = sdk_instance.extend i (ec2_instance.fields region account None)"

definition DescribeInstances :: "'w ec2_provider \<Rightarrow> (ec2_instance list \<times> go_error option) option" where
  "DescribeInstances p =
     all_regions p (\<lambda>region c. region_pages (c_DescribeInstances c)
       (\<lambda>reservations. map (in_region (awsAccountID p) region) (concat reservations)))"

text \<open>A volume without exactly one attachment is logged and left out.\<close>

definition usable_volumes :: "string \<Rightarrow> sdk_volume list \<Rightarrow> volume list" where
  "usable_volumes region vols =
     map (\<lambda>v. \<lparr>VolumeId = sv_VolumeId v, vol_InstanceId = fst (hd (sv_Attachments v)), vol_Region = region,
              Size = sv_Size v, Encrypted = sv_Encrypted v, Device = snd (hd (sv_Attachments v))\<rparr>)
       (filter (\<lambda>v. length (sv_Attachments v) = 1) vols)"

definition DescribeVolumes ::
  "'w ec2_provider \<Rightarrow> ec2_instance list \<Rightarrow> (volume list \<times> go_error option) option" where
  "DescribeVolumes p instances =
     (let instanceFilter = map (\<lambda>i. the (InstanceId i)) instances
      in all_regions p (\<lambda>region c. region_pages (c_DescribeVolumes c instanceFilter) (usable_volumes region)))"

section \<open>Snapshots of an instance\<close>

definition CreateSnapshots ::
  "'w ec2_provider \<Rightarrow> ec2_instance \<Rightarrow> 'w \<Rightarrow> ebs_snapshot list result \<times> 'w" where
  "CreateSnapshots p ins w =
     (case map_of (ec2_clients p) (ins_Region ins) of
        None \<Rightarrow> (Inl (Errorf (''error in CreateSnapshots no client for region '' @ ins_Region ins)), w)
      | Some client \<Rightarrow>
          (case c_CreateSnapshots client (InstanceId ins)
                  [(''Name'', ''elastic-vulnerability-'' @ the (InstanceId ins)),
                   (''Workload'', ''Cloudbeat Vulnerability Snapshot'')] w of
             (Inl err, w') \<Rightarrow> (Inl err, w')
           | (Inr snaps, w') \<Rightarrow>
               (Inr (map (\<lambda>snap. FromSnapshotInfo snap (ins_Region ins) (awsAccountID p) ins) snaps), w')))"

definition DescribeSnapshots :: "'w ec2_provider \<Rightarrow> ebs_snapshot \<Rightarrow> 'w \<Rightarrow> ebs_snapshot list result" where
  "DescribeSnapshots p snapshot w =
     (case map_of (ec2_clients p) (snap_Region snapshot) of
        None \<Rightarrow> Inl (Errorf (''error in DescribeSnapshots no client for region '' @ snap_Region snapshot))
      | Some client \<Rightarrow>
          (case c_DescribeSnapshots client [SnapshotId snapshot] w of
             Inl err \<Rightarrow> Inl err
           | Inr snaps \<Rightarrow>
               Inr (map (\<lambda>snap. FromSnapshot snap (snap_Region snapshot) (awsAccountID p) (Instance snapshot)) snaps)))"

definition DeleteSnapshot :: "'w ec2_provider \<Rightarrow> ebs_snapshot \<Rightarrow> 'w \<Rightarrow> go_error option \<times> 'w" where
  "DeleteSnapshot p snapshot w =
     (case GetRegionClient (Some (snap_Region snapshot)) (ec2_clients p) of
        Inl err \<Rightarrow> (Some err, w)
      | Inr client \<Rightarrow>
          (case c_DeleteSnapshot client (SnapshotId snapshot) w of
             (Some err, w') \<Rightarrow> (Some (Wrapf (''error deleting snapshot '' @ SnapshotId snapshot @ '': '') err), w')
           | (None, w') \<Rightarrow> (None, w')))"

section \<open>Route tables\<close>

definition GetRouteTableForSubnet ::
  "'w ec2_provider \<Rightarrow> string \<Rightarrow> string \<Rightarrow> string \<Rightarrow> sdk_route_table result" where
  "GetRouteTableForSubnet p region subnetId vpcId =
     (case GetRegionClient (Some region) (ec2_clients p) of
        Inl err \<Rightarrow> Inl err
      | Inr client \<Rightarrow>
          (case DescribeRouteTables client [(''association.subnet-id'', [subnetId])] of
             Inl err \<Rightarrow> Inl err
           | Inr routeTables \<Rightarrow>
               (case (if length routeTables = 0
                      then DescribeRouteTables client [(''association.main'', [''true'']), (''vpc-id'', [vpcId])]
                      else Inr routeTables) of
                  Inl err \<Rightarrow> Inl err
                | Inr routeTables \<Rightarrow>
                    if length routeTables \<noteq> 1
                    then Inl (Errorf (''subnet '' @ subnetId @ '' has '' @ format_int (int (length routeTables)) @
                                      '' route tables''))
                    else Inr (hd routeTables))))"

section \<open>Lemmas\<close>

text \<open>When the pages of every region end, all of them are collected, region by region.\<close>

lemma region_pages_chain:
  "page_chain call None ps \<Longrightarrow> region_pages call wrap = Some (wrap (concat (map items ps)), None)"
  by (simp add: region_pages_def paginate_chain)

lemma all_regions_collect:
  assumes "\<forall>(region, c) \<in> set (ec2_clients p). fetcher region c = Some (f region c, None)"
  shows "all_regions p fetcher = Some (concat (map (\<lambda>(region, c). f region c) (ec2_clients p)), None)"
proof -
  let ?g = "\<lambda>region c. the (fetcher region c)"
  have all: "fetch_regions (\<lambda>_. False) ?g cs = (map (\<lambda>(r, c). f r c) cs, [])"
    if "\<forall>(region, c) \<in> set cs. fetcher region c = Some (f region c, None)" for cs
    using that by (induction cs) auto
  have "\<not> (\<exists>(region, c) \<in> set (ec2_clients p). fetcher region c = None)" using assms by auto
  then show ?thesis using all [OF assms] by (simp add: all_regions_def MultiRegionFetch_def)
qed

section \<open>Properties\<close>

text \<open>
  C22. The list of instances is complete: when the pages of every region end, the provider answers
  all the instances of all the reservations on all the pages of all the regions, each with its
  region and the account, and no error.
\<close>

theorem DescribeInstances_complete:
  assumes "\<forall>(region, c) \<in> set (ec2_clients p). page_chain (c_DescribeInstances c) None (pages region)"
  shows "DescribeInstances p =
    Some (concat (map (\<lambda>(region, c). map (in_region (awsAccountID p) region)
      (concat (concat (map items (pages region))))) (ec2_clients p)), None)"
proof -
  have "\<forall>(region, c) \<in> set (ec2_clients p).
      region_pages (c_DescribeInstances c) (\<lambda>reservations. map (in_region (awsAccountID p) region) (concat reservations)) =
      Some (map (in_region (awsAccountID p) region) (concat (concat (map items (pages region)))), None)"
    using assms by (auto simp: region_pages_chain)
  from all_regions_collect [OF this] show ?thesis
    by (simp add: DescribeInstances_def)
qed

definition sample_instance :: "string \<Rightarrow> sdk_instance" where
  "sample_instance rid =
     \<lparr>InstanceId = Some rid, RootDeviceName = Some ''/dev/sda1'', ins_Tags = [(''Name'', ''web'')],
      MacAddresses = [], SecurityGroups = [], InstanceType = ''t2.micro'', KeyName = None,
      LaunchTime = None, ImageId = None, AvailabilityZone = None, Architecture = ''x86_64'',
      PlatformDetails = None, PrivateIpAddress = None, PublicIpAddress = None\<rparr>"

definition sample_client :: "nat ec2_client" where
  "sample_client =
     \<lparr>DescribeNetworkAcls = (\<lambda>_. Inl (Errorf [])), c_DescribeSecurityGroups = (\<lambda>_. Inl (Errorf [])),
      DescribeVpcs = (\<lambda>_. Inl (Errorf [])), DescribeFlowLogs = (\<lambda>_. Inr []),
      c_GetEbsEncryptionByDefault = Inr True,
      c_DescribeInstances = (\<lambda>t. case t of
          None \<Rightarrow> Inr \<lparr>items = [[sample_instance ''i-1'', sample_instance ''i-2'']], NextToken = Some ''p2''\<rparr>
        | Some _ \<Rightarrow> Inr \<lparr>items = [[sample_instance ''i-3'']], NextToken = None\<rparr>),
      c_DescribeVolumes = (\<lambda>_ _. Inl (Errorf [])),
      c_DescribeSnapshots = (\<lambda>sids w. Inr []), c_CreateSnapshots = (\<lambda>i tags w. (Inr [], w)),
      c_DeleteSnapshot = (\<lambda>s w. (None, w + 1)), DescribeRouteTables = (\<lambda>_. Inr [])\<rparr>"

lemma DescribeInstances_complete_witness:
  "DescribeInstances \<lparr>ec2_clients = [(''us-east-1'', sample_client)], awsAccountID = ''9''\<rparr> =
     Some (map (in_region ''9'' ''us-east-1'') [sample_instance ''i-1'', sample_instance ''i-2'', sample_instance ''i-3''], None)"
  using DescribeInstances_complete [of "\<lparr>ec2_clients = [(''us-east-1'', sample_client)], awsAccountID = ''9''\<rparr>"
      "\<lambda>_. [\<lparr>items = [[sample_instance ''i-1'', sample_instance ''i-2'']], NextToken = Some ''p2''\<rparr>,
           \<lparr>items = [[sample_instance ''i-3'']], NextToken = None\<rparr>]"]
  by (simp add: sample_client_def)

end
