(* ===== verification/Vuln_Stages.thy ===== *)
theory Vuln_Stages
  imports EC2_Model Pipeline_Step
begin

text \<open>
  \<open>vulnerability\<close>: the stages of the vulnerability scanner (\<open>fetcher.go\<close>, \<open>replicator.go\<close>,
  \<open>verifier.go\<close>, \<open>scanner.go\<close>, \<open>cleaner.go\<close>) and the worker that connects them by unbuffered
  channels (\<open>worker.go\<close>). A stage is a function from what it receives to what it sends, in order.
  Cancellation is a budget: the number of \<open>select\<close> statements of the stage that pass before one
  picks \<open>ctx.Done ()\<close>, \<open>None\<close> where none ever does. The provider, trivy's runner, the file system
  and \<open>sort.Slice\<close> are parameters.
\<close>

section \<open>Fetcher\<close>

text \<open>\<open>None\<close> is the panic of a nil \<open>InstanceId\<close> or \<open>RootDeviceName\<close>.\<close>

fun root_volume :: "string option \<Rightarrow> volume list \<Rightarrow> volume option \<Rightarrow> volume option option" where
  "root_volume rootDevice [] old = Some old"
| "root_volume None (vol # vols) old = None"
| "root_volume (Some d) (vol # vols) old =
     (if Device vol = d then Some (Some vol) else root_volume (Some d) vols old)"

definition attach_one :: "volume list \<Rightarrow> ec2_instance \<Rightarrow> ec2_instance option" where
  "attach_one volumes ins =
     (case InstanceId ins of
        None \<Rightarrow> None
      | Some rid \<Rightarrow>
          (case root_volume (RootDeviceName ins) (filter (\<lambda>v. vol_InstanceId v = rid) volumes) (RootVolume ins) of
             None \<Rightarrow> None
           | Some v \<Rightarrow> Some (ins\<lparr>RootVolume := v\<rparr>)))"

fun attach_all :: "volume list \<Rightarrow> ec2_instance list \<Rightarrow> ec2_instance list option" where
  "attach_all volumes [] = Some []"
| "attach_all volumes (ins # instances) =
     (case attach_one volumes ins of
        None \<Rightarrow> None
      | Some i \<Rightarrow> (case attach_all volumes instances of None \<Rightarrow> None | Some is \<Rightarrow> Some (i # is)))"

definition attachRootVolumes ::
  "volume list \<times> go_error option \<Rightarrow> ec2_instance list \<Rightarrow> (ec2_instance list \<times> go_error option) option" where
  "attachRootVolumes volumesResult instances =
     (case volumesResult of
        (_, Some err) \<Rightarrow> Some (instances, Some err)
      | (volumes, None) \<Rightarrow>
          (case attach_all volumes instances of None \<Rightarrow> None | Some is \<Rightarrow> Some (is, None)))"

definition by_root_volume :: "ec2_instance \<Rightarrow> ec2_instance \<Rightarrow> bool" where
  "by_root_volume i j =
     (case RootVolume i of
        None \<Rightarrow> False
      | Some vi \<Rightarrow> (case RootVolume j of None \<Rightarrow> True | Some vj \<Rightarrow> Size vi < Size vj))"

type_synonym 'a sort_fn = "('a \<Rightarrow> 'a \<Rightarrow> bool) \<Rightarrow> 'a list \<Rightarrow> 'a list"

definition sortByRootVolumeSize :: "ec2_instance sort_fn \<Rightarrow> ec2_instance list \<Rightarrow> ec2_instance list" where
  "sortByRootVolumeSize sort_Slice instances = sort_Slice by_root_volume instances"

text \<open>
  \<open>FetchInstances\<close>: what it sends and what it answers. Where the volumes cannot be had the order
  stays as it is.
\<close>

definition FetchInstances ::
  "ec2_instance sort_fn \<Rightarrow> ec2_instance list \<times> go_error option \<Rightarrow>
     (ec2_instance list \<Rightarrow> volume list \<times> go_error option) \<Rightarrow> budget \<Rightarrow>
     (ec2_instance list \<times> go_error option) option" where
  "FetchInstances sort_Slice described describeVolumes c =
     (case described of
        (_, Some err) \<Rightarrow> Some ([], Some err)
      | (ins, None) \<Rightarrow>
          (case attachRootVolumes (describeVolumes ins) ins of
             None \<Rightarrow> None
           | Some (ins', err) \<Rightarrow>
               (let ordered = (case err of Some _ \<Rightarrow> ins' | None \<Rightarrow> sortByRootVolumeSize sort_Slice ins')
                in Some (fst (send_all c ordered), None))))"

section \<open>Replicator\<close>

text \<open>What it sends, the snapshots it answers, and the state of the account.\<close>

fun SnapshotInstance ::
  "(ec2_instance \<Rightarrow> 'w \<Rightarrow> ebs_snapshot list result \<times> 'w) \<Rightarrow> budget \<Rightarrow> ec2_instance list \<Rightarrow> 'w \<Rightarrow>
     ebs_snapshot list \<times> ebs_snapshot list \<times> 'w" where
  "SnapshotInstance create c [] w = ([], [], w)"
| "SnapshotInstance create c (data # rest) w =
     (case sel_ctx c of
        None \<Rightarrow> ([], [], w)
      | Some c' \<Rightarrow>
          (case create data w of
             (Inl err, w') \<Rightarrow> SnapshotInstance create c' rest w'
           | (Inr sp, w') \<Rightarrow>
               (case send_all c' sp of
                  (offered, None) \<Rightarrow> (offered, sp, w')
                | (offered, Some c'') \<Rightarrow>
                    (let (offered2, snapshots, w'') = SnapshotInstance create c'' rest w'
                     in (offered @ offered2, sp @ snapshots, w'')))))"

section \<open>Verifier\<close>

definition creationTimeout :: int where "creationTimeout = 30 * 60 * 10 ^ 9"
definition statusCheckInterval :: int where "statusCheckInterval = 15 * 10 ^ 9"

text \<open>The cases of the \<open>select\<close> of \<open>verify\<close>; at an interval the provider describes the snapshot.\<close>

datatype verify_event = VTimeout | VCtxDone | VInterval "ebs_snapshot list result"

fun allCompleted :: "ebs_snapshot list \<Rightarrow> bool" where
  "allCompleted [] = True"
| "allCompleted (i # is) = (if State i \<noteq> SnapshotStateCompleted then False else allCompleted is)"

fun verify :: "budget \<Rightarrow> verify_event list \<Rightarrow> ebs_snapshot list" where
  "verify c [] = []"
| "verify c (VTimeout # evs) = []"
| "verify c (VCtxDone # evs) = []"
| "verify c (VInterval (Inl err) # evs) = verify c evs"
| "verify c (VInterval (Inr sp) # evs) =
     (if allCompleted sp then fst (send_all c sp) else verify c evs)"

text \<open>\<open>watch\<close> gives what happens while each snapshot is verified.\<close>

fun VerifySnapshot ::
  "(ebs_snapshot \<Rightarrow> budget \<times> verify_event list) \<Rightarrow> budget \<Rightarrow> ebs_snapshot list \<Rightarrow> ebs_snapshot list" where
  "VerifySnapshot watch c [] = []"
| "VerifySnapshot watch c (data # rest) =
     (case sel_ctx c of
        None \<Rightarrow> []
      | Some c' \<Rightarrow> verify (fst (watch data)) (snd (watch data)) @ VerifySnapshot watch c' rest)"

section \<open>Scanner\<close>

text \<open>A call of trivy's runner returns a value, an error, or panics.\<close>

datatype 'a call = Returns 'a | Fails go_error | Panics string

record ('rr, 'v) report =
  Results :: "('rr \<times> 'v list) list"

record ('rr, 'v) scan_result =
  reportResult :: 'rr
  vulnerability :: 'v
  snapshot :: ebs_snapshot
  seq :: int

record scan_options =
  Target :: string
  opt_Region :: string
  Output :: string

record ('rr, 'v, 'rep) scan_env =
  CreateTemp :: "string result"
  os_Remove :: "string \<Rightarrow> go_error option"
  ScanVM :: "scan_options \<Rightarrow> 'rep call"
  Filter :: "scan_options \<Rightarrow> 'rep \<Rightarrow> 'rep call"
  Report :: "scan_options \<Rightarrow> 'rep \<Rightarrow> unit call"
  ReadReport :: "string \<Rightarrow> string result"
  json_Report :: "string \<Rightarrow> ('rr, 'v) report result"

definition scan_results :: "ebs_snapshot \<Rightarrow> int \<Rightarrow> ('rr, 'v) report \<Rightarrow> ('rr, 'v) scan_result list" where
  "scan_results snap sq rep =
     concat (map (\<lambda>(r, vs). map (\<lambda>v. \<lparr>reportResult = r, vulnerability = v, snapshot = snap, seq = sq\<rparr>) vs)
       (Results rep))"

text \<open>
  \<open>scan\<close>: the results that it has to send (\<open>None\<close> after an error or a recovered panic) and the
  temporary files that are left. The deferred removal runs on every path once the file exists.
\<close>

definition scan_body ::
  "('rr, 'v, 'rep) scan_env \<Rightarrow> int \<Rightarrow> ebs_snapshot \<Rightarrow> string \<Rightarrow> ('rr, 'v) scan_result list option" where
  "scan_body env sq snap name =
     (let opts = \<lparr>Target = ''ebs:'' @ SnapshotId snap, opt_Region = snap_Region snap, Output = name\<rparr>
      in case ScanVM env opts of
           Returns rep \<Rightarrow>
             (case Filter env opts rep of
                Returns rep' \<Rightarrow>
                  (case Report env opts rep' of
                     Returns _ \<Rightarrow>
                       (case ReadReport env name of
                          Inl err \<Rightarrow> None
                        | Inr byteValue \<Rightarrow>
                            (case json_Report env byteValue of
                               Inl err \<Rightarrow> None
                             | Inr unmarshalledReport \<Rightarrow> Some (scan_results snap sq unmarshalledReport)))
                   | _ \<Rightarrow> None)
              | _ \<Rightarrow> None)
         | _ \<Rightarrow> None)"

definition scan ::
  "('rr, 'v, 'rep) scan_env \<Rightarrow> int \<Rightarrow> ebs_snapshot \<Rightarrow> ('rr, 'v) scan_result list option \<times> string list" where
  "scan env sq snap =
     (case CreateTemp env of
        Inl err \<Rightarrow> (None, [])
      | Inr name \<Rightarrow>
          (scan_body env sq snap name, case os_Remove env name of None \<Rightarrow> [] | Some err \<Rightarrow> [name]))"

fun ScanSnapshot ::
  "('rr, 'v, 'rep) scan_env \<Rightarrow> int \<Rightarrow> budget \<Rightarrow> ebs_snapshot list \<Rightarrow> ('rr, 'v) scan_result list list" where
  "ScanSnapshot env sq c [] = []"
| "ScanSnapshot env sq c (data # rest) =
     (case sel_ctx c of
        None \<Rightarrow> []
      | Some c' \<Rightarrow>
          (case fst (scan env sq data) of
             None \<Rightarrow> ScanSnapshot env sq c' rest
           | Some results \<Rightarrow>
               (case sel_ctx c' of
                  None \<Rightarrow> ScanSnapshot env sq c' rest
                | Some c'' \<Rightarrow> results # ScanSnapshot env sq c'' rest)))"

section \<open>Events creator and cleaner\<close>

text \<open>The loop of \<open>CreateEvents\<close>; \<open>generateEvent\<close> is that of \<open>events_creator.go\<close>.\<close>

fun CreateEvents :: "('r \<Rightarrow> 'e) \<Rightarrow> budget \<Rightarrow> 'r list list \<Rightarrow> 'e list list" where
  "CreateEvents generateEvent c [] = []"
| "CreateEvents generateEvent c (data # rest) =
     (case sel_ctx c of
        None \<Rightarrow> []
      | Some c' \<Rightarrow>
          (case sel_ctx c' of
             None \<Rightarrow> []
           | Some c'' \<Rightarrow> map generateEvent data # CreateEvents generateEvent c'' rest))"

fun delete_all :: "(ebs_snapshot \<Rightarrow> 'w \<Rightarrow> go_error option \<times> 'w) \<Rightarrow> ebs_snapshot list \<Rightarrow> 'w \<Rightarrow> 'w" where
  "delete_all del [] w = w"
| "delete_all del (s # snapshots) w =
     (case del s w of
        (Some err, w') \<Rightarrow> delete_all del snapshots w'
      | (None, w') \<Rightarrow> delete_all del snapshots w')"

definition CleanSnapshots ::
  "(ebs_snapshot \<Rightarrow> 'w \<Rightarrow> go_error option \<times> 'w) \<Rightarrow> budget \<Rightarrow> ebs_snapshot list \<Rightarrow> 'w \<Rightarrow> 'w" where
  "CleanSnapshots del c snapshots w = (case sel_ctx c of None \<Rightarrow> w | Some _ \<Rightarrow> delete_all del snapshots w)"

section \<open>Worker\<close>

record 'w worker_provider =
  w_DescribeInstances :: "ec2_instance list \<times> go_error option"
  w_DescribeVolumes :: "ec2_instance list \<Rightarrow> volume list \<times> go_error option"
  w_CreateSnapshots :: "ec2_instance \<Rightarrow> 'w \<Rightarrow> ebs_snapshot list result \<times> 'w"
  w_DeleteSnapshot :: "ebs_snapshot \<Rightarrow> 'w \<Rightarrow> go_error option \<times> 'w"

record budgets =
  k_start :: budget
  k_fetch :: budget
  k_replicate :: budget
  k_verify :: budget
  k_scan :: budget
  k_create :: budget
  k_clean :: budget

definition never_cancelled :: budgets where
  "never_cancelled = \<lparr>k_start = None, k_fetch = None, k_replicate = None, k_verify = None, k_scan = None,
     k_create = None, k_clean = None\<rparr>"

text \<open>
  \<open>Run\<close>: the goroutines connected by their channels, then, when all have finished, the cleaner
  with the snapshots that the replicator has answered. A panic of the fetcher's goroutine crashes
  the process (\<open>None\<close>).
\<close>

definition worker_Run ::
  "'w worker_provider \<Rightarrow> ec2_instance sort_fn \<Rightarrow> (ebs_snapshot \<Rightarrow> budget \<times> verify_event list) \<Rightarrow>
     ('rr, 'v, 'rep) scan_env \<Rightarrow> int \<Rightarrow> (('rr, 'v) scan_result \<Rightarrow> 'e) \<Rightarrow> budgets \<Rightarrow> 'w \<Rightarrow>
     ('e list list \<times> 'w) option" where
  "worker_Run prov sort_Slice watch env sq generateEvent ks w =
     (case sel_ctx (k_start ks) of
        None \<Rightarrow> Some ([], w)
      | Some _ \<Rightarrow>
          (case FetchInstances sort_Slice (w_DescribeInstances prov) (w_DescribeVolumes prov) (k_fetch ks) of
             None \<Rightarrow> None
           | Some (instances, _) \<Rightarrow>
               (let (offered, snapshots, w') =
                      SnapshotInstance (w_CreateSnapshots prov) (k_replicate ks) instances w;
                    verified = VerifySnapshot watch (k_verify ks) offered;
                    scanned = ScanSnapshot env sq (k_scan ks) verified;
                    events = CreateEvents generateEvent (k_create ks) scanned
                in Some (events, CleanSnapshots (w_DeleteSnapshot prov) (k_clean ks) snapshots w'))))"

section \<open>The stages as sequence functions\<close>

text \<open>
  A stage that is never cancelled works value by value: verifier, scanner and events creator meet
  the contract of the stages of a pipeline, and so does their composition.
\<close>

lemma VerifySnapshot_append:
  "VerifySnapshot watch None (xs @ ys) = VerifySnapshot watch None xs @ VerifySnapshot watch None ys"
  by (induction xs) auto

lemma ScanSnapshot_append: "ScanSnapshot env sq None (xs @ ys) = ScanSnapshot env sq None xs @ ScanSnapshot env sq None ys"
  by (induction xs) (auto split: option.splits)

lemma CreateEvents_uncancelled: "CreateEvents gen None xs = map (map gen) xs"
  by (induction xs) auto

interpretation verifier: stream_stage "\<lambda>w xs. (VerifySnapshot watch None xs, w)" for watch
  by unfold_locales (simp_all add: VerifySnapshot_append)

interpretation scanner: stream_stage "\<lambda>w xs. (ScanSnapshot env sq None xs, w)" for env sq
  by unfold_locales (simp_all add: ScanSnapshot_append)

interpretation creator: stream_stage "\<lambda>w xs. (CreateEvents gen None xs, w)" for gen
  by unfold_locales (simp_all add: CreateEvents_uncancelled)

interpretation verify_scan: two_stages "\<lambda>w xs. (VerifySnapshot watch None xs, w)" "\<lambda>w xs. (ScanSnapshot env sq None xs, w)"
  for watch env sq
  by unfold_locales

section \<open>Lemmas\<close>

lemma allCompleted_iff: "allCompleted sp \<longleftrightarrow> (\<forall>i\<in>set sp. State i = SnapshotStateCompleted)"
  by (induction sp) auto

lemma verify_completed: "s \<in> set (verify c evs) \<Longrightarrow> State s = SnapshotStateCompleted"
proof (induction c evs rule: verify.induct)
  case (5 c sp evs)
  then show ?case
    using set_mono_prefix [OF send_all_prefix [of c sp]] by (auto simp: allCompleted_iff split: if_splits)
qed auto

lemma VerifySnapshot_completed: "s \<in> set (VerifySnapshot watch c xs) \<Longrightarrow> State s = SnapshotStateCompleted"
proof (induction xs arbitrary: c)
  case (Cons x xs)
  then show ?case by (cases "sel_ctx c") (auto dest: verify_completed)
qed simp

lemma scan_snapshot_of: "fst (scan env sq s) = Some rs \<Longrightarrow> r \<in> set rs \<Longrightarrow> snapshot r = s \<and> seq r = sq"
  by (auto simp: scan_def scan_body_def scan_results_def Let_def split: sum.splits call.splits)

lemma ScanSnapshot_from:
  "b \<in> set (ScanSnapshot env sq c xs) \<Longrightarrow> \<exists>s\<in>set xs. \<forall>r\<in>set b. snapshot r = s \<and> seq r = sq"
proof (induction xs arbitrary: c)
  case (Cons x xs)
  show ?case
  proof (cases "b \<in> set (ScanSnapshot env sq (the (sel_ctx c)) xs) \<or>
      (\<exists>c''. b \<in> set (ScanSnapshot env sq c'' xs))")
    case True
    then show ?thesis using Cons.IH by auto
  next
    case False
    then have "fst (scan env sq x) = Some b"
      using Cons.prems by (auto split: option.splits)
    then show ?thesis using scan_snapshot_of by fastforce
  qed
qed simp

lemma CreateEvents_from: "b \<in> set (CreateEvents gen c xs) \<Longrightarrow> \<exists>rs\<in>set xs. b = map gen rs"
proof (induction xs arbitrary: c)
  case (Cons x xs)
  then show ?case by (auto split: option.splits)
qed simp

lemma delete_all_fold: "delete_all del snaps w = fold (\<lambda>s w. snd (del s w)) snaps w"
  by (induction snaps arbitrary: w) (auto split: prod.splits option.splits)

lemma SnapshotInstance_sent_prefix:
  "SnapshotInstance create c ins w = (offered, snaps, w') \<Longrightarrow> prefix offered snaps"
proof (induction create c ins w arbitrary: offered snaps w' rule: SnapshotInstance.induct)
  case (2 create c data rest w)
  show ?case
  proof (cases "sel_ctx c")
    case None
    then show ?thesis using "2.prems" by simp
  next
    case (Some c')
    obtain r w1 where cr: "create data w = (r, w1)" by fastforce
    show ?thesis
    proof (cases r)
      case (Inl e)
      then show ?thesis using "2.IH"(1) [OF Some cr [symmetric] Inl] "2.prems" Some cr by simp
    next
      case (Inr sp)
      obtain sn r2 where sa: "send_all c' sp = (sn, r2)" by fastforce
      have pre: "prefix sn sp" using send_all_prefix [of c' sp] sa by simp
      show ?thesis
      proof (cases r2)
        case None
        then show ?thesis using "2.prems" Some cr Inr sa pre by simp
      next
        case (Some c'')
        have full: "sn = sp" if "send_all d xs = (sn, Some d')" "xs = sp" for d d' xs
          using that
          by (induction xs arbitrary: d sn sp) (auto simp: Let_def split: option.splits prod.splits)
        obtain s2 n2 w2 where rec: "SnapshotInstance create c'' rest w1 = (s2, n2, w2)" by (metis prod_cases3)
        have "prefix s2 n2"
          using "2.IH"(2) [OF \<open>sel_ctx c = Some c'\<close> cr [symmetric] Inr sa [symmetric] Some rec] .
        then show ?thesis
          using "2.prems" \<open>sel_ctx c = Some c'\<close> cr Inr sa Some rec full [of c' sp c''] by auto
      qed
    qed
  qed
qed simp

section \<open>Sorting\<close>

text \<open>
  The documented behaviour of \<open>sort.Slice\<close>: a permutation, in which, if \<open>lt\<close> is a strict weak
  order, no element is less than one before it.
\<close>

definition weak_order :: "('a \<Rightarrow> 'a \<Rightarrow> bool) \<Rightarrow> bool" where
  "weak_order lt \<longleftrightarrow>
     (\<forall>x y. lt x y \<longrightarrow> \<not> lt y x) \<and> (\<forall>x y z. lt x z \<longrightarrow> lt x y \<or> lt y z)"

definition sort_contract :: "'a sort_fn \<Rightarrow> bool" where
  "sort_contract sort_Slice \<longleftrightarrow>
     (\<forall>lt xs. mset (sort_Slice lt xs) = mset xs \<and>
        (weak_order lt \<longrightarrow> sorted_wrt (\<lambda>x y. \<not> lt y x) (sort_Slice lt xs)))"

fun insert_by :: "('a \<Rightarrow> 'a \<Rightarrow> bool) \<Rightarrow> 'a \<Rightarrow> 'a list \<Rightarrow> 'a list" where
  "insert_by lt x [] = [x]"
| "insert_by lt x (y # ys) = (if lt y x then y # insert_by lt x ys else x # y # ys)"

definition insertion_sort :: "'a sort_fn" where
  "insertion_sort lt xs = foldr (insert_by lt) xs []"

lemma mset_insert_by [simp]: "mset (insert_by lt x ys) = add_mset x (mset ys)"
  by (induction ys) auto

lemma set_insert_by [simp]: "set (insert_by lt x ys) = insert x (set ys)"
  by (induction ys) auto

lemma sorted_insert_by:
  assumes "weak_order lt" "sorted_wrt (\<lambda>x y. \<not> lt y x) ys"
  shows "sorted_wrt (\<lambda>x y. \<not> lt y x) (insert_by lt x ys)"
  using assms(2)
proof (induction ys)
  case (Cons y ys)
  have trans: "\<not> lt z x" if "\<not> lt y x" "\<not> lt z y" for z
    using assms(1) that unfolding weak_order_def by blast
  have asym: "\<not> lt x y" if "lt y x"
    using assms(1) that unfolding weak_order_def by blast
  have rest: "sorted_wrt (\<lambda>x y. \<not> lt y x) (insert_by lt x ys)" "\<forall>z\<in>set ys. \<not> lt z y"
    using Cons by auto
  show ?case
    using Cons.prems rest trans asym by (cases "lt y x") auto
qed simp

lemma insertion_sort_ok: "sort_contract insertion_sort"
proof -
  have "mset (foldr (insert_by lt) xs []) = mset xs \<and>
      (weak_order lt \<longrightarrow> sorted_wrt (\<lambda>x y. \<not> lt y x) (foldr (insert_by lt) xs []))"
    for lt :: "'a \<Rightarrow> 'a \<Rightarrow> bool" and xs
    by (induction xs) (simp_all add: sorted_insert_by)
  then show ?thesis by (simp add: sort_contract_def insertion_sort_def)
qed

lemma by_root_volume_weak: "weak_order by_root_volume"
  by (auto simp: weak_order_def by_root_volume_def split: option.splits)

lemma root_volume_found:
  "root_volume d vols old = Some (Some v) \<Longrightarrow> old = Some v \<or> v \<in> set vols \<and> d = Some (Device v)"
  by (induction d vols old rule: root_volume.induct) (auto split: if_splits)

lemma attach_one_ok:
  "attach_one volumes ins = Some i \<Longrightarrow>
   InstanceId i = InstanceId ins \<and> RootDeviceName i = RootDeviceName ins \<and>
   (\<forall>v. RootVolume i = Some v \<longrightarrow> RootVolume ins = Some v \<or>
      v \<in> set volumes \<and> InstanceId i = Some (vol_InstanceId v) \<and> RootDeviceName i = Some (Device v))"
  by (auto simp: attach_one_def split: option.splits dest!: root_volume_found)

lemma attach_all_ok: "attach_all volumes ins = Some is \<Longrightarrow> list_all2 (\<lambda>i j. attach_one volumes i = Some j) ins is"
  by (induction ins arbitrary: "is") (auto split: option.splits)

section \<open>Properties\<close>


definition log_provider :: "(string \<times> string) list worker_provider" where
  "log_provider =
     \<lparr>w_DescribeInstances = (map (in_region ''9'' ''eu'') [sample_instance ''i-1'', sample_instance ''i-2''], None),
      w_DescribeVolumes = (\<lambda>_. ([], None)),
      w_CreateSnapshots = (\<lambda>i w. (Inr [FromSnapshotInfo \<lparr>sdk_SnapshotId = ''s'' @ the (InstanceId i), sdk_State = ''pending'',
         sdk_VolumeSize = 8, sdk_Encrypted = False\<rparr> ''eu'' ''9'' i], w @ [(''create'', ''s'' @ the (InstanceId i))])),
      w_DeleteSnapshot = (\<lambda>s w. (None, w @ [(''delete'', SnapshotId s)]))\<rparr>"


text \<open>
  C14. Whatever is cancelled and whenever, a batch of events that the worker delivers comes from one
  snapshot, which the account had reported as completed before it was scanned.
\<close>

theorem worker_scans_completed_snapshots:
  assumes "worker_Run prov sort_Slice watch env sq gen ks w = Some (batches, w')" "b \<in> set batches"
  shows "\<exists>s rs. State s = SnapshotStateCompleted \<and> b = map gen rs \<and> (\<forall>r\<in>set rs. snapshot r = s \<and> seq r = sq)"
proof -
  obtain instances err where fetch: "sel_ctx (k_start ks) \<noteq> None"
      "FetchInstances sort_Slice (w_DescribeInstances prov) (w_DescribeVolumes prov) (k_fetch ks) = Some (instances, err)"
    using assms by (auto simp: worker_Run_def split: option.splits)
  obtain offered created w1 where
    snap: "SnapshotInstance (w_CreateSnapshots prov) (k_replicate ks) instances w = (offered, created, w1)"
    by (metis prod_cases3)
  have "b \<in> set (CreateEvents gen (k_create ks)
      (ScanSnapshot env sq (k_scan ks) (VerifySnapshot watch (k_verify ks) offered)))"
    using assms fetch snap by (auto simp: worker_Run_def Let_def)
  then obtain rs where rs: "rs \<in> set (ScanSnapshot env sq (k_scan ks) (VerifySnapshot watch (k_verify ks) offered))"
      "b = map gen rs" using CreateEvents_from by blast
  then obtain s where "s \<in> set (VerifySnapshot watch (k_verify ks) offered)" "\<forall>r\<in>set rs. snapshot r = s \<and> seq r = sq"
    using ScanSnapshot_from by blast
  then show ?thesis using rs(2) VerifySnapshot_completed by blast
qed

definition sample_scan_env :: "(nat, nat, unit) scan_env" where
  "sample_scan_env =
     \<lparr>CreateTemp = Inr ''tmp'', os_Remove = (\<lambda>_. None), ScanVM = (\<lambda>_. Returns ()),
      Filter = (\<lambda>_ _. Returns ()), Report = (\<lambda>_ _. Returns ()), ReadReport = (\<lambda>_. Inr []),
      json_Report = (\<lambda>_. Inr \<lparr>Results = [(1, [10, 11])]\<rparr>)\<rparr>"

lemma length_two: "length [x, y] = 2"
  by simp

lemma worker_scans_completed_snapshots_witness:
  "\<exists>b w' (s :: ebs_snapshot) (rs :: (nat, nat) scan_result list).
      worker_Run (log_provider\<lparr>w_DescribeInstances := ([in_region ''9'' ''eu'' (sample_instance ''i-1'')], None)\<rparr>)
      insertion_sort (\<lambda>s. (None, [VInterval (Inr [s]), VInterval (Inr [s\<lparr>State := ''completed''\<rparr>])]))
      sample_scan_env 5 vulnerability never_cancelled [] = Some ([b], w') \<and>
     State s = SnapshotStateCompleted \<and> b = map vulnerability rs \<and> length rs = 2"
proof -
  let ?prov = "log_provider\<lparr>w_DescribeInstances := ([in_region ''9'' ''eu'' (sample_instance ''i-1'')], None)\<rparr>"
  let ?watch = "\<lambda>s. (None, [VInterval (Inr [s]), VInterval (Inr [s\<lparr>State := ''completed''\<rparr>])])"
  have "\<exists>w'. worker_Run ?prov insertion_sort ?watch sample_scan_env 5 vulnerability never_cancelled [] = Some ([[10, 11]], w')"
    by (simp add: worker_Run_def never_cancelled_def FetchInstances_def attachRootVolumes_def attach_one_def
        log_provider_def in_region_def sample_instance_def sdk_instance.extend_def ec2_instance.fields_def
        sortByRootVolumeSize_def insertion_sort_def FromSnapshotInfo_def scan_def scan_body_def
        scan_results_def sample_scan_env_def Let_def)
  then obtain w' where run: "worker_Run ?prov insertion_sort ?watch sample_scan_env 5 vulnerability never_cancelled [] =
      Some ([[10, 11]], w')" ..
  have "[10, 11] \<in> set [[10, 11 :: nat]]" by simp
  from worker_scans_completed_snapshots [OF run this]
  obtain s :: ebs_snapshot and rs :: "(nat, nat) scan_result list" where
    found: "State s = SnapshotStateCompleted" "[10, 11] = map vulnerability rs" by (elim exE conjE)
  from found(2) have "length rs = 2" by (metis length_map length_two)
  with run found show ?thesis
    by (intro exI [of _ "[10, 11]"] exI [of _ w'] exI [of _ s] exI [of _ rs] conjI)
qed

text \<open>
  C26. Instances reach the replicator in the order of the sizes of their root volumes, those without
  one last; none is lost or duplicated, and a root volume is one that is attached to the instance
  under its root device name.
\<close>

theorem FetchInstances_by_root_volume:
  assumes "sort_contract sort_Slice" "\<forall>i\<in>set ins. RootVolume i = None"
    and "describeVolumes ins = (volumes, None)"
    and "FetchInstances sort_Slice (ins, None) describeVolumes None = Some (instances, err)"
  shows "mset (map InstanceId instances) = mset (map InstanceId ins) \<and> err = None \<and>
    sorted_wrt (\<lambda>i j. \<not> by_root_volume j i) instances \<and>
    (\<forall>i\<in>set instances. \<forall>v. RootVolume i = Some v \<longrightarrow>
       v \<in> set volumes \<and> InstanceId i = Some (vol_InstanceId v) \<and> RootDeviceName i = Some (Device v))"
proof -
  obtain attached where attached: "attach_all volumes ins = Some attached"
    "instances = sort_Slice by_root_volume attached" "err = None"
    using assms(3,4) by (auto simp: FetchInstances_def attachRootVolumes_def sortByRootVolumeSize_def split: option.splits)
  have perm: "mset instances = mset attached" "sorted_wrt (\<lambda>i j. \<not> by_root_volume j i) instances"
    using assms(1) attached(2) by_root_volume_weak by (auto simp: sort_contract_def)
  have all2: "list_all2 (\<lambda>i j. attach_one volumes i = Some j) ins attached" by (rule attach_all_ok [OF attached(1)])
  then have "map InstanceId attached = map InstanceId ins"
    by (induction ins attached rule: list_all2_induct) (auto dest: attach_one_ok)
  then have ids: "mset (map InstanceId instances) = mset (map InstanceId ins)"
    using perm(1) by (metis mset_map)
  have "v \<in> set volumes \<and> InstanceId j = Some (vol_InstanceId v) \<and> RootDeviceName j = Some (Device v)"
    if "j \<in> set instances" "RootVolume j = Some v" for j v
  proof -
    have "j \<in> set attached" using that(1) perm(1) by (metis set_mset_mset)
    then obtain n where "n < length attached" "attached ! n = j" by (auto simp: in_set_conv_nth)
    then have "ins ! n \<in> set ins" "attach_one volumes (ins ! n) = Some j"
      using all2 by (auto simp: list_all2_conv_all_nth)
    then obtain i where "i \<in> set ins" "attach_one volumes i = Some j" by blast
    then show ?thesis using attach_one_ok assms(2) that(2) by (metis option.distinct(1))
  qed
  then show ?thesis using ids perm(2) attached(3) by blast
qed

lemma FetchInstances_by_root_volume_witness:
  "\<exists>instances. FetchInstances insertion_sort
      (map (in_region ''9'' ''eu'') [sample_instance ''i-1'', sample_instance ''i-2''], None)
      (\<lambda>_. ([\<lparr>VolumeId = ''v'', vol_InstanceId = ''i-2'', vol_Region = ''eu'', Size = 8, Encrypted = True,
             Device = ''/dev/sda1''\<rparr>], None)) None = Some (instances, None) \<and>
     map InstanceId instances = [Some ''i-2'', Some ''i-1''] \<and>
     sorted_wrt (\<lambda>i j. \<not> by_root_volume j i) instances"
proof -
  let ?ins = "map (in_region ''9'' ''eu'') [sample_instance ''i-1'', sample_instance ''i-2'']"
  let ?vols = "[\<lparr>VolumeId = ''v'', vol_InstanceId = ''i-2'', vol_Region = ''eu'', Size = 8, Encrypted = True,
      Device = ''/dev/sda1''\<rparr>]"
  have "\<exists>instances. FetchInstances insertion_sort (?ins, None) (\<lambda>_. (?vols, None)) None = Some (instances, None) \<and>
      map InstanceId instances = [Some ''i-2'', Some ''i-1'']"
    by (simp add: FetchInstances_def attachRootVolumes_def attach_one_def in_region_def sample_instance_def
        sdk_instance.extend_def ec2_instance.fields_def sortByRootVolumeSize_def insertion_sort_def
        by_root_volume_def)
  then obtain instances where run: "FetchInstances insertion_sort (?ins, None) (\<lambda>_. (?vols, None)) None =
      Some (instances, None)" "map InstanceId instances = [Some ''i-2'', Some ''i-1'']" by (elim exE conjE)
  have "\<forall>i\<in>set ?ins. RootVolume i = None"
    by (simp add: in_region_def sdk_instance.extend_def ec2_instance.fields_def)
  from FetchInstances_by_root_volume [OF insertion_sort_ok this refl run(1)]
  have "sorted_wrt (\<lambda>i j. \<not> by_root_volume j i) instances" by (elim conjE)
  with run show ?thesis by (intro exI [of _ instances] conjI)
qed

end
