(* ===== verification/Vuln_Events.thy ===== *)
theory Vuln_Events
  imports Vuln_Stages Transformer_Model
begin

text \<open>
  \<open>vulnerability/events_creator.go\<close>: the choice of the CVSS values of a vulnerability and its event.
  A loop over a Go map visits the keys in any order: a call that ranges over the sources takes that
  order as an argument. \<open>NVD\<close> is the constant of trivy's database for the National Vulnerability
  Database, \<open>rfc\<close> the text that \<open>encoding/json\<close> makes of a time (an error for a year that RFC 3339
  cannot express).
\<close>

section \<open>CVSS\<close>

abbreviation "vulScannerVersion \<equiv> ''v0.35.0''"
abbreviation "vulScannerVendor \<equiv> ''Trivy''"
abbreviation "vulScoreSystemClass \<equiv> ''CVSS''"
abbreviation "vectorHeader \<equiv> ''CVSS:''"
abbreviation "vulEcsCategory \<equiv> ''vulnerability''"
abbreviation "vulIndex \<equiv> ''logs-cloud_security_posture.vulnerabilities-default''"
abbreviation "NVDVulnDetailBaseURL \<equiv> ''https://nvd.nist.gov/vuln/detail/''"

fun first_present :: "(string \<times> db_cvss) list \<Rightarrow> string list \<Rightarrow> db_cvss option" where
  "first_present m [] = None"
| "first_present m (s # sources) =
     (case map_of m s of Some c \<Rightarrow> Some c | None \<Rightarrow> first_present m sources)"

definition getCVSSValue ::
  "string \<Rightarrow> string list \<Rightarrow> detected_vulnerability \<Rightarrow> (db_cvss \<Rightarrow> 't) \<Rightarrow> 't \<Rightarrow> 't" where
  "getCVSSValue NVD sources vul val zeroVal =
     (if sources = [] then zeroVal
      else let source = (case DataSource vul of None \<Rightarrow> [] | Some d \<Rightarrow> db_ID d)
           in case map_of (dv_CVSS vul) source of
                Some c \<Rightarrow> val c
              | None \<Rightarrow>
                  (case map_of (dv_CVSS vul) NVD of
                     Some c \<Rightarrow> val c
                   | None \<Rightarrow>
                       (case first_present (dv_CVSS vul) sources of Some c \<Rightarrow> val c | None \<Rightarrow> zeroVal)))"

text \<open>Each of the two calls of a fallback lists the sources anew.\<close>

definition getCVSSVector :: "string \<Rightarrow> string list \<Rightarrow> string list \<Rightarrow> detected_vulnerability \<Rightarrow> string" where
  "getCVSSVector NVD o3 o2 vul =
     (let v = getCVSSValue NVD o3 vul db_V3Vector []
      in if v \<noteq> [] then v else getCVSSValue NVD o2 vul db_V2Vector [])"

definition getCVSSScore :: "string \<Rightarrow> string list \<Rightarrow> string list \<Rightarrow> detected_vulnerability \<Rightarrow> tenths" where
  "getCVSSScore NVD o3 o2 vul =
     (let v = getCVSSValue NVD o3 vul db_V3Score 0
      in if v \<noteq> 0 then v else getCVSSValue NVD o2 vul db_V2Score 0)"

fun version_of_parts :: "string list \<Rightarrow> string" where
  "version_of_parts [] = ''2.0''"
| "version_of_parts (part # parts) =
     (if has_prefix part vectorHeader then trim_prefix part vectorHeader else version_of_parts parts)"

definition getCVSSVersion :: "string \<Rightarrow> string list \<Rightarrow> string list \<Rightarrow> detected_vulnerability \<Rightarrow> string" where
  "getCVSSVersion NVD o3 o2 vul =
     (let v = getCVSSVector NVD o3 o2 vul
      in if v = [] then [] else version_of_parts (split_on CHR ''/'' v))"

definition getCVSS :: "detected_vulnerability \<Rightarrow> (string \<times> cvss) list" where
  "getCVSS vul =
     map (\<lambda>(k, v). (k, \<lparr>V2Vector = db_V2Vector v, V3Vector = db_V3Vector v,
                        V2Score = db_V2Score v, V3Score = db_V3Score v\<rparr>)) (dv_CVSS vul)"

definition getDataSource :: "detected_vulnerability \<Rightarrow> data_source option" where
  "getDataSource vul =
     (case DataSource vul of
        None \<Rightarrow> None
      | Some d \<Rightarrow> Some \<lparr>ds_ID = db_ID d, ds_Name = db_Name d, ds_URL = db_URL d\<rparr>)"

definition getIdentifierType :: "string \<Rightarrow> string" where
  "getIdentifierType vid =
     (let s = split_on CHR ''-'' vid in if length s = 0 then [] else s ! 0)"

definition getReference :: "string \<Rightarrow> detected_vulnerability \<Rightarrow> string" where
  "getReference NVD vul =
     (case map_of (dv_CVSS vul) NVD of
        None \<Rightarrow> PrimaryURL vul
      | Some _ \<Rightarrow> NVDVulnDetailBaseURL @ VulnerabilityID vul)"

definition getAvailabilityZone :: "ec2_instance \<Rightarrow> string option" where
  "getAvailabilityZone ins =
     (case AvailabilityZone ins of None \<Rightarrow> None | Some zone \<Rightarrow> zone)"

section \<open>Sections as JSON\<close>

text \<open>
  What \<open>encoding/json\<close> makes of the members of the sections, all of them tagged \<open>omitempty\<close>: an
  empty string, a nil pointer and an empty map or slice are left out, a nested struct never is.
\<close>

definition json_str :: "string \<Rightarrow> string \<Rightarrow> (string \<times> any) list" where
  "json_str name v = (if v = [] then [] else [(name, VStr v)])"

definition json_ptr :: "string \<Rightarrow> string option \<Rightarrow> (string \<times> any) list" where
  "json_ptr name v = (case v of None \<Rightarrow> [] | Some s \<Rightarrow> [(name, VStr s)])"

definition json_list :: "string \<Rightarrow> any list \<Rightarrow> (string \<times> any) list" where
  "json_list name vs = (if vs = [] then [] else [(name, VList vs)])"

definition json_tags :: "string \<Rightarrow> (string \<times> string) list \<Rightarrow> (string \<times> any) list" where
  "json_tags name m = (if m = [] then [] else [(name, VMap (map (\<lambda>(k, v). (k, VStr v)) m))])"

definition json_security_group :: "string option \<times> string option \<Rightarrow> any" where
  "json_security_group g = VMap (json_ptr ''group_id'' (fst g) @ json_ptr ''group_name'' (snd g))"

definition json_machine :: "(int \<Rightarrow> string result) \<Rightarrow> machine_section \<Rightarrow> any result" where
  "json_machine rfc m =
     (let mk = (\<lambda>launch. VMap (json_str ''type'' (machine_Type m) @
                 [(''Authentication'', VMap (json_ptr ''key'' (Key (Authentication m))))] @ launch @
                 json_ptr ''Image'' (Image m)))
      in case machine_LaunchTime m of
           None \<Rightarrow> Inr (mk [])
         | Some t \<Rightarrow>
             (case rfc t of Inl err \<Rightarrow> Inl err | Inr s \<Rightarrow> Inr (mk [(''Launch_time'', VStr s)])))"

definition json_cloud :: "(int \<Rightarrow> string result) \<Rightarrow> cloud_section \<Rightarrow> any result" where
  "json_cloud rfc c =
     (case json_machine rfc (Machine c) of
        Inl err \<Rightarrow> Inl err
      | Inr machine \<Rightarrow>
          Inr (VMap ([(''service'', VMap (json_str ''name'' (service_Name (cloud_Service c)))),
                      (''machine'', machine)] @
                     json_tags ''Tags'' (cloud_Tags c) @
                     json_ptr ''availability_zone'' (cloud_AvailabilityZone c) @
                     json_str ''region'' (cloud_Region c) @
                     [(''instance'', VMap (json_str ''id'' (instance_Id (cloud_Instance c)) @
                                           json_str ''name'' (instance_Name (cloud_Instance c)))),
                      (''Security'', VMap (json_list ''security_groups''
                         (map json_security_group (security_Groups (Security c)))))])))"

definition json_host :: "host_section \<Rightarrow> any result" where
  "json_host h =
     Inr (VMap (json_str ''architecture'' (host_Architecture h) @
                [(''os'', VMap (json_ptr ''platform'' (Platform (Os h))))] @
                json_str ''name'' (host_Name h)))"

definition json_network :: "network_section \<Rightarrow> any result" where
  "json_network n =
     Inr (VMap (json_ptr ''Private_ip'' (PrivateIp n) @ json_ptr ''Public_ip'' (PublicIp n) @
                json_list ''Mac_addresses'' (map VStr (net_MacAddresses n))))"

text \<open>The text of a value decodes to the value again; the only error is that of the encoder.\<close>

definition convertStructToMapStr :: "any result \<Rightarrow> any result" where
  "convertStructToMapStr marshaled =
     (case marshaled of
        Inl err \<Rightarrow> Inl (Wrapf ''convertStructToMapStr error marshalling to JSON: '' err)
      | Inr out \<Rightarrow> Inr out)"

text \<open>A section that cannot be converted is logged and stays the nil map.\<close>

definition section_or_nil :: "any result \<Rightarrow> any" where
  "section_or_nil r = (case convertStructToMapStr r of Inl err \<Rightarrow> VNil | Inr v \<Rightarrow> v)"


section \<open>The events creator\<close>

text \<open>
  What one call of \<open>generateEvent\<close> sees of its surroundings: the clock, the random UUID, and the order
  of the map of sources in each of the four calls that range over it.
\<close>

record event_call =
  call_now :: int
  call_uuid :: string
  score_v3 :: "string list"
  score_v2 :: "string list"
  version_v3 :: "string list"
  version_v2 :: "string list"

record vuln_events_creator =
  cloudDataProvider :: "beat_api \<Rightarrow> resource_metadata \<Rightarrow> inserter"
  ec_commonData :: "(string \<times> any) list result"

definition NewEventsCreator ::
  "(beat_api \<Rightarrow> resource_metadata \<Rightarrow> inserter) \<Rightarrow> (string \<times> any) list result \<Rightarrow> vuln_events_creator" where
  "NewEventsCreator bdp cdp = \<lparr>cloudDataProvider = bdp, ec_commonData = cdp\<rparr>"

definition time_Unix :: "int \<Rightarrow> int" where
  "time_Unix t = t div time_Second"

definition cloud_section_of :: "ec2_instance \<Rightarrow> string \<Rightarrow> cloud_section" where
  "cloud_section_of ins rid =
     \<lparr>cloud_Service = \<lparr>service_Name = ''AWS EC2''\<rparr>,
      Machine =
        \<lparr>machine_Type = InstanceType ins, Authentication = \<lparr>Key = KeyName ins\<rparr>,
         machine_LaunchTime = LaunchTime ins, Image = ImageId ins\<rparr>,
      cloud_Tags = Ec2Instance_GetResourceTags ins,
      cloud_AvailabilityZone = getAvailabilityZone ins,
      cloud_Region = ins_Region ins,
      cloud_Instance = \<lparr>instance_Id = rid, instance_Name = Ec2Instance_GetResourceName ins\<rparr>,
      Security = \<lparr>security_Groups = Ec2Instance_GetResourceSecurityGroups ins\<rparr>\<rparr>"

definition host_section_of :: "ec2_instance \<Rightarrow> host_section" where
  "host_section_of ins =
     \<lparr>host_Architecture = Architecture ins, Os = \<lparr>Platform = PlatformDetails ins\<rparr>,
      host_Name = Ec2Instance_GetResourceName ins\<rparr>"

definition network_section_of :: "ec2_instance \<Rightarrow> network_section" where
  "network_section_of ins =
     \<lparr>PrivateIp = PrivateIpAddress ins, PublicIp = PublicIpAddress ins,
      net_MacAddresses = Ec2Instance_GetResourceMacAddresses ins\<rparr>"

definition package_of :: "report_result \<Rightarrow> detected_vulnerability \<Rightarrow> package" where
  "package_of rep vul =
     \<lparr>pkg_Version = InstalledVersion vul, pkg_Name = PkgName vul, pkg_Type = rep_Type rep,
      pkg_Path = rep_Target rep, pkg_FixedVersion = FixedVersion vul\<rparr>"

definition vulnerability_of ::
  "string \<Rightarrow> event_call \<Rightarrow> report_result \<Rightarrow> detected_vulnerability \<Rightarrow> int \<Rightarrow> vulnerability_section" where
  "vulnerability_of NVD call rep vul sequence =
     \<lparr>vs_Cvss = getCVSS vul,
      vs_DataSource = getDataSource vul,
      vs_Scanner = \<lparr>scanner_Version = vulScannerVersion, Vendor = vulScannerVendor\<rparr>,
      vs_Score = \<lparr>Base = getCVSSScore NVD (score_v3 call) (score_v2 call) vul,
                  score_Version = getCVSSVersion NVD (version_v3 call) (version_v2 call) vul\<rparr>,
      vs_Package = \<lparr>pkg_Version = InstalledVersion vul, pkg_Name = PkgName vul, pkg_Type = [],
                    pkg_Path = [], pkg_FixedVersion = FixedVersion vul\<rparr>,
      Cwe = CweIDs vul, vs_ID = VulnerabilityID vul, vs_Title = dv_Title vul,
      Enumeration = getIdentifierType (VulnerabilityID vul), Reference = getReference NVD vul,
      vs_Description = dv_Description vul, vs_Severity = dv_Severity vul,
      Classification = vulScoreSystemClass, vs_PublishedDate = PublishedDate vul,
      ReportId = sequence, vs_Class = rep_Class rep, vs_Category = rep_Class rep\<rparr>"

text \<open>The event before it is enriched.\<close>

definition scanned_event ::
  "string \<Rightarrow> (int \<Rightarrow> string result) \<Rightarrow> event_call \<Rightarrow> report_result \<Rightarrow> detected_vulnerability \<Rightarrow>
     ec2_instance \<Rightarrow> string \<Rightarrow> int \<Rightarrow> beat_event" where
  "scanned_event NVD rfc call rep vul ins rid sequence =
     \<lparr>Meta = [(FieldMetaIndex, vulIndex)], Timestamp = call_now call,
      Fields =
        [(''event'', FEvent (BuildECSEvent (call_uuid call) sequence (call_now call) [vulEcsCategory])),
         (''resource'', FScanned \<lparr>rs_ID = rid, rs_Name = Ec2Instance_GetResourceName ins\<rparr>),
         (''package'', FPackage (package_of rep vul)),
         (''vulnerability'', FVulnerability (vulnerability_of NVD call rep vul sequence)),
         (''cloud'', FAny (section_or_nil (json_cloud rfc (cloud_section_of ins rid)))),
         (''host'', FAny (section_or_nil (json_host (host_section_of ins)))),
         (''network'', FAny (section_or_nil (json_network (network_section_of ins))))]\<rparr>"

text \<open>
  An enrichment that fails is logged, and the event keeps what the enrichment had put so far. The
  call panics (\<open>None\<close>) when the id of the instance has no dash.
\<close>

definition region_metadata :: "string \<Rightarrow> resource_metadata" where
  "region_metadata region =
     \<lparr>AccountId = [], AccountName = [], OrganisationId = [], account_OrganizationName = [],
      ID = [], md_Type = [], SubType = [], md_Name = [], Region = region\<rparr>"

definition generateEvent ::
  "beat_api \<Rightarrow> string \<Rightarrow> (int \<Rightarrow> string result) \<Rightarrow> vuln_events_creator \<Rightarrow> event_call \<Rightarrow>
     (report_result, detected_vulnerability) scan_result \<Rightarrow> beat_event option" where
  "generateEvent api NVD rfc e call res =
     (let ins = Instance (snapshot res)
      in case Ec2Instance_GetResourceId ins of
           None \<Rightarrow> None
         | Some rid \<Rightarrow>
             (let event = scanned_event NVD rfc call (reportResult res) (vulnerability res) ins rid
                            (time_Unix (seq res));
                  event1 = snd (cloudDataProvider e api (region_metadata (ins_Region ins)) event);
                  event2 = snd (Enricher_EnrichEvent api (ec_commonData e) event1)
              in Some event2))"


section \<open>Lemmas\<close>

lemma first_present_some:
  "set sources = fst ` set m \<Longrightarrow> sources \<noteq> [] \<Longrightarrow> first_present m sources = map_of m (hd sources)"
  by (cases sources) (auto split: option.splits simp: map_of_eq_None_iff)

text \<open>The entry that the order of the map cannot influence: of the vulnerability's own source, else of the NVD.\<close>

definition preferred :: "string \<Rightarrow> detected_vulnerability \<Rightarrow> db_cvss option" where
  "preferred NVD vul =
     (case map_of (dv_CVSS vul) (case DataSource vul of None \<Rightarrow> [] | Some d \<Rightarrow> db_ID d) of
        Some c \<Rightarrow> Some c
      | None \<Rightarrow> map_of (dv_CVSS vul) NVD)"

lemma preferred_nonempty: "preferred NVD vul = Some c \<Longrightarrow> dv_CVSS vul \<noteq> []"
  by (auto simp: preferred_def)

lemma getCVSSValue_preferred:
  "preferred NVD vul = Some c \<Longrightarrow> set order = fst ` set (dv_CVSS vul) \<Longrightarrow>
   getCVSSValue NVD order vul val zeroVal = val c"
  using preferred_nonempty [of NVD vul c]
  by (cases "order = []") (auto simp: getCVSSValue_def preferred_def Let_def split: option.splits)

lemma getCVSSValue_other:
  "preferred NVD vul = None \<Longrightarrow> set order = fst ` set (dv_CVSS vul) \<Longrightarrow> order \<noteq> [] \<Longrightarrow>
   getCVSSValue NVD order vul val zeroVal = val (the (map_of (dv_CVSS vul) (hd order)))"
  using list.set_sel(1) [of order] map_of_eq_None_iff [of "dv_CVSS vul" "hd order"]
  by (simp add: getCVSSValue_def preferred_def first_present_some Let_def split: option.splits)

lemma getCVSSValue_none:
  "dv_CVSS vul = [] \<Longrightarrow> set order = fst ` set (dv_CVSS vul) \<Longrightarrow> getCVSSValue NVD order vul val zeroVal = zeroVal"
  by (simp add: getCVSSValue_def)

lemma version_of_header:
  "CHR ''/'' \<notin> set v \<Longrightarrow> version_of_parts (split_on CHR ''/'' (vectorHeader @ v @ CHR ''/'' # rest)) = v"
  using split_on_append [of "CHR ''/''" "vectorHeader @ v" rest]
  by (simp add: has_prefix_def trim_prefix_def)

lemma version_of_no_header:
  "\<forall>p\<in>set parts. \<not> has_prefix p vectorHeader \<Longrightarrow> version_of_parts parts = ''2.0''"
  by (induction parts) auto

lemma GetResourceId_dash:
  "InstanceId i = Some (''i-'' @ x) \<Longrightarrow> CHR ''-'' \<notin> set x \<Longrightarrow> Ec2Instance_GetResourceId i = Some x"
  using split_on_append [of "CHR ''-''" "''i''" x]
  by (simp add: Ec2Instance_GetResourceId_def split_on_noc Let_def)

text \<open>The fields that the enrichments leave alone.\<close>

definition scanned_fields :: "string set" where
  "scanned_fields = {''event'', ''resource'', ''package'', ''vulnerability'', ''host'', ''network''}"

lemma common_data_frame:
  assumes "put_only_touches_root api"
  shows "same_outside {''cloudbeat'', ''cloud_security_posture''} e
    (snd (Enricher_EnrichEvent api (common_GetElasticCommonData c) e))"
proof -
  obtain kvs where kvs: "common_GetElasticCommonData c = Inr kvs"
      "fst ` set kvs \<subseteq> {''cloudbeat'', ''cloud_security_posture.package_policy''}"
    by (cases "cdp_cfg c") (auto simp: common_GetElasticCommonData_def)
  have "only_changes {''cloudbeat'', ''cloud_security_posture''} (put_values api kvs)"
    using kvs(2) by (intro put_values_frame [OF assms]) auto
  then show ?thesis by (simp add: Enricher_EnrichEvent_def kvs(1) only_changes_def)
qed

lemma generateEvent_frame:
  assumes "put_only_touches_root api" "cloudDataProvider e = (\<lambda>api. cloud_EnrichEvent api a)"
    and "ec_commonData e = common_GetElasticCommonData c"
    and "Ec2Instance_GetResourceId (Instance (snapshot res)) = Some rid"
  shows "\<exists>ev. generateEvent api NVD rfc e call res = Some ev \<and>
    same_outside {''cloud'', ''cloudbeat'', ''cloud_security_posture''}
      (scanned_event NVD rfc call (reportResult res) (vulnerability res) (Instance (snapshot res)) rid
         (time_Unix (seq res))) ev"
proof -
  let ?e = "scanned_event NVD rfc call (reportResult res) (vulnerability res) (Instance (snapshot res)) rid
      (time_Unix (seq res))"
  let ?f = "snd (cloud_EnrichEvent api a (region_metadata (ins_Region (Instance (snapshot res)))) ?e)"
  have "same_outside {''cloud''} ?e ?f" using only_changes_cloud [OF assms(1)] by (simp add: only_changes_def)
  moreover have "same_outside {''cloudbeat'', ''cloud_security_posture''} ?f
      (snd (Enricher_EnrichEvent api (common_GetElasticCommonData c) ?f))"
    by (rule common_data_frame [OF assms(1)])
  ultimately show ?thesis using assms(2-4) by (auto simp: generateEvent_def Let_def same_outside_def)
qed


section \<open>Properties\<close>


definition sample_vulnerability :: detected_vulnerability where
  "sample_vulnerability =
     \<lparr>VulnerabilityID = ''CVE-2023-1'', PkgName = ''ssl'', InstalledVersion = ''1'', FixedVersion = ''2'',
      DataSource = Some \<lparr>db_ID = ''alpine'', db_Name = [], db_URL = []\<rparr>, PrimaryURL = ''u'', dv_Title = [],
      dv_Description = [], dv_Severity = ''HIGH'', CweIDs = [],
      dv_CVSS = [(''ghsa'', \<lparr>db_V2Vector = [], db_V3Vector = ''CVSS:3.0/AV:N'', db_V2Score = 0, db_V3Score = 98\<rparr>),
                 (''nvd'', \<lparr>db_V2Vector = ''AV:N'', db_V3Vector = ''CVSS:3.1/AV:N'', db_V2Score = 50, db_V3Score = 75\<rparr>)],
      PublishedDate = None\<rparr>"


text \<open>
  When neither the vulnerability's own source nor the NVD has CVSS values, the score is taken from
  one arbitrary source and the version from another: there is a vulnerability, with well-formed
  values, and an order for each of the calls, such that the event has the score that one source gives
  the second generation, and the version of the vector that the other source gives the third.
\<close>

lemma CVSS_score_may_not_fit_version:
  "\<exists>vul a b o1 o2 o3 o4.
     dv_CVSS vul = [(''ghsa'', a), (''redhat'', b)] \<and>
     mset o1 = mset (map fst (dv_CVSS vul)) \<and> mset o2 = mset (map fst (dv_CVSS vul)) \<and>
     mset o3 = mset (map fst (dv_CVSS vul)) \<and> mset o4 = mset (map fst (dv_CVSS vul)) \<and>
     db_V3Vector a = [] \<and> db_V3Score a = 0 \<and> db_V2Score a \<noteq> 0 \<and> db_V3Score b \<noteq> 0 \<and>
     db_V3Vector b = ''CVSS:3.1/AV:N'' \<and>
     getCVSSScore ''nvd'' o1 o2 vul = db_V2Score a \<and> getCVSSVersion ''nvd'' o3 o4 vul = ''3.1''"
proof -
  let ?a = "\<lparr>db_V2Vector = ''AV:L'', db_V3Vector = [], db_V2Score = 21, db_V3Score = 0\<rparr>"
  let ?b = "\<lparr>db_V2Vector = [], db_V3Vector = ''CVSS:3.1/AV:N'', db_V2Score = 0, db_V3Score = 98\<rparr>"
  let ?vul = "sample_vulnerability\<lparr>dv_CVSS := [(''ghsa'', ?a), (''redhat'', ?b)]\<rparr>"
  have "getCVSSScore ''nvd'' [''ghsa'', ''redhat''] [''ghsa'', ''redhat''] ?vul = db_V2Score ?a"
    by (simp add: getCVSSScore_def getCVSSValue_def sample_vulnerability_def)
  moreover have "getCVSSVersion ''nvd'' [''redhat'', ''ghsa''] [''ghsa'', ''redhat''] ?vul = ''3.1''"
    by (simp add: getCVSSVersion_def getCVSSVector_def getCVSSValue_def sample_vulnerability_def
        has_prefix_def trim_prefix_def)
  ultimately show ?thesis
    by (intro exI [of _ ?vul] exI [of _ ?a] exI [of _ ?b] exI [of _ "[''ghsa'', ''redhat'']"]
        exI [of _ "[''redhat'', ''ghsa'']"] conjI) simp_all
qed


text \<open>
  C25. For an instance whose id is a dash-separated one, an event is made for every vulnerability that
  the scanner found, whether or not the enrichments succeed, and no enrichment overwrites what it says:
  the index, the id of the vulnerability, the package, the resource, and the sequence of the cycle,
  which is also the id of the report.
\<close>

theorem generateEvent_describes:
  assumes "put_only_touches_root api" "cloudDataProvider e = (\<lambda>api. cloud_EnrichEvent api a)"
    and "ec_commonData e = common_GetElasticCommonData c"
    and "InstanceId (Instance (snapshot res)) = Some (''i-'' @ x)" "CHR ''-'' \<notin> set x"
  shows "\<exists>ev ecs v. generateEvent api NVD rfc e call res = Some ev \<and>
    Meta ev = [(FieldMetaIndex, vulIndex)] \<and>
    map_of (Fields ev) ''vulnerability'' = Some (FVulnerability v) \<and>
    vs_ID v = VulnerabilityID (vulnerability res) \<and>
    vs_Severity v = dv_Severity (vulnerability res) \<and>
    map_of (Fields ev) ''package'' = Some (FPackage (package_of (reportResult res) (vulnerability res))) \<and>
    map_of (Fields ev) ''resource'' =
      Some (FScanned \<lparr>rs_ID = x, rs_Name = Ec2Instance_GetResourceName (Instance (snapshot res))\<rparr>) \<and>
    map_of (Fields ev) ''host'' = Some (FAny (section_or_nil (json_host (host_section_of (Instance (snapshot res)))))) \<and>
    map_of (Fields ev) ''event'' = Some (FEvent ecs) \<and>
    ecs_Sequence ecs = time_Unix (seq res) \<and> ReportId v = time_Unix (seq res)"
proof -
  obtain ev where ev: "generateEvent api NVD rfc e call res = Some ev"
    and same: "same_outside {''cloud'', ''cloudbeat'', ''cloud_security_posture''}
      (scanned_event NVD rfc call (reportResult res) (vulnerability res) (Instance (snapshot res)) x
         (time_Unix (seq res))) ev"
    using generateEvent_frame [OF assms(1-3) GetResourceId_dash [OF assms(4,5)]] by blast
  have "Meta ev = [(FieldMetaIndex, vulIndex)]"
    and "map_of (Fields ev) ''vulnerability'' =
      Some (FVulnerability (vulnerability_of NVD call (reportResult res) (vulnerability res) (time_Unix (seq res))))"
    and "map_of (Fields ev) ''package'' = Some (FPackage (package_of (reportResult res) (vulnerability res)))"
    and "map_of (Fields ev) ''resource'' =
      Some (FScanned \<lparr>rs_ID = x, rs_Name = Ec2Instance_GetResourceName (Instance (snapshot res))\<rparr>)"
    and "map_of (Fields ev) ''host'' = Some (FAny (section_or_nil (json_host (host_section_of (Instance (snapshot res))))))"
    and "map_of (Fields ev) ''event'' = Some (FEvent (BuildECSEvent (call_uuid call) (time_Unix (seq res)) (call_now call) [vulEcsCategory]))"
    using same by (simp_all add: same_outside_def scanned_event_def)
  then show ?thesis using ev by (simp add: vulnerability_of_def BuildECSEvent_def)
qed

definition sample_scan :: "(report_result, detected_vulnerability) scan_result" where
  "sample_scan =
     \<lparr>reportResult = \<lparr>rep_Target = ''usr/lib'', rep_Class = ''os-pkgs'', rep_Type = ''debian''\<rparr>,
      vulnerability = sample_vulnerability,
      snapshot = FromSnapshotInfo \<lparr>sdk_SnapshotId = ''s'', sdk_State = ''completed'', sdk_VolumeSize = 8, sdk_Encrypted = True\<rparr>
        ''eu'' ''9'' (in_region ''9'' ''eu'' (sample_instance ''i-0a1'')),
      seq = 3 * 10 ^ 9\<rparr>"

lemma generateEvent_describes_witness:
  "\<exists>ev ecs v. generateEvent flat_api ''nvd'' (\<lambda>t. Inl (Errorf []))
      (NewEventsCreator (\<lambda>api. cloud_EnrichEvent api \<lparr>accountId = ''9'', accountName = [], providerName = ''aws''\<rparr>)
         (common_GetElasticCommonData \<lparr>info = [], cdp_cfg = None :: (unit, unit) config option\<rparr>))
      \<lparr>call_now = 4, call_uuid = ''u'', score_v3 = [], score_v2 = [], version_v3 = [], version_v2 = []\<rparr> sample_scan = Some ev \<and>
     map_of (Fields ev) ''vulnerability'' = Some (FVulnerability v) \<and> vs_ID v = ''CVE-2023-1'' \<and>
     map_of (Fields ev) ''resource'' = Some (FScanned \<lparr>rs_ID = ''0a1'', rs_Name = ''web''\<rparr>) \<and>
     map_of (Fields ev) ''event'' = Some (FEvent ecs) \<and> ecs_Sequence ecs = 3"
proof -
  have "InstanceId (Instance (snapshot sample_scan)) = Some (''i-'' @ ''0a1'')"
    by (simp add: sample_scan_def FromSnapshotInfo_def in_region_def sample_instance_def
        sdk_instance.extend_def ec2_instance.fields_def)
  from generateEvent_describes [OF flat_api_ok _ _ this,
      where e = "NewEventsCreator (\<lambda>api. cloud_EnrichEvent api \<lparr>accountId = ''9'', accountName = [], providerName = ''aws''\<rparr>)
         (common_GetElasticCommonData \<lparr>info = [], cdp_cfg = None :: (unit, unit) config option\<rparr>)"
      and c = "\<lparr>info = [], cdp_cfg = None :: (unit, unit) config option\<rparr>"
      and a = "\<lparr>accountId = ''9'', accountName = [], providerName = ''aws''\<rparr>"
      and NVD = "''nvd''" and rfc = "\<lambda>t. Inl (Errorf [])"
      and call = "\<lparr>call_now = 4, call_uuid = ''u'', score_v3 = [], score_v2 = [], version_v3 = [], version_v2 = []\<rparr>"]
  obtain ev ecs v where
    "generateEvent flat_api ''nvd'' (\<lambda>t. Inl (Errorf []))
      (NewEventsCreator (\<lambda>api. cloud_EnrichEvent api \<lparr>accountId = ''9'', accountName = [], providerName = ''aws''\<rparr>)
         (common_GetElasticCommonData \<lparr>info = [], cdp_cfg = None :: (unit, unit) config option\<rparr>))
      \<lparr>call_now = 4, call_uuid = ''u'', score_v3 = [], score_v2 = [], version_v3 = [], version_v2 = []\<rparr> sample_scan = Some ev"
    "map_of (Fields ev) ''vulnerability'' = Some (FVulnerability v)"
    "vs_ID v = VulnerabilityID (vulnerability sample_scan)"
    "map_of (Fields ev) ''resource'' =
      Some (FScanned \<lparr>rs_ID = ''0a1'', rs_Name = Ec2Instance_GetResourceName (Instance (snapshot sample_scan))\<rparr>)"
    "map_of (Fields ev) ''event'' = Some (FEvent ecs)" "ecs_Sequence ecs = time_Unix (seq sample_scan)"
    by (auto simp: NewEventsCreator_def)
  moreover have "VulnerabilityID (vulnerability sample_scan) = ''CVE-2023-1''"
      "Ec2Instance_GetResourceName (Instance (snapshot sample_scan)) = ''web''" "time_Unix (seq sample_scan) = 3"
    by (simp_all add: sample_scan_def sample_vulnerability_def Ec2Instance_GetResourceName_def FromSnapshotInfo_def
        in_region_def sample_instance_def sdk_instance.extend_def ec2_instance.fields_def time_Unix_def time_Second_def)
  ultimately show ?thesis by simp
qed

end
