(* ===== verification/Flavors_Model.thy ===== *)
theory Flavors_Model
  imports Benchmark_Model Publisher_Model Vuln_Events
begin

text \<open>
  \<open>flavors/flavors.go\<close>, \<open>client.go\<close>, \<open>posture.go\<close>, \<open>vulnerability.go\<close>, the worker's constructor
  (\<open>vulnerability/worker.go\<close>) and \<open>beater/beater.go\<close>: the two kinds of beater, how they are made, run
  and stopped. The pipeline and the processors of libbeat, the credentials of AWS and the runner of the
  scanner are parameters. A context that has been cancelled is the flag \<open>fb_cancelled\<close>.
\<close>

section \<open>The base of a flavor\<close>

text \<open>\<open>fb_client\<close> is the field \<open>client\<close>, nil as long as nothing sets it.\<close>

record ('cred, 'proc, 'client) flavor_base =
  fb_cancelled :: bool
  fb_config :: "('cred, 'proc) config"
  fb_client :: "'client option"
  fb_publisher :: publisher
  publisher_client :: 'client

definition cancel :: "('cred, 'proc, 'client, 'more) flavor_base_scheme \<Rightarrow> ('cred, 'proc, 'client, 'more) flavor_base_scheme" where
  "cancel fb = fb\<lparr>fb_cancelled := True\<rparr>"

definition configureProcessors :: "('proc list \<Rightarrow> 'procs result) \<Rightarrow> 'proc list \<Rightarrow> 'procs result" where
  "configureProcessors newProcessors processorsList = newProcessors processorsList"

definition NewClient ::
  "('proc list \<Rightarrow> 'procs result) \<Rightarrow> ('procs \<Rightarrow> 'client result) \<Rightarrow> 'proc list \<Rightarrow> 'client result" where
  "NewClient newProcessors ConnectWith processorsList =
     (case configureProcessors newProcessors processorsList of
        Inl err \<Rightarrow> Inl err
      | Inr procs \<Rightarrow> ConnectWith procs)"

section \<open>Posture\<close>

record ('cred, 'proc, 'client, 'w, 'opa) posture = "('cred, 'proc, 'client) flavor_base" +
  post_benchmark :: "('w, 'opa) bench"

text \<open>The constructors answer with the error or the flavor; the flag tells whether they cancelled the context.\<close>

definition newPostureFromCfg ::
  "(strategy \<Rightarrow> ('cred, 'proc) config \<Rightarrow> ('w, 'opa) bench result) \<Rightarrow> ('proc list \<Rightarrow> 'procs result) \<Rightarrow>
     ('procs \<Rightarrow> 'client result) \<Rightarrow> ('cred, 'proc) config \<Rightarrow>
     ('cred, 'proc, 'client, 'w, 'opa) posture result \<times> bool" where
  "newPostureFromCfg newBenchmark newProcessors ConnectWith cfg =
     (case GetStrategy cfg of
        Inl err \<Rightarrow> (Inl err, True)
      | Inr strategy \<Rightarrow>
          (case newBenchmark strategy cfg of
             Inl err \<Rightarrow> (Inl err, True)
           | Inr bm \<Rightarrow>
               (case NewClient newProcessors ConnectWith (Processors cfg) of
                  Inl err \<Rightarrow> (Inl (Wrapf ''failed to init client: '' err), True)
                | Inr client \<Rightarrow>
                    (Inr \<lparr>fb_cancelled = False, fb_config = cfg, fb_client = None,
                          fb_publisher = NewPublisher flushInterval eventsThreshold,
                          publisher_client = client, post_benchmark = bm\<rparr>, False))))"

definition NewPosture ::
  "'cred \<Rightarrow> string result \<Rightarrow> (strategy \<Rightarrow> ('cred, 'proc) config \<Rightarrow> ('w, 'opa) bench result) \<Rightarrow>
     ('proc list \<Rightarrow> 'procs result) \<Rightarrow> ('procs \<Rightarrow> 'client result) \<Rightarrow>
     (('cred, 'proc) config \<Rightarrow> ('cred, 'proc) config result) \<Rightarrow>
     ('cred, 'proc, 'client, 'w, 'opa) posture result" where
  "NewPosture cred0 executable newBenchmark newProcessors ConnectWith unpack =
     (case config_New cred0 executable unpack of
        (_, Some err) \<Rightarrow> Inl (Wrapf ''error reading config file: '' err)
      | (cfg, None) \<Rightarrow> fst (newPostureFromCfg newBenchmark newProcessors ConnectWith (the cfg)))"

text \<open>
  \<open>Run\<close>: the error of the benchmark, or the batches that the publisher hands over for the sequence
  \<open>es\<close> of the cases that its loop picks.
\<close>

datatype 'e flavor_run = RunError go_error | RunHandled "'e list list" "'e pub_outcome"

definition posture_Run ::
  "le_config result \<Rightarrow> (le_config \<Rightarrow> go_error option) \<Rightarrow> 'e pub_event list \<Rightarrow>
     ('cred, 'proc, 'client, 'w, 'opa) posture \<Rightarrow>
     'e flavor_run \<times> ('cred, 'proc, 'client, 'w, 'opa) posture" where
  "posture_Run leConfig newElector es bt =
     (case bench_Run leConfig newElector (post_benchmark bt) of
        (Some err, b, _) \<Rightarrow> (RunError err, bt\<lparr>post_benchmark := b\<rparr>)
      | (None, b, _) \<Rightarrow>
          (case HandleEvents (fb_publisher bt) es [] [] of
             (batches, out) \<Rightarrow> (RunHandled batches out, bt\<lparr>post_benchmark := b\<rparr>)))"

text \<open>
  \<open>Stop\<close> can return, panic (the state is the one that it leaves), or end the process with
  \<open>log.Fatal\<close>.
\<close>

datatype 'a stop_outcome = StopReturns 'a | StopPanics 'a | StopFatal

definition posture_Stop ::
  "('client \<Rightarrow> go_error option) \<Rightarrow> ('cred, 'proc, 'client, 'w, 'opa) posture \<Rightarrow> 'w \<Rightarrow>
     (('cred, 'proc, 'client, 'w, 'opa) posture \<times> 'w) stop_outcome" where
  "posture_Stop Close bt w =
     (case bench_Stop (post_benchmark bt) w of
        None \<Rightarrow> StopPanics (bt, registry_Stop (bm_registry (post_benchmark bt)) w)
      | Some (b, w') \<Rightarrow>
          (let bt' = bt\<lparr>post_benchmark := b\<rparr>
           in case fb_client bt' of
                None \<Rightarrow> StopPanics (bt', w')
              | Some client \<Rightarrow>
                  (case Close client of
                     Some err \<Rightarrow> StopFatal
                   | None \<Rightarrow> StopReturns (cancel bt', w'))))"

section \<open>The worker of a vulnerability cycle\<close>

record ('cred, 'proc, 'aws, 'runner) vulnerability_worker =
  vw_cfg :: "('cred, 'proc) config"
  vw_aws :: 'aws
  vw_runner :: 'runner
  vw_seq :: int
  eventsCreator :: vuln_events_creator

definition NewVulnerabilityWorker ::
  "('cred \<Rightarrow> 'aws result) \<Rightarrow> 'runner result \<Rightarrow> int \<Rightarrow> (beat_api \<Rightarrow> resource_metadata \<Rightarrow> inserter) \<Rightarrow>
     (string \<times> any) list result \<Rightarrow> ('cred, 'proc) config \<Rightarrow>
     ('cred, 'proc, 'aws, 'runner) vulnerability_worker result" where
  "NewVulnerabilityWorker initializeAWSConfig newRunner time_now bdp cdp c =
     (case initializeAWSConfig (aws_Cred (Aws (CloudConfig c))) of
        Inl err \<Rightarrow> Inl (Wrapf ''VulnerabilityWorker: failed to initialize AWS credentials: '' err)
      | Inr awsConfig \<Rightarrow>
          (case newRunner of
             Inl err \<Rightarrow> Inl (Wrapf ''VulnerabilityWorker: could not get init NewVulnerabilityRunner: '' err)
           | Inr runner \<Rightarrow>
               Inr \<lparr>vw_cfg = c, vw_aws = awsConfig, vw_runner = runner, vw_seq = time_now,
                    eventsCreator = NewEventsCreator bdp cdp\<rparr>))"

section \<open>Vulnerability\<close>

record ('cred, 'proc, 'client) vulnerability_flavor = "('cred, 'proc, 'client) flavor_base" +
  bdp :: cloud_data_provider
  cdp :: "('cred, 'proc) common_data_provider"

definition getAWSDataProvider ::
  "('cred, 'aws) aws_env \<Rightarrow> ('cred, 'proc) config \<Rightarrow> cloud_data_provider result" where
  "getAWSDataProvider env cfg =
     (case InitializeAWSConfig env (aws_Cred (Aws (CloudConfig cfg))) of
        Inl err \<Rightarrow> Inl (Wrapf ''failed to initialize AWS credentials: '' err)
      | Inr awsConfig \<Rightarrow>
          (case GetIdentity env awsConfig of
             Inl err \<Rightarrow> Inl (Wrapf ''failed to get AWS identity: '' err)
           | Inr identity \<Rightarrow> Inr (cloud_NewDataProvider [WithAccount identity])))"

definition NewVulnerability ::
  "'cred \<Rightarrow> string result \<Rightarrow> ('cred, 'aws) aws_env \<Rightarrow> (cloudbeat_version_info \<Rightarrow> (string \<times> any) list result) \<Rightarrow>
     version \<Rightarrow> ('proc list \<Rightarrow> 'procs result) \<Rightarrow> ('procs \<Rightarrow> 'client result) \<Rightarrow>
     (('cred, 'proc) config \<Rightarrow> ('cred, 'proc) config result) \<Rightarrow>
     ('cred, 'proc, 'client) vulnerability_flavor result \<times> bool" where
  "NewVulnerability cred0 executable env decodeVersion ver newProcessors ConnectWith unpack =
     (case config_New cred0 executable unpack of
        (_, Some err) \<Rightarrow> (Inl (Wrapf ''error reading config file: '' err), True)
      | (cfg, None) \<Rightarrow>
          (let c = the cfg
           in case getAWSDataProvider env c of
                Inl err \<Rightarrow> (Inl (Wrapf ''failed to init common data provider: '' err), True)
              | Inr bd \<Rightarrow>
                  (case common_New decodeVersion
                          \<lparr>version_info = ver, Policy = \<lparr>v_Version = [], CommitHash = [], CommitTime = []\<rparr>\<rparr> (Some c) of
                     Inl err \<Rightarrow> (Inl err, True)
                   | Inr cd \<Rightarrow>
                       (case NewClient newProcessors ConnectWith (Processors c) of
                          Inl err \<Rightarrow> (Inl (Wrapf ''failed to init client: '' err), True)
                        | Inr client \<Rightarrow>
                            (Inr \<lparr>fb_cancelled = False, fb_config = c, fb_client = None,
                                  fb_publisher = NewPublisher flushInterval eventsThreshold,
                                  publisher_client = client, bdp = bd, cdp = cd\<rparr>, False)))))"


text \<open>
  One iteration. What it meets: the answer for the credentials, the runner, the clock, and the
  sequence of the cases that the publisher's loop picks while the worker runs. The state of the
  repeated function is the flavor, the number of iterations so far and the batches handed over.
\<close>

record ('cred, 'aws, 'runner, 'e) iteration =
  it_credentials :: "'cred \<Rightarrow> 'aws result"
  it_runner :: "'runner result"
  it_now :: int
  it_events :: "'e pub_event list"

record ('cred, 'proc, 'client, 'e) vulnerability_state =
  flavor :: "('cred, 'proc, 'client) vulnerability_flavor"
  iterations :: nat
  published :: "'e list list"

definition runIteration ::
  "(nat \<Rightarrow> ('cred, 'aws, 'runner, 'e) iteration) \<Rightarrow> ('cred, 'proc, 'client, 'e) vulnerability_state \<Rightarrow>
     go_error option \<times> ('cred, 'proc, 'client, 'e) vulnerability_state" where
  "runIteration its w =
     (let bt = flavor w; it = its (iterations w)
      in case NewVulnerabilityWorker (it_credentials it) (it_runner it) (it_now it)
                (\<lambda>api. cloud_EnrichEvent api (bdp bt)) (common_GetElasticCommonData (cdp bt)) (fb_config bt) of
           Inl err \<Rightarrow> (Some err, w\<lparr>flavor := cancel bt, iterations := Suc (iterations w)\<rparr>)
         | Inr worker \<Rightarrow>
             (case HandleEvents (fb_publisher bt) (it_events it) [] [] of
                (batches, _) \<Rightarrow>
                  (None, w\<lparr>iterations := Suc (iterations w), published := published w @ batches\<rparr>)))"

definition vulnerability_Run ::
  "(nat \<Rightarrow> ('cred, 'aws, 'runner, 'e) iteration) \<Rightarrow> repeat_event list \<Rightarrow>
     ('cred, 'proc, 'client) vulnerability_flavor \<Rightarrow>
     repeat_outcome \<times> ('cred, 'proc, 'client, 'e) vulnerability_state" where
  "vulnerability_Run its es bt =
     Repeater_Run (runIteration its) es \<lparr>flavor = bt, iterations = 0, published = []\<rparr>"

definition vulnerability_Stop ::
  "('cred, 'proc, 'client) vulnerability_flavor \<Rightarrow> ('cred, 'proc, 'client) vulnerability_flavor" where
  "vulnerability_Stop bt = cancel bt"

section \<open>Making a beater\<close>

datatype ('v, 'p) beater = BeatVulnerability 'v | BeatPosture 'p

text \<open>What the constructors take from their surroundings.\<close>

record ('raw, 'cred, 'proc, 'procs, 'client, 'w, 'opa, 'aws) beater_env =
  env_cred0 :: 'cred
  env_executable :: "string result"
  env_unpack :: "'raw \<Rightarrow> ('cred, 'proc) config \<Rightarrow> ('cred, 'proc) config result"
  FlattenedKeys :: "'raw \<Rightarrow> string"
  env_aws :: "('cred, 'aws) aws_env"
  env_decode :: "cloudbeat_version_info \<Rightarrow> (string \<times> any) list result"
  env_version :: version
  env_processors :: "'proc list \<Rightarrow> 'procs result"
  env_connect :: "'procs \<Rightarrow> 'client result"
  env_benchmark :: "strategy \<Rightarrow> ('cred, 'proc) config \<Rightarrow> ('w, 'opa) bench result"

definition NewBeater ::
  "('raw, 'cred, 'proc, 'procs, 'client, 'w, 'opa, 'aws) beater_env \<Rightarrow> 'raw \<Rightarrow>
     (('cred, 'proc, 'client) vulnerability_flavor, ('cred, 'proc, 'client, 'w, 'opa) posture) beater result" where
  "NewBeater env cfg =
     (case config_New (env_cred0 env) (env_executable env) (env_unpack env cfg) of
        (_, Some err) \<Rightarrow>
          Inl (Wrapf (''NewBeater: could not parse configuration '' @ FlattenedKeys env cfg @
                      '', skipping with error: '') err)
      | (c, None) \<Rightarrow>
          if Type (the c) = VulnerabilityType
          then (case fst (NewVulnerability (env_cred0 env) (env_executable env) (env_aws env) (env_decode env)
                          (env_version env) (env_processors env) (env_connect env) (env_unpack env cfg)) of
                  Inl err \<Rightarrow> Inl err
                | Inr bt \<Rightarrow> Inr (BeatVulnerability bt))
          else (case NewPosture (env_cred0 env) (env_executable env) (env_benchmark env) (env_processors env)
                       (env_connect env) (env_unpack env cfg) of
                  Inl err \<Rightarrow> Inl err
                | Inr bt \<Rightarrow> Inr (BeatPosture bt)))"

section \<open>Lemmas\<close>

lemma newPostureFromCfg_ok:
  "newPostureFromCfg nb np cw cfg = (Inr bt, cancelled) \<Longrightarrow>
   \<not> cancelled \<and> \<not> fb_cancelled bt \<and> fb_client bt = None \<and>
   (\<exists>s. GetStrategy cfg = Inr s \<and> nb s cfg = Inr (post_benchmark bt))"
  by (auto simp: newPostureFromCfg_def split: sum.splits)

lemma posture_Run_keeps:
  "posture_Run leConfig newElector es bt = (out, bt') \<Longrightarrow>
   fb_cancelled bt' = fb_cancelled bt \<and> fb_client bt' = fb_client bt"
  by (auto simp: posture_Run_def split: prod.splits option.splits)

lemma runIteration_ok:
  assumes "it_credentials (its (iterations w)) (aws_Cred (Aws (CloudConfig (fb_config (flavor w))))) = Inr aws"
    and "it_runner (its (iterations w)) = Inr r"
  shows "runIteration its w =
    (None, w\<lparr>iterations := Suc (iterations w),
             published := published w @ fst (HandleEvents (fb_publisher (flavor w)) (it_events (its (iterations w))) [] [])\<rparr>)"
  using assms by (simp add: runIteration_def NewVulnerabilityWorker_def Let_def case_prod_beta)

text \<open>An iteration can be made when the credentials are accepted and the scanner's runner starts.\<close>

definition iteration_starts ::
  "('cred, 'proc, 'client) vulnerability_flavor \<Rightarrow> ('cred, 'aws, 'runner, 'e) iteration \<Rightarrow> bool" where
  "iteration_starts bt it =
     (is_ok (it_credentials it (aws_Cred (Aws (CloudConfig (fb_config bt))))) \<and> is_ok (it_runner it))"

lemma runIteration_starts:
  "iteration_starts (flavor w) (its (iterations w)) \<Longrightarrow>
   runIteration its w =
    (None, w\<lparr>iterations := Suc (iterations w),
             published := published w @ fst (HandleEvents (fb_publisher (flavor w)) (it_events (its (iterations w))) [] [])\<rparr>)"
  by (auto simp: iteration_starts_def is_ok_iff intro: runIteration_ok)

lemma runIteration_fails:
  assumes "\<not> iteration_starts (flavor w) (its (iterations w))"
  shows "\<exists>err. runIteration its w = (Some err, w\<lparr>flavor := cancel (flavor w), iterations := Suc (iterations w)\<rparr>)"
  using assms
  by (auto simp: iteration_starts_def runIteration_def NewVulnerabilityWorker_def Let_def is_ok_def split: sum.splits)

lemma iterate_runIteration:
  "\<forall>i<n. iteration_starts (flavor w) (its (iterations w + i)) \<Longrightarrow>
   good_iterations (runIteration its) n w \<and>
   iterate (runIteration its) n w =
     w\<lparr>iterations := iterations w + n,
       published := published w @ concat (map (\<lambda>i. fst (HandleEvents (fb_publisher (flavor w)) (it_events (its i)) [] []))
         [iterations w ..< iterations w + n])\<rparr>"
proof (induction n arbitrary: w)
  case (Suc n)
  let ?w = "snd (runIteration its w)"
  have run: "runIteration its w =
    (None, w\<lparr>iterations := Suc (iterations w),
             published := published w @ fst (HandleEvents (fb_publisher (flavor w)) (it_events (its (iterations w))) [] [])\<rparr>)"
    using Suc.prems by (intro runIteration_starts) (metis add.right_neutral zero_less_Suc)
  have "\<forall>i<n. iteration_starts (flavor ?w) (its (iterations ?w + i))"
    using Suc.prems by (auto simp: run)
  from Suc.IH [OF this] show ?case
    by (simp add: run upt_conv_Cons del: upt_Suc)
qed simp


lemma NewVulnerability_config:
  "config_New cred0 ex unpack = (Some c, None) \<Longrightarrow>
   fst (NewVulnerability cred0 ex env dec ver np cw unpack) = Inr bt \<Longrightarrow> fb_config bt = c"
  by (auto simp: NewVulnerability_def Let_def split: sum.splits)

lemma NewPosture_config:
  "config_New cred0 ex unpack = (Some c, None) \<Longrightarrow>
   NewPosture cred0 ex nb np cw unpack = Inr bt \<Longrightarrow> fb_config bt = c \<and> Benchmark c \<in> set SupportedCIS"
  by (auto simp: NewPosture_def newPostureFromCfg_def GetStrategy_def SupportedCIS_def split: sum.splits if_splits)

section \<open>Properties\<close>

text \<open>
  A posture flavor cannot be stopped: its constructor never sets the client that \<open>Stop\<close> closes, so
  that \<open>Stop\<close>, before or after \<open>Run\<close>, stops the fetchers of its benchmark and then panics, with the
  context not cancelled.
\<close>

lemma posture_Stop_always_panics:
  assumes "newPostureFromCfg newBenchmark newProcessors ConnectWith cfg = (Inr bt, cancelled)"
    and "bt' = bt \<or> posture_Run leConfig newElector es bt = (out, bt')"
  shows "\<exists>bt'' w'. posture_Stop Close bt' w = StopPanics (bt'', w') \<and> \<not> fb_cancelled bt'' \<and>
    w' = registry_Stop (bm_registry (post_benchmark bt')) w"
proof -
  have "\<not> fb_cancelled bt' \<and> fb_client bt' = None"
    using newPostureFromCfg_ok [OF assms(1)] assms(2) posture_Run_keeps [of leConfig newElector es bt out bt'] by auto
  then show ?thesis
    by (auto simp: posture_Stop_def bench_Stop_def Let_def split: option.splits)
qed

lemma posture_Stop_always_panics_witness:
  "\<exists>(bt :: (unit, unit, nat, bool, unit) posture) bt' w'.
     newPostureFromCfg (\<lambda>_ _. Inr sample_bench) (\<lambda>_. Inr ()) (\<lambda>_. Inr 3) (default_for_witness\<lparr>Benchmark := ''cis_gcp''\<rparr>) = (Inr bt, False) \<and>
     posture_Stop (\<lambda>_. None) bt True = StopPanics (bt', w') \<and> \<not> fb_cancelled bt'"
proof -
  have "\<exists>bt :: (unit, unit, nat, bool, unit) posture.
     newPostureFromCfg (\<lambda>_ _. Inr sample_bench) (\<lambda>_. Inr ()) (\<lambda>_. Inr 3) (default_for_witness\<lparr>Benchmark := ''cis_gcp''\<rparr>) = (Inr bt, False)"
    by (simp add: newPostureFromCfg_def GetStrategy_def cis_defs NewClient_def configureProcessors_def)
  then obtain bt :: "(unit, unit, nat, bool, unit) posture" where bt:
     "newPostureFromCfg (\<lambda>_ _. Inr sample_bench) (\<lambda>_. Inr ()) (\<lambda>_. Inr 3) (default_for_witness\<lparr>Benchmark := ''cis_gcp''\<rparr>) = (Inr bt, False)" ..
  show ?thesis using posture_Stop_always_panics [OF bt disjI1 [OF refl], of "\<lambda>_. None" True] bt by blast
qed


definition sample_flavor :: "(unit, unit, nat) vulnerability_flavor" where
  "sample_flavor =
     \<lparr>fb_cancelled = False, fb_config = default_for_witness, fb_client = None,
      fb_publisher = NewPublisher flushInterval eventsThreshold, publisher_client = 3,
      bdp = cloud_NewDataProvider [], cdp = \<lparr>info = [], cdp_cfg = None\<rparr>\<rparr>"

definition sample_iteration :: "nat \<Rightarrow> (unit, unit, unit, nat) iteration" where
  "sample_iteration i =
     \<lparr>it_credentials = (\<lambda>_. if i < 2 then Inr () else Inl (Errorf ''expired'')), it_runner = Inr (),
      it_now = int i, it_events = [Events [i], ChClosed]\<rparr>"


text \<open>
  A beater is made only from an acceptable configuration, of the kind that its type asks for and with
  this configuration; a posture beater only for a supported benchmark. For a configuration that is not
  acceptable the error still carries the \<open>BeaterUnhealthyError\<close>.
\<close>

lemma NewBeater_kinds:
  assumes "defaultConfig (env_cred0 env) (env_executable env) = Inr d" "env_unpack env raw d = Inr c"
  shows "case NewBeater env raw of
      Inl err \<Rightarrow> config_ok c \<or> (\<exists>m. errors_as_unhealthy err = Some m)
    | Inr (BeatVulnerability bt) \<Rightarrow> config_ok c \<and> Type c = VulnerabilityType \<and> fb_config bt = c
    | Inr (BeatPosture bt) \<Rightarrow>
        config_ok c \<and> Type c \<noteq> VulnerabilityType \<and> fb_config bt = c \<and> Benchmark c \<in> set SupportedCIS"
proof (cases "config_ok c")
  case True
  have new: "config_New (env_cred0 env) (env_executable env) (env_unpack env raw) = (Some c, None)"
    by (rule config_New_unpacked(2) [where unpack = "env_unpack env raw", OF assms True])
  show ?thesis
  proof (cases "NewBeater env raw")
    case (Inr bt)
    show ?thesis
    proof (cases bt)
      case (BeatVulnerability v)
      then have "Type c = VulnerabilityType" "fst (NewVulnerability (env_cred0 env) (env_executable env) (env_aws env)
          (env_decode env) (env_version env) (env_processors env) (env_connect env) (env_unpack env raw)) = Inr v"
        using Inr new by (auto simp: NewBeater_def split: if_splits sum.splits)
      then show ?thesis using Inr BeatVulnerability True NewVulnerability_config [OF new] by simp
    next
      case (BeatPosture p)
      then have "Type c \<noteq> VulnerabilityType" "NewPosture (env_cred0 env) (env_executable env) (env_benchmark env)
          (env_processors env) (env_connect env) (env_unpack env raw) = Inr p"
        using Inr new by (auto simp: NewBeater_def split: if_splits sum.splits)
      then show ?thesis using Inr BeatPosture True NewPosture_config [OF new] by simp
    qed
  qed (use True in simp)
next
  case False
  then show ?thesis using config_New_unpacked(3) [where unpack = "env_unpack env raw", OF assms False]
    by (cases "config_New (env_cred0 env) (env_executable env) (env_unpack env raw)") (auto simp: NewBeater_def)
qed

definition sample_beater_env :: "(string, unit, unit, unit, nat, bool, unit, unit) beater_env" where
  "sample_beater_env =
     \<lparr>env_cred0 = (), env_executable = Inr ''/opt/cloudbeat/cloudbeat'',
      env_unpack = (\<lambda>raw d. Inr (d\<lparr>Benchmark := raw\<rparr>)), FlattenedKeys = (\<lambda>_. []),
      env_aws =
        \<lparr>InitializeAWSConfig = (\<lambda>_. Inr ()), eks_InitializeAWSConfig = (\<lambda>_. Inr ()),
         GetIdentity = (\<lambda>_. Inl (Errorf [])), AssumeRole = (\<lambda>_ _ _. ()),
         aws_Region = (\<lambda>_. []), no_aws = (), no_cred = ()\<rparr>,
      env_decode = (\<lambda>_. Inr []), env_version = \<lparr>v_Version = [], CommitHash = [], CommitTime = []\<rparr>,
      env_processors = (\<lambda>_. Inr ()), env_connect = (\<lambda>_. Inr 3), env_benchmark = (\<lambda>_ _. Inr sample_bench)\<rparr>"

lemma NewBeater_kinds_witness:
  "\<exists>bt. NewBeater sample_beater_env ''cis_aws'' = Inr (BeatPosture bt) \<and> Benchmark (fb_config bt) = ''cis_aws''"
proof -
  let ?c = "default_for_witness\<lparr>Benchmark := ''cis_aws''\<rparr>"
  have "config_New () (Inr ''/opt/cloudbeat/cloudbeat'') (\<lambda>d. Inr ((d :: (unit, unit) config)\<lparr>Benchmark := ''cis_aws''\<rparr>)) =
      (Some ?c, None)"
    by (rule config_New_unpacked(2) [OF default_at_opt])
       (simp_all add: config_ok_def SupportedCIS_def cis_defs account_type_ok_def default_for_witness_def
          zero_cloud_def zero_azure_def)
  then have "\<exists>bt. NewBeater sample_beater_env ''cis_aws'' = Inr (BeatPosture bt)"
    by (simp add: sample_beater_env_def NewBeater_def NewPosture_def newPostureFromCfg_def GetStrategy_def cis_defs
        NewClient_def configureProcessors_def default_for_witness_def zero_cloud_def VulnerabilityType_def)
  then obtain bt where bt: "NewBeater sample_beater_env ''cis_aws'' = Inr (BeatPosture bt)" ..
  have "env_unpack sample_beater_env ''cis_aws'' default_for_witness = Inr ?c"
    "defaultConfig (env_cred0 sample_beater_env) (env_executable sample_beater_env) = Inr default_for_witness"
    by (simp_all add: sample_beater_env_def default_at_opt)
  from NewBeater_kinds [OF this(2,1)] bt show ?thesis by simp
qed

end
