(* ===== verification/AWS_Accounts.thy ===== *)
theory AWS_Accounts
  imports AWS_Regions Data_Providers
begin

text \<open>
  The providers of \<open>resources/providers/awslib\<close> that say where the program runs: the selectors of
  regions with their cache (\<open>cached_region_selector.go\<close>, \<open>all_region_selector.go\<close>,
  \<open>current_region_selector.go\<close>), the accounts of an organization (\<open>account_provider.go\<close>), the
  identity, the instance metadata and the configuration (\<open>identity_provider.go\<close>,
  \<open>ec2_metadata_provider.go\<close>, \<open>config_provider.go\<close>) and the name of an EKS cluster
  (\<open>cluster_name_provider.go\<close>). The calls of the SDK are arguments. A pointer that the code tests for
  nil is an option; one that it only follows is a plain field, since the service always sets it.
\<close>

section \<open>Selectors of regions\<close>

text \<open>\<open>DescribeRegions\<close> answers the names of the regions.\<close>

definition allRegion_Regions :: "string list result \<Rightarrow> string list result" where
  "allRegion_Regions described =
     (case described of Inl err \<Rightarrow> Inl err | Inr names \<Rightarrow> Inr (map (\<lambda>name. name) names))"

record instance_identity =
  ii_Region :: string
  ii_InstanceID :: string

definition Ec2Metadata_GetMetadata :: "instance_identity result \<Rightarrow> instance_identity result" where
  "Ec2Metadata_GetMetadata document =
     (case document of Inl err \<Rightarrow> Inl err | Inr identityDocument \<Rightarrow> Inr identityDocument)"

definition currentRegion_Regions :: "instance_identity result \<Rightarrow> string list result" where
  "currentRegion_Regions mdata =
     (case mdata of Inl err \<Rightarrow> Inl err | Inr m \<Rightarrow> Inr [ii_Region m])"

text \<open>
  The shared cache, of the package \<open>ristretto\<close>, is a parameter: \<open>Get\<close> of a key, which may change
  the cache (it counts the accesses and drops what has expired), and \<open>SetWithTTL\<close>, which may refuse
  the value. Both selectors answer slices that are not nil, so that \<open>getCache\<close> answers nil exactly
  where the cache has nothing for the key.
\<close>

record 'c region_cache =
  rc_Get :: "string \<Rightarrow> 'c \<Rightarrow> string list option \<times> 'c"
  rc_SetWithTTL :: "string \<Rightarrow> string list \<Rightarrow> int \<Rightarrow> 'c \<Rightarrow> bool \<times> 'c"

definition time_Hour :: int where
  "time_Hour = 3600 * 10 ^ 9"

definition allRegionCacheTTL :: int where
  "allRegionCacheTTL = 720 * time_Hour"

definition currentRegionCacheTTL :: int where
  "currentRegionCacheTTL = 0"

text \<open>The selector \<open>'s\<close> behind the cache is a state that answers regions or an error.\<close>

record 's cached_selector =
  keep :: int
  cache_key :: string
  sel_client :: "'s \<Rightarrow> string list result \<times> 's"

definition newCachedRegionSelector ::
  "('s \<Rightarrow> string list result \<times> 's) \<Rightarrow> string \<Rightarrow> int \<Rightarrow> 's cached_selector" where
  "newCachedRegionSelector selector key ttl = \<lparr>keep = ttl, cache_key = key, sel_client = selector\<rparr>"

definition CurrentRegionSelector :: "('s \<Rightarrow> instance_identity result \<times> 's) \<Rightarrow> 's cached_selector" where
  "CurrentRegionSelector imds =
     newCachedRegionSelector (\<lambda>s. let (m, s') = imds s in (currentRegion_Regions (Ec2Metadata_GetMetadata m), s'))
       ''CurrentRegionSelectorCache'' currentRegionCacheTTL"

definition AllRegionSelector :: "('s \<Rightarrow> string list result \<times> 's) \<Rightarrow> 's cached_selector" where
  "AllRegionSelector describe =
     newCachedRegionSelector (\<lambda>s. let (r, s') = describe s in (allRegion_Regions r, s'))
       ''AllRegionSelectorCache'' allRegionCacheTTL"

definition getCache :: "'c region_cache \<Rightarrow> 's cached_selector \<Rightarrow> 'c \<Rightarrow> string list option \<times> 'c" where
  "getCache rc sel c = rc_Get rc (cache_key sel) c"

definition setCache :: "'c region_cache \<Rightarrow> 's cached_selector \<Rightarrow> string list \<Rightarrow> 'c \<Rightarrow> bool \<times> 'c" where
  "setCache rc sel rs c = rc_SetWithTTL rc (cache_key sel) rs (keep sel) c"

definition cached_Regions ::
  "'c region_cache \<Rightarrow> 's cached_selector \<Rightarrow> 'c \<Rightarrow> 's \<Rightarrow> string list result \<times> 'c \<times> 's" where
  "cached_Regions rc sel c s =
     (case getCache rc sel c of
        (Some cachedObject, c') \<Rightarrow> (Inr cachedObject, c', s)
      | (None, c') \<Rightarrow>
          (case sel_client sel s of
             (Inl err, s') \<Rightarrow> (Inl err, c', s')
           | (Inr output, s') \<Rightarrow> (let (stored, c'') = setCache rc sel output c' in (Inr output, c'', s'))))"

text \<open>
  What the selector relies on: a hit of the cache is a value that has been set for that key. It may
  forget a value at any time and may refuse to store one. \<open>holds c\<close> are the pairs of a key and a
  list that \<open>c\<close> may answer.
\<close>

definition answers_what_was_set :: "'c region_cache \<Rightarrow> ('c \<Rightarrow> (string \<times> string list) set) \<Rightarrow> bool" where
  "answers_what_was_set rc holds \<longleftrightarrow>
     (\<forall>k c v c'. rc_Get rc k c = (Some v, c') \<longrightarrow> (k, v) \<in> holds c) \<and>
     (\<forall>k c r c'. rc_Get rc k c = (r, c') \<longrightarrow> holds c' \<subseteq> holds c) \<and>
     (\<forall>k v ttl c stored c'. rc_SetWithTTL rc k v ttl c = (stored, c') \<longrightarrow>
        holds c' \<subseteq> insert (k, v) (holds c))"

lemma Regions_from_client:
  assumes "answers_what_was_set rc holds" and "cached_Regions rc sel c s = (r, c', s')"
  shows "(r = Inr v \<longrightarrow> (cache_key sel, v) \<in> holds c \<or> sel_client sel s = (Inr v, s')) \<and>
    (r = Inl err \<longrightarrow> sel_client sel s = (Inl err, s')) \<and>
    (s' = s \<or> s' = snd (sel_client sel s)) \<and>
    ((k, u) \<in> holds c' \<longrightarrow> (k, u) \<in> holds c \<or> k = cache_key sel \<and> sel_client sel s = (Inr u, s'))"
proof (cases "getCache rc sel c")
  case (Pair found d)
  then have kept: "holds d \<subseteq> holds c" and found: "found = Some w \<Longrightarrow> (cache_key sel, w) \<in> holds c" for w
    using assms(1) unfolding answers_what_was_set_def getCache_def by blast+
  show ?thesis
  proof (cases "found = None \<and> is_ok (fst (sel_client sel s))")
    case True
    then obtain w s0 where client: "sel_client sel s = (Inr w, s0)"
      by (metis is_ok_iff prod.collapse)
    obtain stored e where set: "setCache rc sel w d = (stored, e)" by fastforce
    then have "holds e \<subseteq> insert (cache_key sel, w) (holds d)"
      using assms(1) unfolding answers_what_was_set_def setCache_def by blast
    then show ?thesis using assms(2) Pair client set kept True by (auto simp: cached_Regions_def)
  next
    case False
    then show ?thesis using assms(2) Pair kept found
      by (auto simp: cached_Regions_def split: option.splits prod.splits sum.splits)
  qed
qed

text \<open>The calls of a selector one after the other.\<close>

fun select_times ::
  "'c region_cache \<Rightarrow> 's cached_selector \<Rightarrow> nat \<Rightarrow> 'c \<Rightarrow> 's \<Rightarrow> string list result list \<times> 'c \<times> 's" where
  "select_times rc sel 0 c s = ([], c, s)"
| "select_times rc sel (Suc n) c s =
     (let (r, c', s') = cached_Regions rc sel c s;
          (rs, c'', s'') = select_times rc sel n c' s'
      in (r # rs, c'', s''))"

text \<open>What the client answers now or after some of its calls.\<close>

definition client_may :: "'s cached_selector \<Rightarrow> 's \<Rightarrow> string list result \<Rightarrow> bool" where
  "client_may sel s r \<longleftrightarrow> (\<exists>n. r = fst (sel_client sel (((snd \<circ> sel_client sel) ^^ n) s)))"

lemma client_may_now: "sel_client sel s = (r, s') \<Longrightarrow> client_may sel s r"
  unfolding client_may_def by (rule exI [of _ 0]) simp

lemma client_may_later:
  "s' = s \<or> s' = snd (sel_client sel s) \<Longrightarrow> client_may sel s' r \<Longrightarrow> client_may sel s r"
proof (elim disjE)
  assume s': "s' = snd (sel_client sel s)" and "client_may sel s' r"
  then obtain n where "r = fst (sel_client sel (((snd \<circ> sel_client sel) ^^ n) s'))"
    unfolding client_may_def by blast
  then have "r = fst (sel_client sel (((snd \<circ> sel_client sel) ^^ Suc n) s))"
    using s' by (simp add: funpow_swap1)
  then show ?thesis unfolding client_may_def by blast
qed simp

lemma select_times_from_client:
  assumes "answers_what_was_set rc holds"
    and "\<forall>v. (cache_key sel, v) \<in> holds c \<longrightarrow> v \<in> V" and "\<forall>v. client_may sel s (Inr v) \<longrightarrow> v \<in> V"
  shows "\<forall>r\<in>set (fst (select_times rc sel n c s)). case r of Inl err \<Rightarrow> client_may sel s (Inl err) | Inr v \<Rightarrow> v \<in> V"
  using assms(2,3)
proof (induction n arbitrary: c s)
  case (Suc n)
  obtain r c' s' where step: "cached_Regions rc sel c s = (r, c', s')" by (metis prod_cases3)
  note from_client = Regions_from_client [OF assms(1) step]
  have "\<forall>v. (cache_key sel, v) \<in> holds c' \<longrightarrow> v \<in> V"
    using from_client Suc.prems client_may_now [of sel s _ s'] by blast
  moreover have later: "client_may sel s' x \<Longrightarrow> client_may sel s x" for x
    using from_client client_may_later by metis
  ultimately have rest: "\<forall>r\<in>set (fst (select_times rc sel n c' s')).
      case r of Inl err \<Rightarrow> client_may sel s' (Inl err) | Inr v \<Rightarrow> v \<in> V"
    using Suc by metis
  have head: "case r of Inl err \<Rightarrow> client_may sel s (Inl err) | Inr v \<Rightarrow> v \<in> V"
  proof (cases r)
    case (Inl e)
    then show ?thesis using from_client [where err = e] client_may_now [of sel s r s'] by auto
  next
    case (Inr v)
    then have "(cache_key sel, v) \<in> holds c \<or> sel_client sel s = (Inr v, s')"
      using from_client [where v = v, THEN conjunct1] by blast
    then show ?thesis using Inr Suc.prems client_may_now [of sel s "Inr v" s'] by auto
  qed
  have "case x of Inl err \<Rightarrow> client_may sel s (Inl err) | Inr v \<Rightarrow> v \<in> V"
    if "x \<in> set (fst (select_times rc sel n c' s'))" for x
    using rest that later by (cases x) auto
  then show ?case using head step by (auto simp: Let_def split: prod.splits)
qed simp

section \<open>Properties of the selectors\<close>

text \<open>
  The cache of a selector of regions is safe: when it starts without a list for its key, whatever
  it forgets or refuses to store, every list that a call answers has been answered by the selector
  behind it, and so has every error: errors are never cached, and a call after an error asks again.
\<close>

lemma cached_regions_are_answered:
  assumes "answers_what_was_set rc holds" and "\<forall>v. (cache_key sel, v) \<notin> holds c"
  shows "\<forall>r\<in>set (fst (select_times rc sel n c s)). client_may sel s r"
proof -
  have "\<forall>r\<in>set (fst (select_times rc sel n c s)).
      case r of Inl err \<Rightarrow> client_may sel s (Inl err) | Inr v \<Rightarrow> v \<in> {v. client_may sel s (Inr v)}"
    by (rule select_times_from_client [OF assms(1)]) (use assms(2) in simp_all)
  then show ?thesis by (metis (no_types, lifting) mem_Collect_eq obj_sumE sum.case)
qed

definition one_slot_cache :: "(string \<times> string list) option region_cache" where
  "one_slot_cache =
     \<lparr>rc_Get = (\<lambda>k c. (case c of Some (j, v) \<Rightarrow> if j = k then Some v else None | None \<Rightarrow> None, c)),
      rc_SetWithTTL = (\<lambda>k v ttl c. (True, Some (k, v)))\<rparr>"

lemma one_slot_cache_ok: "answers_what_was_set one_slot_cache set_option"
  by (auto simp: answers_what_was_set_def one_slot_cache_def split: option.splits if_splits)

text \<open>A description of the regions that fails once and then answers.\<close>

definition flaky_regions :: "nat \<Rightarrow> string list result \<times> nat" where
  "flaky_regions n = (if n = 0 then Inl (Errorf ''throttled'') else Inr [''us-east-1'', ''eu-west-1''], Suc n)"

lemma cached_regions_are_answered_witness:
  "fst (select_times one_slot_cache (AllRegionSelector flaky_regions) 3 None 0) =
     [Inl (Errorf ''throttled''), Inr [''us-east-1'', ''eu-west-1''], Inr [''us-east-1'', ''eu-west-1'']] \<and>
   client_may (AllRegionSelector flaky_regions) 0 (Inr [''us-east-1'', ''eu-west-1''])"
proof -
  have run: "fst (select_times one_slot_cache (AllRegionSelector flaky_regions) 3 None 0) =
      [Inl (Errorf ''throttled''), Inr [''us-east-1'', ''eu-west-1''], Inr [''us-east-1'', ''eu-west-1'']]"
    by (simp add: one_slot_cache_def AllRegionSelector_def newCachedRegionSelector_def flaky_regions_def
        cached_Regions_def getCache_def setCache_def allRegion_Regions_def numeral_3_eq_3 Let_def)
  have "\<forall>v. (cache_key (AllRegionSelector flaky_regions), v) \<notin> set_option None" by simp
  from cached_regions_are_answered [OF one_slot_cache_ok this, of 3 0] run show ?thesis by simp
qed

section \<open>Identity and configuration\<close>

definition getAccountAlias :: "string list result \<Rightarrow> string result" where
  "getAccountAlias listed =
     (case listed of
        Inl err \<Rightarrow> Inl err
      | Inr aliases \<Rightarrow> Inr (if 0 < length aliases then aliases ! 0 else []))"

text \<open>The account of the caller, and the aliases of the account, as the SDK answers them.\<close>

definition GetIdentity :: "string result \<Rightarrow> string list result \<Rightarrow> identity result" where
  "GetIdentity caller listed =
     (case caller of
        Inl err \<Rightarrow> Inl (Wrapf ''failed to get caller identity: '' err)
      | Inr account \<Rightarrow>
          (case getAccountAlias listed of
             Inl err \<Rightarrow> Inl (Wrapf ''failed to get aliases: '' err)
           | Inr alias \<Rightarrow> Inr \<lparr>Provider = ''aws'', Account = account, AccountAlias = alias,
                              OrganizationId = [], OrganizationName = []\<rparr>))"

record aws_config =
  cfg_Region :: string
  cfg_Credentials :: string

definition InitializeAWSConfig ::
  "aws_config result \<Rightarrow> (aws_config \<Rightarrow> instance_identity result) \<Rightarrow> aws_config result" where
  "InitializeAWSConfig initialized metadataProvider =
     (case initialized of
        Inl err \<Rightarrow> Inl err
      | Inr awsConfig \<Rightarrow>
          (case metadataProvider awsConfig of
             Inl err \<Rightarrow> Inl err
           | Inr m \<Rightarrow> Inr (awsConfig\<lparr>cfg_Region := ii_Region m\<rparr>)))"

section \<open>The accounts of an organization\<close>

record sdk_account =
  a_Id :: "string option"
  a_Name :: "string option"
  a_Status :: string

record sdk_parent =
  p_Id :: "string option"
  p_Type :: string

record 'tok organizations_api =
  o_ListAccounts :: "('tok, sdk_account) page_api"
  o_ListParents :: "string \<Rightarrow> ('tok, sdk_parent) page_api"
  o_DescribeOrganizationalUnit :: "string \<Rightarrow> string option result"

record organizational_unit_info =
  ou_id :: string
  ou_name :: string

text \<open>
  An answer comes with an error or nil and with what the code uses in both cases. The cache of names
  is a map, \<open>None\<close> the nil map. A root without an id is a nil dereference, the panic \<open>OUPanics\<close>.
\<close>

datatype ou_outcome = OUPanics | OUReturns organizational_unit_info "go_error option"

abbreviation "no_unit \<equiv> \<lparr>ou_id = [], ou_name = []\<rparr>"

definition describeOU ::
  "'tok organizations_api \<Rightarrow> (string \<times> string) list option \<Rightarrow> string option \<Rightarrow>
     ou_outcome \<times> (string \<times> string) list option" where
  "describeOU client cch uid =
     (case uid of
        None \<Rightarrow> (OUReturns no_unit (Some (Errorf ''nil id'')), cch)
      | Some i \<Rightarrow>
          (case (case cch of None \<Rightarrow> None | Some m \<Rightarrow> map_of m i) of
             Some savedName \<Rightarrow> (OUReturns \<lparr>ou_id = i, ou_name = savedName\<rparr> None, cch)
           | None \<Rightarrow>
               (case o_DescribeOrganizationalUnit client i of
                  Inl err \<Rightarrow> (OUReturns \<lparr>ou_id = i, ou_name = []\<rparr> (Some err), cch)
                | Inr n \<Rightarrow>
                    (let name = Dereference n
                     in (OUReturns \<lparr>ou_id = i, ou_name = name\<rparr> None,
                         case cch of None \<Rightarrow> None | Some m \<Rightarrow> Some (map_put i name m))))))"

text \<open>
  The paginator of the SDK asks for the next page while there is a token. An empty page is skipped,
  an answer is given for the first parent of the first page that has one.
\<close>

partial_function (option) getOUInfoForAccount ::
  "'tok organizations_api \<Rightarrow> (string \<times> string) list option \<Rightarrow> string \<Rightarrow> 'tok option \<Rightarrow>
     (ou_outcome \<times> (string \<times> string) list option) option" where
  "getOUInfoForAccount client cch acct token =
     (case o_ListParents client acct token of
        Inl err \<Rightarrow> Some (OUReturns no_unit (Some err), cch)
      | Inr o' \<Rightarrow>
          (case items o' of
             [] \<Rightarrow>
               (case NextToken o' of
                  None \<Rightarrow> Some (OUReturns no_unit (Some (Errorf ''empty response'')), cch)
                | Some t \<Rightarrow> getOUInfoForAccount client cch acct (Some t))
           | parent # _ \<Rightarrow>
               Some (if p_Type parent = ''ROOT''
                     then (case p_Id parent of
                             None \<Rightarrow> (OUPanics, cch)
                           | Some i \<Rightarrow> (OUReturns \<lparr>ou_id = i, ou_name = ''Root''\<rparr> None, cch))
                     else describeOU client cch (p_Id parent))))"

declare getOUInfoForAccount.simps [code]

text \<open>The loop over the accounts of a page. \<open>Inl\<close> is a panic.\<close>

fun page_accounts ::
  "'tok organizations_api \<Rightarrow> sdk_account list \<Rightarrow> (string \<times> string) list option \<Rightarrow> identity list \<Rightarrow>
     (unit + identity list \<times> (string \<times> string) list option) option" where
  "page_accounts client [] cch accounts = Some (Inr (accounts, cch))"
| "page_accounts client (account # as) cch accounts =
     (if a_Status account \<noteq> ''ACTIVE'' \<or> a_Id account = None then page_accounts client as cch accounts
      else case getOUInfoForAccount client cch (the (a_Id account)) None of
             None \<Rightarrow> None
           | Some (OUPanics, cch') \<Rightarrow> Some (Inl ())
           | Some (OUReturns organization err, cch') \<Rightarrow>
               page_accounts client as cch'
                 (accounts @ [\<lparr>Provider = ''aws'', Account = the (a_Id account),
                               AccountAlias = Dereference (a_Name account),
                               OrganizationId = ou_id organization,
                               OrganizationName = ou_name organization\<rparr>]))"

partial_function (option) list_account_pages ::
  "'tok organizations_api \<Rightarrow> 'tok option \<Rightarrow> (string \<times> string) list option \<Rightarrow> identity list \<Rightarrow>
     (unit + identity list result) option" where
  "list_account_pages client token cch accounts =
     (case o_ListAccounts client token of
        Inl err \<Rightarrow> Some (Inr (Inl err))
      | Inr o' \<Rightarrow>
          (case page_accounts client (items o') cch accounts of
             None \<Rightarrow> None
           | Some (Inl u) \<Rightarrow> Some (Inl u)
           | Some (Inr (accounts', cch')) \<Rightarrow>
               (case NextToken o' of
                  None \<Rightarrow> Some (Inr (Inr accounts'))
                | Some t \<Rightarrow> list_account_pages client (Some t) cch' accounts')))"

declare list_account_pages.simps [code]

definition listAccounts :: "'tok organizations_api \<Rightarrow> (unit + identity list result) option" where
  "listAccounts client = list_account_pages client None (Some []) []"

text \<open>
  The reference: the unit of an account without any cache. \<open>parent_of\<close> is the first parent of the
  pages that the paginator goes through, \<open>None\<close> when the pages are all empty.
\<close>

definition unit_of :: "'tok organizations_api \<Rightarrow> sdk_parent option \<Rightarrow> organizational_unit_info" where
  "unit_of client parent =
     (case parent of
        None \<Rightarrow> no_unit
      | Some p \<Rightarrow>
          (case p_Id p of
             None \<Rightarrow> no_unit
           | Some i \<Rightarrow>
               if p_Type p = ''ROOT'' then \<lparr>ou_id = i, ou_name = ''Root''\<rparr>
               else \<lparr>ou_id = i, ou_name = (case o_DescribeOrganizationalUnit client i of
                                              Inl _ \<Rightarrow> [] | Inr n \<Rightarrow> Dereference n)\<rparr>))"

text \<open>The names in the cache are those that the service answers.\<close>

definition cache_true :: "'tok organizations_api \<Rightarrow> (string \<times> string) list \<Rightarrow> bool" where
  "cache_true client m \<longleftrightarrow>
     (\<forall>i name. map_of m i = Some name \<longrightarrow>
        (\<exists>n. o_DescribeOrganizationalUnit client i = Inr n \<and> Dereference n = name))"

lemma describeOU_true:
  assumes "cache_true client m" and "p_Type p \<noteq> ''ROOT''"
  shows "\<exists>err m'. describeOU client (Some m) (p_Id p) = (OUReturns (unit_of client (Some p)) err, Some m') \<and>
    cache_true client m'"
proof (cases "p_Id p")
  case None
  then show ?thesis using assms by (simp add: describeOU_def unit_of_def)
next
  case (Some i)
  show ?thesis
  proof (cases "map_of m i")
    case (Some name)
    then show ?thesis using assms \<open>p_Id p = Some i\<close>
      by (fastforce simp: describeOU_def unit_of_def cache_true_def)
  next
    case None
    then show ?thesis using assms Some
      by (auto simp: describeOU_def unit_of_def cache_true_def Let_def split: sum.splits)
  qed
qed

text \<open>
  The pages of parents that the paginator reads for an account: pages without parents and with a token,
  and then a page with a parent, a page without a token or an error. \<open>r\<close> is the first parent.
\<close>

fun parent_walk ::
  "('tok, sdk_parent) page_api \<Rightarrow> 'tok option \<Rightarrow> ('tok, sdk_parent) page list \<Rightarrow> sdk_parent option \<Rightarrow> bool" where
  "parent_walk call token [] r = ((\<exists>err. call token = Inl err) \<and> r = None)"
| "parent_walk call token (p # ps) r =
     (call token = Inr p \<and>
      (case items p of
         q # _ \<Rightarrow> ps = [] \<and> r = Some q
       | [] \<Rightarrow> (case NextToken p of
                  None \<Rightarrow> ps = [] \<and> r = None
                | Some t \<Rightarrow> parent_walk call (Some t) ps r)))"

definition rooted :: "sdk_parent option \<Rightarrow> bool" where
  "rooted r \<longleftrightarrow> (\<forall>p. r = Some p \<and> p_Type p = ''ROOT'' \<longrightarrow> p_Id p \<noteq> None)"

lemma getOUInfoForAccount_true:
  assumes "parent_walk (o_ListParents client a) token ps r" and "rooted r" and "cache_true client m"
  shows "\<exists>err m'. getOUInfoForAccount client (Some m) a token =
    Some (OUReturns (unit_of client r) err, Some m') \<and> cache_true client m'"
  using assms(1)
proof (induction ps arbitrary: token)
  case Nil
  then show ?case using assms(3)
    by (subst getOUInfoForAccount.simps) (auto simp: unit_of_def)
next
  case (Cons p ps)
  note walk = Cons.prems
  show ?case
  proof (cases "items p = []")
    case True
    then show ?thesis using Cons assms(3)
      by (subst getOUInfoForAccount.simps) (auto simp: unit_of_def split: option.splits)
  next
    case False
    then obtain q qs where q: "items p = q # qs" by (cases "items p") auto
    then have step: "getOUInfoForAccount client (Some m) a token = Some
        (if p_Type q = ''ROOT'' then (case p_Id q of None \<Rightarrow> (OUPanics, Some m)
           | Some i \<Rightarrow> (OUReturns \<lparr>ou_id = i, ou_name = ''Root''\<rparr> None, Some m))
         else describeOU client (Some m) (p_Id q))"
      using walk by (subst getOUInfoForAccount.simps) (simp add: q)
    have r: "r = Some q" using walk q by simp
    show ?thesis
    proof (cases "p_Type q = ''ROOT''")
      case True
      then show ?thesis using step r assms(2,3) by (auto simp: rooted_def unit_of_def)
    next
      case False
      then show ?thesis using step r describeOU_true [OF assms(3) False] by auto
    qed
  qed
qed

definition is_active :: "sdk_account \<Rightarrow> bool" where
  "is_active a \<longleftrightarrow> a_Status a = ''ACTIVE'' \<and> a_Id a \<noteq> None"

definition identity_of ::
  "'tok organizations_api \<Rightarrow> (string \<Rightarrow> sdk_parent option) \<Rightarrow> sdk_account \<Rightarrow> identity" where
  "identity_of client parent a =
     (let u = unit_of client (parent (the (a_Id a)))
      in \<lparr>Provider = ''aws'', Account = the (a_Id a), AccountAlias = Dereference (a_Name a),
          OrganizationId = ou_id u, OrganizationName = ou_name u\<rparr>)"

text \<open>What the service answers for the parents of the active accounts of a list.\<close>

definition parents_end ::
  "'tok organizations_api \<Rightarrow> (string \<Rightarrow> sdk_parent option) \<Rightarrow> sdk_account list \<Rightarrow> bool" where
  "parents_end client parent as \<longleftrightarrow>
     (\<forall>a\<in>set (filter is_active as). rooted (parent (the (a_Id a))) \<and>
        (\<exists>ps. parent_walk (o_ListParents client (the (a_Id a))) None ps (parent (the (a_Id a)))))"

lemma page_accounts_true:
  assumes "parents_end client parent as" and "cache_true client m"
  shows "\<exists>m'. page_accounts client as (Some m) acc =
    Some (Inr (acc @ map (identity_of client parent) (filter is_active as), Some m')) \<and> cache_true client m'"
  using assms
proof (induction as arbitrary: m acc)
  case (Cons a as)
  then have rest: "parents_end client parent as" by (simp add: parents_end_def)
  show ?case
  proof (cases "is_active a")
    case True
    then obtain ps where "rooted (parent (the (a_Id a)))"
        "parent_walk (o_ListParents client (the (a_Id a))) None ps (parent (the (a_Id a)))"
      using Cons.prems(1) by (auto simp: parents_end_def)
    then obtain err m1 where "getOUInfoForAccount client (Some m) (the (a_Id a)) None =
        Some (OUReturns (unit_of client (parent (the (a_Id a)))) err, Some m1)" "cache_true client m1"
      using getOUInfoForAccount_true Cons.prems(2) by blast
    then have "page_accounts client (a # as) (Some m) acc =
        page_accounts client as (Some m1) (acc @ [identity_of client parent a])"
      using True by (auto simp: is_active_def identity_of_def Let_def)
    then show ?thesis
      using Cons.IH [OF rest \<open>cache_true client m1\<close>, of "acc @ [identity_of client parent a]"] True
      by (simp del: page_accounts.simps)
  next
    case False
    then show ?thesis using Cons.IH [OF rest Cons.prems(2)] by (auto simp: is_active_def)
  qed
qed simp

lemma list_account_pages_true:
  assumes "page_chain (o_ListAccounts client) token ps" and "parents_end client parent (concat (map items ps))"
    and "cache_true client m"
  shows "list_account_pages client token (Some m) acc =
    Some (Inr (Inr (acc @ map (identity_of client parent) (filter is_active (concat (map items ps))))))"
  using assms
proof (induction "o_ListAccounts client" token ps arbitrary: m acc rule: page_chain.induct)
  case (2 token p)
  then show ?case using page_accounts_true [of client parent "items p" m acc]
    by (subst list_account_pages.simps) auto
next
  case (3 token p q ps)
  then obtain t where t: "NextToken p = Some t" by auto
  have "parents_end client parent (items p)" "parents_end client parent (concat (map items (q # ps)))"
    using 3(3) by (auto simp: parents_end_def)
  then obtain m1 where "page_accounts client (items p) (Some m) acc =
      Some (Inr (acc @ map (identity_of client parent) (filter is_active (items p)), Some m1))"
      "cache_true client m1" using page_accounts_true 3(4) by blast
  then show ?case using 3 t \<open>parents_end client parent (concat (map items (q # ps)))\<close>
    by (subst list_account_pages.simps) simp
qed simp

section \<open>Properties of the organization\<close>

text \<open>
  C37. The list of the accounts of an organization is complete, and the cache of the names of the units
  does not show: when the pages of the accounts and those of the parents of each active account end,
  there is one identity for each active account with an id, in the order of the pages, with the
  unit that the service would answer for it without a cache, also where the unit cannot be had.
\<close>

theorem listAccounts_complete:
  assumes "page_chain (o_ListAccounts client) None ps"
    and "parents_end client parent (concat (map items ps))"
  shows "listAccounts client =
    Some (Inr (Inr (map (identity_of client parent) (filter is_active (concat (map items ps))))))"
  using list_account_pages_true [OF assms, of "[]" "[]"] by (simp add: listAccounts_def cache_true_def)

definition sample_account :: "string \<Rightarrow> string \<Rightarrow> sdk_account" where
  "sample_account i st = \<lparr>a_Id = Some i, a_Name = Some (''name-'' @ i), a_Status = st\<rparr>"

definition sample_parent :: "string \<Rightarrow> sdk_parent option" where
  "sample_parent i =
     (if i = ''1'' then Some \<lparr>p_Id = Some ''r-1'', p_Type = ''ROOT''\<rparr>
      else Some \<lparr>p_Id = Some ''ou-1'', p_Type = ''ORGANIZATIONAL_UNIT''\<rparr>)"

definition sample_organization :: "nat organizations_api" where
  "sample_organization =
     \<lparr>o_ListAccounts = (\<lambda>t. case t of
          None \<Rightarrow> Inr \<lparr>items = [sample_account ''1'' ''ACTIVE'', sample_account ''2'' ''SUSPENDED''], NextToken = Some 1\<rparr>
        | Some _ \<Rightarrow> Inr \<lparr>items = [sample_account ''3'' ''ACTIVE'', sample_account ''4'' ''ACTIVE''], NextToken = None\<rparr>),
      o_ListParents = (\<lambda>i t. if t = None then Inr \<lparr>items = [], NextToken = Some 1\<rparr>
                            else Inr \<lparr>items = [the (sample_parent i)], NextToken = None\<rparr>),
      o_DescribeOrganizationalUnit = (\<lambda>i. Inr (Some ''Dev''))\<rparr>"

definition sample_identity :: "string \<Rightarrow> string \<Rightarrow> string \<Rightarrow> identity" where
  "sample_identity i ou n =
     \<lparr>Provider = ''aws'', Account = i, AccountAlias = ''name-'' @ i, OrganizationId = ou, OrganizationName = n\<rparr>"

lemma listAccounts_complete_witness:
  "listAccounts sample_organization =
     Some (Inr (Inr [sample_identity ''1'' ''r-1'' ''Root'', sample_identity ''3'' ''ou-1'' ''Dev'',
                     sample_identity ''4'' ''ou-1'' ''Dev'']))"
proof -
  let ?ps = "[\<lparr>items = [sample_account ''1'' ''ACTIVE'', sample_account ''2'' ''SUSPENDED''], NextToken = Some 1\<rparr>,
    \<lparr>items = [sample_account ''3'' ''ACTIVE'', sample_account ''4'' ''ACTIVE''], NextToken = None\<rparr>] :: (nat, sdk_account) page list"
  have walk: "parent_walk (o_ListParents sample_organization i) None
      [\<lparr>items = [], NextToken = Some 1\<rparr>, \<lparr>items = [the (sample_parent i)], NextToken = None\<rparr>] (sample_parent i)" for i
    by (simp add: sample_organization_def sample_parent_def)
  have "parents_end sample_organization sample_parent (concat (map items ?ps))"
    unfolding parents_end_def by (intro ballI conjI exI, simp add: rooted_def sample_parent_def, rule walk)
  moreover have "page_chain (o_ListAccounts sample_organization) None ?ps" by (simp add: sample_organization_def)
  ultimately have "listAccounts sample_organization = Some (Inr (Inr
      (map (identity_of sample_organization sample_parent) (filter is_active (concat (map items ?ps))))))"
    by (rule listAccounts_complete [rotated])
  moreover have "o_DescribeOrganizationalUnit sample_organization i = Inr (Some ''Dev'')" for i
    by (simp add: sample_organization_def)
  ultimately show ?thesis
    by (simp add: sample_account_def sample_parent_def sample_identity_def identity_of_def is_active_def
        unit_of_def Dereference_def Let_def)
qed

section \<open>The name of an EKS cluster\<close>

text \<open>Instances and groups with the fields that the search reads; a tag is its key and its value.\<close>

type_synonym sdk_tags = "(string \<times> string) list"

record scaling_group =
  g_Instances :: "string list"
  g_Tags :: sdk_tags

record 'tok eks_api =
  e_DescribeInstances :: "string list \<Rightarrow> ('tok, (string \<times> sdk_tags) list) page_api"
  e_DescribeAutoScalingGroups :: "('tok, scaling_group) page_api"

definition clusterNameTag :: string where
  "clusterNameTag = ''eks:cluster-name''"

definition numberOfAutoScalingGroups :: nat where
  "numberOfAutoScalingGroups = 100"

definition numberOfIterationsInEachAutoScalingGroup :: nat where
  "numberOfIterationsInEachAutoScalingGroup = 100"

text \<open>
  The submatch of \<open>^kubernetes.io/cluster/(.*)$\<close>: the dot in the name stands for any character but a
  newline, and so does every character of the rest.
\<close>

definition asg_submatch :: "string \<Rightarrow> string option" where
  "asg_submatch s =
     (if has_prefix s ''kubernetes'' \<and> 10 < length s \<and> s ! 10 \<noteq> CHR 0x0A \<and>
         has_prefix (List.drop 11 s) ''io/cluster/'' \<and> CHR 0x0A \<notin> set (List.drop 22 s)
      then Some (List.drop 22 s) else None)"

fun cluster_tag :: "sdk_tags \<Rightarrow> string option" where
  "cluster_tag [] = None"
| "cluster_tag ((key, val) # tags) = (if key = clusterNameTag then Some val else cluster_tag tags)"

fun search_instances :: "string \<Rightarrow> (string \<times> sdk_tags) list \<Rightarrow> string option" where
  "search_instances iid [] = None"
| "search_instances iid ((i, tags) # instances) =
     (if i = iid then (case cluster_tag tags of Some v \<Rightarrow> Some v | None \<Rightarrow> search_instances iid instances)
      else search_instances iid instances)"

fun search_reservations :: "string \<Rightarrow> (string \<times> sdk_tags) list list \<Rightarrow> string option" where
  "search_reservations iid [] = None"
| "search_reservations iid (r # rs) =
     (case search_instances iid r of Some v \<Rightarrow> Some v | None \<Rightarrow> search_reservations iid rs)"

text \<open>The loop over the pages that both searches share; \<open>found\<close> is what a page gives.\<close>

partial_function (option) search_pages ::
  "('tok, 'a) page_api \<Rightarrow> ('a list \<Rightarrow> string option) \<Rightarrow> 'tok option \<Rightarrow> string option result option" where
  "search_pages call found token =
     (case call token of
        Inl err \<Rightarrow> Some (Inl err)
      | Inr r \<Rightarrow>
          (case found (items r) of
             Some name \<Rightarrow> Some (Inr (Some name))
           | None \<Rightarrow>
               (case NextToken r of
                  None \<Rightarrow> Some (Inr None)
                | Some t \<Rightarrow> search_pages call found (Some t))))"

declare search_pages.simps [code]

definition getClusterNameFromInstanceTags :: "'tok eks_api \<Rightarrow> string \<Rightarrow> string result option" where
  "getClusterNameFromInstanceTags api iid =
     (case search_pages (e_DescribeInstances api [iid]) (search_reservations iid) None of
        None \<Rightarrow> None
      | Some (Inl err) \<Rightarrow>
          Some (Inl (Errorf (''failed to describe instance required for cluster name detection: '' @ error_text err)))
      | Some (Inr (Some name)) \<Rightarrow> Some (Inr name)
      | Some (Inr None) \<Rightarrow> Some (Inr []))"

fun owned_tag :: "sdk_tags \<Rightarrow> string option" where
  "owned_tag [] = None"
| "owned_tag ((key, val) # tags) =
     (if val = ''owned'' \<and> asg_submatch key \<noteq> None then asg_submatch key else owned_tag tags)"

fun search_group_instances :: "string \<Rightarrow> sdk_tags \<Rightarrow> nat \<Rightarrow> string list \<Rightarrow> string option" where
  "search_group_instances iid tags n [] = None"
| "search_group_instances iid tags n (i # is) =
     (if n > numberOfIterationsInEachAutoScalingGroup then None
      else if i = iid then (case owned_tag tags of
                              Some name \<Rightarrow> Some name
                            | None \<Rightarrow> search_group_instances iid tags (Suc n) is)
      else search_group_instances iid tags (Suc n) is)"

fun search_groups :: "string \<Rightarrow> nat \<Rightarrow> scaling_group list \<Rightarrow> string option" where
  "search_groups iid n [] = None"
| "search_groups iid n (g # gs) =
     (if n > numberOfAutoScalingGroups then None
      else case search_group_instances iid (g_Tags g) 0 (g_Instances g) of
             Some name \<Rightarrow> Some name
           | None \<Rightarrow> search_groups iid (Suc n) gs)"

definition getClusterNameFromAutoscalingGroup :: "'tok eks_api \<Rightarrow> string \<Rightarrow> string result option" where
  "getClusterNameFromAutoscalingGroup api iid =
     (case search_pages (e_DescribeAutoScalingGroups api) (search_groups iid 0) None of
        None \<Rightarrow> None
      | Some (Inl err) \<Rightarrow> Some (Inl err)
      | Some (Inr (Some name)) \<Rightarrow> Some (Inr name)
      | Some (Inr None) \<Rightarrow> Some (Inl (Errorf ''cluster name not found from autoscaling groups'')))"

definition GetClusterName :: "'tok eks_api \<Rightarrow> string \<Rightarrow> string result option" where
  "GetClusterName api iid =
     (case getClusterNameFromInstanceTags api iid of
        None \<Rightarrow> None
      | Some (Inl err) \<Rightarrow>
          Some (Inl (Errorf (''failed to get cluster name from the instance tags: '' @ error_text err)))
      | Some (Inr clusterName) \<Rightarrow>
          if clusterName \<noteq> [] then Some (Inr clusterName)
          else (case getClusterNameFromAutoscalingGroup api iid of
                  None \<Rightarrow> None
                | Some (Inl err) \<Rightarrow>
                    Some (Inl (Errorf (''failed to get cluster name from the Auto-scaling group: '' @ error_text err)))
                | Some (Inr name) \<Rightarrow> Some (Inr name)))"

text \<open>The searches as the first hit of a list.\<close>

definition names_of_instances :: "string \<Rightarrow> (string \<times> sdk_tags) list \<Rightarrow> string list" where
  "names_of_instances iid instances =
     [val. (i, tags) \<leftarrow> instances, i = iid, (key, val) \<leftarrow> tags, key = clusterNameTag]"

definition names_of_group :: "string \<Rightarrow> scaling_group \<Rightarrow> string list" where
  "names_of_group iid g =
     [name. i \<leftarrow> take 101 (g_Instances g), i = iid, (key, val) \<leftarrow> g_Tags g,
            val = ''owned'', name \<leftarrow> (case asg_submatch key of None \<Rightarrow> [] | Some n \<Rightarrow> [n])]"

definition names_of_groups :: "string \<Rightarrow> scaling_group list \<Rightarrow> string list" where
  "names_of_groups iid groups = concat (map (names_of_group iid) (take 101 groups))"

definition first_of :: "'a list \<Rightarrow> 'a option" where
  "first_of xs = (case xs of [] \<Rightarrow> None | x # _ \<Rightarrow> Some x)"

lemma first_of_append [simp]:
  "first_of [] = None" "first_of (x # xs) = Some x"
  "first_of (xs @ ys) = (case first_of xs of None \<Rightarrow> first_of ys | Some x \<Rightarrow> Some x)"
  by (auto simp: first_of_def split: list.splits)

lemma search_reservations_first: "search_reservations iid rs = first_of (names_of_instances iid (concat rs))"
proof -
  have tag: "cluster_tag tags = first_of [val. (key, val) \<leftarrow> tags, key = clusterNameTag]" for tags
    by (induction tags) auto
  have "search_instances iid is = first_of (names_of_instances iid is)" for "is"
    by (induction "is") (auto simp: names_of_instances_def tag split: option.splits if_splits)
  then show ?thesis
    by (induction rs) (auto simp: names_of_instances_def split: option.splits)
qed

lemma owned_tag_first:
  "owned_tag tags = first_of [name. (key, val) \<leftarrow> tags, val = ''owned'',
     name \<leftarrow> (case asg_submatch key of None \<Rightarrow> [] | Some n \<Rightarrow> [n])]"
  by (induction tags) (auto split: option.splits if_splits)

text \<open>The loops stop after the index 100, that is after 101 groups or instances.\<close>

lemma search_group_instances_first:
  "search_group_instances iid tags n is =
     first_of (concat (map (\<lambda>i. if i = iid then [name. (key, val) \<leftarrow> tags, val = ''owned'',
       name \<leftarrow> (case asg_submatch key of None \<Rightarrow> [] | Some n \<Rightarrow> [n])] else []) (take (101 - n) is)))"
proof (induction "is" arbitrary: n)
  case (Cons i "is")
  then show ?case
  proof (cases "n > 100")
    case False
    then have "101 - n = Suc (101 - Suc n)" by simp
    then show ?thesis using False Cons
      by (auto simp: numberOfIterationsInEachAutoScalingGroup_def owned_tag_first split: option.splits)
  qed (simp add: numberOfIterationsInEachAutoScalingGroup_def)
qed simp

lemma search_group_first: "search_group_instances iid (g_Tags g) 0 (g_Instances g) = first_of (names_of_group iid g)"
  by (simp add: search_group_instances_first names_of_group_def)

lemma search_groups_first: "search_groups iid n gs = first_of (concat (map (names_of_group iid) (take (101 - n) gs)))"
proof (induction gs arbitrary: n)
  case (Cons g gs)
  then show ?case
  proof (cases "n > 100")
    case False
    then have "101 - n = Suc (101 - Suc n)" by simp
    then show ?thesis using False Cons [of "Suc n"]
      by (simp add: numberOfAutoScalingGroups_def search_group_first split: option.splits)
  qed (simp add: numberOfAutoScalingGroups_def)
qed simp

lemma search_pages_first:
  assumes "\<And>xs. found xs = first_of (h xs)" and "page_chain call token ps"
  shows "search_pages call found token = Some (Inr (first_of (concat (map (\<lambda>p. h (items p)) ps))))"
proof -
  have "found = (\<lambda>xs. first_of (h xs))" using assms(1) by auto
  then show ?thesis using assms(2)
  proof (induction call token ps rule: page_chain.induct)
    case (2 call token p)
    then show ?case by (subst search_pages.simps) (simp split: option.splits)
  next
    case (3 call token p q ps)
    then obtain t where "NextToken p = Some t" by auto
    then show ?case using 3 by (subst search_pages.simps) (auto split: option.splits)
  qed simp
qed

section \<open>The name of the cluster\<close>

text \<open>
  The name of an EKS cluster: when the pages of both services end, the name is the value of the first
  cluster tag of the instance, or, where there is none or it is empty, the name in the first owned
  tag among the groups that hold the instance, searched in the first 101 groups of each page and
  the first 101 instances of a group (one more than the limits of 100 say), or an error.
\<close>

lemma GetClusterName_searches:
  assumes "page_chain (e_DescribeInstances api [iid]) None ps"
    and "page_chain (e_DescribeAutoScalingGroups api) None gs"
  shows "GetClusterName api iid = Some
    (case first_of (names_of_instances iid (concat (concat (map items ps)))) of
       Some (c # cs) \<Rightarrow> Inr (c # cs)
     | _ \<Rightarrow> (case first_of (concat (map (\<lambda>p. names_of_groups iid (items p)) gs)) of
               Some name \<Rightarrow> Inr name
             | None \<Rightarrow> Inl (Errorf (''failed to get cluster name from the Auto-scaling group: '' @
                                 ''cluster name not found from autoscaling groups''))))"
proof -
  have "names_of_instances iid (concat (concat (map items ps))) =
      concat (map (\<lambda>p. names_of_instances iid (concat (items p))) ps)"
    by (induction ps) (simp_all add: names_of_instances_def)
  moreover have "search_groups iid 0 xs = first_of (names_of_groups iid xs)" for xs
    by (simp add: search_groups_first names_of_groups_def)
  ultimately show ?thesis
    using search_pages_first [where found = "search_reservations iid", OF search_reservations_first assms(1)]
      search_pages_first [where found = "search_groups iid 0", OF _ assms(2)]
    by (auto simp: GetClusterName_def getClusterNameFromInstanceTags_def getClusterNameFromAutoscalingGroup_def
        split: option.splits list.splits)
qed

definition sample_eks :: "string \<Rightarrow> nat eks_api" where
  "sample_eks tag =
     \<lparr>e_DescribeInstances = (\<lambda>is t. Inr \<lparr>items = [[(''i-1'', [(''eks:cluster-name'', tag)])]], NextToken = None\<rparr>),
      e_DescribeAutoScalingGroups = (\<lambda>t. Inr \<lparr>items =
        [\<lparr>g_Instances = [''i-2''], g_Tags = [(''kubernetes.io/cluster/other'', ''owned'')]\<rparr>,
         \<lparr>g_Instances = [''i-1''], g_Tags = [(''Name'', ''x''), (''kubernetes.io/cluster/prod'', ''owned'')]\<rparr>],
        NextToken = None\<rparr>)\<rparr>"

lemma GetClusterName_searches_witness:
  "GetClusterName (sample_eks ''dev'') ''i-1'' = Some (Inr ''dev'') \<and>
   GetClusterName (sample_eks []) ''i-1'' = Some (Inr ''prod'')"
proof -
  let ?ps = "\<lambda>tag. [\<lparr>items = [[(''i-1'', [(''eks:cluster-name'', tag)])]], NextToken = None\<rparr>]
    :: (nat, (string \<times> sdk_tags) list) page list"
  let ?gs = "[\<lparr>items = [\<lparr>g_Instances = [''i-2''], g_Tags = [(''kubernetes.io/cluster/other'', ''owned'')]\<rparr>,
         \<lparr>g_Instances = [''i-1''], g_Tags = [(''Name'', ''x''), (''kubernetes.io/cluster/prod'', ''owned'')]\<rparr>],
        NextToken = None\<rparr>] :: (nat, scaling_group) page list"
  have pages: "page_chain (e_DescribeInstances (sample_eks tag) [''i-1'']) None (?ps tag)"
    "page_chain (e_DescribeAutoScalingGroups (sample_eks tag)) None ?gs" for tag
    by (simp_all add: sample_eks_def)
  show ?thesis using GetClusterName_searches [OF pages, of "''dev''"] GetClusterName_searches [OF pages, of "[]"]
    by (simp add: names_of_instances_def names_of_groups_def names_of_group_def clusterNameTag_def asg_submatch_def has_prefix_def)
qed

end
