(* ===== verification/AWS_Storage.thy ===== *)
theory AWS_Storage
  imports EC2_Model
begin

text \<open>
  The providers of \<open>resources/providers/awslib\<close> for S3, KMS, RDS, ELB and ECR. The clients of the SDK
  are records of their calls, one for each region. \<open>None\<close> as the answer of an operation that pages or
  that uses the client of the default region stands for a loop that does not end or for the panic of
  a call on the nil client, as its text says. \<open>'d\<close> is the value behind the interface \<open>AwsResource\<close>.
\<close>

record 'd aws_resource =
  GetResourceArn :: string
  GetResourceName :: string
  GetResourceType :: string
  GetRegion :: string
  resource_value :: 'd

abbreviation "DefaultRegion \<equiv> ''us-east-1''"
abbreviation "GlobalRegion \<equiv> ''global''"

section \<open>S3\<close>

definition EncryptionNotFoundCode :: string where
  "EncryptionNotFoundCode = ''ServerSideEncryptionConfigurationNotFoundError''"

definition PolicyNotFoundCode :: string where
  "PolicyNotFoundCode = ''NoSuchBucketPolicy''"

definition NoEncryptionMessage :: string where
  "NoEncryptionMessage = ''NoEncryption''"

definition NoPublicAccessBlockConfigurationCode :: string where
  "NoPublicAccessBlockConfigurationCode = ''NoSuchPublicAccessBlockConfiguration''"

text \<open>A policy is a Go map, \<open>None\<close> the nil map.\<close>

type_synonym bucket_policy = "(string \<times> any) list option"

record bucket_versioning =
  bv_Enabled :: bool
  MfaDelete :: bool

record bucket_logging =
  log_Enabled :: bool
  TargetBucket :: string

record bucket_description =
  b_Name :: string
  SSEAlgorithm :: "string option"
  BucketPolicy :: bucket_policy
  BucketVersioning :: "bucket_versioning option"
  PublicAccessBlockConfiguration :: "any option"
  AccountPublicAccessBlockConfiguration :: "any option"
  b_region :: string

text \<open>
  The encryption answer is the list of the algorithms of its rules, the versioning answer its status
  and its MFA status, the logging answer the target bucket if logging is enabled.
\<close>

record s3_client =
  s3_ListBuckets :: "string list result"
  s3_GetBucketEncryption :: "string \<Rightarrow> string list result"
  s3_GetBucketLocation :: "string \<Rightarrow> string result"
  s3_GetBucketPolicy :: "string \<Rightarrow> string result"
  s3_GetBucketVersioning :: "string \<Rightarrow> (string \<times> string) result"
  s3_GetBucketAcl :: "string \<Rightarrow> any result"
  s3_GetBucketLogging :: "string \<Rightarrow> string option result"
  s3_GetPublicAccessBlock :: "string \<Rightarrow> any option result"

text \<open>
  Besides the clients, the provider uses \<open>errors.As\<close> with the API error of the SDK, here the code of
  an error if it is one, and \<open>json.Unmarshal\<close> into a map, which answers the map also where it fails.
\<close>

record s3_provider =
  s3_clients :: "s3_client clients"
  controlClient :: "string \<Rightarrow> any option result"
  s3_accountId :: string
  ErrorCode :: "go_error \<Rightarrow> string option"
  Unmarshal :: "string \<Rightarrow> bucket_policy result"

definition s3_NewProvider ::
  "string list result \<Rightarrow> string \<Rightarrow> (string \<Rightarrow> s3_client) \<Rightarrow> (string \<Rightarrow> any option result) \<Rightarrow> string \<Rightarrow>
     (go_error \<Rightarrow> string option) \<Rightarrow> (string \<Rightarrow> bucket_policy result) \<Rightarrow> s3_provider" where
  "s3_NewProvider selected cfgRegion factory control account code unmarshal =
     \<lparr>s3_clients = NewMultiRegionClients selected cfgRegion factory, controlClient = control,
      s3_accountId = account, ErrorCode = code, Unmarshal = unmarshal\<rparr>"

definition GetBucketACL :: "s3_provider \<Rightarrow> string \<Rightarrow> string \<Rightarrow> any result" where
  "GetBucketACL p bucketName region =
     (case GetRegionClient (Some region) (s3_clients p) of
        Inl err \<Rightarrow> Inl err
      | Inr client \<Rightarrow> (case s3_GetBucketAcl client bucketName of Inl err \<Rightarrow> Inl err | Inr acl \<Rightarrow> Inr acl))"

definition GetBucketPolicy :: "s3_provider \<Rightarrow> string \<Rightarrow> string \<Rightarrow> bucket_policy \<times> go_error option" where
  "GetBucketPolicy p bucketName region =
     (case GetRegionClient (Some region) (s3_clients p) of
        Inl err \<Rightarrow> (None, Some err)
      | Inr client \<Rightarrow>
          (case s3_GetBucketPolicy client bucketName of
             Inl err \<Rightarrow>
               if ErrorCode p err = Some PolicyNotFoundCode then (Some [], None) else (None, Some err)
           | Inr rawPolicy \<Rightarrow>
               (case Unmarshal p rawPolicy of
                  Inl jsonErr \<Rightarrow> (Some [], Some jsonErr)
                | Inr bucketPolicy \<Rightarrow> (bucketPolicy, None))))"

definition GetBucketLogging :: "s3_provider \<Rightarrow> string \<Rightarrow> string \<Rightarrow> bucket_logging \<times> go_error option" where
  "GetBucketLogging p bucketName region =
     (let zero = \<lparr>log_Enabled = False, TargetBucket = []\<rparr> in
      case GetRegionClient (Some region) (s3_clients p) of
        Inl err \<Rightarrow> (zero, Some err)
      | Inr client \<Rightarrow>
          (case s3_GetBucketLogging client bucketName of
             Inl err \<Rightarrow> (zero, Some err)
           | Inr LoggingEnabled \<Rightarrow>
               (case LoggingEnabled of
                  None \<Rightarrow> (zero, None)
                | Some target \<Rightarrow> (\<lparr>log_Enabled = True, TargetBucket = target\<rparr>, None))))"

definition getBucketEncryptionAlgorithm :: "s3_provider \<Rightarrow> string \<Rightarrow> string \<Rightarrow> string option \<times> go_error option" where
  "getBucketEncryptionAlgorithm p bucketName region =
     (case GetRegionClient (Some region) (s3_clients p) of
        Inl err \<Rightarrow> (None, Some err)
      | Inr client \<Rightarrow>
          (case s3_GetBucketEncryption client bucketName of
             Inl err \<Rightarrow>
               if ErrorCode p err = Some EncryptionNotFoundCode then (Some NoEncryptionMessage, None)
               else (None, Some err)
           | Inr rules \<Rightarrow>
               if length rules = 0 then (Some NoEncryptionMessage, None) else (Some (rules ! 0), None)))"

text \<open>A panic where there is no client for the default region.\<close>

definition getBucketRegion :: "s3_provider \<Rightarrow> string \<Rightarrow> string result option" where
  "getBucketRegion p bucketName =
     (case map_of (s3_clients p) DefaultRegion of
        None \<Rightarrow> None
      | Some client \<Rightarrow>
          (case s3_GetBucketLocation client bucketName of
             Inl err \<Rightarrow> Some (Inl err)
           | Inr region \<Rightarrow> Some (Inr (if region = [] then ''us-east-1'' else region))))"

definition getBucketVersioning :: "s3_provider \<Rightarrow> string \<Rightarrow> string \<Rightarrow> bucket_versioning result" where
  "getBucketVersioning p bucketName region =
     (case GetRegionClient (Some region) (s3_clients p) of
        Inl err \<Rightarrow> Inl err
      | Inr client \<Rightarrow>
          (case s3_GetBucketVersioning client bucketName of
             Inl err \<Rightarrow> Inl err
           | Inr (status, mfa) \<Rightarrow>
               Inr \<lparr>bv_Enabled = (status = ''Enabled''), MfaDelete = (mfa = ''Enabled'')\<rparr>))"

text \<open>A configuration that does not exist is \<open>Inr None\<close>, a nil pointer without an error.\<close>

definition getAccountPublicAccessBlock :: "s3_provider \<Rightarrow> any option result" where
  "getAccountPublicAccessBlock p =
     (case controlClient p (s3_accountId p) of
        Inl err \<Rightarrow> if ErrorCode p err = Some NoPublicAccessBlockConfigurationCode then Inr None else Inl err
      | Inr None \<Rightarrow> Inl (Errorf ''account public access block configuration is null'')
      | Inr (Some c) \<Rightarrow> Inr (Some c))"

definition getPublicAccessBlock :: "s3_provider \<Rightarrow> string \<Rightarrow> string \<Rightarrow> any option result" where
  "getPublicAccessBlock p bucketName region =
     (case GetRegionClient (Some region) (s3_clients p) of
        Inl err \<Rightarrow> Inl err
      | Inr client \<Rightarrow>
          (case s3_GetPublicAccessBlock client bucketName of
             Inl err \<Rightarrow> if ErrorCode p err = Some NoPublicAccessBlockConfigurationCode then Inr None else Inl err
           | Inr None \<Rightarrow> Inl (Errorf ''public access block configuration is null'')
           | Inr (Some c) \<Rightarrow> Inr (Some c)))"

text \<open>The map from a region to its buckets; a bucket without a region is left out.\<close>

fun getBucketsRegionMapping ::
  "s3_provider \<Rightarrow> string list \<Rightarrow> (string \<times> string list) list \<Rightarrow> (string \<times> string list) list option" where
  "getBucketsRegionMapping p [] m = Some m"
| "getBucketsRegionMapping p (clientBucket # buckets) m =
     (case getBucketRegion p clientBucket of
        None \<Rightarrow> None
      | Some (Inl regionErr) \<Rightarrow> getBucketsRegionMapping p buckets m
      | Some (Inr region) \<Rightarrow>
          getBucketsRegionMapping p buckets (map_append region clientBucket m))"

text \<open>The value of a call whose error is only logged: nil.\<close>

definition or_nil :: "'a option result \<Rightarrow> 'a option" where
  "or_nil r = (case r of Inl _ \<Rightarrow> None | Inr x \<Rightarrow> x)"

definition describe_bucket :: "s3_provider \<Rightarrow> any option \<Rightarrow> string \<Rightarrow> string \<Rightarrow> bucket_description" where
  "describe_bucket p accountPublicAccessBlockConfig region bucket =
     (let (sseAlgorithm, encryptionErr) = getBucketEncryptionAlgorithm p bucket region;
          (bucketPolicy, policyErr) = GetBucketPolicy p bucket region;
          bucketVersioning = getBucketVersioning p bucket region;
          publicAccessBlockConfiguration = getPublicAccessBlock p bucket region
      in \<lparr>b_Name = bucket, SSEAlgorithm = sseAlgorithm, BucketPolicy = bucketPolicy,
          BucketVersioning = (case bucketVersioning of Inl _ \<Rightarrow> None | Inr v \<Rightarrow> Some v),
          PublicAccessBlockConfiguration = or_nil publicAccessBlockConfiguration,
          AccountPublicAccessBlockConfiguration = accountPublicAccessBlockConfig, b_region = region\<rparr>)"

text \<open>
  \<open>ranged\<close> gives the order in which the loop ranges over the map. \<open>None\<close> is the panic of a provider
  without a client for the default region.
\<close>

definition DescribeBuckets ::
  "((string \<times> string list) list \<Rightarrow> (string \<times> string list) list) \<Rightarrow> s3_provider \<Rightarrow>
     bucket_description list result option" where
  "DescribeBuckets ranged p =
     (case map_of (s3_clients p) DefaultRegion of
        None \<Rightarrow> None
      | Some client \<Rightarrow>
          (case s3_ListBuckets client of
             Inl err \<Rightarrow> Some (Inl err)
           | Inr buckets \<Rightarrow>
               if length buckets = 0 then Some (Inr [])
               else (case getBucketsRegionMapping p buckets [] of
                       None \<Rightarrow> None
                     | Some m \<Rightarrow>
                         (let account = or_nil (getAccountPublicAccessBlock p)
                          in Some (Inr (concat (map (\<lambda>(region, bs'). map (describe_bucket p account region) bs')
                               (ranged m))))))))"

definition bucket_resource :: "bucket_description \<Rightarrow> bucket_description aws_resource" where
  "bucket_resource b =
     \<lparr>GetResourceArn = ''arn:aws:s3:::'' @ b_Name b, GetResourceName = b_Name b,
      GetResourceType = ''aws-s3'', GetRegion = b_region b, resource_value = b\<rparr>"

section \<open>Properties of S3\<close>

text \<open>What the service answers for the region of a bucket.\<close>

definition bucket_location :: "s3_client \<Rightarrow> string \<Rightarrow> string result" where
  "bucket_location client b =
     (case s3_GetBucketLocation client b of
        Inl err \<Rightarrow> Inl err
      | Inr r \<Rightarrow> Inr (if r = [] then ''us-east-1'' else r))"

lemma getBucketRegion_location:
  "map_of (s3_clients p) DefaultRegion = Some client \<Longrightarrow>
   getBucketRegion p b = Some (bucket_location client b)"
  by (simp add: getBucketRegion_def bucket_location_def split: sum.splits)

lemma getBucketsRegionMapping_groups:
  assumes "map_of (s3_clients p) DefaultRegion = Some client" and "distinct (map fst m)"
  shows "\<exists>m'. getBucketsRegionMapping p buckets m = Some m' \<and> distinct (map fst m') \<and>
    mset (concat (map (\<lambda>(region, bs'). map (f region) bs') m')) =
    mset (concat (map (\<lambda>(region, bs'). map (f region) bs') m)) +
    mset (oks (map (\<lambda>b. map_sum id (\<lambda>region. f region b) (bucket_location client b)) buckets))"
  using assms(2)
proof (induction buckets arbitrary: m)
  case (Cons b buckets)
  show ?case
  proof (cases "bucket_location client b")
    case (Inl err)
    then show ?thesis using Cons getBucketRegion_location [OF assms(1)] by simp
  next
    case (Inr region)
    then show ?thesis
      using Cons.IH [of "map_append region b m"] Cons.prems getBucketRegion_location [OF assms(1)]
      by (auto simp: mset_map_append)
  qed
qed simp

text \<open>
  The description of the buckets is complete: when the account has a client for the default region and
  the list of the buckets can be had, the call succeeds, and whatever the order in which Go
  ranges over the regions, it answers one description for each bucket whose location can be
  had, with what the calls in its region answer; their errors only leave parts of it empty.
\<close>

lemma DescribeBuckets_complete:
  assumes "map_of (s3_clients p) DefaultRegion = Some client" and "s3_ListBuckets client = Inr buckets"
    and "mset (ranged (the (getBucketsRegionMapping p buckets []))) = mset (the (getBucketsRegionMapping p buckets []))"
  shows "\<exists>ds. DescribeBuckets ranged p = Some (Inr ds) \<and>
    mset ds = mset (oks (map (\<lambda>b. map_sum id
      (\<lambda>region. describe_bucket p (or_nil (getAccountPublicAccessBlock p)) region b) (bucket_location client b)) buckets))"
proof (cases "buckets = []")
  case False
  let ?f = "describe_bucket p (or_nil (getAccountPublicAccessBlock p))"
  obtain m where m: "getBucketsRegionMapping p buckets [] = Some m"
    "mset (concat (map (\<lambda>(region, bs'). map (?f region) bs') m)) =
     mset (oks (map (\<lambda>b. map_sum id (\<lambda>region. ?f region b) (bucket_location client b)) buckets))"
    using getBucketsRegionMapping_groups [OF assms(1), of "[]" buckets ?f] by auto
  have "mset (concat (map g (ranged m))) = mset (concat (map g m))" for g :: "string \<times> string list \<Rightarrow> bucket_description list"
    using assms(3) m(1) by (metis mset_concat mset_map option.sel sum_mset_sum_list)
  then show ?thesis using assms(1,2) m False by (simp add: DescribeBuckets_def Let_def)
qed (use assms in \<open>simp add: DescribeBuckets_def\<close>)

definition sample_s3_client :: s3_client where
  "sample_s3_client =
     \<lparr>s3_ListBuckets = Inr [''a'', ''b'', ''c''], s3_GetBucketEncryption = (\<lambda>b. Inl (Errorf ''denied'')),
      s3_GetBucketLocation = (\<lambda>b. if b = ''b'' then Inl (Errorf ''denied'') else if b = ''c'' then Inr [] else Inr ''eu-west-1''),
      s3_GetBucketPolicy = (\<lambda>b. Inl (Errorf ''denied'')), s3_GetBucketVersioning = (\<lambda>b. Inr (''Enabled'', [])),
      s3_GetBucketAcl = (\<lambda>b. Inl (Errorf ''denied'')), s3_GetBucketLogging = (\<lambda>b. Inr None),
      s3_GetPublicAccessBlock = (\<lambda>b. Inr (Some VNil))\<rparr>"

definition sample_s3 :: s3_provider where
  "sample_s3 =
     \<lparr>s3_clients = [(''us-east-1'', sample_s3_client), (''eu-west-1'', sample_s3_client)],
      controlClient = (\<lambda>_. Inr (Some (VBool True))), s3_accountId = ''9'', ErrorCode = (\<lambda>_. None),
      Unmarshal = (\<lambda>_. Inr None)\<rparr>"

lemma DescribeBuckets_complete_witness:
  "\<exists>ds. DescribeBuckets rev sample_s3 = Some (Inr ds) \<and> mset (map b_Name ds) = {#''a'', ''c''#}"
proof -
  have client: "map_of (s3_clients sample_s3) DefaultRegion = Some sample_s3_client" by (simp add: sample_s3_def)
  have "s3_ListBuckets sample_s3_client = Inr [''a'', ''b'', ''c'']" by (simp add: sample_s3_client_def)
  from DescribeBuckets_complete [OF client this, of rev] obtain ds where ds:
    "DescribeBuckets rev sample_s3 = Some (Inr ds)"
    "mset ds = mset (oks (map (\<lambda>b. map_sum id
      (\<lambda>region. describe_bucket sample_s3 (or_nil (getAccountPublicAccessBlock sample_s3)) region b)
      (bucket_location sample_s3_client b)) [''a'', ''b'', ''c'']))" by auto
  have "b_Name (describe_bucket q c r b) = b" for q c r b
    by (simp add: describe_bucket_def Let_def case_prod_beta)
  then have "mset (map b_Name ds) = {#''a'', ''c''#}"
    unfolding mset_map ds(2) by (simp add: bucket_location_def sample_s3_client_def)
  with ds(1) show ?thesis by blast
qed

section \<open>KMS\<close>

record kms_key_metadata =
  km_Arn :: "string option"
  km_KeyId :: "string option"
  KeySpec :: string
  KeyUsage :: string
  ValidTo :: any
  CreationDate :: any

record kms_info =
  KeyMetadata :: kms_key_metadata
  KeyRotationEnabled :: bool
  kms_region :: string

text \<open>A page of keys carries the flag \<open>Truncated\<close> and \<open>NextMarker\<close>.\<close>

record 'tok kms_client =
  ListKeys :: "'tok option \<Rightarrow> ('tok, string) marker_page result"
  DescribeKey :: "string \<Rightarrow> kms_key_metadata result"
  GetKeyRotationStatus :: "string \<Rightarrow> bool result"

fun symmetric_keys :: "'tok kms_client \<Rightarrow> string \<Rightarrow> string list \<Rightarrow> kms_info list" where
  "symmetric_keys c region [] = []"
| "symmetric_keys c region (keyEntry # keys) =
     (case DescribeKey c keyEntry of
        Inl err \<Rightarrow> symmetric_keys c region keys
      | Inr keyInfo \<Rightarrow>
          if KeySpec keyInfo \<noteq> ''SYMMETRIC_DEFAULT'' then symmetric_keys c region keys
          else (case GetKeyRotationStatus c keyEntry of
                  Inl err \<Rightarrow> symmetric_keys c region keys
                | Inr rotation \<Rightarrow>
                    \<lparr>KeyMetadata = keyInfo, KeyRotationEnabled = rotation, kms_region = region\<rparr> #
                    symmetric_keys c region keys))"

text \<open>\<open>fetch_all\<close>: \<open>MultiRegionFetch\<close> of slices and \<open>lo.Flatten\<close>; \<open>None\<close> where a loop does not end.\<close>

definition fetch_all ::
  "'c clients \<Rightarrow> (string \<Rightarrow> 'c \<Rightarrow> ('k list \<times> go_error option) option) \<Rightarrow> ('k list \<times> go_error option) option" where
  "fetch_all cs fetcher =
     (if \<exists>(region, c) \<in> set cs. fetcher region c = None then None
      else let (xss, err) = MultiRegionFetch (\<lambda>_. False) (Some cs) (\<lambda>region c. the (fetcher region c))
           in Some (concat xss, err))"

definition NewKMSProvider :: "string list result \<Rightarrow> string \<Rightarrow> (string \<Rightarrow> 'tok kms_client) \<Rightarrow> 'tok kms_client clients" where
  "NewKMSProvider selected cfgRegion factory = NewMultiRegionClients selected cfgRegion factory"

definition DescribeSymmetricKeys :: "'tok kms_client clients \<Rightarrow> (kms_info list \<times> go_error option) option" where
  "DescribeSymmetricKeys cs = fetch_all cs (\<lambda>region c. region_pages (marker_api (ListKeys c)) (symmetric_keys c region))"

definition kms_resource :: "kms_info \<Rightarrow> kms_info aws_resource" where
  "kms_resource k =
     \<lparr>GetResourceArn = (case km_Arn (KeyMetadata k) of None \<Rightarrow> [] | Some a \<Rightarrow> a),
      GetResourceName = (case km_KeyId (KeyMetadata k) of None \<Rightarrow> [] | Some i \<Rightarrow> i),
      GetResourceType = ''aws-kms'', GetRegion = kms_region k, resource_value = k\<rparr>"

section \<open>RDS\<close>

record rds_route =
  DestinationCidrBlock :: "string option"
  GatewayId :: "string option"

record rds_route_table =
  rds_table_ID :: string
  Routes :: "rds_route list"

record rds_subnet =
  subnet_ID :: string
  RouteTable :: "rds_route_table option"

record db_instance =
  Identifier :: string
  db_Arn :: string
  StorageEncrypted :: bool
  AutoMinorVersionUpgrade :: bool
  PubliclyAccessible :: bool
  Subnets :: "rds_subnet list"
  db_region :: string

record sdk_db_instance =
  DBInstanceIdentifier :: string
  DBInstanceArn :: string
  sdk_StorageEncrypted :: "bool option"
  sdk_AutoMinorVersionUpgrade :: "bool option"
  sdk_PubliclyAccessible :: "bool option"
  SubnetIdentifiers :: "string list"
  db_VpcId :: string

text \<open>\<open>ec2\<close> is \<open>GetRouteTableForSubnet\<close> of the EC2 provider.\<close>

record 'tok rds_provider =
  rds_clients :: "('tok, sdk_db_instance) page_api clients"
  rds_ec2 :: "string \<Rightarrow> string \<Rightarrow> string \<Rightarrow> sdk_route_table result"

definition rds_NewProvider ::
  "string list result \<Rightarrow> string \<Rightarrow> (string \<Rightarrow> ('tok, sdk_db_instance) page_api) \<Rightarrow> 'w ec2_provider \<Rightarrow> 'tok rds_provider" where
  "rds_NewProvider selected cfgRegion factory ec2 =
     \<lparr>rds_clients = NewMultiRegionClients selected cfgRegion factory, rds_ec2 = GetRouteTableForSubnet ec2\<rparr>"

definition getDBInstanceSubnets :: "'tok rds_provider \<Rightarrow> string \<Rightarrow> sdk_db_instance \<Rightarrow> rds_subnet list" where
  "getDBInstanceSubnets p region dbInstance =
     map (\<lambda>subnet.
            \<lparr>subnet_ID = subnet,
             RouteTable =
               (case rds_ec2 p region subnet (db_VpcId dbInstance) of
                  Inl err \<Rightarrow> None
                | Inr t \<Rightarrow>
                    Some \<lparr>rds_table_ID = RouteTableId t,
                          Routes = map (\<lambda>(cidr, gw). \<lparr>DestinationCidrBlock = cidr, GatewayId = gw\<rparr>) (rt_Routes t)\<rparr>)\<rparr>)
       (SubnetIdentifiers dbInstance)"

definition aws_ToBool :: "bool option \<Rightarrow> bool" where
  "aws_ToBool b = (case b of None \<Rightarrow> False | Some v \<Rightarrow> v)"

definition DescribeDBInstances :: "'tok rds_provider \<Rightarrow> (db_instance list \<times> go_error option) option" where
  "DescribeDBInstances p =
     fetch_all (rds_clients p) (\<lambda>region c. region_pages c
       (map (\<lambda>i. \<lparr>Identifier = DBInstanceIdentifier i, db_Arn = DBInstanceArn i,
                  StorageEncrypted = aws_ToBool (sdk_StorageEncrypted i),
                  AutoMinorVersionUpgrade = aws_ToBool (sdk_AutoMinorVersionUpgrade i),
                  PubliclyAccessible = aws_ToBool (sdk_PubliclyAccessible i),
                  Subnets = getDBInstanceSubnets p region i, db_region = region\<rparr>)))"

definition rds_resource :: "db_instance \<Rightarrow> db_instance aws_resource" where
  "rds_resource d =
     \<lparr>GetResourceArn = db_Arn d, GetResourceName = Identifier d, GetResourceType = ''aws-rds'',
      GetRegion = db_region d, resource_value = d\<rparr>"

section \<open>ELB\<close>

text \<open>The call of the SDK gets the names; with no names it describes all the load balancers.\<close>

record load_balancer =
  LoadBalancerName :: "string option"
  lb_DNSName :: string

definition DescribeLoadBalancer ::
  "(string list \<Rightarrow> ('tok, load_balancer) page_api) \<Rightarrow> string list \<Rightarrow> load_balancer list result option" where
  "DescribeLoadBalancer client balancersNames =
     (case paginate (client balancersNames) None [] of
        None \<Rightarrow> None
      | Some (Inl err) \<Rightarrow> Some (Inl (Wrapf ''error DescribeRepositories with Paginator: '' err))
      | Some (Inr descriptions) \<Rightarrow> Some (Inr descriptions))"

section \<open>ECR\<close>

record ecr_repository =
  RepositoryArn :: "string option"
  RepositoryName :: "string option"

type_synonym 'tok ecr_client = "string list \<Rightarrow> ('tok, ecr_repository) page_api"

definition NewEcrProvider :: "string list result \<Rightarrow> string \<Rightarrow> (string \<Rightarrow> 'tok ecr_client) \<Rightarrow> 'tok ecr_client clients" where
  "NewEcrProvider selected cfgRegion factory = NewMultiRegionClients selected cfgRegion factory"

definition DescribeRepositories ::
  "'tok ecr_client clients \<Rightarrow> string list \<Rightarrow> string \<Rightarrow> ecr_repository list result option" where
  "DescribeRepositories cs repoNames region =
     (if length repoNames = 0 then Some (Inr [])
      else case GetRegionClient (Some region) cs of
             Inl err \<Rightarrow> Some (Inl (Wrapf ''error getting client: '' err))
           | Inr client \<Rightarrow>
               (case paginate (client repoNames) None [] of
                  None \<Rightarrow> None
                | Some (Inl err) \<Rightarrow> Some (Inl (Wrapf ''error describing repositories: '' err))
                | Some (Inr repos) \<Rightarrow> Some (Inr repos)))"

definition DescribeAllEcrRepositories ::
  "'tok ecr_client clients \<Rightarrow> string \<Rightarrow> ecr_repository list result option" where
  "DescribeAllEcrRepositories cs region = DescribeRepositories cs [] region"

lemma DescribeAllEcrRepositories_none: "DescribeAllEcrRepositories cs region = Some (Inr [])"
  by (simp add: DescribeAllEcrRepositories_def DescribeRepositories_def)

end
