(* ===== verification/AWS_Audit.thy ===== *)
theory AWS_Audit
  imports AWS_Storage
begin

text \<open>
  What the AWS benchmark reads for its rules on logging and monitoring: the providers for CloudTrail,
  CloudWatch alarms, CloudWatch metric filters, SNS subscriptions, the configuration recorders and
  Security Hub (under \<open>resources/providers/awslib\<close>), and the two aggregations over them,
  \<open>aws_cis/monitoring/monitoring.go\<close> and \<open>aws_cis/logging\<close>. \<open>None\<close> as the answer of a call stands
  for a loop that does not end or a panic, as its text says.
\<close>

section \<open>CloudTrail\<close>

record sdk_trail =
  TrailARN :: "string option"
  tr_Name :: "string option"
  HomeRegion :: "string option"
  S3BucketName :: "string option"
  CloudWatchLogsLogGroupArn :: "string option"

record trail_info =
  Trail :: sdk_trail
  Status :: "any option"
  EventSelectors :: "any list"

record trail_client =
  t_DescribeTrails :: "sdk_trail list result"
  t_GetTrailStatus :: "string option \<Rightarrow> any result"
  t_GetEventSelectors :: "string option \<Rightarrow> any list result"

definition trail_NewProvider ::
  "string list result \<Rightarrow> string \<Rightarrow> (string \<Rightarrow> trail_client) \<Rightarrow> trail_client clients" where
  "trail_NewProvider selected cfgRegion factory = NewMultiRegionClients selected cfgRegion factory"

definition getTrailStatus :: "trail_client clients \<Rightarrow> sdk_trail \<Rightarrow> any result" where
  "getTrailStatus cs trail =
     (case GetRegionClient (HomeRegion trail) cs of
        Inl err \<Rightarrow> Inl err
      | Inr client \<Rightarrow> t_GetTrailStatus client (TrailARN trail))"

definition getEventSelectors :: "trail_client clients \<Rightarrow> sdk_trail \<Rightarrow> any list \<times> go_error option" where
  "getEventSelectors cs trail =
     (case GetRegionClient (HomeRegion trail) cs of
        Inl err \<Rightarrow> ([], Some err)
      | Inr client \<Rightarrow>
          (case t_GetEventSelectors client (TrailARN trail) of
             Inl err \<Rightarrow> ([], Some err)
           | Inr output \<Rightarrow> (output, None)))"

fun trail_infos :: "trail_client clients \<Rightarrow> sdk_trail list \<Rightarrow> trail_info list" where
  "trail_infos cs [] = []"
| "trail_infos cs (trail # trails) =
     (if tr_Name trail = None then trail_infos cs trails
      else let status = getTrailStatus cs trail;
               (selectors, err) = getEventSelectors cs trail
           in \<lparr>Trail = trail, Status = (case status of Inl _ \<Rightarrow> None | Inr s \<Rightarrow> Some s), EventSelectors = selectors\<rparr> #
              trail_infos cs trails)"

text \<open>\<open>None\<close>: without a client for the default region the call on the nil client panics.\<close>

definition trail_DescribeTrails :: "trail_client clients \<Rightarrow> trail_info list result option" where
  "trail_DescribeTrails cs =
     (case map_of cs DefaultRegion of
        None \<Rightarrow> None
      | Some client \<Rightarrow>
          (case t_DescribeTrails client of
             Inl err \<Rightarrow> Some (Inl err)
           | Inr trails \<Rightarrow> Some (Inr (trail_infos cs trails))))"

definition TrailInfo_GetResourceArn :: "trail_info \<Rightarrow> string" where
  "TrailInfo_GetResourceArn t = (case TrailARN (Trail t) of None \<Rightarrow> [] | Some a \<Rightarrow> a)"

definition TrailInfo_GetResourceName :: "trail_info \<Rightarrow> string" where
  "TrailInfo_GetResourceName t = (case tr_Name (Trail t) of None \<Rightarrow> [] | Some n \<Rightarrow> n)"

section \<open>CloudWatch\<close>

record metric_alarm =
  MetricName :: "string option"
  AlarmActions :: "string list"

definition cloudwatch_NewProvider ::
  "string list result \<Rightarrow> string \<Rightarrow> (string \<Rightarrow> ('tok, metric_alarm) page_api) \<Rightarrow> ('tok, metric_alarm) page_api clients" where
  "cloudwatch_NewProvider selected cfgRegion factory = NewMultiRegionClients selected cfgRegion factory"

text \<open>The inner loops: an alarm is kept once, for the first filter that is its metric's name.\<close>

fun alarm_matches :: "string list \<Rightarrow> metric_alarm \<Rightarrow> bool" where
  "alarm_matches [] metric = False"
| "alarm_matches (filter' # filters) metric =
     (if MetricName metric = Some filter' then True else alarm_matches filters metric)"

fun matching_alarms :: "string list \<Rightarrow> metric_alarm list \<Rightarrow> metric_alarm list" where
  "matching_alarms filters [] = []"
| "matching_alarms filters (metric # metrics) =
     (if alarm_matches filters metric then metric # matching_alarms filters metrics
      else matching_alarms filters metrics)"

definition filtered_pages :: "('a list \<Rightarrow> 'b list) \<Rightarrow> ('tok, 'a) page_api \<Rightarrow> ('tok, 'b) page_api" where
  "filtered_pages f call t =
     (case call t of
        Inl err \<Rightarrow> Inl err
      | Inr output \<Rightarrow> Inr \<lparr>items = f (items output), NextToken = NextToken output\<rparr>)"

definition DescribeAlarms ::
  "('tok, metric_alarm) page_api clients \<Rightarrow> string option \<Rightarrow> string list \<Rightarrow> metric_alarm list result option" where
  "DescribeAlarms cs region filters =
     (case GetRegionClient region cs of
        Inl err \<Rightarrow> Some (Inl err)
      | Inr client \<Rightarrow> paginate (filtered_pages (matching_alarms filters) client) None [])"

record metric_filter =
  FilterName :: "string option"
  FilterPattern :: "string option"

type_synonym 'tok logs_client = "string \<Rightarrow> ('tok, metric_filter) page_api"

definition NewCloudwatchLogsProvider ::
  "string list result \<Rightarrow> string \<Rightarrow> (string \<Rightarrow> 'tok logs_client) \<Rightarrow> 'tok logs_client clients" where
  "NewCloudwatchLogsProvider selected cfgRegion factory = NewMultiRegionClients selected cfgRegion factory"

definition DescribeMetricFilters ::
  "'tok logs_client clients \<Rightarrow> string option \<Rightarrow> string \<Rightarrow> metric_filter list result option" where
  "DescribeMetricFilters cs region logGroup =
     (case GetRegionClient region cs of
        Inl err \<Rightarrow> Some (Inl err)
      | Inr client \<Rightarrow> paginate (client logGroup) None [])"

section \<open>SNS\<close>

text \<open>A subscription is the ARN of its topic; the client gets the ARN of a topic.\<close>

type_synonym 'tok sns_client = "string \<Rightarrow> ('tok, string) page_api"

definition NewSNSProvider ::
  "string list result \<Rightarrow> string \<Rightarrow> (string \<Rightarrow> 'tok sns_client) \<Rightarrow> 'tok sns_client clients" where
  "NewSNSProvider selected cfgRegion factory = NewMultiRegionClients selected cfgRegion factory"

definition ListSubscriptionsByTopic ::
  "'tok sns_client clients \<Rightarrow> string option \<Rightarrow> string \<Rightarrow> string list result option" where
  "ListSubscriptionsByTopic cs region topic =
     (case GetRegionClient region cs of
        Inl err \<Rightarrow> Some (Inl err)
      | Inr client \<Rightarrow> paginate (client topic) None [])"

section \<open>Security Hub\<close>

record security_hub =
  hub_Enabled :: bool
  hub_Region :: string
  hub_AccountId :: string
  HubArn :: "string option option"

definition securityhub_NewProvider ::
  "string list result \<Rightarrow> string \<Rightarrow> (string \<Rightarrow> string option result) \<Rightarrow> string \<Rightarrow>
     string option result clients \<times> string" where
  "securityhub_NewProvider selected cfgRegion factory account =
     (NewMultiRegionClients selected cfgRegion factory, account)"

definition describe_hub :: "string \<Rightarrow> string \<Rightarrow> string option result \<Rightarrow> security_hub \<times> go_error option" where
  "describe_hub account region out =
     (case out of
        Inl err \<Rightarrow>
          (let res = \<lparr>hub_Enabled = False, hub_Region = region, hub_AccountId = account, HubArn = None\<rparr>
           in if str_contains (error_text err) ''is not subscribed to AWS Security Hub'' then (res, None)
              else (res, Some err))
      | Inr arn \<Rightarrow>
          (\<lparr>hub_Enabled = True, hub_Region = region, hub_AccountId = account, HubArn = Some arn\<rparr>, None))"

definition hub_Describe :: "string option result clients \<times> string \<Rightarrow> security_hub list \<times> go_error option" where
  "hub_Describe p = MultiRegionFetch (\<lambda>_. False) (Some (fst p)) (describe_hub (snd p))"

definition hub_name :: "security_hub \<Rightarrow> string" where
  "hub_name s = ''securityhub-'' @ hub_Region s @ ''-'' @ hub_AccountId s"

definition hub_resource :: "security_hub \<Rightarrow> security_hub aws_resource" where
  "hub_resource s =
     \<lparr>GetResourceArn = (case HubArn s of Some (Some arn) \<Rightarrow> arn | _ \<Rightarrow> hub_name s),
      GetResourceName = hub_name s, GetResourceType = ''aws-securityhub'', GetRegion = hub_Region s,
      resource_value = s\<rparr>"

section \<open>Configuration recorders\<close>

record config_recorder =
  rec_Name :: string
  rec_Status :: "any list"

record recorder_config =
  Recorders :: "config_recorder list"
  rc_accountId :: string
  rc_region :: string

record config_client =
  DescribeConfigurationRecorders :: "string list result"
  DescribeConfigurationRecorderStatus :: "string \<Rightarrow> any list result"

definition config_NewProvider ::
  "string list result \<Rightarrow> string \<Rightarrow> (string \<Rightarrow> config_client) \<Rightarrow> string \<Rightarrow> config_client clients \<times> string" where
  "config_NewProvider selected cfgRegion factory account =
     (NewMultiRegionClients selected cfgRegion factory, account)"

fun recorders_with_status :: "config_client \<Rightarrow> string list \<Rightarrow> config_recorder list result" where
  "recorders_with_status c [] = Inr []"
| "recorders_with_status c (recorder # rs) =
     (case DescribeConfigurationRecorderStatus c recorder of
        Inl err \<Rightarrow> Inl err
      | Inr status \<Rightarrow>
          (case recorders_with_status c rs of
             Inl err \<Rightarrow> Inl err
           | Inr result \<Rightarrow> Inr (\<lparr>rec_Name = recorder, rec_Status = status\<rparr> # result)))"

definition region_recorders :: "string \<Rightarrow> string \<Rightarrow> config_client \<Rightarrow> recorder_config option \<times> go_error option" where
  "region_recorders account region c =
     (case DescribeConfigurationRecorders c of
        Inl err \<Rightarrow> (None, Some err)
      | Inr recorderList \<Rightarrow>
          (case recorders_with_status c recorderList of
             Inl err \<Rightarrow> (None, Some err)
           | Inr result \<Rightarrow> (Some \<lparr>Recorders = result, rc_accountId = account, rc_region = region\<rparr>, None)))"

text \<open>A nil interface is dropped by \<open>MultiRegionFetch\<close>.\<close>

definition DescribeConfigRecorders :: "config_client clients \<times> string \<Rightarrow> recorder_config list \<times> go_error option" where
  "DescribeConfigRecorders p =
     (let (configs, err) = MultiRegionFetch (\<lambda>k. k = None) (Some (fst p)) (region_recorders (snd p))
      in (map the configs, err))"

definition config_resource :: "recorder_config \<Rightarrow> recorder_config aws_resource" where
  "config_resource c =
     \<lparr>GetResourceArn = ''config-service-'' @ rc_region c @ ''-'' @ rc_accountId c,
      GetResourceName = ''config-service-'' @ rc_region c @ ''-'' @ rc_accountId c,
      GetResourceType = ''aws-config'', GetRegion = rc_region c, resource_value = c\<rparr>"

section \<open>Monitoring: the items of the rules 4.1 to 4.15\<close>

record monitoring_item =
  TrailInfo :: trail_info
  MetricFilters :: "metric_filter list"
  MetricTopicBinding :: "(string \<times> string list) list"

text \<open>The four services the aggregation uses.\<close>

record monitoring_provider =
  Cloudtrail :: "trail_info list result option"
  Cloudwatch :: "string option \<Rightarrow> string list \<Rightarrow> metric_alarm list result option"
  Cloudwatchlogs :: "string option \<Rightarrow> string \<Rightarrow> metric_filter list result option"
  Sns :: "string option \<Rightarrow> string \<Rightarrow> string list result option"

definition monitoring_NewProvider ::
  "trail_client clients \<Rightarrow> ('t1, metric_alarm) page_api clients \<Rightarrow> 't2 logs_client clients \<Rightarrow> 't3 sns_client clients \<Rightarrow>
     monitoring_provider" where
  "monitoring_NewProvider trails alarms logs topics =
     \<lparr>Cloudtrail = trail_DescribeTrails trails, Cloudwatch = DescribeAlarms alarms,
      Cloudwatchlogs = DescribeMetricFilters logs, Sns = ListSubscriptionsByTopic topics\<rparr>"

text \<open>\<open>None\<close> is the panic of the index: the guard lets six parts pass and the index is 6.\<close>

definition getLogGroupFromARN :: "string option \<Rightarrow> string option" where
  "getLogGroupFromARN arn =
     (case arn of
        None \<Rightarrow> Some []
      | Some a \<Rightarrow>
          (let parts = split_on CHR '':'' a
           in if length parts < 6 then Some [] else if 6 < length parts then Some (parts ! 6) else None))"

fun filterNamesFromMetrics :: "metric_filter list \<Rightarrow> string list" where
  "filterNamesFromMetrics [] = []"
| "filterNamesFromMetrics (f # fs) =
     (case (FilterName f, FilterPattern f) of
        (Some n, Some _) \<Rightarrow> n # filterNamesFromMetrics fs
      | _ \<Rightarrow> filterNamesFromMetrics fs)"

fun topics_of_actions :: "monitoring_provider \<Rightarrow> string option \<Rightarrow> string list \<Rightarrow> string list option" where
  "topics_of_actions p region [] = Some []"
| "topics_of_actions p region (action # actions) =
     (case Sns p region action of
        None \<Rightarrow> None
      | Some (Inl err) \<Rightarrow> topics_of_actions p region actions
      | Some (Inr subscriptions) \<Rightarrow>
          (case topics_of_actions p region actions of
             None \<Rightarrow> None
           | Some topics \<Rightarrow> Some (subscriptions @ topics)))"

fun getSubscriptionForAlarms :: "monitoring_provider \<Rightarrow> string option \<Rightarrow> metric_alarm list \<Rightarrow> string list option" where
  "getSubscriptionForAlarms p region [] = Some []"
| "getSubscriptionForAlarms p region (alarm # alarms) =
     (case topics_of_actions p region (AlarmActions alarm) of
        None \<Rightarrow> None
      | Some topics \<Rightarrow>
          (case getSubscriptionForAlarms p region alarms of
             None \<Rightarrow> None
           | Some rest \<Rightarrow> Some (topics @ rest)))"

fun name_bindings ::
  "monitoring_provider \<Rightarrow> string option \<Rightarrow> string list \<Rightarrow> (string \<times> string list) list \<Rightarrow>
     (string \<times> string list) list option" where
  "name_bindings p region [] bindings = Some bindings"
| "name_bindings p region (name # names) bindings =
     (case Cloudwatch p region [name] of
        None \<Rightarrow> None
      | Some (Inl err) \<Rightarrow> name_bindings p region names bindings
      | Some (Inr alarms) \<Rightarrow>
          (case getSubscriptionForAlarms p region alarms of
             None \<Rightarrow> None
           | Some topics \<Rightarrow> name_bindings p region names (map_put name topics bindings)))"

text \<open>The body of the loop: a panic (\<open>Inl\<close>), or the item to append, if any.\<close>

definition monitoring_step :: "monitoring_provider \<Rightarrow> trail_info \<Rightarrow> (unit + monitoring_item option) option" where
  "monitoring_step p info =
     (if CloudWatchLogsLogGroupArn (Trail info) = None then
        Some (Inr (Some \<lparr>TrailInfo = info, MetricFilters = [], MetricTopicBinding = []\<rparr>))
      else case getLogGroupFromARN (CloudWatchLogsLogGroupArn (Trail info)) of
             None \<Rightarrow> Some (Inl ())
           | Some logGroup \<Rightarrow>
               if logGroup = [] then Some (Inr None)
               else (case Cloudwatchlogs p (HomeRegion (Trail info)) logGroup of
                       None \<Rightarrow> None
                     | Some (Inl err) \<Rightarrow> Some (Inr None)
                     | Some (Inr metrics) \<Rightarrow>
                         (let names = filterNamesFromMetrics metrics
                          in if length names = 0 then
                               Some (Inr (Some \<lparr>TrailInfo = info, MetricFilters = metrics, MetricTopicBinding = []\<rparr>))
                             else (case name_bindings p (HomeRegion (Trail info)) names [] of
                                     None \<Rightarrow> None
                                   | Some bindings \<Rightarrow>
                                       Some (Inr (Some \<lparr>TrailInfo = info, MetricFilters = metrics,
                                                        MetricTopicBinding = bindings\<rparr>))))))"

fun monitoring_items ::
  "monitoring_provider \<Rightarrow> trail_info list \<Rightarrow> monitoring_item list \<Rightarrow> (unit + monitoring_item list) option" where
  "monitoring_items p [] items' = Some (Inr items')"
| "monitoring_items p (info # trails) items' =
     (case monitoring_step p info of
        None \<Rightarrow> None
      | Some (Inl u) \<Rightarrow> Some (Inl u)
      | Some (Inr None) \<Rightarrow> monitoring_items p trails items'
      | Some (Inr (Some i)) \<Rightarrow> monitoring_items p trails (items' @ [i]))"

text \<open>\<open>None\<close> also where \<open>DescribeTrails\<close> panics.\<close>

definition AggregateResources :: "monitoring_provider \<Rightarrow> (unit + monitoring_item list result) option" where
  "AggregateResources p =
     (case Cloudtrail p of
        None \<Rightarrow> None
      | Some (Inl err) \<Rightarrow> Some (Inr (Inl err))
      | Some (Inr trails) \<Rightarrow>
          (case monitoring_items p trails [] of
             None \<Rightarrow> None
           | Some (Inl u) \<Rightarrow> Some (Inl u)
           | Some (Inr items') \<Rightarrow> Some (Inr (Inr items'))))"

section \<open>Logging: the trails with their buckets\<close>

record trail_bucket =
  tb_Policy :: bucket_policy
  tb_Logging :: bucket_logging
  ACL :: "any option"

record enriched_trail =
  et_TrailInfo :: trail_info
  BucketInfo :: trail_bucket

record logging_provider =
  s3Provider :: s3_provider
  trailProvider :: "trail_info list result option"

definition logging_NewProvider :: "s3_provider \<Rightarrow> trail_client clients \<Rightarrow> logging_provider" where
  "logging_NewProvider s3 trails = \<lparr>s3Provider = s3, trailProvider = trail_DescribeTrails trails\<rparr>"

text \<open>\<open>None\<close>: the home region of a trail with a bucket is followed without a test for nil.\<close>

fun enrich_trails :: "logging_provider \<Rightarrow> trail_info list \<Rightarrow> enriched_trail list option" where
  "enrich_trails p [] = Some []"
| "enrich_trails p (info # trails) =
     (case S3BucketName (Trail info) of
        None \<Rightarrow> enrich_trails p trails
      | Some bucket \<Rightarrow>
          (case HomeRegion (Trail info) of
             None \<Rightarrow> None
           | Some region \<Rightarrow>
               (let (bucketPolicy, policyErr) = GetBucketPolicy (s3Provider p) bucket region;
                    aclGrants = GetBucketACL (s3Provider p) bucket region;
                    (bucketLogging, loggingErr) = GetBucketLogging (s3Provider p) bucket region;
                    e = \<lparr>et_TrailInfo = info,
                         BucketInfo = \<lparr>tb_Policy = bucketPolicy, tb_Logging = bucketLogging,
                                       ACL = (case aclGrants of Inl _ \<Rightarrow> None | Inr acl \<Rightarrow> Some acl)\<rparr>\<rparr>
                in case enrich_trails p trails of None \<Rightarrow> None | Some es \<Rightarrow> Some (e # es))))"

definition logging_DescribeTrails :: "logging_provider \<Rightarrow> enriched_trail list result option" where
  "logging_DescribeTrails p =
     (case trailProvider p of
        None \<Rightarrow> None
      | Some (Inl err) \<Rightarrow> Some (Inl err)
      | Some (Inr trails) \<Rightarrow> map_option Inr (enrich_trails p trails))"

definition EnrichedTrail_resource :: "enriched_trail \<Rightarrow> enriched_trail aws_resource" where
  "EnrichedTrail_resource e =
     (let trail = Trail (et_TrailInfo e)
      in \<lparr>GetResourceArn = (case TrailARN trail of None \<Rightarrow> [] | Some a \<Rightarrow> a),
          GetResourceName = (case tr_Name trail of None \<Rightarrow> [] | Some n \<Rightarrow> n),
          GetResourceType = ''aws-trail'',
          GetRegion = (case HomeRegion trail of None \<Rightarrow> [] | Some r \<Rightarrow> r),
          resource_value = e\<rparr>)"

section \<open>Lemmas\<close>

lemma length_split_on: "length (split_on c s) = Suc (count_byte s c)"
  by (induction s) (auto split: list.splits)

lemma getLogGroupFromARN_panics: "getLogGroupFromARN (Some arn) = None \<longleftrightarrow> count_byte arn CHR '':'' = 5"
  by (simp add: getLogGroupFromARN_def length_split_on Let_def)

text \<open>The topics of an alarm: those of its actions whose subscriptions can be listed.\<close>

definition alarm_topics :: "monitoring_provider \<Rightarrow> string option \<Rightarrow> metric_alarm list \<Rightarrow> string list" where
  "alarm_topics p region alarms =
     [t. alarm \<leftarrow> alarms, action \<leftarrow> AlarmActions alarm,
         t \<leftarrow> (case Sns p region action of Some (Inr subs) \<Rightarrow> subs | _ \<Rightarrow> [])]"

text \<open>The services answer: none of their loops runs for ever.\<close>

definition services_answer :: "monitoring_provider \<Rightarrow> bool" where
  "services_answer p \<longleftrightarrow>
     (\<forall>r fs. Cloudwatch p r fs \<noteq> None) \<and> (\<forall>r g. Cloudwatchlogs p r g \<noteq> None) \<and> (\<forall>r t. Sns p r t \<noteq> None)"

lemma topics_of_actions_eq:
  "services_answer p \<Longrightarrow> topics_of_actions p region actions =
     Some [t. action \<leftarrow> actions, t \<leftarrow> (case Sns p region action of Some (Inr subs) \<Rightarrow> subs | _ \<Rightarrow> [])]"
  by (induction actions) (auto simp: services_answer_def split: option.splits sum.splits)

lemma getSubscriptionForAlarms_eq:
  "services_answer p \<Longrightarrow> getSubscriptionForAlarms p region alarms = Some (alarm_topics p region alarms)"
  by (induction alarms) (auto simp: topics_of_actions_eq alarm_topics_def)

definition binding_of :: "monitoring_provider \<Rightarrow> string option \<Rightarrow> string list \<Rightarrow> string \<Rightarrow> string list option" where
  "binding_of p region names name =
     (if name \<in> set names
      then (case Cloudwatch p region [name] of Some (Inr alarms) \<Rightarrow> Some (alarm_topics p region alarms) | _ \<Rightarrow> None)
      else None)"

lemma name_bindings_eq:
  assumes "services_answer p"
  shows "\<exists>bindings'. name_bindings p region names bindings = Some bindings' \<and>
    map_of bindings' = map_of bindings ++ binding_of p region names"
proof (induction names arbitrary: bindings)
  case Nil
  then show ?case by (simp add: binding_of_def map_add_def)
next
  case (Cons name names)
  obtain r where r: "Cloudwatch p region [name] = Some r"
    using assms unfolding services_answer_def by blast
  show ?case
  proof (cases r)
    case (Inl err)
    then have "binding_of p region (name # names) = binding_of p region names"
      using r by (auto simp: binding_of_def fun_eq_iff)
    then show ?thesis using Cons Inl r by simp
  next
    case (Inr alarms)
    then have "binding_of p region (name # names) =
        (\<lambda>n. if n = name then Some (alarm_topics p region alarms) else binding_of p region names n)"
      using r by (auto simp: binding_of_def fun_eq_iff)
    moreover have "binding_of p region names name \<in> {None, Some (alarm_topics p region alarms)}"
      using r Inr by (simp add: binding_of_def)
    ultimately have upd: "(map_of bindings)(name \<mapsto> alarm_topics p region alarms) ++ binding_of p region names =
        map_of bindings ++ binding_of p region (name # names)"
      by (auto simp: fun_eq_iff map_add_def split: option.splits)
    obtain b where b: "name_bindings p region names (map_put name (alarm_topics p region alarms) bindings) = Some b"
        "map_of b = map_of (map_put name (alarm_topics p region alarms) bindings) ++ binding_of p region names"
      using Cons by blast
    have "map_of b = map_of bindings ++ binding_of p region (name # names)"
      by (simp only: b(2) map_of_map_put upd)
    moreover have "name_bindings p region (name # names) bindings = Some b"
      using b(1) Inr r getSubscriptionForAlarms_eq [OF assms] by simp
    ultimately show ?thesis by blast
  qed
qed

text \<open>The trails that get an item, and what the item says.\<close>

definition monitored :: "monitoring_provider \<Rightarrow> trail_info \<Rightarrow> bool" where
  "monitored p info \<longleftrightarrow>
     CloudWatchLogsLogGroupArn (Trail info) = None \<or>
     (\<exists>g metrics. getLogGroupFromARN (CloudWatchLogsLogGroupArn (Trail info)) = Some g \<and> g \<noteq> [] \<and>
        Cloudwatchlogs p (HomeRegion (Trail info)) g = Some (Inr metrics))"

definition bound_topics :: "monitoring_provider \<Rightarrow> monitoring_item \<Rightarrow> bool" where
  "bound_topics p i \<longleftrightarrow>
     map_of (MetricTopicBinding i) =
       binding_of p (HomeRegion (Trail (TrailInfo i))) (filterNamesFromMetrics (MetricFilters i))"

definition indexable_arn :: "trail_info \<Rightarrow> bool" where
  "indexable_arn info \<longleftrightarrow> (\<forall>arn. CloudWatchLogsLogGroupArn (Trail info) = Some arn \<longrightarrow> count_byte arn CHR '':'' \<noteq> 5)"

lemma monitoring_step_item:
  assumes "services_answer p" and "indexable_arn info"
  shows "\<exists>i. monitoring_step p info = Some (Inr i) \<and> (i \<noteq> None \<longleftrightarrow> monitored p info) \<and>
    (\<forall>j. i = Some j \<longrightarrow> TrailInfo j = info \<and> bound_topics p j)"
proof (cases "CloudWatchLogsLogGroupArn (Trail info)")
  case None
  then show ?thesis
    by (simp add: monitoring_step_def monitored_def bound_topics_def binding_of_def fun_eq_iff)
next
  case (Some arn)
  obtain g where g: "getLogGroupFromARN (Some arn) = Some g"
    using assms(2) Some getLogGroupFromARN_panics [of arn] by (auto simp: indexable_arn_def)
  obtain r where r: "Cloudwatchlogs p (HomeRegion (Trail info)) g = Some r"
    using assms(1) unfolding services_answer_def by blast
  show ?thesis
  proof (cases "g = []")
    case True
    then show ?thesis using Some g by (auto simp: monitoring_step_def monitored_def)
  next
    case False
    show ?thesis
    proof (cases r)
      case (Inl err)
      then show ?thesis using Some g r False by (auto simp: monitoring_step_def monitored_def)
    next
      case (Inr metrics)
      obtain bindings where "name_bindings p (HomeRegion (Trail info)) (filterNamesFromMetrics metrics) [] = Some bindings"
          "map_of bindings = binding_of p (HomeRegion (Trail info)) (filterNamesFromMetrics metrics)"
        using name_bindings_eq [OF assms(1), of "HomeRegion (Trail info)" "filterNamesFromMetrics metrics" "[]"]
        by auto
      moreover have "binding_of p (HomeRegion (Trail info)) [] = map_of []"
        by (simp add: binding_of_def fun_eq_iff)
      ultimately show ?thesis using Some g r False Inr
        by (auto simp: monitoring_step_def monitored_def bound_topics_def Let_def)
    qed
  qed
qed

lemma monitoring_items_eq:
  assumes "services_answer p" and "list_all indexable_arn trails"
  shows "\<exists>new. monitoring_items p trails acc = Some (Inr (acc @ new)) \<and>
    map TrailInfo new = filter (monitored p) trails \<and> list_all (bound_topics p) new"
  using assms(2)
proof (induction trails arbitrary: acc)
  case (Cons info trails)
  then obtain i where i: "monitoring_step p info = Some (Inr i)" "i \<noteq> None \<longleftrightarrow> monitored p info"
      "\<forall>j. i = Some j \<longrightarrow> TrailInfo j = info \<and> bound_topics p j"
    using monitoring_step_item [OF assms(1), of info] by auto
  show ?case
  proof (cases i)
    case None
    then show ?thesis using Cons i by auto
  next
    case (Some j)
    obtain new where "monitoring_items p trails (acc @ [j]) = Some (Inr ((acc @ [j]) @ new))"
        "map TrailInfo new = filter (monitored p) trails" "list_all (bound_topics p) new"
      using Cons.IH [of "acc @ [j]"] Cons.prems by auto
    then show ?thesis using i Some by (intro exI [of _ "j # new"]) auto
  qed
qed simp

section \<open>Properties\<close>

text \<open>
  The log group of a trail: the seventh part of an ARN, whatever follows it, and for the ARNs with
  exactly five colons an index out of range, since the guard lets six parts pass.
\<close>

lemma getLogGroupFromARN_parts:
  assumes "length ps = 6" and "\<forall>x\<in>set (ps @ name # rest). CHR '':'' \<notin> set x"
  shows "getLogGroupFromARN (Some (join_with CHR '':'' (ps @ name # rest))) = Some name \<and>
    (getLogGroupFromARN (Some arn) = None \<longleftrightarrow> count_byte arn CHR '':'' = 5)"
proof -
  have "split_on CHR '':'' (join_with CHR '':'' (ps @ name # rest)) = ps @ name # rest"
    using assms(2) by (intro split_join) auto
  then show ?thesis using getLogGroupFromARN_panics assms(1)
    by (simp add: getLogGroupFromARN_def Let_def nth_append)
qed

lemma getLogGroupFromARN_parts_witness:
  "getLogGroupFromARN (Some ''arn:aws:logs:us-east-1:1:log-group:trail:*'') = Some ''trail'' \<and>
   getLogGroupFromARN (Some ''arn:aws:logs:us-east-1:1:x'') = None"
  using getLogGroupFromARN_parts [of "[''arn'', ''aws'', ''logs'', ''us-east-1'', ''1'', ''log-group'']" "''trail''"
      "[''*'']" "''arn:aws:logs:us-east-1:1:x''"] by simp

text \<open>
  The aggregation for the monitoring rules: when the services answer and no ARN of a log group makes
  the index panic, there is one item, in order, for each trail without a log group or whose metric
  filters can be described, and each item binds exactly the names of its filters with a pattern
  whose alarms can be described to the topics of these alarms.
\<close>

lemma AggregateResources_items:
  assumes "Cloudtrail p = Some (Inr trails)" and "services_answer p" and "list_all indexable_arn trails"
  shows "\<exists>rs. AggregateResources p = Some (Inr (Inr rs)) \<and>
    map TrailInfo rs = filter (monitored p) trails \<and> list_all (bound_topics p) rs"
  using monitoring_items_eq [OF assms(2,3), of "[]"] assms(1) by (auto simp: AggregateResources_def)

definition sample_trail :: "string option \<Rightarrow> trail_info" where
  "sample_trail arn =
     \<lparr>Trail = \<lparr>TrailARN = Some ''arn:t'', tr_Name = Some ''t'', HomeRegion = Some ''us-east-1'', S3BucketName = None,
              CloudWatchLogsLogGroupArn = arn\<rparr>, Status = None, EventSelectors = []\<rparr>"

definition sample_monitoring :: monitoring_provider where
  "sample_monitoring =
     \<lparr>Cloudtrail = Some (Inr [sample_trail None, sample_trail (Some ''a:b''),
        sample_trail (Some ''arn:aws:logs:us-east-1:1:log-group:trail:*'')]),
      Cloudwatch = (\<lambda>r names. if names = [''f1''] then Some (Inr [\<lparr>MetricName = Some ''f1'', AlarmActions = [''x'', ''y'']\<rparr>])
                              else Some (Inl (Errorf ''denied''))),
      Cloudwatchlogs = (\<lambda>r g. Some (Inr [\<lparr>FilterName = Some ''f1'', FilterPattern = Some ''p''\<rparr>,
        \<lparr>FilterName = Some ''f2'', FilterPattern = Some ''p''\<rparr>, \<lparr>FilterName = Some ''f3'', FilterPattern = None\<rparr>])),
      Sns = (\<lambda>r t. if t = ''x'' then Some (Inr [''topic'']) else Some (Inl (Errorf ''denied'')))\<rparr>"

lemma AggregateResources_items_witness:
  "\<exists>a b. AggregateResources sample_monitoring = Some (Inr (Inr [a, b])) \<and>
     TrailInfo a = sample_trail None \<and> map_of (MetricTopicBinding b) ''f1'' = Some [''topic''] \<and>
     map_of (MetricTopicBinding b) ''f2'' = None"
proof -
  let ?trails = "[sample_trail None, sample_trail (Some ''a:b''), sample_trail (Some ''arn:aws:logs:us-east-1:1:log-group:trail:*'')]"
  have "Cloudtrail sample_monitoring = Some (Inr ?trails)" by (simp add: sample_monitoring_def)
  moreover have "services_answer sample_monitoring" by (simp add: services_answer_def sample_monitoring_def)
  moreover have "list_all indexable_arn ?trails" by (simp add: indexable_arn_def sample_trail_def)
  ultimately obtain rs where rs: "AggregateResources sample_monitoring = Some (Inr (Inr rs))"
      "map TrailInfo rs = filter (monitored sample_monitoring) ?trails" "list_all (bound_topics sample_monitoring) rs"
    using AggregateResources_items [of sample_monitoring ?trails] by blast
  have "filter (monitored sample_monitoring) ?trails =
      [sample_trail None, sample_trail (Some ''arn:aws:logs:us-east-1:1:log-group:trail:*'')]"
    by (simp add: monitored_def sample_trail_def getLogGroupFromARN_def sample_monitoring_def Let_def)
  then obtain a b where ab: "rs = [a, b]" "TrailInfo a = sample_trail None"
    using rs(2) by (auto simp: map_eq_Cons_conv)
  have computed: "AggregateResources sample_monitoring = Some (Inr (Inr [
      \<lparr>TrailInfo = sample_trail None, MetricFilters = [], MetricTopicBinding = []\<rparr>,
      \<lparr>TrailInfo = sample_trail (Some ''arn:aws:logs:us-east-1:1:log-group:trail:*''),
       MetricFilters = [\<lparr>FilterName = Some ''f1'', FilterPattern = Some ''p''\<rparr>,
        \<lparr>FilterName = Some ''f2'', FilterPattern = Some ''p''\<rparr>, \<lparr>FilterName = Some ''f3'', FilterPattern = None\<rparr>],
       MetricTopicBinding = [(''f1'', [''topic''])]\<rparr>]))"
    by (simp add: AggregateResources_def sample_monitoring_def sample_trail_def monitoring_step_def
        getLogGroupFromARN_def map_put_def Let_def)
  show ?thesis using rs(1) ab computed by auto
qed

text \<open>
  Without a client for the default region the audits panic: when the regions cannot be had and the
  configured region is not \<open>us-east-1\<close>, the clients are those of the configured region only, and the
  description of the trails, of the trails with their buckets, of the items for monitoring and of the
  buckets all call a method of the nil client of the default region.
\<close>

lemma default_region_client_missing:
  assumes "cfgRegion \<noteq> DefaultRegion"
  shows "trail_DescribeTrails (trail_NewProvider (Inl err) cfgRegion trailClient) = None \<and>
    AggregateResources (monitoring_NewProvider (trail_NewProvider (Inl err) cfgRegion trailClient) alarms logs topics) =
      None \<and>
    logging_DescribeTrails (logging_NewProvider s3 (trail_NewProvider (Inl err) cfgRegion trailClient)) = None \<and>
    DescribeBuckets ranged (s3_NewProvider (Inl err) cfgRegion s3Client control account code unmarshal) = None"
  using assms
  by (simp add: trail_DescribeTrails_def trail_NewProvider_def NewMultiRegionClients_def monitoring_NewProvider_def
      AggregateResources_def logging_DescribeTrails_def logging_NewProvider_def DescribeBuckets_def
      s3_NewProvider_def map_put_def)

lemma default_region_client_missing_witness:
  "DescribeBuckets rev (s3_NewProvider (Inl (Errorf ''denied'')) ''eu-west-1'' (\<lambda>_. sample_s3_client)
     (\<lambda>_. Inr None) ''9'' (\<lambda>_. None) (\<lambda>_. Inr None)) = None"
  by (rule default_region_client_missing [THEN conjunct2, THEN conjunct2, THEN conjunct2]) simp

end
