(* ===== verification/AWS_IAM.thy ===== *)
theory AWS_IAM
  imports AWS_Storage
begin

text \<open>
  \<open>resources/providers/awslib/iam\<close>: the users with what the credential report says of them, the root
  user, the policies, the password policy, the server certificates and the access analyzers. The
  client of the SDK is a record of its calls; those that depend on the moment (the report, which the
  service makes in the background) act on a state \<open>'w\<close>. \<open>None\<close> as the answer of an operation stands for a loop
  over pages that does not end or for the panic of a nil pointer.
\<close>

section \<open>Types\<close>

record iam_user_entry =
  ue_UserName :: "string option"
  ue_Arn :: "string option"

record mfa_device =
  dev_SerialNumber :: string
  dev_UserName :: "string option"
  EnableDate :: any

record virtual_mfa_device =
  vd_SerialNumber :: string
  vd_User :: "string option option"
  vd_EnableDate :: any

record auth_device =
  IsVirtual :: bool
  MFADevice :: "mfa_device option"

record access_key =
  ak_Active :: bool
  HasUsed :: bool
  ak_LastAccess :: string
  RotationDate :: string

record policy_document =
  pd_PolicyName :: string
  pd_Policy :: string

record iam_user =
  AccessKeys :: "access_key list"
  MFADevices :: "auth_device list"
  InlinePolicies :: "policy_document list"
  AttachedPolicies :: "string list"
  u_Name :: string
  u_LastAccess :: string
  u_Arn :: string
  u_PasswordLastChanged :: string
  u_PasswordEnabled :: bool
  u_MfaActive :: bool

record credential_report =
  cr_User :: string
  cr_Arn :: string
  UserCreation :: string
  cr_PasswordEnabled :: string
  PasswordLastUsed :: string
  cr_PasswordLastChanged :: string
  PasswordNextRotation :: string
  cr_MfaActive :: bool
  AccessKey1Active :: bool
  AccessKey1LastRotated :: string
  AccessKey1LastUsed :: string
  AccessKey2Active :: bool
  AccessKey2LastRotated :: string
  AccessKey2LastUsed :: string
  Cert1Active :: bool
  Cert2Active :: bool

record sdk_policy =
  pol_Arn :: "string option"
  pol_Name :: "string option"
  DefaultVersionId :: "string option"

record iam_policy =
  pol :: sdk_policy
  Document :: "(string \<times> any) list option"
  Roles :: "string list"

record sdk_password_policy =
  PasswordReusePrevention :: "int option"
  MaxPasswordAge :: "int option"
  MinimumPasswordLength :: "int option"
  sdk_RequireLowercase :: bool
  sdk_RequireUppercase :: bool
  sdk_RequireNumbers :: bool
  sdk_RequireSymbols :: bool

record ('tok, 'w) iam_client =
  ListUsers :: "'tok option \<Rightarrow> ('tok, iam_user_entry) marker_page result"
  c_ListMFADevices :: "string option \<Rightarrow> 'tok option \<Rightarrow> ('tok, mfa_device) marker_page result"
  ListAttachedRolePolicies :: "string \<Rightarrow> (string option \<times> string) list result"
  ListVirtualMFADevices :: "'tok option \<Rightarrow> ('tok, virtual_mfa_device) marker_page result"
  ListAttachedUserPolicies :: "string option \<Rightarrow> 'tok option \<Rightarrow> ('tok, string) marker_page result"
  ListUserPolicies :: "string option \<Rightarrow> 'tok option \<Rightarrow> ('tok, string) marker_page result"
  GetAccountPasswordPolicy :: "sdk_password_policy result"
  GetRolePolicy :: "string option \<Rightarrow> string \<Rightarrow> any result"
  GetCredentialReport :: "'w \<Rightarrow> string result \<times> 'w"
  GetUserPolicy :: "string option \<Rightarrow> string \<Rightarrow> string result"
  GenerateCredentialReport :: "'w \<Rightarrow> go_error option \<times> 'w"
  ListPolicies :: "'tok option \<Rightarrow> ('tok, sdk_policy) marker_page result"
  c_GetPolicy :: "string \<Rightarrow> sdk_policy result"
  GetPolicyVersion :: "string \<Rightarrow> string \<Rightarrow> string option option result"
  ListEntitiesForPolicy :: "string \<Rightarrow> 'tok option \<Rightarrow> ('tok, string) marker_page result"
  c_ListServerCertificates :: "'tok option \<Rightarrow> ('tok, any) marker_page result"

text \<open>
  Besides the client: the clients for the access analyzers of each region (\<open>None\<close> the nil map),
  \<open>errors.As\<close> for the two kinds of errors of the SDK, \<open>time.Sleep\<close>, \<open>gocsv.Unmarshal\<close>,
  \<open>url.QueryUnescape\<close> and \<open>json.Unmarshal\<close> into a map.
\<close>

record ('tok, 'w) iam_provider =
  iam :: "('tok, 'w) iam_client"
  accessAnalyzerClients :: "('tok, any) page_api clients option"
  is_ServiceFailure :: "go_error \<Rightarrow> bool"
  iam_ErrorCode :: "go_error \<Rightarrow> string option"
  time_Sleep :: "int \<Rightarrow> 'w \<Rightarrow> 'w"
  csv_Unmarshal :: "string \<Rightarrow> credential_report list result"
  QueryUnescape :: "string \<Rightarrow> string result"
  json_Unmarshal :: "string \<Rightarrow> (string \<times> any) list option result"

definition rootAccount :: string where
  "rootAccount = ''<root_account>''"

definition maxRetries :: nat where
  "maxRetries = 5"

definition interval :: int where
  "interval = 3 * 10 ^ 9"

text \<open>All the pages of a listing.\<close>

definition list_all_pages :: "('tok option \<Rightarrow> ('tok, 'a) marker_page result) \<Rightarrow> 'a list result option" where
  "list_all_pages call = paginate (marker_api call) None []"

section \<open>The credential report\<close>

text \<open>
  The loop that waits for the report. The code of the error that it tests is not read again, so that
  the loop goes on whatever later errors say, until a call succeeds or the retries are used up.
\<close>

function await_report :: "('tok, 'w) iam_provider \<Rightarrow> go_error \<Rightarrow> nat \<Rightarrow> 'w \<Rightarrow> string result \<times> 'w" where
  "await_report p err countRetries w =
     (if countRetries \<ge> maxRetries then (Inl (Wrapf ''reached max retries: '' err), w)
      else case GetCredentialReport (iam p) w of
             (Inr report, w') \<Rightarrow> (Inr report, w')
           | (Inl err', w') \<Rightarrow> await_report p err' (Suc countRetries) (time_Sleep p interval w'))"
  by pat_completeness auto
termination
  by (relation "measure (\<lambda>(p, err, countRetries, w). maxRetries - countRetries)") auto

declare await_report.simps [simp del]

definition generate_if_absent :: "('tok, 'w) iam_provider \<Rightarrow> go_error \<Rightarrow> 'w \<Rightarrow> go_error option \<times> 'w" where
  "generate_if_absent p err w =
     (if iam_ErrorCode p err \<in> {Some ''ReportNotPresent'', Some ''ReportExpired''}
      then GenerateCredentialReport (iam p) w else (None, w))"

text \<open>
  The service answers a report or an error, never neither, so that the answer without a report and
  without an error does not occur.
\<close>

definition fetch_report :: "('tok, 'w) iam_provider \<Rightarrow> 'w \<Rightarrow> string result \<times> 'w" where
  "fetch_report p w =
     (case GetCredentialReport (iam p) w of
        (Inr report, w) \<Rightarrow> (Inr report, w)
      | (Inl err, w) \<Rightarrow>
          if is_ServiceFailure p err then (Inl (Wrapf ''could not gather aws iam credential report: '' err), w)
          else case generate_if_absent p err w of
                 (Some err, w) \<Rightarrow> (Inl err, w)
               | (None, w) \<Rightarrow>
                   (case GetCredentialReport (iam p) w of
                      (Inr report, w) \<Rightarrow> (Inr report, w)
                    | (Inl err, w) \<Rightarrow>
                        if iam_ErrorCode p err \<in> {Some ''NoSuchEntity'', Some ''ReportInProgress''}
                        then await_report p err 0 w
                        else (Inl (Wrapf ''could not gather aws iam credential report: '' err), w)))"

definition parseCredentialsReport ::
  "('tok, 'w) iam_provider \<Rightarrow> string \<Rightarrow> (string \<times> credential_report) list result" where
  "parseCredentialsReport p content =
     (case csv_Unmarshal p content of
        Inl err \<Rightarrow> Inl err
      | Inr rows \<Rightarrow> Inr (fold (\<lambda>row m. map_put (cr_User row) row m) rows []))"

definition getCredentialReport ::
  "('tok, 'w) iam_provider \<Rightarrow> 'w \<Rightarrow> (string \<times> credential_report) list result \<times> 'w" where
  "getCredentialReport p w =
     (case fetch_report p w of
        (Inl err, w') \<Rightarrow> (Inl err, w')
      | (Inr report, w') \<Rightarrow>
          (case parseCredentialsReport p report of
             Inl err \<Rightarrow> (Inl (Wrapf ''fail to parse credentials report: '' err), w')
           | Inr parsedReport \<Rightarrow> (Inr parsedReport, w')))"

definition isPasswordEnabled :: "credential_report \<Rightarrow> bool result" where
  "isPasswordEnabled userAccount =
     (if cr_PasswordEnabled userAccount = ''not_supported'' then Inr False
      else case parse_bool (cr_PasswordEnabled userAccount) of
             None \<Rightarrow> Inl (Errorf (''strconv.ParseBool: parsing '' @ quote_q (cr_PasswordEnabled userAccount) @
                                 '': invalid syntax''))
           | Some b \<Rightarrow> Inr b)"

definition getUserKeys :: "string \<Rightarrow> (string \<times> credential_report) list \<Rightarrow> access_key list" where
  "getUserKeys username report =
     (case map_of report username of
        None \<Rightarrow> []
      | Some entry \<Rightarrow>
          [\<lparr>ak_Active = AccessKey1Active entry, HasUsed = (AccessKey1LastUsed entry \<noteq> ''N/A''),
            ak_LastAccess = AccessKey1LastUsed entry, RotationDate = AccessKey1LastRotated entry\<rparr>,
           \<lparr>ak_Active = AccessKey2Active entry, HasUsed = (AccessKey2LastUsed entry \<noteq> ''N/A''),
            ak_LastAccess = AccessKey2LastUsed entry, RotationDate = AccessKey2LastRotated entry\<rparr>])"

section \<open>The root user\<close>

definition isRootUser :: "string \<Rightarrow> bool" where
  "isRootUser username \<longleftrightarrow> username = rootAccount"

text \<open>
  The entry that stands for the root user; its two dates must parse, but no code reads them. The
  argument is \<open>None\<close> where the report has no row for the root account.
\<close>

definition getRootAccountUser :: "credential_report option \<Rightarrow> iam_user_entry option" where
  "getRootAccountUser root =
     (case root of
        None \<Rightarrow> None
      | Some r \<Rightarrow>
          if \<not> rfc3339_ok (UserCreation r) then None
          else if \<not> rfc3339_ok (PasswordLastUsed r) then None
          else Some \<lparr>ue_UserName = Some (cr_User r), ue_Arn = Some (cr_Arn r)\<rparr>)"

fun root_device :: "virtual_mfa_device list \<Rightarrow> auth_device list option" where
  "root_device [] = Some [\<lparr>IsVirtual = False, MFADevice = None\<rparr>]"
| "root_device (device # devices) =
     (if has_suffix (vd_SerialNumber device) ''root-account-mfa-device'' then
        (case vd_User device of
           None \<Rightarrow> None
         | Some name \<Rightarrow>
             Some [\<lparr>IsVirtual = True,
                    MFADevice = Some \<lparr>dev_SerialNumber = vd_SerialNumber device, dev_UserName = name,
                                      EnableDate = vd_EnableDate device\<rparr>\<rparr>])
      else root_device devices)"

definition listRootMFADevice ::
  "('tok, 'w) iam_provider \<Rightarrow> credential_report \<Rightarrow> auth_device list result option" where
  "listRootMFADevice p userAccount =
     (if \<not> cr_MfaActive userAccount then Some (Inr [])
      else case list_all_pages (ListVirtualMFADevices (iam p)) of
             None \<Rightarrow> None
           | Some (Inl err) \<Rightarrow> Some (Inl err)
           | Some (Inr virtualDevices) \<Rightarrow> map_option Inr (root_device virtualDevices))"

section \<open>Users\<close>

definition listUsers :: "('tok, 'w) iam_provider \<Rightarrow> iam_user_entry list result option" where
  "listUsers p = list_all_pages (ListUsers (iam p))"

definition listMFADevices :: "('tok, 'w) iam_provider \<Rightarrow> string option \<Rightarrow> auth_device list result option" where
  "listMFADevices p name =
     map_option (map_sum id (map (\<lambda>apiDevice.
         \<lparr>IsVirtual = has_prefix (dev_SerialNumber apiDevice) ''arn:'', MFADevice = Some apiDevice\<rparr>)))
       (list_all_pages (c_ListMFADevices (iam p) name))"

definition getMFADevices ::
  "('tok, 'w) iam_provider \<Rightarrow> string \<Rightarrow> credential_report \<Rightarrow> auth_device list result option" where
  "getMFADevices p name userAccount =
     (if name = rootAccount then listRootMFADevice p userAccount else listMFADevices p (Some name))"

definition listAttachedPolicies :: "('tok, 'w) iam_provider \<Rightarrow> string \<Rightarrow> string list result option" where
  "listAttachedPolicies p identity = list_all_pages (ListAttachedUserPolicies (iam p) (Some identity))"

definition listInlinePolicies :: "('tok, 'w) iam_provider \<Rightarrow> string \<Rightarrow> policy_document list result option" where
  "listInlinePolicies p identity =
     map_option (map_sum id (map (\<lambda>name.
         case GetUserPolicy (iam p) (Some identity) name of
           Inl err \<Rightarrow> \<lparr>pd_PolicyName = name, pd_Policy = []\<rparr>
         | Inr doc \<Rightarrow> \<lparr>pd_PolicyName = name, pd_Policy = doc\<rparr>)))
       (list_all_pages (ListUserPolicies (iam p) (Some identity)))"

text \<open>The value of a call whose error is only logged: no elements.\<close>

definition or_empty :: "'a list result \<Rightarrow> 'a list" where
  "or_empty r = (case r of Inl _ \<Rightarrow> [] | Inr xs \<Rightarrow> xs)"

text \<open>
  The body of the loop over the users, for a user with a row. The name is followed without a test for
  nil (\<open>None\<close>).
\<close>

definition describe_user ::
  "('tok, 'w) iam_provider \<Rightarrow> (string \<times> credential_report) list \<Rightarrow> iam_user_entry \<Rightarrow> iam_user option option" where
  "describe_user p credentialReport apiUser =
     (case ue_UserName apiUser of
        None \<Rightarrow> None
      | Some username \<Rightarrow>
          (let arn = Dereference (ue_Arn apiUser);
               keys = getUserKeys username credentialReport
           in case map_of credentialReport username of
                None \<Rightarrow> Some None
              | Some userAccount \<Rightarrow>
                  (case (getMFADevices p username userAccount, listInlinePolicies p username,
                         listAttachedPolicies p username) of
                     (Some mfaDevices, Some inlinePolicies, Some attachedPolicies) \<Rightarrow>
                       Some (Some
                         \<lparr>AccessKeys = keys, MFADevices = or_empty mfaDevices,
                          InlinePolicies = or_empty inlinePolicies, AttachedPolicies = or_empty attachedPolicies,
                          u_Name = username, u_LastAccess = PasswordLastUsed userAccount, u_Arn = arn,
                          u_PasswordLastChanged = cr_PasswordLastChanged userAccount,
                          u_PasswordEnabled =
                            (case isPasswordEnabled userAccount of Inl err \<Rightarrow> False | Inr pwdEnabled \<Rightarrow> pwdEnabled),
                          u_MfaActive = cr_MfaActive userAccount\<rparr>)
                   | _ \<Rightarrow> None)))"

fun describe_users ::
  "('tok, 'w) iam_provider \<Rightarrow> (string \<times> credential_report) list \<Rightarrow> iam_user_entry list \<Rightarrow> iam_user list option" where
  "describe_users p credentialReport [] = Some []"
| "describe_users p credentialReport (apiUser # apiUsers) =
     (case describe_user p credentialReport apiUser of
        None \<Rightarrow> None
      | Some None \<Rightarrow> describe_users p credentialReport apiUsers
      | Some (Some user) \<Rightarrow> map_option (Cons user) (describe_users p credentialReport apiUsers))"

definition with_root :: "(string \<times> credential_report) list \<Rightarrow> iam_user_entry list \<Rightarrow> iam_user_entry list" where
  "with_root credentialReport apiUsers =
     (case getRootAccountUser (map_of credentialReport rootAccount) of
        None \<Rightarrow> apiUsers
      | Some rootUser \<Rightarrow> apiUsers @ [rootUser])"

definition GetUsers :: "('tok, 'w) iam_provider \<Rightarrow> 'w \<Rightarrow> iam_user list result option \<times> 'w" where
  "GetUsers p w =
     (case listUsers p of
        None \<Rightarrow> (None, w)
      | Some (Inl err) \<Rightarrow> (Some (Inl err), w)
      | Some (Inr apiUsers) \<Rightarrow>
          (case getCredentialReport p w of
             (Inl err, w') \<Rightarrow> (Some (Inl err), w')
           | (Inr credentialReport, w') \<Rightarrow>
               (map_option Inr (describe_users p credentialReport (with_root credentialReport apiUsers)), w')))"

definition iam_user_resource :: "iam_user \<Rightarrow> iam_user aws_resource" where
  "iam_user_resource u =
     \<lparr>GetResourceArn = u_Arn u, GetResourceName = u_Name u, GetResourceType = ''aws-iam-user'',
      GetRegion = GlobalRegion, resource_value = u\<rparr>"

section \<open>Policies\<close>

definition awsSupportAccessArn :: string where
  "awsSupportAccessArn = ''arn:aws:iam::aws:policy/AWSSupportAccess''"

text \<open>The answer of \<open>GetPolicyVersion\<close>: a version, if any, with a document, if any.\<close>

definition decodePolicyDocument ::
  "('tok, 'w) iam_provider \<Rightarrow> string option option \<Rightarrow> (string \<times> any) list option result" where
  "decodePolicyDocument p policyVersion =
     (case policyVersion of
        Some (Some document) \<Rightarrow>
          (case QueryUnescape p document of
             Inl err \<Rightarrow> Inl (Wrapf ''failed to unescape policy document: '' err)
           | Inr docString \<Rightarrow>
               (case json_Unmarshal p docString of
                  Inl err \<Rightarrow> Inl (Wrapf ''failed to unmarshal policy document: '' err)
                | Inr doc \<Rightarrow> Inr doc))
      | _ \<Rightarrow> Inl (Errorf ''invalid policy version''))"

definition getPolicyDocument ::
  "('tok, 'w) iam_provider \<Rightarrow> sdk_policy \<Rightarrow> (string \<times> any) list option result" where
  "getPolicyDocument p policy =
     (case (pol_Arn policy, DefaultVersionId policy) of
        (Some arn, Some ver) \<Rightarrow>
          (case GetPolicyVersion (iam p) arn ver of
             Inl err \<Rightarrow> Inl err
           | Inr out \<Rightarrow> decodePolicyDocument p out)
      | _ \<Rightarrow> Inl (Errorf ''invalid policy''))"

fun page_policies :: "('tok, 'w) iam_provider \<Rightarrow> sdk_policy list \<Rightarrow> iam_policy list \<Rightarrow> iam_policy list result" where
  "page_policies p [] policies = Inr policies"
| "page_policies p (policy # ps) policies =
     (if Dereference (pol_Arn policy) = awsSupportAccessArn then page_policies p ps policies
      else case getPolicyDocument p policy of
             Inl err \<Rightarrow> Inl err
           | Inr doc \<Rightarrow> page_policies p ps (policies @ [\<lparr>pol = policy, Document = doc, Roles = []\<rparr>]))"

partial_function (option) policy_pages ::
  "('tok, 'w) iam_provider \<Rightarrow> 'tok option \<Rightarrow> iam_policy list \<Rightarrow> iam_policy list result option" where
  "policy_pages p marker policies =
     (case ListPolicies (iam p) marker of
        Inl err \<Rightarrow> Some (Inl err)
      | Inr output \<Rightarrow>
          (case page_policies p (mp_items output) policies of
             Inl err \<Rightarrow> Some (Inl err)
           | Inr policies' \<Rightarrow>
               if \<not> IsTruncated output then Some (Inr policies') else policy_pages p (Marker output) policies'))"

declare policy_pages.simps [code]

definition getPolicies :: "('tok, 'w) iam_provider \<Rightarrow> iam_policy list result option" where
  "getPolicies p = policy_pages p None []"

definition getSupportPolicy :: "('tok, 'w) iam_provider \<Rightarrow> iam_policy result option" where
  "getSupportPolicy p =
     (case c_GetPolicy (iam p) awsSupportAccessArn of
        Inl err \<Rightarrow> Some (Inl err)
      | Inr policy \<Rightarrow>
          (case getPolicyDocument p policy of
             Inl err \<Rightarrow> Some (Inl err)
           | Inr doc \<Rightarrow>
               (case list_all_pages (ListEntitiesForPolicy (iam p) awsSupportAccessArn) of
                  None \<Rightarrow> None
                | Some (Inl err) \<Rightarrow> Some (Inl err)
                | Some (Inr roles) \<Rightarrow> Some (Inr \<lparr>pol = policy, Document = doc, Roles = roles\<rparr>))))"

definition GetPolicies :: "('tok, 'w) iam_provider \<Rightarrow> iam_policy list result option" where
  "GetPolicies p =
     (case getPolicies p of
        None \<Rightarrow> None
      | Some (Inl err) \<Rightarrow> Some (Inl err)
      | Some (Inr policies) \<Rightarrow>
          (case getSupportPolicy p of
             None \<Rightarrow> None
           | Some (Inl err) \<Rightarrow> Some (Inl err)
           | Some (Inr supportPolicy) \<Rightarrow> Some (Inr (policies @ [supportPolicy]))))"

definition iam_policy_resource :: "iam_policy \<Rightarrow> iam_policy aws_resource" where
  "iam_policy_resource p =
     \<lparr>GetResourceArn = Dereference (pol_Arn (pol p)), GetResourceName = Dereference (pol_Name (pol p)),
      GetResourceType = ''aws-policy'', GetRegion = GlobalRegion, resource_value = p\<rparr>"

section \<open>Roles\<close>

record role_policy_info =
  PolicyARN :: string
  role_policy :: any

definition getAllRolePolicies ::
  "('tok, 'w) iam_provider \<Rightarrow> string \<Rightarrow> (string option \<times> string) list result" where
  "getAllRolePolicies p roleName =
     (case ListAttachedRolePolicies (iam p) roleName of
        Inl err \<Rightarrow> Inl (Wrapf (''failed to list role '' @ roleName @ '' policies - '') err)
      | Inr allPolicies \<Rightarrow> Inr allPolicies)"

definition GetIAMRolePermissions :: "('tok, 'w) iam_provider \<Rightarrow> string \<Rightarrow> role_policy_info list result" where
  "GetIAMRolePermissions p roleName =
     (case getAllRolePolicies p roleName of
        Inl err \<Rightarrow> Inl (Wrapf (''failed to list role '' @ roleName @ '' policies - '') err)
      | Inr policiesIdentifiers \<Rightarrow>
          Inr (oks (map (\<lambda>(name, arn).
            map_sum id (\<lambda>policy. \<lparr>PolicyARN = arn, role_policy = policy\<rparr>) (GetRolePolicy (iam p) name roleName))
              policiesIdentifiers)))"

section \<open>The password policy, certificates and analyzers\<close>

record password_policy =
  ReusePreventionCount :: int
  RequireLowercase :: bool
  RequireUppercase :: bool
  RequireNumbers :: bool
  RequireSymbols :: bool
  MaxAgeDays :: int
  MinimumLength :: int

definition int_or_zero :: "int option \<Rightarrow> int" where
  "int_or_zero n = (case n of None \<Rightarrow> 0 | Some v \<Rightarrow> v)"

definition GetPasswordPolicy :: "('tok, 'w) iam_provider \<Rightarrow> password_policy result" where
  "GetPasswordPolicy p =
     (case GetAccountPasswordPolicy (iam p) of
        Inl err \<Rightarrow> Inl err
      | Inr policy \<Rightarrow>
          Inr \<lparr>ReusePreventionCount = int_or_zero (PasswordReusePrevention policy),
               RequireLowercase = sdk_RequireLowercase policy, RequireUppercase = sdk_RequireUppercase policy,
               RequireNumbers = sdk_RequireNumbers policy, RequireSymbols = sdk_RequireSymbols policy,
               MaxAgeDays = int_or_zero (MaxPasswordAge policy),
               MinimumLength = int_or_zero (MinimumPasswordLength policy)\<rparr>)"

definition password_policy_resource :: "password_policy \<Rightarrow> password_policy aws_resource" where
  "password_policy_resource p =
     \<lparr>GetResourceArn = [], GetResourceName = ''account-password-policy'',
      GetResourceType = ''aws-password-policy'', GetRegion = GlobalRegion, resource_value = p\<rparr>"

definition ListServerCertificates :: "('tok, 'w) iam_provider \<Rightarrow> any list result option" where
  "ListServerCertificates p = list_all_pages (c_ListServerCertificates (iam p))"

definition certificates_resource :: "any list \<Rightarrow> any list aws_resource" where
  "certificates_resource c =
     \<lparr>GetResourceArn = [], GetResourceName = ''account-iam-server-certificates'',
      GetResourceType = ''aws-iam-server-certificate'', GetRegion = GlobalRegion, resource_value = c\<rparr>"

record access_analyzer =
  AnalyzerSummary :: any
  an_Region :: string

record access_analyzers =
  Analyzers :: "access_analyzer list"
  Regions :: "string list"

text \<open>The analyzers of a region, or the zero value with the error.\<close>

definition getAccessAnalyzersForRegion ::
  "string \<Rightarrow> ('tok, any) page_api \<Rightarrow> ((any list \<times> string) \<times> go_error option) option" where
  "getAccessAnalyzersForRegion region c =
     (case paginate c None [] of
        None \<Rightarrow> None
      | Some (Inl err) \<Rightarrow> Some (([], []), Some err)
      | Some (Inr analyzers) \<Rightarrow> Some ((analyzers, region), None))"

definition GetAccessAnalyzers :: "('tok, 'w) iam_provider \<Rightarrow> access_analyzers result option" where
  "GetAccessAnalyzers p =
     (if \<exists>(region, c) \<in> set (case accessAnalyzerClients p of None \<Rightarrow> [] | Some cs \<Rightarrow> cs).
           getAccessAnalyzersForRegion region c = None then None
      else case MultiRegionFetch (\<lambda>_. False) (accessAnalyzerClients p)
                  (\<lambda>region c. the (getAccessAnalyzersForRegion region c)) of
             (analyzers, Some err) \<Rightarrow> Some (Inl err)
           | (analyzers, None) \<Rightarrow>
               Some (Inr \<lparr>Analyzers = concat (map (\<lambda>(as, regionName).
                            map (\<lambda>a. \<lparr>AnalyzerSummary = a, an_Region = regionName\<rparr>) as) analyzers),
                          Regions = map snd analyzers\<rparr>))"

definition access_analyzers_resource :: "access_analyzers \<Rightarrow> access_analyzers aws_resource" where
  "access_analyzers_resource a =
     \<lparr>GetResourceArn = [], GetResourceName = ''account-access-analyzers'',
      GetResourceType = ''aws-access-analyzers'', GetRegion = GlobalRegion, resource_value = a\<rparr>"

section \<open>Lemmas\<close>

text \<open>A client that counts its calls for the report and the pauses between them.\<close>

type_synonym 'w counted = "'w \<times> nat \<times> nat \<times> nat"

definition counted :: "('tok, 'w) iam_provider \<Rightarrow> ('tok, 'w counted) iam_provider" where
  "counted p =
     \<lparr>iam = \<lparr>ListUsers = ListUsers (iam p), c_ListMFADevices = c_ListMFADevices (iam p),
        ListAttachedRolePolicies = ListAttachedRolePolicies (iam p),
        ListVirtualMFADevices = ListVirtualMFADevices (iam p),
        ListAttachedUserPolicies = ListAttachedUserPolicies (iam p), ListUserPolicies = ListUserPolicies (iam p),
        GetAccountPasswordPolicy = GetAccountPasswordPolicy (iam p), GetRolePolicy = GetRolePolicy (iam p),
        GetCredentialReport = (\<lambda>(w, g, n, s). let (r, w') = GetCredentialReport (iam p) w in (r, (w', Suc g, n, s))),
        GetUserPolicy = GetUserPolicy (iam p),
        GenerateCredentialReport = (\<lambda>(w, g, n, s). let (r, w') = GenerateCredentialReport (iam p) w in (r, (w', g, Suc n, s))),
        ListPolicies = ListPolicies (iam p), c_GetPolicy = c_GetPolicy (iam p),
        GetPolicyVersion = GetPolicyVersion (iam p), ListEntitiesForPolicy = ListEntitiesForPolicy (iam p),
        c_ListServerCertificates = c_ListServerCertificates (iam p)\<rparr>,
      accessAnalyzerClients = accessAnalyzerClients p, is_ServiceFailure = is_ServiceFailure p,
      iam_ErrorCode = iam_ErrorCode p,
      time_Sleep = (\<lambda>d (w, g, n, s). (time_Sleep p d w, g, n, Suc s)),
      csv_Unmarshal = csv_Unmarshal p, QueryUnescape = QueryUnescape p, json_Unmarshal = json_Unmarshal p\<rparr>"

lemma counted_simps [simp]:
  "GetCredentialReport (iam (counted p)) (w, g, n, s) =
     (fst (GetCredentialReport (iam p) w), (snd (GetCredentialReport (iam p) w), Suc g, n, s))"
  "GenerateCredentialReport (iam (counted p)) (w, g, n, s) =
     (fst (GenerateCredentialReport (iam p) w), (snd (GenerateCredentialReport (iam p) w), g, Suc n, s))"
  "time_Sleep (counted p) d (w, g, n, s) = (time_Sleep p d w, g, n, Suc s)"
  "is_ServiceFailure (counted p) = is_ServiceFailure p" "iam_ErrorCode (counted p) = iam_ErrorCode p"
  "csv_Unmarshal (counted p) = csv_Unmarshal p"
  by (simp_all add: counted_def case_prod_beta)

lemma await_report_counted:
  assumes "countRetries \<le> maxRetries" and "await_report p err countRetries w = (r, w')"
  shows "\<exists>k. await_report (counted p) err countRetries (w, g, n, s) =
      (r, (w', g + k, n, s + (if is_ok r then k - 1 else k))) \<and>
    (is_ok r \<longrightarrow> 0 < k) \<and> k \<le> maxRetries - countRetries"
  using assms
proof (induction "maxRetries - countRetries" arbitrary: countRetries err w g s)
  case 0
  then have "await_report (counted p) err countRetries (w, g, n, s) = (r, (w', g + 0, n, s + 0))" "\<not> is_ok r"
    by (auto simp: await_report.simps)
  then show ?case by (intro exI [of _ 0]) simp
next
  case (Suc d)
  obtain x w1 where call: "GetCredentialReport (iam p) w = (x, w1)" by fastforce
  have more: "\<not> maxRetries \<le> countRetries" using Suc by linarith
  show ?case
  proof (cases x)
    case (Inr report)
    then have "await_report (counted p) err countRetries (w, g, n, s) = (Inr report, (w1, g + 1, n, s + 0))"
      "r = Inr report" "w' = w1"
      using call more Suc.prems(2) by (auto simp: await_report.simps)
    then show ?thesis using more by (intro exI [of _ 1]) simp
  next
    case (Inl err')
    then have step: "await_report (counted p) err countRetries (w, g, n, s) =
        await_report (counted p) err' (Suc countRetries) (time_Sleep p interval w1, Suc g, n, Suc s)"
      using call more by (subst await_report.simps) simp
    have "await_report p err' (Suc countRetries) (time_Sleep p interval w1) = (r, w')"
      using call more Suc.prems(2) Inl by (simp add: await_report.simps [of p err])
    moreover have d: "d = maxRetries - Suc countRetries" "Suc countRetries \<le> maxRetries" using Suc.hyps(2) more by simp_all
    ultimately obtain k where "await_report (counted p) err' (Suc countRetries) (time_Sleep p interval w1, Suc g, n, Suc s) =
        (r, (w', Suc g + k, n, Suc s + (if is_ok r then k - 1 else k)))"
        "is_ok r \<longrightarrow> 0 < k" "k \<le> maxRetries - Suc countRetries"
      using Suc.hyps(1) [of "Suc countRetries" err' "time_Sleep p interval w1" "Suc g" "Suc s"] d more
      by blast
    then show ?thesis using step more by (intro exI [of _ "Suc k"]) auto
  qed
qed

lemma fetch_report_counted:
  assumes "fetch_report p w = (r, w')"
  shows "\<exists>g n s. fetch_report (counted p) (w, 0, 0, 0) = (r, (w', g, n, s)) \<and>
    1 \<le> g \<and> g \<le> 7 \<and> n \<le> 1 \<and> s \<le> 5"
proof -
  have await: "\<exists>g' n' s'. await_report (counted p) err 0 (wa, 2, n, 0) = (r, (w', g', n', s')) \<and>
      1 \<le> g' \<and> g' \<le> 7 \<and> n' \<le> 1 \<and> s' \<le> 5"
    if run: "await_report p err 0 wa = (r, w')" "n \<le> 1" for err wa n
  proof -
    obtain k where "await_report (counted p) err 0 (wa, 2, n, 0) =
        (r, (w', 2 + k, n, 0 + (if is_ok r then k - 1 else k)))" "k \<le> 5"
      using await_report_counted [of 0 p err wa r w' 2 n 0] run by (auto simp: maxRetries_def)
    then show ?thesis using run(2) by auto
  qed
  obtain x wa where first: "GetCredentialReport (iam p) w = (x, wa)" by fastforce
  then have first': "GetCredentialReport (iam (counted p)) (w, 0, 0, 0) = (x, (wa, 1, 0, 0))" by simp
  note unfold = fetch_report_def first first'
  show ?thesis
  proof (cases x)
    case (Inr report)
    then show ?thesis using assms by (auto simp: unfold)
  next
    case (Inl err)
    obtain y wb where gen: "generate_if_absent p err wa = (y, wb)" by fastforce
    then obtain n where gen': "generate_if_absent (counted p) err (wa, 1, 0, 0) = (y, (wb, 1, n, 0))" "n \<le> 1"
      by (auto simp: generate_if_absent_def split: if_splits)
    obtain z wc where second: "GetCredentialReport (iam p) wb = (z, wc)" by fastforce
    then have second': "GetCredentialReport (iam (counted p)) (wb, 1, n, 0) = (z, (wc, 2, n, 0))" by simp
    note unfold' = unfold Inl gen gen'(1) second second'
    consider "is_ServiceFailure p err" | e where "\<not> is_ServiceFailure p err" "y = Some e"
      | report where "\<not> is_ServiceFailure p err" "y = None" "z = Inr report"
      | err2 where "\<not> is_ServiceFailure p err" "y = None" "z = Inl err2"
      by (cases y; cases z) auto
    then show ?thesis
    proof cases
      case 4
      show ?thesis
      proof (cases "iam_ErrorCode p err2 \<in> {Some ''NoSuchEntity'', Some ''ReportInProgress''}")
        case True
        then have "await_report p err2 0 wc = (r, w')" using assms 4 by (simp add: unfold')
        from await [OF this gen'(2)] show ?thesis using 4 True by (simp add: unfold' del: One_nat_def counted_simps(1))
      next
        case False
        then show ?thesis using assms 4 gen'(2) by (auto simp: unfold' simp del: One_nat_def counted_simps(1))
      qed
    qed (use assms gen'(2) in \<open>auto simp: unfold' simp del: One_nat_def counted_simps(1)\<close>)
  qed
qed

lemma isPasswordEnabled_parses:
  "(case isPasswordEnabled row of Inl err \<Rightarrow> False | Inr b \<Rightarrow> b) \<longleftrightarrow> parse_bool (cr_PasswordEnabled row) = Some True"
proof (cases "cr_PasswordEnabled row = ''not_supported''")
  case True
  then show ?thesis by (simp add: isPasswordEnabled_def parse_bool_def)
next
  case False
  then show ?thesis by (cases "parse_bool (cr_PasswordEnabled row)") (simp_all add: isPasswordEnabled_def)
qed

lemma describe_user_from_row:
  assumes "describe_user p report e = Some (Some u)"
  shows "u_Name u = the (ue_UserName e) \<and> u_Arn u = Dereference (ue_Arn e) \<and>
    (\<exists>row. map_of report (u_Name u) = Some row \<and> u_LastAccess u = PasswordLastUsed row \<and>
       u_PasswordLastChanged u = cr_PasswordLastChanged row \<and> u_MfaActive u = cr_MfaActive row \<and>
       AccessKeys u = getUserKeys (u_Name u) report \<and>
       (u_PasswordEnabled u \<longleftrightarrow> parse_bool (cr_PasswordEnabled row) = Some True))"
  using assms
  by (auto simp: describe_user_def isPasswordEnabled_parses Let_def split: option.splits)

lemma describe_user_skips: "describe_user p report e = Some None \<Longrightarrow> map_of report (the (ue_UserName e)) = None"
  by (auto simp: describe_user_def Let_def split: option.splits)

definition in_report :: "(string \<times> credential_report) list \<Rightarrow> iam_user_entry \<Rightarrow> bool" where
  "in_report report e \<longleftrightarrow> map_of report (the (ue_UserName e)) \<noteq> None"

lemma describe_users_rows:
  "describe_users p report es = Some us \<Longrightarrow>
   list_all2 (\<lambda>e u. describe_user p report e = Some (Some u)) (filter (in_report report) es) us"
proof (induction es arbitrary: us)
  case (Cons e es)
  show ?case
  proof (cases "describe_user p report e")
    case (Some x)
    show ?thesis
    proof (cases x)
      case None
      then show ?thesis using Cons Some describe_user_skips [of p report e] by (simp add: in_report_def)
    next
      case (Some u)
      then have "in_report report e"
        using describe_user_from_row [of p report e u] \<open>describe_user p report e = Some x\<close>
        by (auto simp: in_report_def)
      then show ?thesis using Cons Some \<open>describe_user p report e = Some x\<close> by auto
    qed
  qed (use Cons in simp)
qed simp

lemma GetUsers_describes:
  assumes "GetUsers p w = (Some (Inr us), w')" and "listUsers p = Some (Inr listed)"
    and "getCredentialReport p w = (Inr report, w0)"
  shows "list_all2 (\<lambda>e u. describe_user p report e = Some (Some u)) (filter (in_report report) (with_root report listed)) us"
proof -
  have "describe_users p report (with_root report listed) = Some us" using assms by (auto simp: GetUsers_def)
  then show ?thesis by (rule describe_users_rows)
qed

definition without_support :: "iam_policy list \<Rightarrow> bool" where
  "without_support qs \<longleftrightarrow> (\<forall>q\<in>set qs. Dereference (pol_Arn (pol q)) \<noteq> awsSupportAccessArn)"

lemma page_policies_exclude:
  "page_policies p ps acc = Inr qs \<Longrightarrow> without_support acc \<Longrightarrow> without_support qs"
  by (induction ps arbitrary: acc) (force simp: without_support_def split: if_splits sum.splits)+

lemma policy_pages_exclude:
  assumes "policy_pages p marker acc = Some r"
  shows "without_support acc \<longrightarrow> (\<forall>qs. r = Inr qs \<longrightarrow> without_support qs)"
proof (rule policy_pages.raw_induct [where P = "\<lambda>p marker acc r. without_support acc \<longrightarrow>
    (\<forall>qs. r = Inr qs \<longrightarrow> without_support qs)", OF _ assms], intro impI allI)
  fix pages :: "('a, 'b) iam_provider \<Rightarrow> 'a option \<Rightarrow> iam_policy list \<Rightarrow> iam_policy list result option"
    and p marker acc r qs
  assume IH: "\<And>p marker acc r. pages p marker acc = Some r \<Longrightarrow>
      without_support acc \<longrightarrow> (\<forall>qs. r = Inr qs \<longrightarrow> without_support qs)"
    and body: "(case ListPolicies (iam p) marker of Inl err \<Rightarrow> Some (Inl err)
      | Inr output \<Rightarrow> (case page_policies p (mp_items output) acc of Inl err \<Rightarrow> Some (Inl err)
          | Inr policies' \<Rightarrow> if \<not> IsTruncated output then Some (Inr policies')
              else pages p (Marker output) policies')) = Some r"
    and acc: "without_support acc" and r: "r = Inr qs"
  obtain out policies' where page: "ListPolicies (iam p) marker = Inr out"
      "page_policies p (mp_items out) acc = Inr policies'"
    using body r by (auto split: sum.splits)
  then have "without_support policies'"
    using page_policies_exclude acc by blast
  then show "without_support qs" using body r page IH by (auto split: if_splits)
qed

section \<open>Properties\<close>

text \<open>
  C38. The wait for the credential report is bounded: whatever the service answers, a call asks for the report
  once to seven times, has at most one report generated, and pauses at most five times, that is
  for at most fifteen seconds; the counting client changes neither the answer nor the state.
\<close>

theorem credential_report_bounded:
  "\<exists>r w' g n s. getCredentialReport (counted p) (w, 0, 0, 0) = (r, (w', g, n, s)) \<and>
     getCredentialReport p w = (r, w') \<and> 1 \<le> g \<and> g \<le> 7 \<and> n \<le> 1 \<and> int s * interval \<le> 15 * 10 ^ 9"
proof -
  obtain x w' where run: "fetch_report p w = (x, w')" by fastforce
  obtain g n s where "fetch_report (counted p) (w, 0, 0, 0) = (x, (w', g, n, s))" "1 \<le> g" "g \<le> 7" "n \<le> 1" "s \<le> 5"
    using fetch_report_counted [OF run] by (elim exE conjE)
  moreover have "int s * interval \<le> 15 * 10 ^ 9" using \<open>s \<le> 5\<close> by (simp add: interval_def)
  moreover have "parseCredentialsReport (counted p) = parseCredentialsReport p"
    by (simp add: parseCredentialsReport_def fun_eq_iff)
  ultimately show ?thesis using run
    by (cases x) (auto simp: getCredentialReport_def split: sum.splits)
qed

text \<open>
  C39. The users come from the report: for each listed user that has a row in the credential report, and for
  the root user if its two dates parse, there is one user, in order, with the name and ARN of the
  entry and the dates, the keys, the MFA state and the parsed password state of its row.
\<close>

theorem GetUsers_from_report:
  assumes "GetUsers p w = (Some (Inr us), w')" and "listUsers p = Some (Inr listed)"
    and "getCredentialReport p w = (Inr report, w0)"
  shows "map (\<lambda>u. (u_Name u, u_Arn u)) us =
      map (\<lambda>e. (the (ue_UserName e), Dereference (ue_Arn e))) (filter (in_report report) (with_root report listed)) \<and>
    (\<forall>u\<in>set us. \<exists>row. map_of report (u_Name u) = Some row \<and> u_LastAccess u = PasswordLastUsed row \<and>
       u_PasswordLastChanged u = cr_PasswordLastChanged row \<and> u_MfaActive u = cr_MfaActive row \<and>
       AccessKeys u = getUserKeys (u_Name u) report \<and>
       (u_PasswordEnabled u \<longleftrightarrow> parse_bool (cr_PasswordEnabled row) = Some True))"
  using GetUsers_describes [OF assms]
proof (induction rule: list_all2_induct)
  case (Cons e es u us)
  then show ?case using describe_user_from_row [OF Cons.hyps(1)] by (simp only: list.map list.set) blast
qed simp

text \<open>
  A root user that has never logged in is not reported: when the last login in the row of the root account
  is no date (the report says \<open>no_information\<close> there), no user of the answer is the root
  account, unless the service lists one under this name.
\<close>

lemma root_user_needs_login:
  assumes "GetUsers p w = (Some (Inr us), w')" and "listUsers p = Some (Inr listed)"
    and "getCredentialReport p w = (Inr report, w0)"
    and "map_of report rootAccount = Some row" and "PasswordLastUsed row = ''no_information''"
    and "\<forall>e\<in>set listed. ue_UserName e \<noteq> Some rootAccount" and "\<forall>e\<in>set listed. ue_UserName e \<noteq> None"
  shows "rootAccount \<notin> u_Name ` set us"
proof -
  have "\<not> rfc3339_ok ''no_information''" using rfc3339_ok_digit [of "''no_information''"] by (auto simp: is_digit_def)
  then have "with_root report listed = listed" using assms(4,5) by (simp add: with_root_def getRootAccountUser_def)
  then have "list_all2 (\<lambda>e u. describe_user p report e = Some (Some u)) (filter (in_report report) listed) us"
    using GetUsers_describes [OF assms(1-3)] by simp
  moreover have "u_Name u \<noteq> rootAccount" if "describe_user p report e = Some (Some u)" "e \<in> set listed" for e u
    using describe_user_from_row [OF that(1)] assms(6,7) that(2) by fastforce
  ultimately have "list_all2 (\<lambda>e u. u_Name u \<noteq> rootAccount) (filter (in_report report) listed) us"
    by (auto elim!: list.rel_mono_strong)
  then have "\<forall>u\<in>set us. u_Name u \<noteq> rootAccount" by (induction rule: list_all2_induct) auto
  then show ?thesis by auto
qed

text \<open>
  The policy for support access is reported exactly once, as the last policy and with its roles, however
  often the service lists it, when \<open>GetPolicy\<close> answers the policy of the ARN that it is asked for.
\<close>

lemma GetPolicies_support_once:
  assumes "GetPolicies p = Some (Inr ps)"
    and "c_GetPolicy (iam p) awsSupportAccessArn = Inr sp" and "pol_Arn sp = Some awsSupportAccessArn"
  shows "filter (\<lambda>q. Dereference (pol_Arn (pol q)) = awsSupportAccessArn) ps = [last ps] \<and> pol (last ps) = sp \<and>
    list_all_pages (ListEntitiesForPolicy (iam p) awsSupportAccessArn) = Some (Inr (Roles (last ps)))"
proof -
  obtain qs where qs: "policy_pages p None [] = Some (Inr qs)" "ps = qs @ [last ps]"
      and support: "getSupportPolicy p = Some (Inr (last ps))"
    using assms(1) by (auto simp: GetPolicies_def getPolicies_def split: option.splits sum.splits)
  have "filter (\<lambda>q. Dereference (pol_Arn (pol q)) = awsSupportAccessArn) qs = []"
    using policy_pages_exclude [OF qs(1)] by (simp add: filter_empty_conv without_support_def)
  moreover obtain doc roles where "last ps = \<lparr>pol = sp, Document = doc, Roles = roles\<rparr>"
      "list_all_pages (ListEntitiesForPolicy (iam p) awsSupportAccessArn) = Some (Inr roles)"
    using support assms(2) unfolding getSupportPolicy_def by (auto dest: sym split: option.splits sum.splits)
  then have "pol (last ps) = sp \<and>
      list_all_pages (ListEntitiesForPolicy (iam p) awsSupportAccessArn) = Some (Inr (Roles (last ps)))" by simp
  ultimately show ?thesis using assms(3) by (subst (1) qs(2)) (simp add: Dereference_def)
qed

section \<open>Examples\<close>

definition one_page :: "'a list \<Rightarrow> 'tok option \<Rightarrow> ('tok, 'a) marker_page result" where
  "one_page xs t = Inr \<lparr>mp_items = xs, IsTruncated = False, Marker = None\<rparr>"

lemma list_one_page [simp]: "list_all_pages (one_page xs) = Some (Inr xs)"
  unfolding list_all_pages_def by (subst paginate.simps) (simp add: marker_api_def one_page_def)

definition sample_row :: "string \<Rightarrow> string \<Rightarrow> credential_report" where
  "sample_row name used =
     \<lparr>cr_User = name, cr_Arn = ''arn:'' @ name, UserCreation = ''2020-02-29T01:02:03Z'', cr_PasswordEnabled = ''true'',
      PasswordLastUsed = used, cr_PasswordLastChanged = ''N/A'', PasswordNextRotation = ''N/A'', cr_MfaActive = False,
      AccessKey1Active = True, AccessKey1LastRotated = ''N/A'', AccessKey1LastUsed = ''N/A'', AccessKey2Active = False,
      AccessKey2LastRotated = ''N/A'', AccessKey2LastUsed = ''N/A'', Cert1Active = False, Cert2Active = False\<rparr>"

definition sample_policy :: "string \<Rightarrow> sdk_policy" where
  "sample_policy arn = \<lparr>pol_Arn = Some arn, pol_Name = Some ''p'', DefaultVersionId = Some ''v1''\<rparr>"

definition sample_iam :: "string \<Rightarrow> (nat, nat) iam_provider" where
  "sample_iam rootUsed =
     \<lparr>iam = \<lparr>ListUsers = one_page [\<lparr>ue_UserName = Some ''ann'', ue_Arn = Some ''arn:ann''\<rparr>,
                                   \<lparr>ue_UserName = Some ''bob'', ue_Arn = None\<rparr>],
        c_ListMFADevices = (\<lambda>_. one_page []), ListAttachedRolePolicies = (\<lambda>_. Inr []),
        ListVirtualMFADevices = one_page [], ListAttachedUserPolicies = (\<lambda>_. one_page []),
        ListUserPolicies = (\<lambda>_. one_page []), GetAccountPasswordPolicy = Inl (Errorf []),
        GetRolePolicy = (\<lambda>_ _. Inl (Errorf [])),
        GetCredentialReport = (\<lambda>w. (if w = 0 then Inl (Errorf ''absent'') else Inr ''csv'', w)),
        GetUserPolicy = (\<lambda>_ _. Inl (Errorf [])), GenerateCredentialReport = (\<lambda>w. (None, Suc w)),
        ListPolicies = one_page [sample_policy ''arn:a'', sample_policy awsSupportAccessArn, sample_policy ''arn:b''],
        c_GetPolicy = (\<lambda>arn. Inr (sample_policy arn)), GetPolicyVersion = (\<lambda>_ _. Inr (Some (Some ''doc''))),
        ListEntitiesForPolicy = (\<lambda>_. one_page [''support'']), c_ListServerCertificates = one_page []\<rparr>,
      accessAnalyzerClients = None, is_ServiceFailure = (\<lambda>_. False), iam_ErrorCode = (\<lambda>_. Some ''ReportNotPresent''),
      time_Sleep = (\<lambda>_ w. w),
      csv_Unmarshal = (\<lambda>_. Inr [sample_row rootAccount rootUsed, sample_row ''ann'' ''N/A'']),
      QueryUnescape = Inr, json_Unmarshal = (\<lambda>_. Inr (Some []))\<rparr>"

lemma sample_iam_report:
  "listUsers (sample_iam used) = Some (Inr [\<lparr>ue_UserName = Some ''ann'', ue_Arn = Some ''arn:ann''\<rparr>,
     \<lparr>ue_UserName = Some ''bob'', ue_Arn = None\<rparr>])"
  "getCredentialReport (sample_iam used) 0 =
     (Inr [(''ann'', sample_row ''ann'' ''N/A''), (rootAccount, sample_row rootAccount used)], 1)"
  by (simp_all add: listUsers_def sample_iam_def getCredentialReport_def fetch_report_def generate_if_absent_def
      parseCredentialsReport_def map_put_def sample_row_def rootAccount_def)

lemma sample_iam_describes:
  assumes "ue_UserName e = Some name"
  shows "describe_user (sample_iam used) report e \<noteq> None"
proof (cases "map_of report name")
  case (Some row)
  have "listMFADevices (sample_iam used) n = Some (Inr [])"
    "list_all_pages (ListVirtualMFADevices (iam (sample_iam used))) = Some (Inr [])" for n
    by (simp_all add: listMFADevices_def sample_iam_def)
  then have "\<exists>r. getMFADevices (sample_iam used) name row = Some r"
    by (simp add: getMFADevices_def listRootMFADevice_def)
  then obtain r where "getMFADevices (sample_iam used) name row = Some r" ..
  moreover have "listInlinePolicies (sample_iam used) name = Some (Inr [])"
    "listAttachedPolicies (sample_iam used) name = Some (Inr [])"
    by (simp_all add: listInlinePolicies_def listAttachedPolicies_def sample_iam_def)
  ultimately show ?thesis using assms Some by (simp add: describe_user_def Let_def)
qed (use assms in \<open>simp add: describe_user_def Let_def\<close>)

lemma sample_iam_users: "\<exists>us. GetUsers (sample_iam used) 0 = (Some (Inr us), 1)"
proof -
  let ?report = "[(''ann'', sample_row ''ann'' ''N/A''), (rootAccount, sample_row rootAccount used)]"
  have all: "\<exists>us. describe_users (sample_iam used) ?report es = Some us" if "\<forall>e\<in>set es. ue_UserName e \<noteq> None" for es
    using that
  proof (induction es)
    case (Cons e es)
    then obtain x where "describe_user (sample_iam used) ?report e = Some x"
      using sample_iam_describes [of e _ used ?report] by fastforce
    then show ?case using Cons by (cases x) auto
  qed simp
  let ?es = "with_root ?report [\<lparr>ue_UserName = Some ''ann'', ue_Arn = Some ''arn:ann''\<rparr>,
    \<lparr>ue_UserName = Some ''bob'', ue_Arn = None\<rparr>]"
  have "\<forall>e\<in>set ?es. ue_UserName e \<noteq> None"
    by (auto simp: with_root_def getRootAccountUser_def split: option.splits if_splits)
  then obtain us where "describe_users (sample_iam used) ?report ?es = Some us" using all by blast
  then show ?thesis using sample_iam_report by (simp add: GetUsers_def)
qed

lemma GetUsers_from_report_witness:
  "\<exists>us. GetUsers (sample_iam ''2021-01-01T00:00:00+00:00'') 0 = (Some (Inr us), 1) \<and>
     map u_Name us = [''ann'', rootAccount] \<and> map u_LastAccess us = [''N/A'', ''2021-01-01T00:00:00+00:00'']"
proof -
  let ?used = "''2021-01-01T00:00:00+00:00''"
  obtain us where us: "GetUsers (sample_iam ?used) 0 = (Some (Inr us), 1)" using sample_iam_users by blast
  have "with_root [(''ann'', sample_row ''ann'' ''N/A''), (rootAccount, sample_row rootAccount ?used)] listed =
      listed @ [\<lparr>ue_UserName = Some rootAccount, ue_Arn = Some (''arn:'' @ rootAccount)\<rparr>]" for listed
    by (simp add: with_root_def getRootAccountUser_def sample_row_def rootAccount_def rfc3339_ok_def take_two_def
        take_digit_def take_char_def is_digit_def digit_val_def clock_ok_def take_one_or_two_def offset_ok_def
        skip_fraction_def days_in_def)
  then show ?thesis
    using GetUsers_from_report [OF us sample_iam_report] us
    by (auto simp: in_report_def rootAccount_def sample_row_def map_eq_Cons_conv)
qed

lemma root_user_needs_login_witness:
  "\<exists>us. GetUsers (sample_iam ''no_information'') 0 = (Some (Inr us), 1) \<and> rootAccount \<notin> u_Name ` set us"
proof -
  obtain us where us: "GetUsers (sample_iam ''no_information'') 0 = (Some (Inr us), 1)"
    using sample_iam_users by blast
  from root_user_needs_login [OF us sample_iam_report] us show ?thesis
    by (simp add: rootAccount_def sample_row_def)
qed

lemma GetPolicies_support_once_witness:
  "\<exists>ps. GetPolicies (sample_iam []) = Some (Inr ps) \<and> length ps = 3 \<and> Roles (last ps) = [''support''] \<and>
     length (filter (\<lambda>q. Dereference (pol_Arn (pol q)) = awsSupportAccessArn) ps) = 1"
proof -
  let ?ps = "[\<lparr>pol = sample_policy ''arn:a'', Document = Some [], Roles = []\<rparr>,
    \<lparr>pol = sample_policy ''arn:b'', Document = Some [], Roles = []\<rparr>,
    \<lparr>pol = sample_policy awsSupportAccessArn, Document = Some [], Roles = [''support'']\<rparr>]"
  have "policy_pages (sample_iam []) None [] = Some (Inr (take 2 ?ps))"
    by (subst policy_pages.simps) (simp add: sample_iam_def one_page_def sample_policy_def Dereference_def
        awsSupportAccessArn_def getPolicyDocument_def decodePolicyDocument_def)
  moreover have "getSupportPolicy (sample_iam []) = Some (Inr (last ?ps))"
    by (simp add: getSupportPolicy_def sample_iam_def sample_policy_def getPolicyDocument_def decodePolicyDocument_def)
  ultimately have ps: "GetPolicies (sample_iam []) = Some (Inr ?ps)"
    by (simp add: GetPolicies_def getPolicies_def)
  have "c_GetPolicy (iam (sample_iam [])) awsSupportAccessArn = Inr (sample_policy awsSupportAccessArn)"
    "pol_Arn (sample_policy awsSupportAccessArn) = Some awsSupportAccessArn"
    by (simp_all add: sample_iam_def sample_policy_def)
  from GetPolicies_support_once [OF ps this] ps show ?thesis by simp
qed

end
