(* ===== verification/AWS_Fetchers.thy ===== *)
theory AWS_Fetchers
  imports AWS_Audit AWS_IAM AWS_Accounts
begin

text \<open>
  \<open>resources/fetching/fetchers/aws\<close>: the fetchers of the AWS benchmark. A fetch answers the resources that it
  sends to the channel, in order, each with the cycle, and its error or nil. The providers are arguments, as
  the answers of their calls; a value behind the interface \<open>AwsResource\<close> is an \<open>aws_resource\<close>. A call that
  does not return (\<open>None\<close>) leaves the fetch without an answer.
\<close>

section \<open>Resources\<close>

definition plain_metadata :: "string \<Rightarrow> string \<Rightarrow> string \<Rightarrow> string \<Rightarrow> string \<Rightarrow> resource_metadata" where
  "plain_metadata i t st n r =
     cloud_account_metadata.extend no_account (resource_metadata.fields i t st n r)"

lemma plain_metadata_simps [simp]:
  "ID (plain_metadata i t st n r) = i" "md_Type (plain_metadata i t st n r) = t"
  "SubType (plain_metadata i t st n r) = st" "md_Name (plain_metadata i t st n r) = n"
  "Region (plain_metadata i t st n r) = r"
  by (simp_all add: plain_metadata_def cloud_account_metadata.extend_def resource_metadata.fields_def no_account_def)

text \<open>The metadata that a fetcher makes of a resource behind the interface.\<close>

definition metadata_of :: "string \<Rightarrow> 'd aws_resource \<Rightarrow> resource_metadata" where
  "metadata_of t r = plain_metadata (GetResourceArn r) t (GetResourceType r) (GetResourceName r) (GetRegion r)"

definition send_each :: "metadata \<Rightarrow> 'r list \<Rightarrow> ('r \<times> metadata) list" where
  "send_each cycleMetadata resources = map (\<lambda>r. (r, cycleMetadata)) resources"

lemma fst_send_each [simp]: "map fst (send_each c rs) = rs"
  by (simp add: send_each_def comp_def)

text \<open>The fetchers that drop everything, or only what is missing, when the provider answers an error.\<close>

definition fetch_unless_error ::
  "('r list \<times> go_error option) \<Rightarrow> metadata \<Rightarrow> ('r \<times> metadata) list \<times> go_error option" where
  "fetch_unless_error answer cycleMetadata =
     (case answer of (rs, Some err) \<Rightarrow> ([], None) | (rs, None) \<Rightarrow> (send_each cycleMetadata rs, None))"

definition fetch_despite_error ::
  "('r list \<times> go_error option) \<Rightarrow> metadata \<Rightarrow> ('r \<times> metadata) list \<times> go_error option" where
  "fetch_despite_error answer cycleMetadata = (send_each cycleMetadata (fst answer), None)"

section \<open>S3\<close>

definition S3Fetcher_Fetch ::
  "'d aws_resource list result \<Rightarrow> metadata \<Rightarrow> ('d aws_resource \<times> metadata) list \<times> go_error option" where
  "S3Fetcher_Fetch buckets cycleMetadata =
     fetch_unless_error (case buckets of Inl err \<Rightarrow> ([], Some err) | Inr bs' \<Rightarrow> (bs', None)) cycleMetadata"

definition S3Resource_GetMetadata :: "'d aws_resource \<Rightarrow> resource_metadata result" where
  "S3Resource_GetMetadata r = Inr (metadata_of ''cloud-storage'' r)"

definition S3Resource_GetElasticCommonData :: "(string \<times> any) list result" where
  "S3Resource_GetElasticCommonData = Inr [(''cloud.service.name'', VStr ''S3'')]"

section \<open>KMS\<close>

definition KmsFetcher_Fetch ::
  "'d aws_resource list \<times> go_error option \<Rightarrow> metadata \<Rightarrow> ('d aws_resource \<times> metadata) list \<times> go_error option" where
  "KmsFetcher_Fetch keys cycleMetadata = fetch_unless_error keys cycleMetadata"

definition KmsResource_GetMetadata :: "'d aws_resource \<Rightarrow> resource_metadata result" where
  "KmsResource_GetMetadata r = Inr (metadata_of ''key-management'' r)"

text \<open>\<open>as_kms\<close> is the type assertion of the resource to \<open>kms.KmsInfo\<close>.\<close>

definition KmsResource_GetElasticCommonData ::
  "('d \<Rightarrow> kms_info option) \<Rightarrow> 'd aws_resource \<Rightarrow> (string \<times> any) list result" where
  "KmsResource_GetElasticCommonData as_kms r =
     (let m = [(''cloud.service.name'', VStr ''KMS'')]
      in case as_kms (resource_value r) of
           None \<Rightarrow> Inr m
         | Some key \<Rightarrow>
             (let m = map_put ''x509.not_after'' (ValidTo (KeyMetadata key)) m;
                  m = map_put ''x509.not_before'' (CreationDate (KeyMetadata key)) m
              in Inr (if KeyUsage (KeyMetadata key) = ''SIGN_VERIFY''
                      then map_put ''x509.signature_algorithm'' (VStr (KeySpec (KeyMetadata key))) m
                      else if KeyUsage (KeyMetadata key) = ''ENCRYPT_DECRYPT''
                      then map_put ''x509.public_key_algorithm'' (VStr (KeySpec (KeyMetadata key))) m
                      else m)))"

section \<open>RDS\<close>

definition RdsFetcher_Fetch ::
  "'d aws_resource list \<times> go_error option \<Rightarrow> metadata \<Rightarrow> ('d aws_resource \<times> metadata) list \<times> go_error option" where
  "RdsFetcher_Fetch dbInstances cycleMetadata = fetch_despite_error dbInstances cycleMetadata"

definition RdsResource_GetMetadata :: "'d aws_resource \<Rightarrow> resource_metadata result" where
  "RdsResource_GetMetadata r = Inr (metadata_of ''cloud-database'' r)"

definition RdsResource_GetElasticCommonData :: "(string \<times> any) list result" where
  "RdsResource_GetElasticCommonData = Inr [(''cloud.service.name'', VStr ''RDS'')]"

section \<open>ELB\<close>

text \<open>
  A service is the list of the host names of its ingresses. A matcher is a compiled regular
  expression: the first submatch of a string, if it matches.
\<close>

record elb_fetcher =
  lbRegexMatchers :: "(string \<Rightarrow> string option) list"
  elb_identity :: identity

definition NewElbFetcher :: "(string \<Rightarrow> string option) \<Rightarrow> identity \<Rightarrow> elb_fetcher" where
  "NewElbFetcher matchers ident = \<lparr>lbRegexMatchers = [matchers], elb_identity = ident\<rparr>"

fun match_all :: "(string \<Rightarrow> string option) list \<Rightarrow> string \<Rightarrow> string list" where
  "match_all [] hostname = []"
| "match_all (matcher # ms) hostname =
     (case matcher hostname of None \<Rightarrow> match_all ms hostname | Some lbName \<Rightarrow> lbName # match_all ms hostname)"

definition GetLoadBalancers :: "elb_fetcher \<Rightarrow> string list list result \<Rightarrow> string list result" where
  "GetLoadBalancers f services =
     (case services of
        Inl err \<Rightarrow> Inl (Wrapf ''failed to get Kuberenetes services:  '' err)
      | Inr ss \<Rightarrow> Inr (concat (map (match_all (lbRegexMatchers f)) (concat ss))))"

definition ElbFetcher_Fetch ::
  "elb_fetcher \<Rightarrow> string list list result \<Rightarrow> (string list \<Rightarrow> load_balancer list result option) \<Rightarrow> metadata \<Rightarrow>
     ((load_balancer \<times> metadata) list \<times> go_error option) option" where
  "ElbFetcher_Fetch f services describe cycleMetadata =
     (case GetLoadBalancers f services of
        Inl err \<Rightarrow> Some ([], Some (Wrapf ''failed to load balancers from Kubernetes '' err))
      | Inr balancers \<Rightarrow>
          (case describe balancers of
             None \<Rightarrow> None
           | Some (Inl err) \<Rightarrow> Some ([], Some (Wrapf ''failed to load balancers from ELB '' err))
           | Some (Inr lbs) \<Rightarrow> Some (send_each cycleMetadata lbs, None)))"

definition ElbResource_GetMetadata :: "identity \<Rightarrow> load_balancer \<Rightarrow> resource_metadata result" where
  "ElbResource_GetMetadata ident lb =
     (case LoadBalancerName lb of
        None \<Rightarrow> Inl (Errorf ''received nil pointer'')
      | Some name \<Rightarrow> Inr (plain_metadata (Account ident @ ''-'' @ name) ''load-balancer'' ''aws-elb'' name []))"

definition ElbResource_GetElasticCommonData :: "(string \<times> any) list result" where
  "ElbResource_GetElasticCommonData = Inr [(''cloud.service.name'', VStr ''ELB'')]"

section \<open>ECR\<close>

text \<open>
  A pod is the list of the images of its containers. The filter answers the region and the repository
  that the submatches of an image are.
\<close>

type_synonym image_filter = "string \<Rightarrow> (string \<times> string) option"

fun add_images :: "image_filter \<Rightarrow> string list \<Rightarrow> (string \<times> string list) list \<Rightarrow> (string \<times> string list) list" where
  "add_images filter' [] reposByRegion = reposByRegion"
| "add_images filter' (img # images) reposByRegion =
     (case filter' img of
        None \<Rightarrow> add_images filter' images reposByRegion
      | Some (region, repository) \<Rightarrow> add_images filter' images (map_append region repository reposByRegion))"

definition getAwsRepositories :: "string list list \<Rightarrow> image_filter \<Rightarrow> (string \<times> string list) list" where
  "getAwsRepositories pods filter' = fold (add_images filter') pods []"

text \<open>\<open>ranged\<close> gives the order in which the loop ranges over the map.\<close>

fun describe_regions ::
  "(string list \<Rightarrow> string \<Rightarrow> ecr_repository list result option) \<Rightarrow> (string \<times> string list) list \<Rightarrow>
     ecr_repository list option" where
  "describe_regions describe [] = Some []"
| "describe_regions describe ((region, repositories) # rest) =
     (case describe repositories region of
        None \<Rightarrow> None
      | Some (Inl err) \<Rightarrow> describe_regions describe rest
      | Some (Inr described) \<Rightarrow> map_option (append described) (describe_regions describe rest))"

definition describePodImagesRepositories ::
  "((string \<times> string list) list \<Rightarrow> (string \<times> string list) list) \<Rightarrow>
     (string list \<Rightarrow> string \<Rightarrow> ecr_repository list result option) \<Rightarrow> string list list \<Rightarrow> image_filter \<Rightarrow>
     ecr_repository list option" where
  "describePodImagesRepositories ranged describe pods filter' =
     describe_regions describe (ranged (getAwsRepositories pods filter'))"

definition EcrFetcher_Fetch ::
  "((string \<times> string list) list \<Rightarrow> (string \<times> string list) list) \<Rightarrow>
     (string list \<Rightarrow> string \<Rightarrow> ecr_repository list result option) \<Rightarrow> image_filter \<Rightarrow> string list list result \<Rightarrow>
     metadata \<Rightarrow> ((ecr_repository \<times> metadata) list \<times> go_error option) option" where
  "EcrFetcher_Fetch ranged describe filter' podsList cycleMetadata =
     (case podsList of
        Inl err \<Rightarrow> Some ([], Some err)
      | Inr pods \<Rightarrow>
          (case describePodImagesRepositories ranged describe pods filter' of
             None \<Rightarrow> None
           | Some repos \<Rightarrow> Some (send_each cycleMetadata repos, None)))"

definition EcrResource_GetMetadata :: "ecr_repository \<Rightarrow> resource_metadata result" where
  "EcrResource_GetMetadata res =
     (case (RepositoryArn res, RepositoryName res) of
        (Some arn, Some name) \<Rightarrow> Inr (plain_metadata arn ''container-registry'' ''aws-ecr'' name [])
      | _ \<Rightarrow> Inl (Errorf ''received nil pointer''))"

definition EcrResource_GetElasticCommonData :: "(string \<times> any) list result" where
  "EcrResource_GetElasticCommonData = Inr [(''cloud.service.name'', VStr ''ECR'')]"

section \<open>Network\<close>

datatype network_resource =
    NetworkAcl nacl_info
  | NetworkSecurityGroup security_group
  | NetworkVpc vpc_info
  | NetworkEbs ebs_encryption

text \<open>The methods of the four types behind the interface.\<close>

fun network_aws_resource :: "network_resource \<Rightarrow> network_resource aws_resource" where
  "network_aws_resource (NetworkAcl r) =
     \<lparr>GetResourceArn = NACLInfo_GetResourceArn r, GetResourceName = NACLInfo_GetResourceName r,
      GetResourceType = ''aws-nacl'', GetRegion = nacl_region r, resource_value = NetworkAcl r\<rparr>"
| "network_aws_resource (NetworkSecurityGroup s) =
     \<lparr>GetResourceArn = SecurityGroup_GetResourceArn s, GetResourceName = SecurityGroup_GetResourceName s,
      GetResourceType = ''aws-security-group'', GetRegion = sg_region s, resource_value = NetworkSecurityGroup s\<rparr>"
| "network_aws_resource (NetworkVpc v) =
     \<lparr>GetResourceArn = VpcInfo_GetResourceArn v, GetResourceName = VpcInfo_GetResourceName v,
      GetResourceType = ''aws-vpc'', GetRegion = vpc_region v, resource_value = NetworkVpc v\<rparr>"
| "network_aws_resource (NetworkEbs e) =
     \<lparr>GetResourceArn = EBSEncryption_GetResourceArn e, GetResourceName = EBSEncryption_GetResourceName e,
      GetResourceType = ''aws-ebs'', GetRegion = ebs_region e, resource_value = NetworkEbs e\<rparr>"

definition aggregateResources :: "'w ec2_provider \<Rightarrow> network_resource aws_resource list option" where
  "aggregateResources client =
     (case (DescribeNetworkAcl client, DescribeSecurityGroups client, DescribeVPCs client) of
        (Some (nacl, _), Some (securityGroups, _), Some (vpcs, _)) \<Rightarrow>
          (let (ebsEncryption, err) = GetEbsEncryptionByDefault client
           in Some (map network_aws_resource
                (map NetworkAcl nacl @ map NetworkSecurityGroup securityGroups @ map NetworkVpc vpcs @
                 map (\<lambda>e. NetworkEbs (the e)) ebsEncryption)))
      | _ \<Rightarrow> None)"

definition NetworkFetcher_Fetch ::
  "'w ec2_provider \<Rightarrow> metadata \<Rightarrow> ((network_resource aws_resource \<times> metadata) list \<times> go_error option) option" where
  "NetworkFetcher_Fetch client cycleMetadata =
     (case aggregateResources client of
        None \<Rightarrow> None
      | Some resources \<Rightarrow> Some (send_each cycleMetadata resources, None))"

definition NetworkResource_GetMetadata :: "'d aws_resource \<Rightarrow> resource_metadata result" where
  "NetworkResource_GetMetadata r = Inr (metadata_of ''cloud-compute'' r)"

definition NetworkResource_GetElasticCommonData :: "(string \<times> any) list result" where
  "NetworkResource_GetElasticCommonData = Inr [(''cloud.service.name'', VStr ''EC2'')]"

section \<open>IAM\<close>

datatype iam_resource =
    IamPasswordPolicy password_policy
  | IamUser iam_user
  | IamPolicy iam_policy
  | IamCertificates "any list"
  | IamAnalyzers access_analyzers

definition map_value :: "('a \<Rightarrow> 'b) \<Rightarrow> 'a aws_resource \<Rightarrow> 'b aws_resource" where
  "map_value f r =
     \<lparr>GetResourceArn = GetResourceArn r, GetResourceName = GetResourceName r, GetResourceType = GetResourceType r,
      GetRegion = GetRegion r, resource_value = f (resource_value r)\<rparr>"

lemma map_value_simps [simp]:
  "GetResourceArn (map_value f r) = GetResourceArn r" "GetResourceName (map_value f r) = GetResourceName r"
  "GetResourceType (map_value f r) = GetResourceType r" "GetRegion (map_value f r) = GetRegion r"
  "resource_value (map_value f r) = f (resource_value r)"
  by (simp_all add: map_value_def)

fun iam_aws_resource :: "iam_resource \<Rightarrow> iam_resource aws_resource" where
  "iam_aws_resource (IamPasswordPolicy p) = map_value IamPasswordPolicy (password_policy_resource p)"
| "iam_aws_resource (IamUser u) = map_value IamUser (iam_user_resource u)"
| "iam_aws_resource (IamPolicy p) = map_value IamPolicy (iam_policy_resource p)"
| "iam_aws_resource (IamCertificates c) = map_value IamCertificates (certificates_resource c)"
| "iam_aws_resource (IamAnalyzers a) = map_value IamAnalyzers (access_analyzers_resource a)"

text \<open>The five answers one after the other; what answers an error is left out.\<close>

definition iam_resources ::
  "password_policy result \<Rightarrow> iam_user list result \<Rightarrow> iam_policy list result \<Rightarrow> any list result \<Rightarrow>
     access_analyzers result \<Rightarrow> iam_resource list" where
  "iam_resources pwdPolicy users policies serverCertificates accessAnalyzers =
     (case pwdPolicy of Inl _ \<Rightarrow> [] | Inr x \<Rightarrow> [IamPasswordPolicy x]) @
     (case users of Inl _ \<Rightarrow> [] | Inr xs \<Rightarrow> map IamUser xs) @
     (case policies of Inl _ \<Rightarrow> [] | Inr xs \<Rightarrow> map IamPolicy xs) @
     (case serverCertificates of Inl _ \<Rightarrow> [] | Inr x \<Rightarrow> [IamCertificates x]) @
     (case accessAnalyzers of Inl _ \<Rightarrow> [] | Inr x \<Rightarrow> [IamAnalyzers x])"

definition IAMFetcher_Fetch ::
  "('tok, 'w) iam_provider \<Rightarrow> metadata \<Rightarrow> 'w \<Rightarrow>
     ((iam_resource aws_resource \<times> metadata) list \<times> go_error option) option \<times> 'w" where
  "IAMFetcher_Fetch p cycleMetadata w =
     (case GetUsers p w of
        (None, w') \<Rightarrow> (None, w')
      | (Some users, w') \<Rightarrow>
          (case (GetPolicies p, ListServerCertificates p, GetAccessAnalyzers p) of
             (Some policies, Some serverCertificates, Some accessAnalyzers) \<Rightarrow>
               (Some (send_each cycleMetadata (map iam_aws_resource
                  (iam_resources (GetPasswordPolicy p) users policies serverCertificates accessAnalyzers)), None), w')
           | _ \<Rightarrow> (None, w')))"

definition IAMResource_GetMetadata :: "identity \<Rightarrow> 'd aws_resource \<Rightarrow> resource_metadata result" where
  "IAMResource_GetMetadata ident r =
     (let identifier = (if GetResourceArn r = [] then Account ident @ ''-'' @ GetResourceName r else GetResourceArn r)
      in Inr (plain_metadata identifier ''identity-management'' (GetResourceType r) (GetResourceName r) (GetRegion r)))"

definition IAMResource_GetElasticCommonData :: "(string \<times> any) list result" where
  "IAMResource_GetElasticCommonData = Inr [(''cloud.service.name'', VStr ''IAM'')]"

section \<open>Logging\<close>

datatype logging_resource = LoggingTrail "enriched_trail aws_resource" | ConfigResource "recorder_config aws_resource list" identity

definition LoggingFetcher_Fetch ::
  "identity \<Rightarrow> enriched_trail aws_resource list result \<Rightarrow> recorder_config aws_resource list \<times> go_error option \<Rightarrow> metadata \<Rightarrow>
     (logging_resource \<times> metadata) list \<times> go_error option" where
  "LoggingFetcher_Fetch ident trails configs cycleMetadata =
     (send_each cycleMetadata
        ((case trails of Inl err \<Rightarrow> [] | Inr ts \<Rightarrow> map LoggingTrail ts) @
         (case configs of (cs, Some err) \<Rightarrow> [] | (cs, None) \<Rightarrow> [ConfigResource cs ident])),
      None)"

fun logging_GetMetadata :: "logging_resource \<Rightarrow> resource_metadata result" where
  "logging_GetMetadata (LoggingTrail r) = Inr (metadata_of ''cloud-audit'' r)"
| "logging_GetMetadata (ConfigResource configs ident) =
     (let i = ''configservice-'' @ Account ident in Inr (plain_metadata i ''cloud-config'' ''aws-config'' i []))"

fun logging_GetElasticCommonData :: "logging_resource \<Rightarrow> (string \<times> any) list result" where
  "logging_GetElasticCommonData (LoggingTrail r) = Inr [(''cloud.service.name'', VStr ''CloudTrail'')]"
| "logging_GetElasticCommonData (ConfigResource configs ident) = Inr []"

section \<open>Monitoring\<close>

datatype monitoring_resource = MonitoringResource "monitoring_item list" identity | SecurityHubResource security_hub

text \<open>An error of the aggregation comes with a nil resource; it panics where the aggregation does.\<close>

definition MonitoringFetcher_Fetch ::
  "identity \<Rightarrow> (unit + monitoring_item list result) option \<Rightarrow> security_hub list \<times> go_error option \<Rightarrow> metadata \<Rightarrow>
     ((monitoring_resource \<times> metadata) list \<times> go_error option) option" where
  "MonitoringFetcher_Fetch ident aggregated hubs cycleMetadata =
     (case aggregated of
        Some (Inr out) \<Rightarrow>
          Some (send_each cycleMetadata
             ((case out of Inl err \<Rightarrow> [] | Inr its \<Rightarrow> [MonitoringResource its ident]) @
              (case hubs of (hs, Some err) \<Rightarrow> [] | (hs, None) \<Rightarrow> map SecurityHubResource hs)),
            None)
      | _ \<Rightarrow> None)"

fun monitoring_GetMetadata :: "monitoring_resource \<Rightarrow> resource_metadata result" where
  "monitoring_GetMetadata (MonitoringResource its ident) =
     (let i = ''cloudtrail-'' @ Account ident
      in Inr (plain_metadata i ''monitoring'' ''aws-multi-trails'' i GlobalRegion))"
| "monitoring_GetMetadata (SecurityHubResource hub) =
     (let s = hub_resource hub
      in Inr (plain_metadata (GetResourceArn s) ''monitoring'' ''aws-securityhub'' (GetResourceName s) (GetRegion s)))"

definition monitoring_GetElasticCommonData :: "monitoring_resource \<Rightarrow> (string \<times> any) list result" where
  "monitoring_GetElasticCommonData r = Inr []"

section \<open>Lemmas\<close>

text \<open>The repositories of a region among the images, in the order of the pods.\<close>

definition repos_of :: "image_filter \<Rightarrow> string list \<Rightarrow> string \<Rightarrow> string list" where
  "repos_of f images region = List.map_filter (\<lambda>i. case f i of Some (r, repo) \<Rightarrow> if r = region then Some repo else None | None \<Rightarrow> None) images"

definition groups_images :: "image_filter \<Rightarrow> string list \<Rightarrow> (string \<times> string list) list \<Rightarrow> bool" where
  "groups_images f images m \<longleftrightarrow>
     distinct (map fst m) \<and>
     map_of m = (\<lambda>region. let rs = repos_of f images region in if rs = [] then None else Some rs)"

lemma repos_of_append: "repos_of f (xs @ ys) region = repos_of f xs region @ repos_of f ys region"
  by (simp add: repos_of_def List.map_filter_def)

lemma repos_of_one:
  "repos_of f [i] region = (case f i of Some (r, repo) \<Rightarrow> if r = region then [repo] else [] | None \<Rightarrow> [])"
  by (simp add: repos_of_def List.map_filter_simps split: option.splits)

lemma add_images_groups:
  "groups_images f seen m \<Longrightarrow> groups_images f (seen @ images) (add_images f images m)"
proof (induction images arbitrary: seen m)
  case (Cons i images)
  show ?case
  proof (cases "f i")
    case None
    then have "groups_images f (seen @ [i]) m"
      using Cons.prems by (simp add: groups_images_def repos_of_append repos_of_one)
    from Cons.IH [OF this] show ?thesis using None by simp
  next
    case (Some rr)
    obtain r repo where rr: "rr = (r, repo)" by fastforce
    have "groups_images f (seen @ [i]) (map_append r repo m)"
      using Cons.prems Some rr
      by (auto simp: groups_images_def repos_of_append repos_of_one fun_eq_iff Let_def)
    from Cons.IH [OF this] show ?thesis using Some rr by simp
  qed
qed simp

lemma getAwsRepositories_groups: "groups_images f (concat pods) (getAwsRepositories pods f)"
proof -
  have "groups_images f seen m \<Longrightarrow> groups_images f (seen @ concat pods) (fold (add_images f) pods m)" for seen m
  proof (induction pods arbitrary: seen m)
    case (Cons pod pods)
    from Cons.IH [OF add_images_groups [OF Cons.prems]] show ?case by simp
  qed simp
  from this [of "[]" "[]"] show ?thesis
    by (simp add: getAwsRepositories_def groups_images_def repos_of_def List.map_filter_simps)
qed

definition described :: "(string list \<Rightarrow> string \<Rightarrow> ecr_repository list result option) \<Rightarrow> string \<times> string list \<Rightarrow> ecr_repository list" where
  "described describe e = (case describe (snd e) (fst e) of Some (Inr ds) \<Rightarrow> ds | _ \<Rightarrow> [])"

lemma describe_regions_eq:
  "\<forall>e\<in>set m. describe (snd e) (fst e) \<noteq> None \<Longrightarrow>
   describe_regions describe m = Some (concat (map (described describe) m))"
  by (induction m) (auto simp: described_def split: option.splits sum.splits)

lemma match_all_none: "\<forall>m\<in>set ms. m h = None \<Longrightarrow> match_all ms h = []"
  by (induction ms) auto

lemma NetworkFetcher_network:
  assumes "NetworkFetcher_Fetch p cycle = Some (sends, e)"
  obtains xs where "sends = send_each cycle (map network_aws_resource xs)"
proof -
  obtain ys where ys: "aggregateResources p = Some ys" "sends = send_each cycle ys"
    using assms by (auto simp: NetworkFetcher_Fetch_def split: option.splits)
  from ys(1) obtain xs where "ys = map network_aws_resource xs"
    by (auto simp: aggregateResources_def case_prod_beta simp del: map_append map_map split: option.splits)
  with ys(2) that show ?thesis by blast
qed

section \<open>Properties\<close>

text \<open>The constants that \<open>fetcher.go\<close> declares.\<close>

definition declared_type :: "string \<Rightarrow> bool" where
  "declared_type t \<longleftrightarrow> t \<in> snd ` set fetching_constants"

lemma declared_types_list:
  "list_all declared_type
     [''cloud-storage'', ''aws-s3'', ''key-management'', ''aws-kms'',
      ''cloud-database'', ''aws-rds'', ''load-balancer'', ''aws-elb'',
      ''container-registry'', ''aws-ecr'', ''cloud-compute'', ''aws-nacl'',
      ''aws-security-group'', ''aws-vpc'', ''aws-ebs'', ''identity-management'',
      ''aws-password-policy'', ''aws-iam-user'', ''aws-policy'', ''aws-iam-server-certificate'',
      ''aws-access-analyzers'', ''cloud-audit'', ''aws-trail'', ''cloud-config'',
      ''aws-config'', ''monitoring'', ''aws-multi-trails'', ''aws-securityhub'']"
  by code_simp

lemmas declared_types = declared_types_list [unfolded list.pred_inject]

definition typed_metadata :: "resource_metadata result \<Rightarrow> bool" where
  "typed_metadata r = (case r of Inl _ \<Rightarrow> True | Inr m \<Rightarrow> declared_type (md_Type m) \<and> declared_type (SubType m))"

lemmas typed_simps = typed_metadata_def metadata_of_def declared_types

lemma aws_typed:
  "typed_metadata (S3Resource_GetMetadata (bucket_resource b))"
  "typed_metadata (KmsResource_GetMetadata (kms_resource k))"
  "typed_metadata (RdsResource_GetMetadata (rds_resource d))"
  "typed_metadata (ElbResource_GetMetadata ident lb)"
  "typed_metadata (EcrResource_GetMetadata repo)"
  "typed_metadata (NetworkResource_GetMetadata (network_aws_resource n))"
  "typed_metadata (IAMResource_GetMetadata ident (iam_aws_resource i))"
  "typed_metadata (logging_GetMetadata (LoggingTrail (EnrichedTrail_resource t)))"
  "typed_metadata (logging_GetMetadata (ConfigResource cs ident))"
  "typed_metadata (monitoring_GetMetadata m)"
proof -
  show "typed_metadata (IAMResource_GetMetadata ident (iam_aws_resource i))"
    by (cases i) (simp_all add: typed_simps IAMResource_GetMetadata_def password_policy_resource_def
        iam_user_resource_def iam_policy_resource_def certificates_resource_def access_analyzers_resource_def Let_def)
  show "typed_metadata (NetworkResource_GetMetadata (network_aws_resource n))"
    by (cases n) (simp_all add: typed_simps NetworkResource_GetMetadata_def)
  show "typed_metadata (monitoring_GetMetadata m)"
    by (cases m) (simp_all add: typed_simps Let_def)
  show "typed_metadata (EcrResource_GetMetadata repo)" "typed_metadata (ElbResource_GetMetadata ident lb)"
    by (simp_all add: typed_simps EcrResource_GetMetadata_def ElbResource_GetMetadata_def split: option.splits)
  show "typed_metadata (S3Resource_GetMetadata (bucket_resource b))"
    "typed_metadata (KmsResource_GetMetadata (kms_resource k))" "typed_metadata (RdsResource_GetMetadata (rds_resource d))"
    by (simp_all add: typed_simps S3Resource_GetMetadata_def KmsResource_GetMetadata_def RdsResource_GetMetadata_def
        bucket_resource_def kms_resource_def rds_resource_def)
  show "typed_metadata (logging_GetMetadata (LoggingTrail (EnrichedTrail_resource t)))"
    "typed_metadata (logging_GetMetadata (ConfigResource cs ident))"
    by (simp_all add: typed_simps EnrichedTrail_resource_def Let_def)
qed


text \<open>
  The container registry: when the calls for the regions end, a fetch sends, whatever the order in which Go
  ranges over the regions, the repositories that the service describes for each region of an image
  of a pod, asked for the repositories of all the images of that region; a region whose call fails
  is left out.
\<close>

lemma EcrFetcher_sends_described:
  assumes "mset (ranged (getAwsRepositories pods f)) = mset (getAwsRepositories pods f)"
    and "\<forall>e\<in>set (getAwsRepositories pods f). describe (snd e) (fst e) \<noteq> None"
  shows "\<exists>sends. EcrFetcher_Fetch ranged describe f (Inr pods) c = Some (sends, None) \<and>
    mset (map fst sends) = mset (concat (map (described describe) (getAwsRepositories pods f))) \<and>
    groups_images f (concat pods) (getAwsRepositories pods f)"
proof -
  let ?m = "getAwsRepositories pods f"
  have "set (ranged ?m) = set ?m" using assms(1) by (rule mset_eq_setD)
  then have "describe_regions describe (ranged ?m) = Some (concat (map (described describe) (ranged ?m)))"
    using assms(2) describe_regions_eq by metis
  moreover have "mset (concat (map (described describe) (ranged ?m))) = mset (concat (map (described describe) ?m))"
    using assms(1) by (metis mset_concat mset_map sum_mset_sum_list)
  ultimately show ?thesis using getAwsRepositories_groups
    by (simp add: EcrFetcher_Fetch_def describePodImagesRepositories_def del: mset_map)
qed

lemma EcrFetcher_sends_described_witness:
  "\<exists>sends. EcrFetcher_Fetch rev (\<lambda>names region. if region = ''eu'' then Some (Inl (Errorf ''denied''))
       else Some (Inr (map (\<lambda>n. \<lparr>RepositoryArn = Some n, RepositoryName = Some n\<rparr>) names)))
     (\<lambda>img. if img = ''docker.io/x'' then None else if img = ''eu/c'' then Some (''eu'', ''c'') else Some (''us'', img))
     (Inr [[''a'', ''docker.io/x''], [''eu/c'', ''b'']]) \<lparr>Sequence = 1\<rparr> = Some (sends, None) \<and>
     mset (map (RepositoryName \<circ> fst) sends) = {#Some ''a'', Some ''b''#}"
proof -
  let ?d = "\<lambda>names region. if region = ''eu'' then Some (Inl (Errorf ''denied''))
       else Some (Inr (map (\<lambda>n. \<lparr>RepositoryArn = Some n, RepositoryName = Some n\<rparr>) names))"
  let ?f = "\<lambda>img. if img = ''docker.io/x'' then None else if img = ''eu/c'' then Some (''eu'', ''c'') else Some (''us'', img)"
  let ?pods = "[[''a'', ''docker.io/x''], [''eu/c'', ''b'']]"
  obtain sends where s: "EcrFetcher_Fetch rev ?d ?f (Inr ?pods) \<lparr>Sequence = 1\<rparr> = Some (sends, None)"
    "mset (map fst sends) = mset (concat (map (described ?d) (getAwsRepositories ?pods ?f)))"
    using EcrFetcher_sends_described [of rev ?pods ?f ?d "\<lparr>Sequence = 1\<rparr>"] by (elim meta_impE exE conjE) simp_all
  have "getAwsRepositories ?pods ?f = [(''us'', [''a'', ''b'']), (''eu'', [''c''])]"
    by (simp add: getAwsRepositories_def map_append_def map_put_def)
  then have "mset (map fst sends) = {#\<lparr>RepositoryArn = Some ''a'', RepositoryName = Some ''a''\<rparr>,
      \<lparr>RepositoryArn = Some ''b'', RepositoryName = Some ''b''\<rparr>#}"
    using s(2) by (simp add: described_def)
  then have "image_mset RepositoryName (mset (map fst sends)) = {#Some ''a'', Some ''b''#}" by simp
  then show ?thesis using s(1) by (simp add: multiset.map_comp)
qed

text \<open>
  The network resources of all regions: when the pages of every region end, a fetch sends the access
  lists, the security groups, the networks whose flow logs can be had and the encryption defaults of
  every region, in this order, and an error for the defaults of a region only leaves out that region.
\<close>

lemma NetworkFetcher_sends_all:
  assumes "\<forall>(region, c)\<in>set (ec2_clients p). page_chain (DescribeNetworkAcls c) None (acls region) \<and>
      page_chain (c_DescribeSecurityGroups c) None (groups region) \<and> page_chain (DescribeVpcs c) None (vpcs region)"
  shows "\<exists>sends. NetworkFetcher_Fetch p cycle = Some (sends, None) \<and> map (resource_value \<circ> fst) sends =
    map NetworkAcl (concat (map (\<lambda>(region, c). map (\<lambda>(nid, d). \<lparr>NetworkAclId = nid, nacl_data = d,
      nacl_awsAccount = awsAccountID p, nacl_region = region\<rparr>) (concat (map items (acls region)))) (ec2_clients p))) @
    map NetworkSecurityGroup (concat (map (\<lambda>(region, c). map (\<lambda>(gid, gname, d). \<lparr>sg_GroupId = gid, sg_GroupName = gname,
      sg_data = d, sg_awsAccount = awsAccountID p, sg_region = region\<rparr>) (concat (map items (groups region)))) (ec2_clients p))) @
    map NetworkVpc (concat (map (\<lambda>(region, c). vpcs_with_logs c (awsAccountID p) region
      (concat (map items (vpcs region)))) (ec2_clients p))) @
    [NetworkEbs \<lparr>Enabled = e, ebs_region = region, ebs_awsAccount = awsAccountID p\<rparr>.
      (region, c) \<leftarrow> ec2_clients p, e \<leftarrow> (case c_GetEbsEncryptionByDefault c of Inl _ \<Rightarrow> [] | Inr e \<Rightarrow> [e])]"
proof -
  have nacl: "DescribeNetworkAcl p = Some (concat (map (\<lambda>(region, c). map (\<lambda>(nid, d). \<lparr>NetworkAclId = nid,
      nacl_data = d, nacl_awsAccount = awsAccountID p, nacl_region = region\<rparr>) (concat (map items (acls region))))
      (ec2_clients p)), None)"
    unfolding DescribeNetworkAcl_def by (rule all_regions_collect) (use assms in \<open>auto simp: region_pages_chain\<close>)
  have groups: "DescribeSecurityGroups p = Some (concat (map (\<lambda>(region, c). map (\<lambda>(gid, gname, d). \<lparr>sg_GroupId = gid,
      sg_GroupName = gname, sg_data = d, sg_awsAccount = awsAccountID p, sg_region = region\<rparr>)
      (concat (map items (groups region)))) (ec2_clients p)), None)"
    unfolding DescribeSecurityGroups_def by (rule all_regions_collect) (use assms in \<open>auto simp: region_pages_chain\<close>)
  have vpcs: "DescribeVPCs p = Some (concat (map (\<lambda>(region, c). vpcs_with_logs c (awsAccountID p) region
      (concat (map items (vpcs region)))) (ec2_clients p)), None)"
    unfolding DescribeVPCs_def by (rule all_regions_collect) (use assms in \<open>auto simp: region_pages_chain\<close>)
  have ebs: "map (\<lambda>e. NetworkEbs (the e)) (fst (GetEbsEncryptionByDefault p)) =
      [NetworkEbs \<lparr>Enabled = e, ebs_region = region, ebs_awsAccount = awsAccountID p\<rparr>.
        (region, c) \<leftarrow> ec2_clients p, e \<leftarrow> (case c_GetEbsEncryptionByDefault c of Inl _ \<Rightarrow> [] | Inr e \<Rightarrow> [e])]"
  proof -
    let ?f = "\<lambda>region c. case c_GetEbsEncryptionByDefault c of Inl err \<Rightarrow> (None, Some err)
      | Inr enabled \<Rightarrow> (Some \<lparr>Enabled = enabled, ebs_region = region, ebs_awsAccount = awsAccountID p\<rparr>, None)"
    have "map (\<lambda>e. NetworkEbs (the e)) (fst (fetch_regions (\<lambda>k. k = None) ?f cs)) =
        [NetworkEbs \<lparr>Enabled = e, ebs_region = region, ebs_awsAccount = awsAccountID p\<rparr>.
          (region, c) \<leftarrow> cs, e \<leftarrow> (case c_GetEbsEncryptionByDefault c of Inl _ \<Rightarrow> [] | Inr e \<Rightarrow> [e])]" for cs
      unfolding fetch_regions_results by (induction cs) (auto split: sum.splits)
    then show ?thesis by (simp add: GetEbsEncryptionByDefault_def MultiRegionFetch_def case_prod_beta)
  qed
  have "resource_value (network_aws_resource x) = x" for x by (cases x) simp_all
  then have vals: "map (resource_value \<circ> fst) (send_each cycle (map network_aws_resource xs)) = xs" for xs
    by (simp add: send_each_def comp_def)
  have "\<exists>xs. aggregateResources p = Some (map network_aws_resource xs) \<and> xs =
      map NetworkAcl (fst (the (DescribeNetworkAcl p))) @ map NetworkSecurityGroup (fst (the (DescribeSecurityGroups p))) @
      map NetworkVpc (fst (the (DescribeVPCs p))) @ map (\<lambda>e. NetworkEbs (the e)) (fst (GetEbsEncryptionByDefault p))"
    unfolding aggregateResources_def nacl groups vpcs by (simp add: case_prod_beta del: map_append map_map)
  then obtain xs where xs: "aggregateResources p = Some (map network_aws_resource xs)"
      "xs = map NetworkAcl (fst (the (DescribeNetworkAcl p))) @ map NetworkSecurityGroup (fst (the (DescribeSecurityGroups p))) @
        map NetworkVpc (fst (the (DescribeVPCs p))) @ map (\<lambda>e. NetworkEbs (the e)) (fst (GetEbsEncryptionByDefault p))"
    by blast
  have "NetworkFetcher_Fetch p cycle = Some (send_each cycle (map network_aws_resource xs), None)"
    by (simp add: NetworkFetcher_Fetch_def xs(1))
  moreover note vals [of xs, unfolded xs(2) nacl groups vpcs ebs option.sel fst_conv]
  ultimately show ?thesis unfolding xs(2) nacl groups vpcs ebs option.sel fst_conv by blast
qed

lemma NetworkFetcher_sends_all_witness:
  "\<exists>sends. NetworkFetcher_Fetch \<lparr>ec2_clients = [(''us-east-1'', sample_client
        \<lparr>DescribeNetworkAcls := \<lambda>_. Inr \<lparr>items = [(Some ''n'', VNil)], NextToken = None\<rparr>,
         c_DescribeSecurityGroups := \<lambda>_. Inr \<lparr>items = [], NextToken = None\<rparr>,
         DescribeVpcs := \<lambda>_. Inr \<lparr>items = [], NextToken = None\<rparr>\<rparr>)], awsAccountID = ''9''\<rparr> \<lparr>Sequence = 1\<rparr> = Some (sends, None) \<and>
     map (GetResourceType \<circ> fst) sends = [''aws-nacl'', ''aws-ebs'']"
proof -
  let ?p = "\<lparr>ec2_clients = [(''us-east-1'', sample_client
        \<lparr>DescribeNetworkAcls := \<lambda>_. Inr \<lparr>items = [(Some ''n'', VNil)], NextToken = None\<rparr>,
         c_DescribeSecurityGroups := \<lambda>_. Inr \<lparr>items = [], NextToken = None\<rparr>,
         DescribeVpcs := \<lambda>_. Inr \<lparr>items = [], NextToken = None\<rparr>\<rparr>)], awsAccountID = ''9''\<rparr>"
  obtain sends where s: "NetworkFetcher_Fetch ?p \<lparr>Sequence = 1\<rparr> = Some (sends, None)"
    "map (resource_value \<circ> fst) sends = [NetworkAcl \<lparr>NetworkAclId = Some ''n'', nacl_data = VNil, nacl_awsAccount = ''9'',
       nacl_region = ''us-east-1''\<rparr>, NetworkEbs \<lparr>Enabled = True, ebs_region = ''us-east-1'', ebs_awsAccount = ''9''\<rparr>]"
    using NetworkFetcher_sends_all [of ?p "\<lambda>_. [\<lparr>items = [(Some ''n'', VNil)], NextToken = None\<rparr>]"
        "\<lambda>_. [\<lparr>items = [], NextToken = None\<rparr>]" "\<lambda>_. [\<lparr>items = [], NextToken = None\<rparr>]" "\<lparr>Sequence = 1\<rparr>"]
    by (auto simp: sample_client_def vpcs_with_logs_def)
  obtain xs where xs: "sends = send_each \<lparr>Sequence = 1\<rparr> (map network_aws_resource xs)"
    using s(1) by (rule NetworkFetcher_network)
  have "resource_value (network_aws_resource x) = x" for x by (cases x) simp_all
  then have "xs = map (resource_value \<circ> fst) sends" using xs by (simp add: send_each_def comp_def)
  then have "map (GetResourceType \<circ> fst) sends = [''aws-nacl'', ''aws-ebs'']"
    unfolding s(2) by (simp add: xs send_each_def)
  with s(1) show ?thesis by (intro exI [of _ sends] conjI)
qed

text \<open>
  Load balancers outside the cluster: when no host name of a service matches, the fetcher asks the provider
  for no names, for which the service describes all the load balancers, and sends every one of the account.
\<close>

lemma ElbFetcher_sends_all_without_match:
  assumes "\<forall>s\<in>set services. \<forall>hostname\<in>set s. \<forall>m\<in>set (lbRegexMatchers f). m hostname = None"
    and "page_chain (client []) None ps"
  shows "ElbFetcher_Fetch f (Inr services) (DescribeLoadBalancer client) c =
    Some (send_each c (concat (map items ps)), None)"
proof -
  have "match_all (lbRegexMatchers f) h = []" if "h \<in> set (concat services)" for h
    using assms(1) that by (intro match_all_none) auto
  then have none: "concat (map (match_all (lbRegexMatchers f)) (concat services)) = []" by (simp add: concat_eq_Nil_conv)
  have "GetLoadBalancers f (Inr services) = Inr []" unfolding GetLoadBalancers_def sum.case none by (rule refl)
  then show ?thesis using assms(2)
    by (simp add: ElbFetcher_Fetch_def DescribeLoadBalancer_def paginate_chain)
qed

lemma ElbFetcher_sends_all_without_match_witness:
  "\<exists>lb. ElbFetcher_Fetch (NewElbFetcher (\<lambda>h. None) (sample_identity ''1'' [] [])) (Inr [[''web.example.org''], []])
     (DescribeLoadBalancer (\<lambda>names _. if names = [] then Inr \<lparr>items = [lb], NextToken = (None :: nat option)\<rparr>
                                      else Inl (Errorf ''not found''))) \<lparr>Sequence = 1\<rparr> = Some ([(lb, \<lparr>Sequence = 1\<rparr>)], None)"
  using ElbFetcher_sends_all_without_match [of "[[''web.example.org''], []]"
      "NewElbFetcher (\<lambda>h. None) (sample_identity ''1'' [] [])"
      "\<lambda>names _. if names = [] then Inr \<lparr>items = [\<lparr>LoadBalancerName = None, lb_DNSName = []\<rparr>], NextToken = (None :: nat option)\<rparr>
                else Inl (Errorf ''not found'')"
      "[\<lparr>items = [\<lparr>LoadBalancerName = None, lb_DNSName = []\<rparr>], NextToken = None\<rparr>]" "\<lparr>Sequence = 1\<rparr>"]
  by (intro exI [of _ "\<lparr>LoadBalancerName = None, lb_DNSName = []\<rparr>"]) (simp add: NewElbFetcher_def send_each_def)

text \<open>
  One region hides all hubs: the provider answers one hub for each region, also for one whose call fails, but
  when a call fails for another reason than a missing subscription, the fetcher sends none of them.
\<close>

lemma SecurityHub_one_failure_hides_all:
  assumes "(region, Inl err) \<in> set cs" and "\<not> str_contains (error_text err) ''is not subscribed to AWS Security Hub''"
    and "MonitoringFetcher_Fetch ident aggregated (hub_Describe (cs, account)) c = Some (sends, e)"
  shows "length (fst (hub_Describe (cs, account))) = length cs \<and>
    (\<forall>hub. (SecurityHubResource hub, c) \<notin> set sends)"
proof -
  have "snd (describe_hub account region (Inl err)) \<noteq> None" using assms(2) by (simp add: describe_hub_def)
  then have "snd (fetch_regions (\<lambda>_. False) (describe_hub account) cs) \<noteq> []"
    using assms(1) unfolding fetch_regions_errors by (auto intro!: bexI [of _ "(region, Inl err)"])
  then obtain err' where "snd (hub_Describe (cs, account)) = Some err'"
    by (cases "snd (fetch_regions (\<lambda>_. False) (describe_hub account) cs)")
      (auto simp: hub_Describe_def MultiRegionFetch_def case_prod_beta)
  moreover have "length (fst (hub_Describe (cs, account))) = length cs"
    by (simp add: hub_Describe_def MultiRegionFetch_def case_prod_beta fetch_regions_results)
  ultimately show ?thesis using assms(3)
    by (cases "hub_Describe (cs, account)")
      (auto simp: MonitoringFetcher_Fetch_def send_each_def split: option.splits sum.splits)
qed

lemma SecurityHub_one_failure_hides_all_witness:
  "\<exists>sends. MonitoringFetcher_Fetch (sample_identity ''1'' [] []) (Some (Inr (Inr [])))
     (hub_Describe ([(''eu'', Inr (Some ''arn'')), (''us'', Inl (Errorf ''throttled''))], ''1'')) \<lparr>Sequence = 1\<rparr> = Some (sends, None) \<and>
   (SecurityHubResource \<lparr>hub_Enabled = True, hub_Region = ''eu'', hub_AccountId = ''1'', HubArn = Some (Some ''arn'')\<rparr>, \<lparr>Sequence = 1\<rparr>)
     \<notin> set sends"
proof -
  let ?hubs = "hub_Describe ([(''eu'', Inr (Some ''arn'')), (''us'', Inl (Errorf ''throttled''))], ''1'')"
  obtain sends where "MonitoringFetcher_Fetch (sample_identity ''1'' [] []) (Some (Inr (Inr []))) ?hubs \<lparr>Sequence = 1\<rparr> = Some (sends, None)"
    by (simp add: MonitoringFetcher_Fetch_def)
  with SecurityHub_one_failure_hides_all [OF _ _ this, of "''us''" "Errorf ''throttled''"] show ?thesis
    by (auto simp: has_prefix_def)
qed

end
