(* ===== verification/GCP_Inventory.thy ===== *)
theory GCP_Inventory
  imports Data_Model Config_Model
begin

text \<open>
  \<open>resources/providers/gcplib\<close>: the client configuration (\<open>auth/credentials.go\<close>) and the asset inventory
  (\<open>inventory/provider.go\<close>, \<open>inventory/asset.go\<close>). The inventory and the resource manager of the SDK are
  arguments. An iterator is the sequence of what \<open>Next\<close> answers before \<open>iterator.Done\<close>; the order in
  which a loop ranges over a map is a function of it. An answer \<open>None\<close> is a panic.
\<close>

section \<open>Client configuration\<close>

datatype client_option = WithCredentialsFile string | WithCredentialsJSON string

record gcp_factory_config =
  Parent :: string
  ClientOpts :: "client_option list"

text \<open>
  The file system: \<open>os.Stat\<close> answers whether the file does not exist, \<open>os.ReadFile\<close> the content.
  \<open>json_valid\<close> is \<open>json.Valid\<close>; \<open>credentials\<close> is what \<open>FindDefaultCredentials\<close> answers, the id of a project.
\<close>

record gcp_host =
  not_exist :: "string \<Rightarrow> bool"
  ReadFile :: "string \<Rightarrow> string result"
  json_valid :: "string \<Rightarrow> bool"
  FindDefaultCredentials :: "string result"

definition ErrMissingOrgId :: go_error where
  "ErrMissingOrgId = Sentinel ''organization ID is required for organization account type''"

definition ErrInvalidCredentialsJSON :: go_error where
  "ErrInvalidCredentialsJSON = Sentinel ''invalid credentials JSON''"

definition ErrProjectNotFound :: go_error where
  "ErrProjectNotFound = Sentinel ''no project ID was found''"

definition getConfigProjectId :: "gcp_host \<Rightarrow> gcp_config \<Rightarrow> string result" where
  "getConfigProjectId h cfg =
     (if ProjectId cfg \<noteq> [] then Inr (ProjectId cfg)
      else case FindDefaultCredentials h of
             Inr projectID \<Rightarrow> Inr projectID
           | Inl err \<Rightarrow> Inl ErrProjectNotFound)"

definition validateJSONFromFile :: "gcp_host \<Rightarrow> string \<Rightarrow> go_error option" where
  "validateJSONFromFile h filePath =
     (if not_exist h filePath then Some (Errorf (''file '' @ quote_q filePath @ '' cannot be found''))
      else case ReadFile h filePath of
             Inl err \<Rightarrow> Some (Errorf (''the file '' @ quote_q filePath @ '' cannot be read''))
           | Inr content \<Rightarrow>
               (if \<not> json_valid h content
                then Some (Errorf (''the file '' @ quote_q filePath @ '' does not contain valid JSON''))
                else None))"

definition getGcpConfigParentValue :: "gcp_host \<Rightarrow> gcp_config \<Rightarrow> string result" where
  "getGcpConfigParentValue h cfg =
     (if gcp_AccountType cfg = OrganizationAccount
      then if OrganizationId cfg = [] then Inl ErrMissingOrgId
           else Inr (''organizations/'' @ OrganizationId cfg)
      else if gcp_AccountType cfg = SingleAccount
      then case getConfigProjectId h cfg of
             Inl err \<Rightarrow> Inl (Errorf (''failed to get project ID: '' @ error_text err))
           | Inr projectId \<Rightarrow> Inr (''projects/'' @ projectId)
      else Inl (Errorf (''invalid gcp account type: '' @ gcp_AccountType cfg)))"

definition getGcpFactoryConfig ::
  "gcp_host \<Rightarrow> gcp_config \<Rightarrow> client_option list \<Rightarrow> gcp_factory_config result" where
  "getGcpFactoryConfig h cfg clientOpts =
     (case getGcpConfigParentValue h cfg of
        Inl err \<Rightarrow> Inl err
      | Inr parent \<Rightarrow> Inr \<lparr>Parent = parent, ClientOpts = clientOpts\<rparr>)"

definition getApplicationDefaultCredentials :: "gcp_host \<Rightarrow> gcp_config \<Rightarrow> gcp_factory_config result" where
  "getApplicationDefaultCredentials h cfg = getGcpFactoryConfig h cfg []"

definition getCustomCredentials :: "gcp_host \<Rightarrow> gcp_config \<Rightarrow> gcp_factory_config result" where
  "getCustomCredentials h cfg =
     (let file = CredentialsFilePath (GcpClientOpt cfg); json = CredentialsJSON (GcpClientOpt cfg)
      in case (if file \<noteq> [] then validateJSONFromFile h file else None) of
           Some err \<Rightarrow> Inl err
         | None \<Rightarrow>
             (if json \<noteq> [] \<and> \<not> json_valid h json then Inl ErrInvalidCredentialsJSON
              else getGcpFactoryConfig h cfg
                ((if file \<noteq> [] then [WithCredentialsFile file] else []) @
                 (if json \<noteq> [] then [WithCredentialsJSON json] else []))))"

definition GetGcpClientConfig :: "gcp_host \<Rightarrow> gcp_config \<Rightarrow> gcp_factory_config result" where
  "GetGcpClientConfig h cfg =
     (if CredentialsJSON (GcpClientOpt cfg) = [] \<and> CredentialsFilePath (GcpClientOpt cfg) = []
      then getApplicationDefaultCredentials h cfg
      else getCustomCredentials h cfg)"

section \<open>Assets\<close>

text \<open>\<open>fields\<close> of the data of a resource: \<open>None\<close> is the nil map.\<close>

record gcp_resource =
  Location :: string
  res_Fields :: "(string \<times> any) list option"

record gcp_asset =
  asset_Name :: string
  AssetType :: string
  asset_Resource :: "gcp_resource option"
  IamPolicy :: "any option"
  Ancestors :: "string list"

record ecs_gcp =
  ecs_Provider :: string
  ecs_ProjectId :: string
  ecs_ProjectName :: string
  ecs_OrganizationId :: string
  ecs_OrganizationName :: string

record extended_asset =
  ext_Asset :: gcp_asset
  Ecs :: ecs_gcp

record gcp_asset_ids =
  orgId :: string
  projectId :: string
  parentProject :: string
  parentOrg :: string

record dns_policy =
  networks :: "string list"
  enableLogging :: bool

definition ComputeNetworkAssetType :: string where
  "ComputeNetworkAssetType = ''compute.googleapis.com/Network''"

definition CrmProjectAssetType :: string where
  "CrmProjectAssetType = ''cloudresourcemanager.googleapis.com/Project''"

definition CrmOrgAssetType :: string where
  "CrmOrgAssetType = ''cloudresourcemanager.googleapis.com/Organization''"

definition CrmFolderAssetType :: string where
  "CrmFolderAssetType = ''cloudresourcemanager.googleapis.com/Folder''"

definition LogSinkAssetType :: string where
  "LogSinkAssetType = ''logging.googleapis.com/LogSink''"

definition MonitoringLogMetricAssetType :: string where
  "MonitoringLogMetricAssetType = ''logging.googleapis.com/LogMetric''"

definition MonitoringAlertPolicyAssetType :: string where
  "MonitoringAlertPolicyAssetType = ''monitoring.googleapis.com/AlertPolicy''"

definition DnsPolicyAssetType :: string where
  "DnsPolicyAssetType = ''dns.googleapis.com/Policy''"

definition ServiceUsageAssetType :: string where
  "ServiceUsageAssetType = ''serviceusage.googleapis.com/Service''"

text \<open>The methods of the SDK's messages answer zero values on nil and on a value of another kind.\<close>

definition GetFields :: "gcp_resource option \<Rightarrow> (string \<times> any) list option" where
  "GetFields r = (case r of None \<Rightarrow> None | Some x \<Rightarrow> res_Fields x)"

definition field :: "string \<Rightarrow> (string \<times> any) list option \<Rightarrow> any option" where
  "field k fs = (case fs of None \<Rightarrow> None | Some m \<Rightarrow> map_of m k)"

fun GetStringValue :: "any \<Rightarrow> string" where
  "GetStringValue (VStr s) = s"
| "GetStringValue _ = []"

fun GetBoolValue :: "any \<Rightarrow> bool" where
  "GetBoolValue (VBool b) = b"
| "GetBoolValue _ = False"

fun GetListValues :: "any \<Rightarrow> any list" where
  "GetListValues (VList vs) = vs"
| "GetListValues _ = []"

fun GetStructFields :: "any \<Rightarrow> (string \<times> any) list option" where
  "GetStructFields (VMap m) = Some m"
| "GetStructFields _ = None"

section \<open>Provider\<close>

datatype content_type = RESOURCE | IAM_POLICY

record list_request =
  req_Parent :: string
  AssetTypes :: "string list"
  ContentType :: content_type

type_synonym iterator = "gcp_asset result list"

record resource_manager =
  getProjectDisplayName :: "string \<Rightarrow> string"
  getOrganizationDisplayName :: "string \<Rightarrow> string"

record gcp_provider =
  gp_config :: gcp_factory_config
  ListAssets :: "list_request \<Rightarrow> iterator"
  crm :: resource_manager

type_synonym crm_cache = "(string \<times> ecs_gcp) list"

text \<open>The clients of the SDK, or the error of their making; a project or an organization is its display name.\<close>

definition gcp_Init ::
  "gcp_factory_config \<Rightarrow> (list_request \<Rightarrow> iterator) result \<Rightarrow>
     ((string \<Rightarrow> string result) \<times> (string \<Rightarrow> string result)) result \<Rightarrow> (gcp_provider \<times> crm_cache) result" where
  "gcp_Init gcpConfig client crmService =
     (case client of
        Inl err \<Rightarrow> Inl err
      | Inr listAssets \<Rightarrow>
          (case crmService of
             Inl err \<Rightarrow> Inl err
           | Inr (projects, organizations) \<Rightarrow>
               Inr (\<lparr>gp_config = gcpConfig, ListAssets = listAssets,
                     crm = \<lparr>getProjectDisplayName = \<lambda>parent. (case projects parent of Inl err \<Rightarrow> [] | Inr prj \<Rightarrow> prj),
                            getOrganizationDisplayName = \<lambda>parent. (case organizations parent of Inl err \<Rightarrow> [] | Inr org \<Rightarrow> org)\<rparr>\<rparr>,
                    [])))"

fun collect_assets :: "iterator \<Rightarrow> gcp_asset list \<Rightarrow> gcp_asset list" where
  "collect_assets [] results = results"
| "collect_assets (Inl err # it) results = []"
| "collect_assets (Inr response # it) results = collect_assets it (results @ [response])"

definition getAllAssets :: "iterator \<Rightarrow> gcp_asset list" where
  "getAllAssets it = collect_assets it []"

definition merge_asset :: "gcp_asset \<Rightarrow> (string \<times> gcp_asset) list \<Rightarrow> (string \<times> gcp_asset) list" where
  "merge_asset a resultsMap =
     (case map_of resultsMap (asset_Name a) of
        None \<Rightarrow> map_put (asset_Name a) a resultsMap
      | Some item \<Rightarrow>
          (let item = (if asset_Resource a \<noteq> None then item\<lparr>asset_Resource := asset_Resource a\<rparr> else item);
               item = (if IamPolicy a \<noteq> None then item\<lparr>IamPolicy := IamPolicy a\<rparr> else item)
           in map_put (asset_Name a) item resultsMap))"

definition mergeAssetContentType ::
  "((string \<times> gcp_asset) list \<Rightarrow> (string \<times> gcp_asset) list) \<Rightarrow> gcp_asset list \<Rightarrow> gcp_asset list" where
  "mergeAssetContentType ranged assets = map snd (ranged (fold merge_asset assets []))"

text \<open>The id after the slash of a part that begins with the kind; \<open>None\<close> where there is no part or no slash.\<close>

definition id_of_part :: "string \<Rightarrow> string \<Rightarrow> string option" where
  "id_of_part kind part =
     (let parts = split_on (CHR ''/'') part
      in if hd parts = kind then (case tl parts of [] \<Rightarrow> None | p # _ \<Rightarrow> Some p) else Some [])"

definition getOrganizationId :: "string list \<Rightarrow> string option" where
  "getOrganizationId ancestors = (if ancestors = [] then None else id_of_part ''organizations'' (last ancestors))"

definition getProjectId :: "string list \<Rightarrow> string option" where
  "getProjectId ancestors = (if ancestors = [] then None else id_of_part ''projects'' (hd ancestors))"

definition getAssetIds :: "gcp_asset \<Rightarrow> gcp_asset_ids option" where
  "getAssetIds a =
     (case getOrganizationId (Ancestors a) of
        None \<Rightarrow> None
      | Some org \<Rightarrow>
          (case getProjectId (Ancestors a) of
             None \<Rightarrow> None
           | Some project \<Rightarrow>
               Some \<lparr>orgId = org, projectId = project, parentProject = ''projects/'' @ project,
                     parentOrg = ''organizations/'' @ org\<rparr>))"

definition getEcsGcpCloudData :: "resource_manager \<Rightarrow> gcp_asset_ids \<Rightarrow> ecs_gcp" where
  "getEcsGcpCloudData c keys =
     \<lparr>ecs_Provider = [], ecs_ProjectId = projectId keys,
      ecs_ProjectName = getProjectDisplayName c (parentProject keys),
      ecs_OrganizationId = orgId keys, ecs_OrganizationName = getOrganizationDisplayName c (parentOrg keys)\<rparr>"

definition crm_key :: "gcp_asset_ids \<Rightarrow> string" where
  "crm_key keys = parentProject keys @ ''/'' @ parentOrg keys"

fun extendWithECS ::
  "resource_manager \<Rightarrow> crm_cache \<Rightarrow> gcp_asset list \<Rightarrow> (extended_asset list \<times> crm_cache) option" where
  "extendWithECS c cch [] = Some ([], cch)"
| "extendWithECS c cch (a # assets) =
     (case getAssetIds a of
        None \<Rightarrow> None
      | Some keys \<Rightarrow>
          (let (ecs, cch) = (case map_of cch (crm_key keys) of
                 Some cached \<Rightarrow> (cached, cch)
               | None \<Rightarrow> (let ecs = getEcsGcpCloudData c keys in (ecs, map_put (crm_key keys) ecs cch)))
           in case extendWithECS c cch assets of
                None \<Rightarrow> None
              | Some (extended, cch) \<Rightarrow> Some (\<lparr>ext_Asset = a, Ecs = ecs\<rparr> # extended, cch)))"

text \<open>\<open>enrichNetworkAssets\<close> writes to the fields of the assets in place; the write to a nil map panics.\<close>

definition decode_dns_policy :: "gcp_asset \<Rightarrow> dns_policy" where
  "decode_dns_policy a =
     (let data = GetFields (asset_Resource a)
      in \<lparr>networks = (case field ''networks'' data of
              None \<Rightarrow> []
            | Some attached \<Rightarrow>
                List.map_filter (\<lambda>network. map_option GetStringValue (field ''networkUrl'' (GetStructFields network)))
                  (GetListValues attached)),
          enableLogging = (case field ''enableLogging'' data of None \<Rightarrow> False | Some v \<Rightarrow> GetBoolValue v)\<rparr>)"

definition decodeDnsPolicies :: "gcp_asset list \<Rightarrow> dns_policy list" where
  "decodeDnsPolicies assets = map decode_dns_policy assets"

definition findDnsPolicyByNetwork :: "dns_policy list \<Rightarrow> string \<Rightarrow> dns_policy option" where
  "findDnsPolicyByNetwork policies networkIdentifier =
     find (\<lambda>p. list_ex (\<lambda>networkUrl. has_suffix networkUrl networkIdentifier) (networks p)) policies"

definition getAssetsByType :: "extended_asset list \<Rightarrow> string \<Rightarrow> extended_asset list" where
  "getAssetsByType assets assetType = filter (\<lambda>a. AssetType (ext_Asset a) = assetType) assets"

definition enrich_network :: "dns_policy list \<Rightarrow> extended_asset \<Rightarrow> extended_asset option" where
  "enrich_network policies a =
     (case findDnsPolicyByNetwork policies (trim_prefix (asset_Name (ext_Asset a)) ''//compute.googleapis.com'') of
        None \<Rightarrow> Some a
      | Some policy \<Rightarrow>
          (case asset_Resource (ext_Asset a) of
             None \<Rightarrow> None
           | Some r \<Rightarrow>
               (case res_Fields r of
                  None \<Rightarrow> None
                | Some fs \<Rightarrow>
                    Some (a\<lparr>ext_Asset := (ext_Asset a)\<lparr>asset_Resource := Some (r\<lparr>res_Fields :=
                      Some (map_put ''enabledDnsLogging'' (VBool (enableLogging policy)) fs)\<rparr>)\<rparr>\<rparr>))))"

definition enrichNetworkAssets :: "gcp_provider \<Rightarrow> extended_asset list \<Rightarrow> extended_asset list option" where
  "enrichNetworkAssets p assets =
     (if getAssetsByType assets ComputeNetworkAssetType = [] then Some assets
      else let dnsPolicyAssets = getAllAssets (ListAssets p
             \<lparr>req_Parent = Parent (gp_config p), AssetTypes = [DnsPolicyAssetType], ContentType = RESOURCE\<rparr>)
      in if dnsPolicyAssets = [] then Some assets
         else let policies = decodeDnsPolicies dnsPolicyAssets
         in those (map (\<lambda>a. if AssetType (ext_Asset a) = ComputeNetworkAssetType then enrich_network policies a
                            else Some a) assets))"

text \<open>\<open>ranged\<close> orders the loop over the merged assets.\<close>

definition ListAllAssetTypesByName ::
  "((string \<times> gcp_asset) list \<Rightarrow> (string \<times> gcp_asset) list) \<Rightarrow> gcp_provider \<Rightarrow> string list \<Rightarrow> crm_cache \<Rightarrow>
     (extended_asset list result \<times> crm_cache) option" where
  "ListAllAssetTypesByName ranged p assetTypes cch =
     (let request = (\<lambda>ct. \<lparr>req_Parent = Parent (gp_config p), AssetTypes = assetTypes, ContentType = ct\<rparr>);
          resourceAssets = getAllAssets (ListAssets p (request RESOURCE));
          policyAssets = getAllAssets (ListAssets p (request IAM_POLICY));
          mergedAssets = mergeAssetContentType ranged (resourceAssets @ policyAssets)
      in case extendWithECS (crm p) cch mergedAssets of
           None \<Rightarrow> None
         | Some (extendedAssets, cch) \<Rightarrow>
             (case enrichNetworkAssets p extendedAssets of
                None \<Rightarrow> None
              | Some enriched \<Rightarrow> Some (Inr enriched, cch)))"

section \<open>Assets by project\<close>

definition group_by_project :: "extended_asset list \<Rightarrow> (string \<times> extended_asset list) list" where
  "group_by_project assets = group_by (\<lambda>a. ecs_ProjectId (Ecs a)) assets"

type_synonym 't type_generator = "extended_asset list \<Rightarrow> string \<Rightarrow> string \<Rightarrow> string \<Rightarrow> string \<Rightarrow> 't"

fun project_assets ::
  "(string \<times> extended_asset list) list \<Rightarrow> 't type_generator \<Rightarrow> (string \<times> extended_asset list) list \<Rightarrow> 't list" where
  "project_assets assetsByProject f [] = []"
| "project_assets assetsByProject f ((project, projectAssets) # rest) =
     (if project = [] then project_assets assetsByProject f rest
      else case projectAssets of
             [] \<Rightarrow> project_assets assetsByProject f rest
           | a # _ \<Rightarrow>
               f (projectAssets @ group_at assetsByProject []) project
                 (ecs_ProjectName (Ecs a)) (ecs_OrganizationId (Ecs a)) (ecs_OrganizationName (Ecs a)) #
               project_assets assetsByProject f rest)"

definition getAssetsByProject ::
  "((string \<times> extended_asset list) list \<Rightarrow> (string \<times> extended_asset list) list) \<Rightarrow> extended_asset list \<Rightarrow>
     't type_generator \<Rightarrow> 't list" where
  "getAssetsByProject ranged assets f =
     (let assetsByProject = group_by_project assets in project_assets assetsByProject f (ranged assetsByProject))"

record monitoring_asset =
  mon_Ecs :: ecs_gcp
  LogMetrics :: "extended_asset list"
  Alerts :: "extended_asset list"

record logging_asset =
  log_Ecs :: ecs_gcp
  LogSinks :: "extended_asset list"

record project_policies_asset =
  pol_Ecs :: ecs_gcp
  Policies :: "extended_asset list"

record service_usage_asset =
  svc_Ecs :: ecs_gcp
  Services :: "extended_asset list"

definition project_ecs :: "string \<Rightarrow> string \<Rightarrow> string \<Rightarrow> string \<Rightarrow> ecs_gcp" where
  "project_ecs project projectName org orgName =
     \<lparr>ecs_Provider = ''gcp'', ecs_ProjectId = project, ecs_ProjectName = projectName,
      ecs_OrganizationId = org, ecs_OrganizationName = orgName\<rparr>"

definition monitoring_generator :: "monitoring_asset type_generator" where
  "monitoring_generator assets project projectName org orgName =
     \<lparr>mon_Ecs = project_ecs project projectName org orgName,
      LogMetrics = getAssetsByType assets MonitoringLogMetricAssetType,
      Alerts = getAssetsByType assets MonitoringAlertPolicyAssetType\<rparr>"

definition logging_generator :: "logging_asset type_generator" where
  "logging_generator assets project projectName org orgName =
     \<lparr>log_Ecs = project_ecs project projectName org orgName, LogSinks = assets\<rparr>"

definition service_generator :: "service_usage_asset type_generator" where
  "service_generator assets project projectName org orgName =
     \<lparr>svc_Ecs = project_ecs project projectName org orgName, Services = assets\<rparr>"

text \<open>
  The orders of the two kinds of loops over a map, and \<open>monitoringAssetTypes\<close> as a map from the
  kinds to the types; a kind that is not there is the nil slice.
\<close>

record ranges =
  merged_order :: "(string \<times> gcp_asset) list \<Rightarrow> (string \<times> gcp_asset) list"
  project_order :: "(string \<times> extended_asset list) list \<Rightarrow> (string \<times> extended_asset list) list"

definition types_of :: "string \<Rightarrow> (string \<times> string list) list \<Rightarrow> string list" where
  "types_of k m = (case map_of m k of None \<Rightarrow> [] | Some ts \<Rightarrow> ts)"

definition ListMonitoringAssets ::
  "ranges \<Rightarrow> gcp_provider \<Rightarrow> (string \<times> string list) list \<Rightarrow> crm_cache \<Rightarrow>
     (monitoring_asset list result \<times> crm_cache) option" where
  "ListMonitoringAssets rg p monitoringAssetTypes cch =
     (case ListAllAssetTypesByName (merged_order rg) p (types_of ''LogMetric'' monitoringAssetTypes) cch of
        None \<Rightarrow> None
      | Some (Inl err, cch) \<Rightarrow> Some (Inl err, cch)
      | Some (Inr logMetrics, cch) \<Rightarrow>
          (case ListAllAssetTypesByName (merged_order rg) p (types_of ''AlertPolicy'' monitoringAssetTypes) cch of
             None \<Rightarrow> None
           | Some (Inl err, cch) \<Rightarrow> Some (Inl err, cch)
           | Some (Inr alertPolicies, cch) \<Rightarrow>
               Some (Inr (getAssetsByProject (project_order rg) (logMetrics @ alertPolicies) monitoring_generator), cch)))"

definition list_by_project ::
  "ranges \<Rightarrow> gcp_provider \<Rightarrow> string \<Rightarrow> 't type_generator \<Rightarrow> crm_cache \<Rightarrow> ('t list result \<times> crm_cache) option" where
  "list_by_project rg p assetType f cch =
     (case ListAllAssetTypesByName (merged_order rg) p [assetType] cch of
        None \<Rightarrow> None
      | Some (Inl err, cch) \<Rightarrow> Some (Inl err, cch)
      | Some (Inr assets, cch) \<Rightarrow> Some (Inr (getAssetsByProject (project_order rg) assets f), cch))"

definition ListLoggingAssets ::
  "ranges \<Rightarrow> gcp_provider \<Rightarrow> crm_cache \<Rightarrow> (logging_asset list result \<times> crm_cache) option" where
  "ListLoggingAssets rg p cch = list_by_project rg p LogSinkAssetType logging_generator cch"

definition ListServiceUsageAssets ::
  "ranges \<Rightarrow> gcp_provider \<Rightarrow> crm_cache \<Rightarrow> (service_usage_asset list result \<times> crm_cache) option" where
  "ListServiceUsageAssets rg p cch = list_by_project rg p ServiceUsageAssetType service_generator cch"

section \<open>Policies of the ancestors\<close>

definition ancestor_type :: "string \<Rightarrow> string" where
  "ancestor_type parent =
     (if has_prefix parent ''organizations'' then CrmOrgAssetType
      else if has_prefix parent ''folders'' then CrmFolderAssetType else [])"

fun getAncestorsAssets ::
  "gcp_provider \<Rightarrow> string list \<Rightarrow> crm_cache \<Rightarrow> (extended_asset list \<times> crm_cache) option" where
  "getAncestorsAssets p [] cch = Some ([], cch)"
| "getAncestorsAssets p (parent # ancestors) cch =
     (case extendWithECS (crm p) cch (getAllAssets (ListAssets p
         \<lparr>req_Parent = parent, AssetTypes = [ancestor_type parent], ContentType = IAM_POLICY\<rparr>)) of
        None \<Rightarrow> None
      | Some (assets, cch) \<Rightarrow>
          (case getAncestorsAssets p ancestors cch of
             None \<Rightarrow> None
           | Some (rest, cch) \<Rightarrow> Some (assets @ rest, cch)))"

fun project_policies ::
  "gcp_provider \<Rightarrow> gcp_asset list \<Rightarrow> crm_cache \<Rightarrow> (project_policies_asset list \<times> crm_cache) option" where
  "project_policies p [] cch = Some ([], cch)"
| "project_policies p (project # projects) cch =
     (case extendWithECS (crm p) cch [project] of
        Some ([projectAsset], cch) \<Rightarrow>
          (case getAncestorsAssets p (tl (Ancestors project)) cch of
             None \<Rightarrow> None
           | Some (ancestors, cch) \<Rightarrow>
               (case project_policies p projects cch of
                  None \<Rightarrow> None
                | Some (rest, cch) \<Rightarrow>
                    Some (\<lparr>pol_Ecs = Ecs projectAsset, Policies = projectAsset # ancestors\<rparr> # rest, cch)))
      | _ \<Rightarrow> None)"

definition ListProjectsAncestorsPolicies ::
  "gcp_provider \<Rightarrow> crm_cache \<Rightarrow> (project_policies_asset list result \<times> crm_cache) option" where
  "ListProjectsAncestorsPolicies p cch =
     (case project_policies p (getAllAssets (ListAssets p \<lparr>req_Parent = Parent (gp_config p),
         AssetTypes = [CrmProjectAssetType], ContentType = IAM_POLICY\<rparr>)) cch of
        None \<Rightarrow> None
      | Some (assets, cch) \<Rightarrow> Some (Inr assets, cch))"

section \<open>Lemmas\<close>

text \<open>The ids of a project and an organization, with the names that the resource manager uses.\<close>

definition asset_ids :: "string \<Rightarrow> string \<Rightarrow> gcp_asset_ids" where
  "asset_ids project org =
     \<lparr>orgId = org, projectId = project, parentProject = ''projects/'' @ project, parentOrg = ''organizations/'' @ org\<rparr>"

lemma id_of_part_no_slash:
  assumes "id_of_part kind part = Some x"
  shows "CHR ''/'' \<notin> set x"
proof -
  have "x = [] \<or> x \<in> set (tl (split_on (CHR ''/'') part))"
    using assms by (auto simp: id_of_part_def Let_def split: if_splits list.splits)
  then show ?thesis
    using split_on_parts [of x "CHR ''/''" part] list.set_sel(2) [OF split_on_ne, of x "CHR ''/''" part] by auto
qed

lemma getAssetIds_ids:
  assumes "getAssetIds a = Some keys"
  obtains project org where "keys = asset_ids project org" "CHR ''/'' \<notin> set project" "CHR ''/'' \<notin> set org"
  using assms
  by (auto simp: getAssetIds_def asset_ids_def getOrganizationId_def getProjectId_def
      split: option.splits if_splits dest: id_of_part_no_slash)

text \<open>The key of the cache names one project and one organization.\<close>

lemma crm_key_split:
  assumes "CHR ''/'' \<notin> set project" "CHR ''/'' \<notin> set org"
  shows "split_on (CHR ''/'') (crm_key (asset_ids project org)) = [''projects'', project, ''organizations'', org]"
proof -
  have k: "crm_key (asset_ids project org) = ''projects'' @ CHR ''/'' # project @ CHR ''/'' # ''organizations'' @ CHR ''/'' # org"
    by (simp add: crm_key_def asset_ids_def)
  have "split_on (CHR ''/'') (''organizations'' @ CHR ''/'' # org) = [''organizations'', org]"
    by (subst split_on_append) (simp_all add: split_on_noc assms)
  then have "split_on (CHR ''/'') (project @ CHR ''/'' # ''organizations'' @ CHR ''/'' # org) = [project, ''organizations'', org]"
    by (subst split_on_append) (simp_all add: assms)
  then show ?thesis unfolding k by (subst split_on_append) simp_all
qed

lemma crm_key_inject:
  assumes "crm_key (asset_ids p q) = crm_key (asset_ids p' q')"
    and "CHR ''/'' \<notin> set p" "CHR ''/'' \<notin> set q" "CHR ''/'' \<notin> set p'" "CHR ''/'' \<notin> set q'"
  shows "p = p' \<and> q = q'"
proof -
  have "[''projects'', p, ''organizations'', q] = [''projects'', p', ''organizations'', q']"
    using crm_key_split [OF assms(2,3)] crm_key_split [OF assms(4,5)] unfolding assms(1) by (rule trans [OF sym])
  then show ?thesis by simp
qed

text \<open>The invariant of the cache: what it holds under a key is what the resource manager answers for it.\<close>

definition crm_cache_ok :: "resource_manager \<Rightarrow> crm_cache \<Rightarrow> bool" where
  "crm_cache_ok c cch \<longleftrightarrow>
     (\<forall>(k, ecs)\<in>set cch. \<exists>project org. CHR ''/'' \<notin> set project \<and> CHR ''/'' \<notin> set org \<and>
        k = crm_key (asset_ids project org) \<and> ecs = getEcsGcpCloudData c (asset_ids project org))"

lemma crm_cache_ok_empty [simp]: "crm_cache_ok c []"
  by (simp add: crm_cache_ok_def)

lemma crm_cache_ok_put:
  "crm_cache_ok c cch \<Longrightarrow> getAssetIds a = Some keys \<Longrightarrow>
   crm_cache_ok c (map_put (crm_key keys) (getEcsGcpCloudData c keys) cch)"
  by (erule getAssetIds_ids) (auto simp: crm_cache_ok_def map_put_def)

lemma crm_cache_ok_lookup:
  assumes "crm_cache_ok c cch" "getAssetIds a = Some keys" "map_of cch (crm_key keys) = Some ecs"
  shows "ecs = getEcsGcpCloudData c keys"
proof -
  obtain p q where k: "keys = asset_ids p q" "CHR ''/'' \<notin> set p" "CHR ''/'' \<notin> set q"
    using assms(2) by (rule getAssetIds_ids)
  have "(crm_key keys, ecs) \<in> set cch" using assms(3) by (rule map_of_SomeD)
  then obtain p' q' where e: "CHR ''/'' \<notin> set p'" "CHR ''/'' \<notin> set q'"
      "crm_key keys = crm_key (asset_ids p' q')" "ecs = getEcsGcpCloudData c (asset_ids p' q')"
    using assms(1) unfolding crm_cache_ok_def by blast
  then show ?thesis using crm_key_inject [of p q p' q'] k by simp
qed

text \<open>The reference: every asset with what the resource manager answers for its ids.\<close>

definition extended_by :: "resource_manager \<Rightarrow> gcp_asset \<Rightarrow> extended_asset" where
  "extended_by c a = \<lparr>ext_Asset = a, Ecs = getEcsGcpCloudData c (the (getAssetIds a))\<rparr>"

lemma extendWithECS_answers:
  "crm_cache_ok c cch \<Longrightarrow> \<forall>a\<in>set assets. getAssetIds a \<noteq> None \<Longrightarrow>
   \<exists>cch'. extendWithECS c cch assets = Some (map (extended_by c) assets, cch') \<and> crm_cache_ok c cch'"
proof (induction assets arbitrary: cch)
  case (Cons a assets)
  then obtain keys where keys: "getAssetIds a = Some keys" by auto
  show ?case
  proof (cases "map_of cch (crm_key keys)")
    case None
    obtain cch' where "extendWithECS c (map_put (crm_key keys) (getEcsGcpCloudData c keys) cch) assets =
        Some (map (extended_by c) assets, cch')" "crm_cache_ok c cch'"
      using Cons.IH [OF crm_cache_ok_put [OF Cons.prems(1) keys]] Cons.prems(2) by auto
    then show ?thesis using keys None by (simp add: Let_def extended_by_def)
  next
    case (Some ecs)
    obtain cch' where "extendWithECS c cch assets = Some (map (extended_by c) assets, cch')" "crm_cache_ok c cch'"
      using Cons.IH [OF Cons.prems(1)] Cons.prems(2) by auto
    then show ?thesis using keys Some crm_cache_ok_lookup [OF Cons.prems(1) keys Some]
      by (simp add: Let_def extended_by_def)
  qed
qed simp

lemma extendWithECS_panics:
  "a \<in> set assets \<Longrightarrow> getAssetIds a = None \<Longrightarrow> extendWithECS c cch assets = None"
  by (induction assets arbitrary: cch) (auto simp: Let_def case_prod_beta split: option.splits)

lemma extendWithECS_assets:
  "extendWithECS c cch assets = Some (extended, cch') \<Longrightarrow> map ext_Asset extended = assets"
  by (induction assets arbitrary: cch extended) (auto simp: Let_def case_prod_beta split: option.splits)

lemma collect_assets_ok [simp]: "collect_assets (map Inr as) results = results @ as"
  by (induction as arbitrary: results) auto

lemma getAllAssets_ok [simp]: "getAllAssets (map Inr as) = as"
  by (simp add: getAllAssets_def)

lemma getAllAssets_error: "Inl err \<in> set it \<Longrightarrow> getAllAssets it = []"
proof -
  have "Inl err \<in> set it \<Longrightarrow> collect_assets it results = []" for results
    by (induction it results rule: collect_assets.induct) auto
  then show "Inl err \<in> set it \<Longrightarrow> getAllAssets it = []" by (simp add: getAllAssets_def)
qed

subsection \<open>The merge\<close>

definition merge_item :: "gcp_asset \<Rightarrow> gcp_asset option \<Rightarrow> gcp_asset option" where
  "merge_item a old =
     (case old of
        None \<Rightarrow> Some a
      | Some item \<Rightarrow>
          Some (item\<lparr>asset_Resource := (if asset_Resource a \<noteq> None then asset_Resource a else asset_Resource item),
                     IamPolicy := (if IamPolicy a \<noteq> None then IamPolicy a else IamPolicy item)\<rparr>))"

text \<open>The reference: the asset with a name, where two listings have each name once.\<close>

definition merged_asset :: "gcp_asset list \<Rightarrow> gcp_asset list \<Rightarrow> string \<Rightarrow> gcp_asset option" where
  "merged_asset rs ps n =
     (case find (\<lambda>a. asset_Name a = n) ps of
        None \<Rightarrow> find (\<lambda>a. asset_Name a = n) rs
      | Some a \<Rightarrow> merge_item a (find (\<lambda>a. asset_Name a = n) rs))"

lemma map_of_merge_asset:
  "map_of (merge_asset a m) n = (if asset_Name a = n then merge_item a (map_of m n) else map_of m n)"
  by (auto simp: merge_asset_def merge_item_def Let_def split: option.splits)

lemma map_of_fold_merge:
  "map_of (fold merge_asset as m) n = fold merge_item (filter (\<lambda>a. asset_Name a = n) as) (map_of m n)"
  by (induction as arbitrary: m) (auto simp: map_of_merge_asset)

lemma fold_merge_keys:
  "distinct (map fst m) \<Longrightarrow> \<forall>(k, a)\<in>set m. asset_Name a = k \<Longrightarrow>
   distinct (map fst (fold merge_asset as m)) \<and> (\<forall>(k, a)\<in>set (fold merge_asset as m). asset_Name a = k) \<and>
   set (map fst (fold merge_asset as m)) = set (map fst m) \<union> asset_Name ` set as"
proof (induction as arbitrary: m)
  case (Cons a as)
  have "\<forall>(k, a)\<in>set (merge_asset a m). asset_Name a = k"
    using Cons.prems(2)
    by (auto simp: merge_asset_def map_put_def Let_def split: option.splits dest!: map_of_SomeD)
  moreover have "distinct (map fst (merge_asset a m))"
    using Cons.prems(1) by (auto simp: merge_asset_def distinct_map_put Let_def simp del: distinct_map split: option.splits)
  moreover have "set (map fst (merge_asset a m)) = insert (asset_Name a) (set (map fst m))"
    by (auto simp: merge_asset_def map_put_def Let_def split: option.splits)
  ultimately show ?case using Cons.IH [of "merge_asset a m"] by auto
qed simp

lemma filter_name_find:
  "distinct (map asset_Name as) \<Longrightarrow>
   filter (\<lambda>a. asset_Name a = n) as = (case find (\<lambda>a. asset_Name a = n) as of None \<Rightarrow> [] | Some a \<Rightarrow> [a])"
proof (induction as)
  case (Cons a as)
  show ?case
  proof (cases "asset_Name a = n")
    case True
    then have "asset_Name b \<noteq> n" if "b \<in> set as" for b using Cons.prems that by auto (metis imageI)
    then have "filter (\<lambda>a. asset_Name a = n) as = []" by (simp add: filter_empty_conv)
    then show ?thesis using True by simp
  qed (use Cons in simp)
qed simp

lemma mergeAssetContentType_merges:
  assumes "mset (ranged (fold merge_asset (rs @ ps) [])) = mset (fold merge_asset (rs @ ps) [])"
    and "distinct (map asset_Name rs)" "distinct (map asset_Name ps)"
  shows "mset (map asset_Name (mergeAssetContentType ranged (rs @ ps))) = mset (remdups (map asset_Name (rs @ ps)))"
    and "\<forall>a\<in>set (mergeAssetContentType ranged (rs @ ps)). merged_asset rs ps (asset_Name a) = Some a"
proof -
  let ?m = "fold merge_asset (rs @ ps) []"
  have keys: "distinct (map fst ?m)" "\<forall>(k, a)\<in>set ?m. asset_Name a = k"
      "set (map fst ?m) = asset_Name ` set (rs @ ps)"
    using fold_merge_keys [of "[]" "rs @ ps"] by simp_all
  have r: "set (ranged ?m) = set ?m" using assms(1) by (rule mset_eq_setD)
  have "map asset_Name (map snd ?m) = map fst ?m" using keys(2) by (induction ?m) auto
  moreover have "mset (map asset_Name (mergeAssetContentType ranged (rs @ ps))) = mset (map asset_Name (map snd ?m))"
    using assms(1) unfolding mergeAssetContentType_def mset_map by simp
  ultimately show "mset (map asset_Name (mergeAssetContentType ranged (rs @ ps))) = mset (remdups (map asset_Name (rs @ ps)))"
    using keys(1,3) by (simp add: set_eq_iff_mset_eq_distinct [symmetric] image_Un del: map_map mset_map fold_append)
  have "merged_asset rs ps k = Some a" if "(k, a) \<in> set ?m" for k a
  proof -
    have "map_of ?m k = Some a" using that keys(1) by simp
    then show ?thesis
      unfolding map_of_fold_merge filter_append filter_name_find [OF assms(2)] filter_name_find [OF assms(3)]
      by (auto simp: merged_asset_def merge_item_def split: option.splits)
  qed
  then show "\<forall>a\<in>set (mergeAssetContentType ranged (rs @ ps)). merged_asset rs ps (asset_Name a) = Some a"
    using keys(2) r by (auto simp: mergeAssetContentType_def simp del: fold_append)
qed

lemma enrich_network_keeps:
  "enrich_network policies e = Some e' \<Longrightarrow> asset_Name (ext_Asset e') = asset_Name (ext_Asset e) \<and>
   AssetType (ext_Asset e') = AssetType (ext_Asset e) \<and> Ancestors (ext_Asset e') = Ancestors (ext_Asset e) \<and>
   IamPolicy (ext_Asset e') = IamPolicy (ext_Asset e) \<and> Ecs e' = Ecs e"
  by (auto simp: enrich_network_def split: option.splits)

lemma those_rel:
  "those (map f xs) = Some ys \<Longrightarrow> list_all2 (\<lambda>x y. f x = Some y) xs ys"
  by (induction xs arbitrary: ys) (auto split: option.splits)

lemma those_None: "x \<in> set xs \<Longrightarrow> f x = None \<Longrightarrow> those (map f xs) = None"
  by (induction xs) (auto split: option.splits)

lemma enrichNetworkAssets_rel:
  assumes "enrichNetworkAssets p assets = Some enriched"
  shows "list_all2 (\<lambda>e e'. asset_Name (ext_Asset e') = asset_Name (ext_Asset e) \<and> Ecs e' = Ecs e \<and>
      Ancestors (ext_Asset e') = Ancestors (ext_Asset e) \<and> AssetType (ext_Asset e') = AssetType (ext_Asset e) \<and>
      (AssetType (ext_Asset e) \<noteq> ComputeNetworkAssetType \<longrightarrow> e' = e)) assets enriched"
proof -
  have same: "list_all2 (\<lambda>e e'. asset_Name (ext_Asset e') = asset_Name (ext_Asset e) \<and> Ecs e' = Ecs e \<and>
      Ancestors (ext_Asset e') = Ancestors (ext_Asset e) \<and> AssetType (ext_Asset e') = AssetType (ext_Asset e) \<and>
      (AssetType (ext_Asset e) \<noteq> ComputeNetworkAssetType \<longrightarrow> e' = e)) assets assets"
    by (simp add: list.rel_refl)
  show ?thesis
    using assms same unfolding enrichNetworkAssets_def Let_def
    by (auto split: if_splits dest!: those_rel elim!: list_all2_mono dest!: enrich_network_keeps)
qed

subsection \<open>The groups\<close>

lemma group_by_project_groups:
  "distinct (map fst (group_by_project assets)) \<and>
   map_of (group_by_project assets) = (\<lambda>project. let xs = filter (\<lambda>a. ecs_ProjectId (Ecs a) = project) assets
     in if xs = [] then None else Some xs)"
  by (simp add: group_by_project_def group_by_groups)

definition project_names :: "extended_asset list \<Rightarrow> string list" where
  "project_names assets = filter (\<lambda>p. p \<noteq> []) (remdups (map (\<lambda>a. ecs_ProjectId (Ecs a)) assets))"

text \<open>The reference: what the generator makes for a project.\<close>

definition of_project :: "extended_asset list \<Rightarrow> 't type_generator \<Rightarrow> string \<Rightarrow> 't" where
  "of_project assets f project =
     (let xs = filter (\<lambda>a. ecs_ProjectId (Ecs a) = project) assets; e = Ecs (hd xs)
      in f (xs @ filter (\<lambda>a. ecs_ProjectId (Ecs a) = []) assets) project
           (ecs_ProjectName e) (ecs_OrganizationId e) (ecs_OrganizationName e))"

lemma project_assets_map:
  assumes "m = group_by_project assets" "set rest \<subseteq> set m"
  shows "project_assets m f rest = map (of_project assets f \<circ> fst) (filter (\<lambda>e. fst e \<noteq> []) rest)"
  using assms(2)
proof (induction rest)
  case (Cons e rest)
  obtain p xs where e: "e = (p, xs)" by fastforce
  have g: "map_of m = (\<lambda>project. let xs = filter (\<lambda>a. ecs_ProjectId (Ecs a) = project) assets
      in if xs = [] then None else Some xs)" "distinct (map fst m)"
    using group_by_project_groups [of assets] assms(1) by simp_all
  have "map_of m p = Some xs" using Cons.prems e g(2) by simp
  then have xs: "xs = filter (\<lambda>a. ecs_ProjectId (Ecs a) = p) assets" "xs \<noteq> []"
    by (auto simp: g(1) Let_def split: if_splits)
  have orgs: "group_at m [] = filter (\<lambda>a. ecs_ProjectId (Ecs a) = []) assets"
    using assms(1) by (simp add: group_by_project_def)
  obtain b bs where b: "xs = b # bs" using xs(2) by (cases xs) simp_all
  have "project_assets m f (e # rest) =
      (if p = [] then [] else [of_project assets f p]) @ project_assets m f rest"
    unfolding e of_project_def Let_def xs(1) [symmetric] b by (simp add: orgs)
  then show ?case using Cons e by simp
qed simp

lemma getAssetsByProject_perm:
  assumes "mset (ranged (group_by_project assets)) = mset (group_by_project assets)"
  shows "mset (getAssetsByProject ranged assets f) = mset (map (of_project assets f) (project_names assets))"
proof -
  let ?m = "group_by_project assets"
  have "set (ranged ?m) \<subseteq> set ?m" using mset_eq_setD [OF assms] by simp
  then have "mset (getAssetsByProject ranged assets f) =
      image_mset (of_project assets f \<circ> fst) (filter_mset (\<lambda>e. fst e \<noteq> []) (mset (ranged ?m)))"
    by (simp add: getAssetsByProject_def Let_def project_assets_map [OF refl])
  also have "\<dots> = image_mset (of_project assets f) (filter_mset (\<lambda>p. p \<noteq> []) (mset (map fst ?m)))"
    unfolding assms by (simp add: filter_mset_image_mset multiset.map_comp flip: comp_def)
  also have "mset (map fst ?m) = mset (remdups (map (\<lambda>a. ecs_ProjectId (Ecs a)) assets))"
  proof -
    have "map_of ?m p \<noteq> None \<longleftrightarrow> p \<in> (\<lambda>a. ecs_ProjectId (Ecs a)) ` set assets" for p
      using group_by_project_groups [of assets] by (auto simp: Let_def filter_empty_conv)
    then have "set (map fst ?m) = (\<lambda>a. ecs_ProjectId (Ecs a)) ` set assets"
      unfolding map_of_eq_None_iff by auto
    then show ?thesis
      using group_by_project_groups [of assets] by (simp add: set_eq_iff_mset_eq_distinct [symmetric] del: mset_map)
  qed
  finally show ?thesis by (simp add: project_names_def)
qed

section \<open>Properties\<close>


definition sample_manager :: resource_manager where
  "sample_manager = \<lparr>getProjectDisplayName = \<lambda>p. p @ ''!'', getOrganizationDisplayName = \<lambda>_. ''acme''\<rparr>"

definition sample_asset :: "string \<Rightarrow> string \<Rightarrow> string list \<Rightarrow> gcp_asset" where
  "sample_asset n t ancestors =
     \<lparr>asset_Name = n, AssetType = t, asset_Resource = None, IamPolicy = None, Ancestors = ancestors\<rparr>"


text \<open>
  Assets by project: whatever the order in which Go ranges over the groups, there is one result for each
  project that an asset belongs to, made of its assets, in the order of the listing, followed by all the
  assets above the projects (of folders and organizations), with the names of its first asset.
\<close>

lemma getAssetsByProject_one_per_project:
  assumes "\<forall>m. mset (ranged m) = mset m"
  shows "mset (getAssetsByProject ranged assets f) = mset (map (of_project assets f) (project_names assets)) \<and>
    distinct (project_names assets) \<and>
    set (project_names assets) = {ecs_ProjectId (Ecs a) | a. a \<in> set assets} - {[]}"
  using getAssetsByProject_perm [of ranged assets f] assms by (auto simp: project_names_def)

lemma getAssetsByProject_one_per_project_witness:
  "mset (getAssetsByProject rev [\<lparr>ext_Asset = sample_asset ''a'' ''t'' [], Ecs = project_ecs ''1'' ''one'' ''2'' ''two''\<rparr>,
      \<lparr>ext_Asset = sample_asset ''b'' ''t'' [], Ecs = project_ecs [] [] ''2'' ''two''\<rparr>] (\<lambda>xs p n i m. (length xs, p, n, i, m))) =
   {#(2, ''1'', ''one'', ''2'', ''two'')#}"
  using getAssetsByProject_one_per_project [of rev
      "[\<lparr>ext_Asset = sample_asset ''a'' ''t'' [], Ecs = project_ecs ''1'' ''one'' ''2'' ''two''\<rparr>,
        \<lparr>ext_Asset = sample_asset ''b'' ''t'' [], Ecs = project_ecs [] [] ''2'' ''two''\<rparr>]"
      "\<lambda>xs p n i m. (length xs, p, n, i, m)"]
  by (simp add: project_names_def of_project_def project_ecs_def)



definition sample_gcp :: "(list_request \<Rightarrow> iterator) \<Rightarrow> gcp_provider" where
  "sample_gcp assets = \<lparr>gp_config = \<lparr>Parent = ''projects/1'', ClientOpts = []\<rparr>, ListAssets = assets, crm = sample_manager\<rparr>"


text \<open>
  A network without its resource: when the listing of the resources fails and the one of the policies
  does not, the merged network has no fields; a DNS policy that names it makes the listing panic, although
  the failed listing was meant to leave only the resources out.
\<close>

lemma ListAllAssetTypesByName_network_panics:
  assumes "\<forall>m. mset (ranged m) = mset m"
    and "Inl err \<in> set (ListAssets p \<lparr>req_Parent = Parent (gp_config p), AssetTypes = types, ContentType = RESOURCE\<rparr>)"
    and "ListAssets p \<lparr>req_Parent = Parent (gp_config p), AssetTypes = types, ContentType = IAM_POLICY\<rparr> = map Inr ps"
    and "distinct (map asset_Name ps)" "a \<in> set ps" "AssetType a = ComputeNetworkAssetType" "asset_Resource a = None"
    and "ListAssets p \<lparr>req_Parent = Parent (gp_config p), AssetTypes = [DnsPolicyAssetType], ContentType = RESOURCE\<rparr> = map Inr ds"
    and "findDnsPolicyByNetwork (decodeDnsPolicies ds) (trim_prefix (asset_Name a) ''//compute.googleapis.com'') \<noteq> None"
  shows "ListAllAssetTypesByName ranged p types cch = None"
proof (cases "extendWithECS (crm p) cch (mergeAssetContentType ranged ps)")
  case None
  then show ?thesis by (simp add: ListAllAssetTypesByName_def Let_def getAllAssets_error [OF assms(2)] assms(3))
next
  case (Some x)
  obtain extended cch' where x: "x = (extended, cch')" by fastforce
  have none: "distinct (map asset_Name [])" by simp
  note merged = mergeAssetContentType_merges [of ranged "[]" ps, OF assms(1) [THEN spec] none assms(4), unfolded append_Nil]
  have "asset_Name a \<in> set (map asset_Name (mergeAssetContentType ranged ps))"
    using mset_eq_setD [OF merged(1)] assms(5) by simp
  then obtain b where b: "b \<in> set (mergeAssetContentType ranged ps)" "asset_Name b = asset_Name a" by auto
  have "filter (\<lambda>c. asset_Name c = asset_Name a) ps = [b]"
    using merged(2) b filter_name_find [OF assms(4), of "asset_Name a"]
    by (auto simp: merged_asset_def merge_item_def split: option.splits)
  moreover have "a \<in> set (filter (\<lambda>c. asset_Name c = asset_Name a) ps)" using assms(5) by simp
  ultimately have "a = b" by simp
  then have "a \<in> set (map ext_Asset extended)" using b(1) extendWithECS_assets Some x by metis
  then obtain e where e: "e \<in> set extended" "ext_Asset e = a" by auto
  have "getAssetsByType extended ComputeNetworkAssetType \<noteq> []"
    using e assms(6) by (auto simp: getAssetsByType_def filter_empty_conv)
  moreover have "ds \<noteq> []" using assms(9) by (auto simp: findDnsPolicyByNetwork_def decodeDnsPolicies_def)
  moreover have "enrich_network (decodeDnsPolicies ds) e = None"
    using assms(7,9) e(2) by (auto simp: enrich_network_def split: option.splits)
  ultimately have "enrichNetworkAssets p extended = None"
    using e assms(6,8) by (auto simp: enrichNetworkAssets_def Let_def intro!: those_None [of e])
  then show ?thesis
    using Some x by (simp add: ListAllAssetTypesByName_def Let_def getAllAssets_error [OF assms(2)] assms(3))
qed

definition sample_dns :: gcp_asset where
  "sample_dns = (sample_asset ''d'' DnsPolicyAssetType [])\<lparr>asset_Resource := Some \<lparr>Location = [], res_Fields =
     Some [(''networks'', VList [VMap [(''networkUrl'', VStr ''https://www/net'')]])]\<rparr>\<rparr>"

lemma ListAllAssetTypesByName_network_panics_witness:
  "ListAllAssetTypesByName rev
     (sample_gcp (\<lambda>rq. if AssetTypes rq = [DnsPolicyAssetType] then [Inr sample_dns]
        else if ContentType rq = RESOURCE then [Inl (Errorf ''quota'')]
        else map Inr [sample_asset ''//compute.googleapis.com/net'' ComputeNetworkAssetType [''projects/1'']]))
     [ComputeNetworkAssetType] [] = None"
  by (rule ListAllAssetTypesByName_network_panics [where err = "Errorf ''quota''" and ds = "[sample_dns]" and
        a = "sample_asset ''//compute.googleapis.com/net'' ComputeNetworkAssetType [''projects/1'']" and
        ps = "[sample_asset ''//compute.googleapis.com/net'' ComputeNetworkAssetType [''projects/1'']]"])
    (simp_all add: sample_gcp_def sample_dns_def sample_asset_def DnsPolicyAssetType_def ComputeNetworkAssetType_def
      findDnsPolicyByNetwork_def decodeDnsPolicies_def decode_dns_policy_def GetFields_def field_def trim_prefix_def
      has_prefix_def has_suffix_def List.map_filter_simps)

text \<open>
  Credentials: a client configuration is only made with a file that exists and whose content is JSON, with
  a key that is JSON, and for the organization or the project of the configuration, the project of
  the host where none is configured.
\<close>

lemma GetGcpClientConfig_valid:
  assumes "GetGcpClientConfig h cfg = Inr c"
  shows "(\<forall>opt\<in>set (ClientOpts c). case opt of
      WithCredentialsFile f \<Rightarrow> f = CredentialsFilePath (GcpClientOpt cfg) \<and> \<not> not_exist h f \<and>
        (\<exists>content. ReadFile h f = Inr content \<and> json_valid h content)
    | WithCredentialsJSON j \<Rightarrow> j = CredentialsJSON (GcpClientOpt cfg) \<and> json_valid h j) \<and>
    (ClientOpts c = [] \<longleftrightarrow> CredentialsFilePath (GcpClientOpt cfg) = [] \<and> CredentialsJSON (GcpClientOpt cfg) = []) \<and>
    (gcp_AccountType cfg = OrganizationAccount \<and> OrganizationId cfg \<noteq> [] \<and> Parent c = ''organizations/'' @ OrganizationId cfg \<or>
     gcp_AccountType cfg = SingleAccount \<and> (\<exists>project. Parent c = ''projects/'' @ project \<and>
       (if ProjectId cfg \<noteq> [] then project = ProjectId cfg else FindDefaultCredentials h = Inr project)))"
proof -
  have parent: "getGcpConfigParentValue h cfg = Inr (Parent c)"
    using assms by (auto simp: GetGcpClientConfig_def getApplicationDefaultCredentials_def getCustomCredentials_def
        getGcpFactoryConfig_def Let_def split: if_splits option.splits sum.splits)
  have "gcp_AccountType cfg = OrganizationAccount \<and> OrganizationId cfg \<noteq> [] \<and> Parent c = ''organizations/'' @ OrganizationId cfg \<or>
     gcp_AccountType cfg = SingleAccount \<and> (\<exists>project. Parent c = ''projects/'' @ project \<and>
       (if ProjectId cfg \<noteq> [] then project = ProjectId cfg else FindDefaultCredentials h = Inr project))"
    using parent by (auto simp: getGcpConfigParentValue_def getConfigProjectId_def split: if_splits sum.splits)
  moreover have "\<forall>opt\<in>set (ClientOpts c). case opt of
      WithCredentialsFile f \<Rightarrow> f = CredentialsFilePath (GcpClientOpt cfg) \<and> \<not> not_exist h f \<and>
        (\<exists>content. ReadFile h f = Inr content \<and> json_valid h content)
    | WithCredentialsJSON j \<Rightarrow> j = CredentialsJSON (GcpClientOpt cfg) \<and> json_valid h j"
    using assms by (auto simp: GetGcpClientConfig_def getApplicationDefaultCredentials_def getCustomCredentials_def
        getGcpFactoryConfig_def validateJSONFromFile_def Let_def split: if_splits option.splits sum.splits)
  moreover have "ClientOpts c = [] \<longleftrightarrow> CredentialsFilePath (GcpClientOpt cfg) = [] \<and> CredentialsJSON (GcpClientOpt cfg) = []"
    using assms by (auto simp: GetGcpClientConfig_def getApplicationDefaultCredentials_def getCustomCredentials_def
        getGcpFactoryConfig_def Let_def split: if_splits option.splits sum.splits)
  ultimately show ?thesis by blast
qed

lemma GetGcpClientConfig_valid_witness:
  "\<exists>c. GetGcpClientConfig \<lparr>not_exist = \<lambda>_. False, ReadFile = \<lambda>_. Inr ''{}'', json_valid = \<lambda>s. s = ''{}'',
       FindDefaultCredentials = Inr ''host''\<rparr>
     \<lparr>ProjectId = [], OrganizationId = [], gcp_AccountType = SingleAccount,
      GcpClientOpt = \<lparr>CredentialsJSON = [], CredentialsFilePath = ''key.json''\<rparr>\<rparr> = Inr c \<and> Parent c = ''projects/host''"
proof -
  let ?h = "\<lparr>not_exist = \<lambda>_. False, ReadFile = \<lambda>_. Inr ''{}'', json_valid = \<lambda>s. s = ''{}'',
       FindDefaultCredentials = Inr ''host''\<rparr>"
  let ?cfg = "\<lparr>ProjectId = [], OrganizationId = [], gcp_AccountType = SingleAccount,
      GcpClientOpt = \<lparr>CredentialsJSON = [], CredentialsFilePath = ''key.json''\<rparr>\<rparr>"
  obtain c where c: "GetGcpClientConfig ?h ?cfg = Inr c"
    by (simp add: GetGcpClientConfig_def getCustomCredentials_def validateJSONFromFile_def getGcpFactoryConfig_def
        getGcpConfigParentValue_def getConfigProjectId_def SingleAccount_def OrganizationAccount_def)
  from GetGcpClientConfig_valid [OF c] c show ?thesis by (auto simp: OrganizationAccount_def SingleAccount_def)
qed

end
