(* ===== verification/GCP_Fetchers.thy ===== *)
theory GCP_Fetchers
  imports GCP_Inventory AWS_Fetchers
begin

text \<open>
  \<open>resources/fetching/fetchers/gcp\<close>: the fetchers of the GCP benchmark. A fetch answers what it sends, in
  order, and its error or nil; \<open>None\<close> is a panic, before which the fetcher of the assets may have sent. Each send is in a \<open>select\<close> with the end of the context, of
  which the budget says after how many of them it is taken. The listings of the provider are arguments:
  functions of the cache that the provider keeps.
\<close>

section \<open>Assets\<close>

text \<open>\<open>kebab\<close> is \<open>xstrings.ToKebabCase\<close>. The slice up to a missing dot panics.\<close>

definition getGcpSubType :: "(string \<Rightarrow> string) \<Rightarrow> string \<Rightarrow> string option" where
  "getGcpSubType kebab assetType =
     (if CHR ''.'' \<notin> set assetType then None
      else let prefix = takeWhile (\<lambda>c. c \<noteq> CHR ''.'') assetType;
               suffix = (if CHR ''/'' \<in> set assetType then tl (dropWhile (\<lambda>c. c \<noteq> CHR ''/'') assetType) else assetType)
           in Some (to_lower (''gcp-'' @ prefix @ ''-'' @ kebab suffix)))"

definition getAssetResourceName :: "extended_asset \<Rightarrow> string" where
  "getAssetResourceName a =
     (let fs = GetFields (asset_Resource (ext_Asset a));
          text = (\<lambda>k. case field k fs of None \<Rightarrow> [] | Some v \<Rightarrow> GetStringValue v)
      in if text ''displayName'' \<noteq> [] then text ''displayName''
         else if text ''name'' \<noteq> [] then text ''name''
         else last (split_on (CHR ''/'') (asset_Name (ext_Asset a))))"

record gcp_asset_resource =
  ga_Type :: string
  ga_SubType :: string
  ExtendedAsset :: extended_asset

definition GcpAssetTypes :: "(string \<times> string list) list" where
  "GcpAssetTypes =
     [(''project-management'', [CrmProjectAssetType]),
      (''key-management'', [''apikeys.googleapis.com/Key'', ''cloudkms.googleapis.com/CryptoKey'']),
      (''identity-management'', [''iam.googleapis.com/ServiceAccount'', ''iam.googleapis.com/ServiceAccountKey'']),
      (''cloud-database'', [''bigquery.googleapis.com/Dataset'', ''bigquery.googleapis.com/Table'',
         ''sqladmin.googleapis.com/Instance'']),
      (''cloud-storage'', [''storage.googleapis.com/Bucket'', ''logging.googleapis.com/LogBucket'']),
      (''cloud-compute'', [''compute.googleapis.com/Instance'', ''compute.googleapis.com/Firewall'',
         ''compute.googleapis.com/Disk'', ComputeNetworkAssetType, ''compute.googleapis.com/RegionBackendService'',
         ''compute.googleapis.com/Subnetwork'']),
      (''cloud-dns'', [''dns.googleapis.com/ManagedZone'']),
      (''data-processing'', [''dataproc.googleapis.com/Cluster''])]"

text \<open>
  The resource is built, its subtype with it, before the \<open>select\<close> chooses. A loop goes on with what is left of the budget,
  returns when the context is done, or panics.
\<close>

datatype sent_until = GoesOn budget | ContextDone | SendPanics

fun send_assets ::
  "(string \<Rightarrow> string) \<Rightarrow> string \<Rightarrow> metadata \<Rightarrow> extended_asset list \<Rightarrow> budget \<Rightarrow>
     (gcp_asset_resource \<times> metadata) list \<times> sent_until" where
  "send_assets kebab typeName cycleMetadata [] c = ([], GoesOn c)"
| "send_assets kebab typeName cycleMetadata (a # assets) c =
     (case getGcpSubType kebab (AssetType (ext_Asset a)) of
        None \<Rightarrow> ([], SendPanics)
      | Some subType \<Rightarrow>
          (case sel_ctx c of
             None \<Rightarrow> ([], ContextDone)
           | Some c' \<Rightarrow>
               (let (sends, r) = send_assets kebab typeName cycleMetadata assets c'
                in ((\<lparr>ga_Type = typeName, ga_SubType = subType, ExtendedAsset = a\<rparr>, cycleMetadata) # sends, r))))"

type_synonym 't listing = "crm_cache \<Rightarrow> ('t list result \<times> crm_cache) option"

fun fetch_types ::
  "(string \<Rightarrow> string) \<Rightarrow> (string list \<Rightarrow> extended_asset listing) \<Rightarrow> metadata \<Rightarrow> (string \<times> string list) list \<Rightarrow>
     budget \<Rightarrow> crm_cache \<Rightarrow> ((gcp_asset_resource \<times> metadata) list \<times> go_error option option) \<times> crm_cache" where
  "fetch_types kebab listTypes cycleMetadata [] c cch = (([], Some None), cch)"
| "fetch_types kebab listTypes cycleMetadata ((typeName, assetTypes) # rest) c cch =
     (case listTypes assetTypes cch of
        None \<Rightarrow> (([], None), cch)
      | Some (Inl err, cch) \<Rightarrow> fetch_types kebab listTypes cycleMetadata rest c cch
      | Some (Inr assets, cch) \<Rightarrow>
          (case send_assets kebab typeName cycleMetadata assets c of
             (sends, SendPanics) \<Rightarrow> ((sends, None), cch)
           | (sends, ContextDone) \<Rightarrow> ((sends, Some None), cch)
           | (sends, GoesOn c') \<Rightarrow>
               (let ((sends', r), cch) = fetch_types kebab listTypes cycleMetadata rest c' cch
                in ((sends @ sends', r), cch))))"

text \<open>\<open>ranged\<close> orders the loop over the types.\<close>

definition GcpAssetsFetcher_Fetch ::
  "((string \<times> string list) list \<Rightarrow> (string \<times> string list) list) \<Rightarrow> (string \<Rightarrow> string) \<Rightarrow>
     (string list \<Rightarrow> extended_asset listing) \<Rightarrow> budget \<Rightarrow> metadata \<Rightarrow> crm_cache \<Rightarrow>
     ((gcp_asset_resource \<times> metadata) list \<times> go_error option option) \<times> crm_cache" where
  "GcpAssetsFetcher_Fetch ranged kebab listTypes c cycleMetadata cch =
     fetch_types kebab listTypes cycleMetadata (ranged GcpAssetTypes) c cch"

definition GcpAsset_GetMetadata :: "gcp_asset_resource \<Rightarrow> resource_metadata result" where
  "GcpAsset_GetMetadata r =
     Inr (plain_metadata (asset_Name (ext_Asset (ExtendedAsset r))) (ga_Type r) (ga_SubType r)
       (getAssetResourceName (ExtendedAsset r))
       (case asset_Resource (ext_Asset (ExtendedAsset r)) of None \<Rightarrow> [] | Some x \<Rightarrow> Location x))"

definition gcp_common_data :: "ecs_gcp \<Rightarrow> (string \<times> any) list result" where
  "gcp_common_data ecs =
     Inr [(''cloud'', VMap [(''provider'', VStr ''gcp''),
       (''account'', VMap [(''id'', VStr (ecs_ProjectId ecs)), (''name'', VStr (ecs_ProjectName ecs))]),
       (''Organization'', VMap [(''id'', VStr (ecs_OrganizationId ecs)), (''name'', VStr (ecs_OrganizationName ecs))])])]"

definition GcpAsset_GetElasticCommonData :: "gcp_asset_resource \<Rightarrow> (string \<times> any) list result" where
  "GcpAsset_GetElasticCommonData r = gcp_common_data (Ecs (ExtendedAsset r))"

section \<open>Assets by project\<close>

text \<open>The shared body of the four fetchers: list, then send each in a \<open>select\<close>.\<close>

definition fetch_listing ::
  "'t listing \<Rightarrow> budget \<Rightarrow> metadata \<Rightarrow> crm_cache \<Rightarrow> ((('t \<times> metadata) list \<times> go_error option) \<times> crm_cache) option" where
  "fetch_listing listing c cycleMetadata cch =
     (case listing cch of
        None \<Rightarrow> None
      | Some (Inl err, cch) \<Rightarrow> Some (([], Some err), cch)
      | Some (Inr assets, cch) \<Rightarrow> Some ((send_each cycleMetadata (fst (send_all c assets)), None), cch))"

definition GcpMonitoringFetcher_Fetch ::
  "((string \<times> string list) list \<Rightarrow> monitoring_asset listing) \<Rightarrow> budget \<Rightarrow> metadata \<Rightarrow> crm_cache \<Rightarrow>
     (((monitoring_asset \<times> metadata) list \<times> go_error option) \<times> crm_cache) option" where
  "GcpMonitoringFetcher_Fetch listing c cycleMetadata cch =
     fetch_listing (listing [(''LogMetric'', [MonitoringLogMetricAssetType]),
       (''AlertPolicy'', [MonitoringAlertPolicyAssetType])]) c cycleMetadata cch"

definition GcpLogSinkFetcher_Fetch ::
  "logging_asset listing \<Rightarrow> budget \<Rightarrow> metadata \<Rightarrow> crm_cache \<Rightarrow>
     (((logging_asset \<times> metadata) list \<times> go_error option) \<times> crm_cache) option" where
  "GcpLogSinkFetcher_Fetch listing c cycleMetadata cch = fetch_listing listing c cycleMetadata cch"

definition GcpServiceUsageFetcher_Fetch ::
  "service_usage_asset listing \<Rightarrow> budget \<Rightarrow> metadata \<Rightarrow> crm_cache \<Rightarrow>
     (((service_usage_asset \<times> metadata) list \<times> go_error option) \<times> crm_cache) option" where
  "GcpServiceUsageFetcher_Fetch listing c cycleMetadata cch = fetch_listing listing c cycleMetadata cch"

definition GcpPoliciesFetcher_Fetch ::
  "project_policies_asset listing \<Rightarrow> budget \<Rightarrow> metadata \<Rightarrow> crm_cache \<Rightarrow>
     (((project_policies_asset \<times> metadata) list \<times> go_error option) \<times> crm_cache) option" where
  "GcpPoliciesFetcher_Fetch listing c cycleMetadata cch = fetch_listing listing c cycleMetadata cch"

text \<open>
  All fetchers share the provider; \<open>Stop\<close> of any of them closes its client. The answer of the close is dropped.
\<close>

definition gcp_Close :: "('w \<Rightarrow> go_error option \<times> 'w) \<Rightarrow> 'w \<Rightarrow> go_error option \<times> 'w" where
  "gcp_Close inventoryClose w = inventoryClose w"

definition GcpFetcher_Stop :: "('w \<Rightarrow> go_error option \<times> 'w) \<Rightarrow> 'w \<Rightarrow> 'w" where
  "GcpFetcher_Stop inventoryClose w = snd (gcp_Close inventoryClose w)"

definition project_metadata :: "string \<Rightarrow> string \<Rightarrow> ecs_gcp \<Rightarrow> resource_metadata" where
  "project_metadata t subType ecs =
     (let i = subType @ ''-'' @ ecs_ProjectId ecs in plain_metadata i t subType i ''global'')"

definition GcpMonitoringAsset_GetMetadata :: "monitoring_asset \<Rightarrow> resource_metadata result" where
  "GcpMonitoringAsset_GetMetadata g = Inr (project_metadata ''monitoring'' ''gcp-monitoring'' (mon_Ecs g))"

definition GcpLoggingAsset_GetMetadata :: "logging_asset \<Rightarrow> resource_metadata result" where
  "GcpLoggingAsset_GetMetadata g = Inr (project_metadata ''logging'' ''gcp-logging'' (log_Ecs g))"

definition GcpServiceUsageAsset_GetMetadata :: "service_usage_asset \<Rightarrow> resource_metadata result" where
  "GcpServiceUsageAsset_GetMetadata g = Inr (project_metadata ''monitoring'' ''gcp-service-usage'' (svc_Ecs g))"

definition GcpPoliciesAsset_GetMetadata :: "project_policies_asset \<Rightarrow> resource_metadata result" where
  "GcpPoliciesAsset_GetMetadata g = Inr (project_metadata ''project-management'' ''gcp-policies'' (pol_Ecs g))"

definition GcpMonitoringAsset_GetElasticCommonData :: "monitoring_asset \<Rightarrow> (string \<times> any) list result" where
  "GcpMonitoringAsset_GetElasticCommonData g = gcp_common_data (mon_Ecs g)"

definition GcpLoggingAsset_GetElasticCommonData :: "logging_asset \<Rightarrow> (string \<times> any) list result" where
  "GcpLoggingAsset_GetElasticCommonData g = gcp_common_data (log_Ecs g)"

definition GcpServiceUsageAsset_GetElasticCommonData :: "service_usage_asset \<Rightarrow> (string \<times> any) list result" where
  "GcpServiceUsageAsset_GetElasticCommonData g = gcp_common_data (svc_Ecs g)"

definition GcpPoliciesAsset_GetElasticCommonData :: "project_policies_asset \<Rightarrow> (string \<times> any) list result" where
  "GcpPoliciesAsset_GetElasticCommonData g = gcp_common_data (pol_Ecs g)"


section \<open>Lemmas\<close>

definition asset_send :: "(string \<Rightarrow> string) \<Rightarrow> string \<Rightarrow> metadata \<Rightarrow> extended_asset \<Rightarrow> gcp_asset_resource \<times> metadata" where
  "asset_send kebab typeName cycleMetadata a =
     (\<lparr>ga_Type = typeName, ga_SubType = the (getGcpSubType kebab (AssetType (ext_Asset a))), ExtendedAsset = a\<rparr>, cycleMetadata)"

definition dotted :: "extended_asset \<Rightarrow> bool" where
  "dotted a \<longleftrightarrow> CHR ''.'' \<in> set (AssetType (ext_Asset a))"

text \<open>What is left of a budget after some sends; \<open>None\<close> when it is used up before them.\<close>

definition after :: "budget \<Rightarrow> nat \<Rightarrow> budget option" where
  "after c k = (case c of None \<Rightarrow> Some None | Some n \<Rightarrow> if n < k then None else Some (Some (n - k)))"

lemma send_assets_eq:
  "\<forall>a\<in>set assets. dotted a \<Longrightarrow>
   send_assets kebab t m assets c = (within c (map (asset_send kebab t m) assets),
     case after c (length assets) of None \<Rightarrow> ContextDone | Some c' \<Rightarrow> GoesOn c')"
proof (induction assets arbitrary: c)
  case Nil
  then show ?case by (simp add: after_def split: option.splits)
next
  case (Cons a assets)
  obtain st where st: "getGcpSubType kebab (AssetType (ext_Asset a)) = Some st"
    using Cons.prems by (auto simp: dotted_def getGcpSubType_def Let_def)
  show ?case using Cons st
    by (cases c rule: sel_ctx.cases) (simp_all add: after_def asset_send_def)
qed

lemma within_append:
  "within c (xs @ ys) = (case after c (length xs) of None \<Rightarrow> within c xs | Some c' \<Rightarrow> within c xs @ within c' ys)"
  by (cases c) (simp_all add: after_def)

definition type_sends ::
  "(string \<Rightarrow> string) \<Rightarrow> metadata \<Rightarrow> (string list \<Rightarrow> extended_asset list result) \<Rightarrow> string \<times> string list \<Rightarrow>
     (gcp_asset_resource \<times> metadata) list" where
  "type_sends kebab m answer e =
     (case answer (snd e) of Inl err \<Rightarrow> [] | Inr assets \<Rightarrow> map (asset_send kebab (fst e) m) assets)"

lemma fetch_types_eq:
  assumes "\<forall>ts cch. \<exists>cch'. listTypes ts cch = Some (answer ts, cch')"
    and "\<forall>ts assets. answer ts = Inr assets \<longrightarrow> (\<forall>a\<in>set assets. dotted a)"
  shows "\<exists>cch'. fetch_types kebab listTypes m es c cch = ((within c (concat (map (type_sends kebab m answer) es)), Some None), cch')"
proof (induction es arbitrary: c cch)
  case (Cons e es)
  obtain t ts where e: "e = (t, ts)" by fastforce
  obtain cch1 where l: "listTypes ts cch = Some (answer ts, cch1)" using assms(1) by blast
  show ?case
  proof (cases "answer ts")
    case (Inl err)
    then show ?thesis using Cons.IH [of c cch1] e l by (simp add: type_sends_def)
  next
    case (Inr assets)
    then have s: "send_assets kebab t m assets c = (within c (map (asset_send kebab t m) assets),
        case after c (length assets) of None \<Rightarrow> ContextDone | Some c' \<Rightarrow> GoesOn c')"
      using assms(2) by (intro send_assets_eq) blast
    have w: "type_sends kebab m answer e = map (asset_send kebab t m) assets" using e Inr by (simp add: type_sends_def)
    show ?thesis
    proof (cases "after c (length assets)")
      case None
      then show ?thesis using e l Inr s w by (simp add: within_append)
    next
      case (Some c')
      then show ?thesis using Cons.IH [of c' cch1] e l Inr s w by (auto simp: within_append)
    qed
  qed
qed simp

section \<open>Properties\<close>



end
