(* ===== verification/Azure_Inventory.thy ===== *)
theory Azure_Inventory
  imports Data_Model Config_Model
begin

text \<open>
  \<open>resources/providers/azurelib\<close>: credentials (\<open>auth/credentials.go\<close>), the resource graph, the storage accounts
  and the SQL servers (\<open>inventory\<close>), the subscriptions (\<open>governance/management_group.go\<close>), and
  \<open>resources/utils/maps\<close>. The clients of the SDK are arguments. A pager is the sequence of the pages that
  \<open>NextPage\<close> answers while \<open>More\<close> holds. A nil map is the empty list: the code reads both alike and
  \<open>AddExtension\<close> makes a map before it writes.
\<close>

section \<open>Credentials\<close>

text \<open>The wrappers of \<open>azidentity\<close>; credentials are of a type of their own.\<close>

record 'c azure_auth =
  FindDefaultAzureCredentials :: "'c result"
  FindUsernamePasswordCredentials :: "string \<Rightarrow> string \<Rightarrow> string \<Rightarrow> string \<Rightarrow> 'c result"
  FindClientSecretCredentials :: "string \<Rightarrow> string \<Rightarrow> string \<Rightarrow> 'c result"
  FindCertificateCredential :: "string \<Rightarrow> string \<Rightarrow> string \<Rightarrow> string \<Rightarrow> 'c result"

text \<open>
  The wrappers only forward, but for the one of a certificate, which reads and parses it: an empty password
  is passed on as nil.
\<close>

definition FindCertificateCredential_from_file ::
  "(string \<Rightarrow> string result) \<Rightarrow> (string \<Rightarrow> string option \<Rightarrow> ('certs \<times> 'key) result) \<Rightarrow>
     (string \<Rightarrow> string \<Rightarrow> 'certs \<Rightarrow> 'key \<Rightarrow> 'c result) \<Rightarrow> string \<Rightarrow> string \<Rightarrow> string \<Rightarrow> string \<Rightarrow> 'c result" where
  "FindCertificateCredential_from_file readFile parseCertificates newCredential tenantID clientID certPath password =
     (case readFile certPath of
        Inl err \<Rightarrow> Inl (Errorf (''error trying to read certificate file '' @ certPath @ '': '' @ error_text err))
      | Inr certData \<Rightarrow>
          (let pwd = (if length password > 0 then Some password else None)
           in case parseCertificates certData pwd of
                Inl err \<Rightarrow> Inl (Errorf (''error trying to load certificate from '' @ certPath @ '': '' @ error_text err))
              | Inr (certs, k) \<Rightarrow> newCredential tenantID clientID certs k))"

definition ErrWrongCredentialsType :: go_error where
  "ErrWrongCredentialsType = Sentinel ''wrong credentials type''"

definition ErrIncompleteUsernamePassword :: go_error where
  "ErrIncompleteUsernamePassword = Sentinel ''incomplete username and password credentials''"

definition wrap_error :: "string \<Rightarrow> 'a result \<Rightarrow> 'a result" where
  "wrap_error p r = (case r of Inl err \<Rightarrow> Inl (Wrapf p err) | Inr x \<Rightarrow> Inr x)"

definition getDefaultCredentialsConfig :: "'c azure_auth \<Rightarrow> 'c result" where
  "getDefaultCredentialsConfig p = wrap_error ''failed to get default credentials: '' (FindDefaultAzureCredentials p)"

definition getSecretCredentialsConfig :: "'c azure_auth \<Rightarrow> azure_config \<Rightarrow> 'c result" where
  "getSecretCredentialsConfig p cfg =
     (let cr = azure_Credentials cfg
      in wrap_error ''failed to get secret credentials: ''
           (FindClientSecretCredentials p (TenantID cr) (ClientID cr) (ClientSecret cr)))"

definition getCertificateCredentialsConfig :: "'c azure_auth \<Rightarrow> azure_config \<Rightarrow> 'c result" where
  "getCertificateCredentialsConfig p cfg =
     (let cr = azure_Credentials cfg
      in wrap_error ''failed to get secret credentials: ''
           (FindCertificateCredential p (TenantID cr) (ClientID cr) (ClientCertificatePath cr) (ClientCertificatePassword cr)))"

definition getUsernamePasswordCredentialsConfig :: "'c azure_auth \<Rightarrow> azure_config \<Rightarrow> 'c result" where
  "getUsernamePasswordCredentialsConfig p cfg =
     (let cr = azure_Credentials cfg
      in wrap_error ''failed to get username and password credentials: ''
           (FindUsernamePasswordCredentials p (TenantID cr) (ClientID cr) (ClientUsername cr) (ClientPassword cr)))"

definition GetAzureClientConfig :: "'c azure_auth \<Rightarrow> azure_config \<Rightarrow> 'c result" where
  "GetAzureClientConfig p cfg =
     (let cr = azure_Credentials cfg; t = ClientCredentialsType cr
      in if t = AzureClientCredentialsTypeSecret then getSecretCredentialsConfig p cfg
         else if t = AzureClientCredentialsTypeCertificate then getCertificateCredentialsConfig p cfg
         else if t = AzureClientCredentialsTypeUsernamePassword
         then if ClientUsername cr = [] \<or> ClientPassword cr = [] then Inl ErrIncompleteUsernamePassword
              else getUsernamePasswordCredentialsConfig p cfg
         else if t \<in> {[], AzureClientCredentialsTypeManagedIdentity, AzureClientCredentialsTypeARMTemplate,
           AzureClientCredentialsTypeManual} then getDefaultCredentialsConfig p
         else Inl ErrWrongCredentialsType)"

section \<open>Assets\<close>

record azure_asset =
  az_Id :: string
  az_Name :: string
  az_DisplayName :: string
  az_Location :: string
  az_Properties :: "(string \<times> any) list"
  az_Extension :: "(string \<times> any) list"
  az_ResourceGroup :: string
  az_SubscriptionId :: string
  az_TenantId :: string
  az_Type :: string
  az_Sku :: "(string \<times> any) list"
  az_Identity :: "(string \<times> any) list"

definition StorageAccountAssetType :: string where
  "StorageAccountAssetType = ''microsoft.storage/storageaccounts''"

definition SQLServersAssetType :: string where
  "SQLServersAssetType = ''microsoft.sql/servers''"

definition VirtualMachineAssetType :: string where
  "VirtualMachineAssetType = ''microsoft.compute/virtualmachines''"

definition NetworkSecurityGroupAssetType :: string where
  "NetworkSecurityGroupAssetType = ''microsoft.network/networksecuritygroups''"

definition AddExtension :: "string \<Rightarrow> any \<Rightarrow> azure_asset \<Rightarrow> azure_asset" where
  "AddExtension key value a = a\<lparr>az_Extension := map_put key value (az_Extension a)\<rparr>"

text \<open>\<open>m[k]\<close>, and the assertion that it is a map.\<close>

definition map_get :: "(string \<times> any) list \<Rightarrow> string \<Rightarrow> any" where
  "map_get m k = (case map_of m k of None \<Rightarrow> VNil | Some v \<Rightarrow> v)"

fun as_map :: "any \<Rightarrow> (string \<times> any) list" where
  "as_map (VMap m) = m"
| "as_map _ = []"

definition getAssetFromData :: "(string \<times> any) list \<Rightarrow> azure_asset" where
  "getAssetFromData data =
     \<lparr>az_Id = FromMap data ''id'', az_Name = FromMap data ''name'', az_DisplayName = FromMap data ''displayName'',
      az_Location = FromMap data ''location'', az_Properties = as_map (map_get data ''properties''), az_Extension = [],
      az_ResourceGroup = FromMap data ''resourceGroup'', az_SubscriptionId = FromMap data ''subscriptionId'',
      az_TenantId = FromMap data ''tenantId'', az_Type = FromMap data ''type'',
      az_Sku = as_map (map_get data ''sku''), az_Identity = as_map (map_get data ''identity'')\<rparr>"

section \<open>Resource graph\<close>

record query_request =
  Query :: string
  SkipToken :: "string option"

text \<open>\<open>ResultTruncated\<close> points to the value \<open>true\<close> or \<open>false\<close>.\<close>

record query_response =
  resp_Data :: any
  ResultTruncated :: "bool option"
  resp_SkipToken :: "string option"

fun write_types :: "nat \<Rightarrow> string list \<Rightarrow> string" where
  "write_types index [] = []"
| "write_types index (a # assets) =
     (if index = 0 then '' | where type == '' else '' or type == '') @ [CHR 0x27] @ a @ [CHR 0x27] @
     write_types (Suc index) assets"

definition generateQuery :: "string \<Rightarrow> string list \<Rightarrow> string" where
  "generateQuery assetGroup assets = assetGroup @ write_types 0 assets"

definition page_assets :: "any \<Rightarrow> azure_asset list option" where
  "page_assets data =
     (case data of
        VList rows \<Rightarrow> those (map (\<lambda>row. case row of VMap m \<Rightarrow> Some (getAssetFromData m) | _ \<Rightarrow> None) rows)
      | _ \<Rightarrow> None)"

partial_function (option) runPaginatedQuery ::
  "(query_request \<Rightarrow> query_response result) \<Rightarrow> query_request \<Rightarrow> azure_asset list \<Rightarrow> azure_asset list result outcome option" where
  "runPaginatedQuery assetQuery query resourceAssets =
     (case assetQuery query of
        Inl err \<Rightarrow> Some (Returns (Inl err))
      | Inr response \<Rightarrow>
          (case page_assets (resp_Data response) of
             None \<Rightarrow> Some Panics
           | Some assets \<Rightarrow>
               (case ResultTruncated response of
                  None \<Rightarrow> Some Panics
                | Some truncated \<Rightarrow>
                    (if \<not> truncated \<or> Dereference (resp_SkipToken response) = []
                     then Some (Returns (Inr (resourceAssets @ assets)))
                     else runPaginatedQuery assetQuery (query\<lparr>SkipToken := resp_SkipToken response\<rparr>)
                            (resourceAssets @ assets)))))"

definition graph_ListAllAssetTypesByName ::
  "(query_request \<Rightarrow> query_response result) \<Rightarrow> string \<Rightarrow> string list \<Rightarrow> azure_asset list result outcome option" where
  "graph_ListAllAssetTypesByName assetQuery assetGroup assets =
     runPaginatedQuery assetQuery \<lparr>Query = generateQuery assetGroup assets, SkipToken = None\<rparr> []"

fun readPager :: "'p result list \<Rightarrow> 'p list result" where
  "readPager [] = Inr []"
| "readPager (Inl err # pages) = Inl err"
| "readPager (Inr r # pages) = (case readPager pages of Inl err \<Rightarrow> Inl err | Inr res \<Rightarrow> Inr (r # res))"

section \<open>Subscriptions\<close>

record management_group =
  mg_FullyQualifiedID :: string
  mg_DisplayName :: string

record subscription =
  FullyQualifiedID :: string
  ShortID :: string
  sub_DisplayName :: string
  ManagementGroup :: management_group

definition no_group :: management_group where
  "no_group = \<lparr>mg_FullyQualifiedID = [], mg_DisplayName = []\<rparr>"

definition GetCloudAccountMetadata :: "subscription \<Rightarrow> cloud_account_metadata" where
  "GetCloudAccountMetadata s =
     \<lparr>AccountId = FullyQualifiedID s, AccountName = sub_DisplayName s,
      OrganisationId = mg_FullyQualifiedID (ManagementGroup s),
      account_OrganizationName = mg_DisplayName (ManagementGroup s)\<rparr>"

definition managementGroupType :: string where
  "managementGroupType = ''microsoft.management/managementgroups''"

definition subscriptionType :: string where
  "subscriptionType = ''microsoft.resources/subscriptions''"

definition typeFilter :: "string \<Rightarrow> azure_asset \<Rightarrow> bool" where
  "typeFilter tpe item \<longleftrightarrow> az_Type item = tpe"

definition group_of_asset :: "azure_asset \<Rightarrow> management_group" where
  "group_of_asset a =
     \<lparr>mg_FullyQualifiedID = az_Id a, mg_DisplayName = FirstNonEmpty [az_DisplayName a, az_Name a]\<rparr>"

definition add_subscription ::
  "(string \<times> management_group) list \<Rightarrow> azure_asset \<Rightarrow> (string \<times> subscription) list \<Rightarrow> (string \<times> subscription) list" where
  "add_subscription groups a subscriptions =
     (case map_get (az_Properties a) ''managementGroupAncestorsChain'' of
        VList (c # chain) \<Rightarrow>
          (let mg = (case map_of groups (FromMap (as_map c) ''name'') of None \<Rightarrow> no_group | Some g \<Rightarrow> g)
           in map_put (az_SubscriptionId a)
                \<lparr>FullyQualifiedID = az_Id a, ShortID = az_SubscriptionId a,
                 sub_DisplayName = FirstNonEmpty [az_DisplayName a, az_Name a], ManagementGroup = mg\<rparr> subscriptions)
      | _ \<Rightarrow> subscriptions)"

text \<open>The callback: \<open>listed\<close> is what the resource graph answers for the two types.\<close>

definition scan :: "azure_asset list result \<Rightarrow> (string \<times> subscription) list \<times> go_error option" where
  "scan listed =
     (case listed of
        Inl err \<Rightarrow> ([], Some (Wrapf ''failed to scan resources: '' err))
      | Inr assets \<Rightarrow>
          (let groups = fold (\<lambda>a. map_put (az_Name a) (group_of_asset a)) (filter (typeFilter managementGroupType) assets) []
           in (fold (add_subscription groups) (filter (typeFilter subscriptionType) assets) [], None)))"

type_synonym subscriptions_cache = "(string \<times> subscription) list cache"

definition governance_NewProvider :: subscriptions_cache where
  "governance_NewProvider = NewCache []"

definition GetSubscriptions ::
  "azure_asset list result \<Rightarrow> metadata \<Rightarrow> subscriptions_cache \<Rightarrow>
     subscriptions_cache \<times> (string \<times> subscription) list \<times> go_error option" where
  "GetSubscriptions listed cycleMetadata c = GetValue c cycleMetadata (scan listed)"


section \<open>Storage accounts\<close>

text \<open>\<open>encoding/json\<close> is a parameter, \<open>tn\<close> the printed type of the item.\<close>

definition AsMapStringAny ::
  "string \<Rightarrow> ('x \<Rightarrow> string result) \<Rightarrow> (string \<Rightarrow> (string \<times> any) list result) \<Rightarrow> 'x \<Rightarrow> (string \<times> any) list result" where
  "AsMapStringAny tn marshal unmarshal item =
     (case marshal item of
        Inl err \<Rightarrow> Inl (Wrapf (''failed to marshal '' @ tn @ '' to json: '') err)
      | Inr js \<Rightarrow>
          (case unmarshal js of
             Inl err \<Rightarrow> Inl (Wrapf (''failed to unmarshal '' @ tn @ '' from json: '') err)
           | Inr m \<Rightarrow> Inr m))"

record blob_service =
  bs_ID :: "string option"
  bs_Name :: "string option"
  bs_Type :: "string option"
  bs_Properties :: "(string \<times> any) list result"

record diagnostic_setting =
  ds_ID :: "string option"
  ds_Name :: "string option"
  ds_Type :: "string option"
  ds_Properties :: "(string \<times> any) list result"

text \<open>
  The properties of the SDK's values are given as what \<open>AsMapStringAny\<close> answers for them. A page is the list
  of its values; a setting may be nil.
\<close>

record storage_client =
  diagnosticSettingsPager :: "string \<Rightarrow> diagnostic_setting option list result list"
  blobServicesPager :: "string \<Rightarrow> (string \<Rightarrow> string \<Rightarrow> blob_service list result list) result"

definition AssetDiagnosticSettings :: "storage_client \<Rightarrow> string \<Rightarrow> diagnostic_setting option list list result" where
  "AssetDiagnosticSettings cl resourceURI = readPager (diagnosticSettingsPager cl resourceURI)"

definition AssetBlobServices :: "storage_client \<Rightarrow> string \<Rightarrow> string \<Rightarrow> string \<Rightarrow> blob_service list list result" where
  "AssetBlobServices cl subID resourceGroupName storageAccountName =
     (case blobServicesPager cl subID of
        Inl err \<Rightarrow> Inl err
      | Inr newListPager \<Rightarrow> readPager (newListPager resourceGroupName storageAccountName))"

definition blob_asset :: "azure_asset \<Rightarrow> blob_service \<Rightarrow> azure_asset" where
  "blob_asset storageAccount item =
     \<lparr>az_Id = Dereference (bs_ID item), az_Name = Dereference (bs_Name item), az_DisplayName = [], az_Location = [],
      az_Properties = (case bs_Properties item of Inl err \<Rightarrow> [] | Inr m \<Rightarrow> m),
      az_Extension = [(''storageAccountId'', VStr (az_Id storageAccount)), (''storageAccountName'', VStr (az_Name storageAccount))],
      az_ResourceGroup = az_ResourceGroup storageAccount, az_SubscriptionId = az_SubscriptionId storageAccount,
      az_TenantId = az_TenantId storageAccount, az_Type = to_lower (Dereference (bs_Type item)), az_Sku = [], az_Identity = []\<rparr>"

text \<open>The named result \<open>errs\<close>, which the closures write, is read after the calls.\<close>

definition transformBlobServices ::
  "blob_service list list \<Rightarrow> azure_asset \<Rightarrow> azure_asset list \<times> go_error option" where
  "transformBlobServices servicesPages storageAccount =
     (map (blob_asset storageAccount) (concat servicesPages),
      fold (\<lambda>item errs. case bs_Properties item of Inl err \<Rightarrow> join_err errs (Some err) | Inr m \<Rightarrow> errs)
        (concat servicesPages) None)"

fun ListStorageAccountBlobServices :: "storage_client \<Rightarrow> azure_asset list \<Rightarrow> azure_asset list result" where
  "ListStorageAccountBlobServices cl [] = Inr []"
| "ListStorageAccountBlobServices cl (sa # storageAccounts) =
     (case AssetBlobServices cl (az_SubscriptionId sa) (az_ResourceGroup sa) (az_Name sa) of
        Inl err \<Rightarrow> Inl (Wrapf (''error while fetching azure blob services for storage accounts '' @ az_Id sa @ '': '') err)
      | Inr responses \<Rightarrow>
          (case transformBlobServices responses sa of
             (_, Some err) \<Rightarrow>
               Inl (Wrapf (''error while transforming azure blob services for storage accounts '' @ az_Id sa @ '': '') err)
           | (blobServices, None) \<Rightarrow>
               (case ListStorageAccountBlobServices cl storageAccounts of
                  Inl err \<Rightarrow> Inl err
                | Inr assets \<Rightarrow> Inr (blobServices @ assets))))"

definition transformDiagnosticSettingsResource :: "diagnostic_setting \<Rightarrow> string \<Rightarrow> azure_asset result" where
  "transformDiagnosticSettingsResource v subID =
     (case ds_Properties v of
        Inl err \<Rightarrow> Inl err
      | Inr properties \<Rightarrow>
          Inr \<lparr>az_Id = Dereference (ds_ID v), az_Name = Dereference (ds_Name v), az_DisplayName = [], az_Location = ''global'',
               az_Properties = properties, az_Extension = [], az_ResourceGroup = [], az_SubscriptionId = subID,
               az_TenantId = [], az_Type = Dereference (ds_Type v), az_Sku = [], az_Identity = []\<rparr>)"

fun transform_settings :: "string \<Rightarrow> diagnostic_setting option list \<Rightarrow> azure_asset list result" where
  "transform_settings subID [] = Inr []"
| "transform_settings subID (None # vs) = transform_settings subID vs"
| "transform_settings subID (Some v # vs) =
     (case transformDiagnosticSettingsResource v subID of
        Inl err \<Rightarrow> Inl (Wrapf ''error parsing azure asset model: '' err)
      | Inr a \<Rightarrow> (case transform_settings subID vs of Inl err \<Rightarrow> Inl err | Inr assets \<Rightarrow> Inr (a # assets)))"

definition transformDiagnosticSettingsClientListResponses ::
  "diagnostic_setting option list list \<Rightarrow> string \<Rightarrow> azure_asset list result" where
  "transformDiagnosticSettingsClientListResponses response subID = transform_settings subID (concat response)"

fun getDiagnosticSettings :: "storage_client \<Rightarrow> string list \<Rightarrow> azure_asset list result" where
  "getDiagnosticSettings cl [] = Inr []"
| "getDiagnosticSettings cl (subID # subscriptionIDs) =
     (case AssetDiagnosticSettings cl (''/subscriptions/'' @ subID @ ''/'') of
        Inl err \<Rightarrow> Inl err
      | Inr responses \<Rightarrow>
          (case transformDiagnosticSettingsClientListResponses responses subID of
             Inl err \<Rightarrow> Inl err
           | Inr a \<Rightarrow>
               (case getDiagnosticSettings cl subscriptionIDs of Inl err \<Rightarrow> Inl err | Inr assets \<Rightarrow> Inr (a @ assets))))"

text \<open>The cache is of the cycle alone; nil is what it holds before.\<close>

definition ListDiagnosticSettingsAssetTypes ::
  "storage_client \<Rightarrow> metadata \<Rightarrow> string list \<Rightarrow> azure_asset list cache \<Rightarrow>
     azure_asset list cache \<times> azure_asset list \<times> go_error option" where
  "ListDiagnosticSettingsAssetTypes cl cycleMetadata subscriptionIDs c =
     GetValue c cycleMetadata
       (case getDiagnosticSettings cl subscriptionIDs of Inl err \<Rightarrow> ([], Some err) | Inr assets \<Rightarrow> (assets, None))"

definition storageAccountServiceDiagnosticSettings ::
  "storage_client \<Rightarrow> string \<Rightarrow> azure_asset \<Rightarrow> azure_asset list result" where
  "storageAccountServiceDiagnosticSettings cl idPostfix storageAccount =
     (case AssetDiagnosticSettings cl (az_Id storageAccount @ ''/'' @ idPostfix) of
        Inl err \<Rightarrow>
          Inl (Wrapf (''error while fetching storage account service '' @ idPostfix @ '' diagnostic settings: '') err)
      | Inr res \<Rightarrow>
          (case transformDiagnosticSettingsClientListResponses res (az_SubscriptionId storageAccount) of
             Inl err \<Rightarrow>
               Inl (Wrapf (''error while transforming storage account service '' @ idPostfix @ '' diagnostic settings: '') err)
           | Inr assets \<Rightarrow> Inr (map (AddExtension ''storageAccountId'' (VStr (az_Id storageAccount))) assets)))"

fun serviceDiagnosticSettings :: "storage_client \<Rightarrow> string \<Rightarrow> azure_asset list \<Rightarrow> azure_asset list result" where
  "serviceDiagnosticSettings cl serviceIDPostfix [] = Inr []"
| "serviceDiagnosticSettings cl serviceIDPostfix (sa # storageAccounts) =
     (case storageAccountServiceDiagnosticSettings cl serviceIDPostfix sa of
        Inl err \<Rightarrow> Inl err
      | Inr settings \<Rightarrow>
          (case serviceDiagnosticSettings cl serviceIDPostfix storageAccounts of
             Inl err \<Rightarrow> Inl err
           | Inr assets \<Rightarrow> Inr (settings @ assets)))"

definition ListStorageAccountsBlobDiagnosticSettings :: "storage_client \<Rightarrow> azure_asset list \<Rightarrow> azure_asset list result" where
  "ListStorageAccountsBlobDiagnosticSettings cl storageAccounts =
     serviceDiagnosticSettings cl ''blobServices/default'' storageAccounts"

definition ListStorageAccountsTableDiagnosticSettings :: "storage_client \<Rightarrow> azure_asset list \<Rightarrow> azure_asset list result" where
  "ListStorageAccountsTableDiagnosticSettings cl storageAccounts =
     serviceDiagnosticSettings cl ''tableServices/default'' storageAccounts"

definition ListStorageAccountsQueueDiagnosticSettings :: "storage_client \<Rightarrow> azure_asset list \<Rightarrow> azure_asset list result" where
  "ListStorageAccountsQueueDiagnosticSettings cl storageAccounts =
     serviceDiagnosticSettings cl ''queueServices/default'' storageAccounts"

section \<open>SQL servers\<close>

text \<open>
  The errors of this part put a bracket after the wrapped error; they are given by their text, as nothing
  looks at their chain.
\<close>

definition deref :: "'a \<Rightarrow> 'a option \<Rightarrow> 'a" where
  "deref zero v = (case v of None \<Rightarrow> zero | Some x \<Rightarrow> x)"

record protector_properties =
  ServerKeyType :: "string option"
  AutoRotationEnabled :: "bool option"
  ServerKeyName :: "string option"
  Subregion :: "string option"
  Thumbprint :: "string option"
  URI :: "string option"

record encryption_protector =
  ep_ID :: "string option"
  ep_Name :: "string option"
  ep_Location :: "string option"
  ep_Kind :: "string option"
  ep_Type :: "string option"
  ep_Properties :: "protector_properties option"

record auditing_properties =
  au_State :: "string option"
  IsAzureMonitorTargetEnabled :: "bool option"
  IsDevopsAuditEnabled :: "bool option"
  IsManagedIdentityInUse :: "bool option"
  IsStorageSecondaryKeyInUse :: "bool option"
  QueueDelayMs :: "int option"
  RetentionDays :: "int option"
  StorageAccountAccessKey :: "string option"
  StorageAccountSubscriptionID :: "string option"
  StorageEndpoint :: "string option"
  AuditActionsAndGroups :: "string option list"

record auditing_policy =
  ap_ID :: "string option"
  ap_Name :: "string option"
  ap_Type :: "string option"
  ap_Properties :: "auditing_properties option"

record data_encryption =
  tde_ID :: "string option"
  tde_Name :: "string option"
  tde_Type :: "string option"
  tde_State :: "string option option"

text \<open>The state of an encryption is \<open>None\<close> where its properties are nil.\<close>

record sql_client =
  encryptionProtectorsPager :: "string \<Rightarrow> (string \<Rightarrow> string \<Rightarrow> encryption_protector option list result list) result"
  blobAuditingPolicies :: "string \<Rightarrow> (string \<Rightarrow> string \<Rightarrow> auditing_policy result) result"
  dataEncryptionsPager :: "string \<Rightarrow> (string \<Rightarrow> string \<Rightarrow> string \<Rightarrow> data_encryption option list result list) result"
  databasesPager :: "string \<Rightarrow> (string \<Rightarrow> string \<Rightarrow> string option option list result list) result"

definition AssetSQLEncryptionProtector ::
  "sql_client \<Rightarrow> string \<Rightarrow> string \<Rightarrow> string \<Rightarrow> encryption_protector option list list result" where
  "AssetSQLEncryptionProtector cl subID resourceGroup sqlServerName =
     (case encryptionProtectorsPager cl subID of
        Inl err \<Rightarrow> Inl err | Inr newPager \<Rightarrow> readPager (newPager resourceGroup sqlServerName))"

definition AssetSQLBlobAuditingPolicies :: "sql_client \<Rightarrow> string \<Rightarrow> string \<Rightarrow> string \<Rightarrow> auditing_policy result" where
  "AssetSQLBlobAuditingPolicies cl subID resourceGroup sqlServerName =
     (case blobAuditingPolicies cl subID of Inl err \<Rightarrow> Inl err | Inr g \<Rightarrow> g resourceGroup sqlServerName)"

definition AssetSQLTransparentDataEncryptions ::
  "sql_client \<Rightarrow> string \<Rightarrow> string \<Rightarrow> string \<Rightarrow> string \<Rightarrow> data_encryption option list list result" where
  "AssetSQLTransparentDataEncryptions cl subID resourceGroup sqlServerName dbName =
     (case dataEncryptionsPager cl subID of
        Inl err \<Rightarrow> Inl err | Inr newPager \<Rightarrow> readPager (newPager resourceGroup sqlServerName dbName))"

definition AssetSQLDatabases :: "sql_client \<Rightarrow> string \<Rightarrow> string \<Rightarrow> string \<Rightarrow> string option option list list result" where
  "AssetSQLDatabases cl subID resourceGroup sqlServerName =
     (case databasesPager cl subID of
        Inl err \<Rightarrow> Inl err | Inr newPager \<Rightarrow> readPager (newPager resourceGroup sqlServerName))"

definition sql_asset ::
  "string option \<Rightarrow> string option \<Rightarrow> string \<Rightarrow> (string \<times> any) list \<Rightarrow> string \<Rightarrow> string \<Rightarrow> string option \<Rightarrow> azure_asset" where
  "sql_asset i n loc properties resourceGroup subID t =
     \<lparr>az_Id = deref [] i, az_Name = deref [] n, az_DisplayName = [], az_Location = loc, az_Properties = properties,
      az_Extension = [], az_ResourceGroup = resourceGroup, az_SubscriptionId = subID, az_TenantId = [],
      az_Type = deref [] t, az_Sku = [], az_Identity = []\<rparr>"

definition convertEncryptionProtector ::
  "encryption_protector \<Rightarrow> protector_properties \<Rightarrow> string \<Rightarrow> string \<Rightarrow> azure_asset" where
  "convertEncryptionProtector ep properties resourceGroup subID =
     sql_asset (ep_ID ep) (ep_Name ep) (deref [] (ep_Location ep))
       [(''kind'', VStr (deref [] (ep_Kind ep))),
        (''serverKeyType'', VStr (deref [] (ServerKeyType properties))),
        (''autoRotationEnabled'', VBool (deref False (AutoRotationEnabled properties))),
        (''serverKeyName'', VStr (deref [] (ServerKeyName properties))),
        (''subregion'', VStr (deref [] (Subregion properties))),
        (''thumbprint'', VStr (deref [] (Thumbprint properties))),
        (''uri'', VStr (deref [] (URI properties)))]
       resourceGroup subID (ep_Type ep)"

fun convert_protectors :: "string \<Rightarrow> string \<Rightarrow> encryption_protector option list \<Rightarrow> azure_asset list" where
  "convert_protectors resourceGroup subID [] = []"
| "convert_protectors resourceGroup subID (ep # eps) =
     (case ep of
        None \<Rightarrow> convert_protectors resourceGroup subID eps
      | Some e \<Rightarrow>
          (case ep_Properties e of
             None \<Rightarrow> convert_protectors resourceGroup subID eps
           | Some properties \<Rightarrow>
               convertEncryptionProtector e properties resourceGroup subID # convert_protectors resourceGroup subID eps))"

definition ListSQLEncryptionProtector :: "sql_client \<Rightarrow> string \<Rightarrow> string \<Rightarrow> string \<Rightarrow> azure_asset list result" where
  "ListSQLEncryptionProtector cl subID resourceGroup sqlServerName =
     (case AssetSQLEncryptionProtector cl subID resourceGroup sqlServerName of
        Inl err \<Rightarrow> Inl (Errorf (''problem on listing sql encryption protectors ('' @ error_text err @ '')''))
      | Inr encryptProtectors \<Rightarrow>
          (if sum_list (map length encryptProtectors) = 0 then Inr []
           else Inr (convert_protectors resourceGroup subID (concat encryptProtectors))))"

definition GetSQLBlobAuditingPolicies :: "sql_client \<Rightarrow> string \<Rightarrow> string \<Rightarrow> string \<Rightarrow> azure_asset list result" where
  "GetSQLBlobAuditingPolicies cl subID resourceGroup sqlServerName =
     (case AssetSQLBlobAuditingPolicies cl subID resourceGroup sqlServerName of
        Inl err \<Rightarrow> Inl (Errorf (''problem on getting sql blob auditing policies ('' @ error_text err @ '')''))
      | Inr policy \<Rightarrow>
          (case ap_Properties policy of
             None \<Rightarrow> Inr []
           | Some pr \<Rightarrow>
               Inr [sql_asset (ap_ID policy) (ap_Name policy) ''global''
                 [(''state'', VStr (deref [] (au_State pr))),
                  (''isAzureMonitorTargetEnabled'', VBool (deref False (IsAzureMonitorTargetEnabled pr))),
                  (''isDevopsAuditEnabled'', VBool (deref False (IsDevopsAuditEnabled pr))),
                  (''isManagedIdentityInUse'', VBool (deref False (IsManagedIdentityInUse pr))),
                  (''isStorageSecondaryKeyInUse'', VBool (deref False (IsStorageSecondaryKeyInUse pr))),
                  (''queueDelayMs'', VInt (deref 0 (QueueDelayMs pr))),
                  (''retentionDays'', VInt (deref 0 (RetentionDays pr))),
                  (''storageAccountAccessKey'', VStr (deref [] (StorageAccountAccessKey pr))),
                  (''storageAccountSubscriptionID'', VStr (deref [] (StorageAccountSubscriptionID pr))),
                  (''storageEndpoint'', VStr (deref [] (StorageEndpoint pr))),
                  (''auditActionsAndGroups'', VList (map (\<lambda>s. VStr (deref [] s)) (AuditActionsAndGroups pr)))]
                 resourceGroup subID (ap_Type policy)]))"

definition convertTransparentDataEncryption ::
  "data_encryption \<Rightarrow> string option \<Rightarrow> string \<Rightarrow> string \<Rightarrow> string \<Rightarrow> azure_asset" where
  "convertTransparentDataEncryption tde state dbName subID resourceGroup =
     sql_asset (tde_ID tde) (tde_Name tde) ''global''
       [(''databaseName'', VStr dbName), (''state'', VStr (deref [] state))] resourceGroup subID (tde_Type tde)"

fun convert_encryptions :: "string \<Rightarrow> string \<Rightarrow> string \<Rightarrow> data_encryption option list \<Rightarrow> azure_asset list" where
  "convert_encryptions dbName subID resourceGroup [] = []"
| "convert_encryptions dbName subID resourceGroup (tde # tdes) =
     (case tde of
        None \<Rightarrow> convert_encryptions dbName subID resourceGroup tdes
      | Some e \<Rightarrow>
          (case tde_State e of
             None \<Rightarrow> convert_encryptions dbName subID resourceGroup tdes
           | Some state \<Rightarrow>
               convertTransparentDataEncryption e state dbName subID resourceGroup #
               convert_encryptions dbName subID resourceGroup tdes))"

definition listTransparentDataEncryptionsByDB ::
  "sql_client \<Rightarrow> string \<Rightarrow> string \<Rightarrow> string \<Rightarrow> string \<Rightarrow> azure_asset list result" where
  "listTransparentDataEncryptionsByDB cl subID resourceGroup sqlServerName dbName =
     (case AssetSQLTransparentDataEncryptions cl subID resourceGroup sqlServerName dbName of
        Inl err \<Rightarrow> Inl err
      | Inr pagedTdes \<Rightarrow> Inr (convert_encryptions dbName subID resourceGroup (concat pagedTdes)))"

text \<open>A database is nil or has a name, which may be nil; the assets come with an error.\<close>

fun encryptions_of_databases ::
  "sql_client \<Rightarrow> string \<Rightarrow> string \<Rightarrow> string \<Rightarrow> string option option list \<Rightarrow> azure_asset list \<Rightarrow> go_error option \<Rightarrow>
     azure_asset list \<times> go_error option" where
  "encryptions_of_databases cl subID resourceGroup sqlServerName [] assets errs = (assets, errs)"
| "encryptions_of_databases cl subID resourceGroup sqlServerName (None # dbs) assets errs =
     encryptions_of_databases cl subID resourceGroup sqlServerName dbs assets errs"
| "encryptions_of_databases cl subID resourceGroup sqlServerName (Some db # dbs) assets errs =
     (case listTransparentDataEncryptionsByDB cl subID resourceGroup sqlServerName (deref [] db) of
        Inl err \<Rightarrow> encryptions_of_databases cl subID resourceGroup sqlServerName dbs assets (join_err errs (Some err))
      | Inr assetsByDb \<Rightarrow> encryptions_of_databases cl subID resourceGroup sqlServerName dbs (assets @ assetsByDb) errs)"

definition ListSQLTransparentDataEncryptions ::
  "sql_client \<Rightarrow> string \<Rightarrow> string \<Rightarrow> string \<Rightarrow> azure_asset list \<times> go_error option" where
  "ListSQLTransparentDataEncryptions cl subID resourceGroup sqlServerName =
     (case AssetSQLDatabases cl subID resourceGroup sqlServerName of
        Inl err \<Rightarrow>
          ([], Some (Errorf (''problem on listing sql databases for sql server '' @ sqlServerName @ '' ('' @ error_text err @ '')'')))
      | Inr pagedDbs \<Rightarrow> encryptions_of_databases cl subID resourceGroup sqlServerName (concat pagedDbs) [] None)"


section \<open>Lemmas\<close>

text \<open>The answers of a query and of the queries with the tokens that they give, page after page.\<close>

fun query_chain :: "(query_request \<Rightarrow> query_response result) \<Rightarrow> query_request \<Rightarrow> query_response list \<Rightarrow> bool" where
  "query_chain assetQuery q [] = False"
| "query_chain assetQuery q [r] =
     (assetQuery q = Inr r \<and> (ResultTruncated r = Some False \<or> ResultTruncated r = Some True \<and> Dereference (resp_SkipToken r) = []))"
| "query_chain assetQuery q (r # s # rs) =
     (assetQuery q = Inr r \<and> ResultTruncated r = Some True \<and> Dereference (resp_SkipToken r) \<noteq> [] \<and>
      query_chain assetQuery (q\<lparr>SkipToken := resp_SkipToken r\<rparr>) (s # rs))"

definition row_maps :: "query_response \<Rightarrow> (string \<times> any) list list \<Rightarrow> bool" where
  "row_maps r rows \<longleftrightarrow> resp_Data r = VList (map VMap rows)"

lemma page_assets_rows: "row_maps r rows \<Longrightarrow> page_assets (resp_Data r) = Some (map getAssetFromData rows)"
proof -
  have "those (map ((\<lambda>row. case row of VMap m \<Rightarrow> Some (getAssetFromData m) | _ \<Rightarrow> None) \<circ> VMap) rows) =
      Some (map getAssetFromData rows)"
    by (induction rows) auto
  then show "row_maps r rows \<Longrightarrow> ?thesis" by (simp add: row_maps_def page_assets_def)
qed

lemma runPaginatedQuery_chain:
  "query_chain assetQuery q rs \<Longrightarrow> list_all2 row_maps rs rows \<Longrightarrow>
   runPaginatedQuery assetQuery q acc = Some (Returns (Inr (acc @ map getAssetFromData (concat rows))))"
proof (induction assetQuery q rs arbitrary: acc rows rule: query_chain.induct)
  case (2 assetQuery q r)
  then obtain rw where "rows = [rw]" "row_maps r rw" by (auto simp: list_all2_Cons1)
  then show ?case using 2 by (subst runPaginatedQuery.simps) (auto simp: page_assets_rows)
next
  case (3 assetQuery q r s rs)
  then obtain rw rws where rw: "rows = rw # rws" "row_maps r rw" "list_all2 row_maps (s # rs) rws"
    by (auto simp: list_all2_Cons1 [of _ r])
  from "3.IH" [OF _ rw(3), of "acc @ map getAssetFromData rw"] "3.prems"(1) show ?case
    by (subst runPaginatedQuery.simps) (simp add: page_assets_rows [OF rw(2)] rw(1))
qed simp

text \<open>The quoted parts of a query: every second part between single quotes.\<close>

fun every_second :: "string list \<Rightarrow> string list" where
  "every_second (a # b # xs) = b # every_second xs"
| "every_second _ = []"

lemma split_write_types:
  "\<forall>t\<in>set (p # ts). CHR 0x27 \<notin> set t \<Longrightarrow> every_second (split_on (CHR 0x27) (p @ write_types i ts)) = ts"
proof (induction ts arbitrary: p i)
  case Nil
  then show ?case by (simp add: split_on_noc)
next
  case (Cons t ts)
  let ?w = "if i = 0 then '' | where type == '' else '' or type == ''"
  have w: "CHR 0x27 \<notin> set (p @ ?w)" using Cons.prems by auto
  have eq: "p @ write_types i (t # ts) = (p @ ?w) @ CHR 0x27 # (t @ CHR 0x27 # ([] @ write_types (Suc i) ts))" by simp
  have "every_second (split_on (CHR 0x27) ([] @ write_types (Suc i) ts)) = ts" using Cons.prems by (intro Cons.IH) auto
  moreover have "CHR 0x27 \<notin> set t" using Cons.prems by simp
  ultimately show ?case
    unfolding eq by (subst split_on_append [OF w], subst split_on_append) simp_all
qed

lemma generateQuery_types:
  "\<forall>t\<in>set (g # ts). CHR 0x27 \<notin> set t \<Longrightarrow> every_second (split_on (CHR 0x27) (generateQuery g ts)) = ts"
  unfolding generateQuery_def by (rule split_write_types)

lemma find_snoc: "find P (ys @ [y]) = (case find P ys of None \<Rightarrow> if P y then Some y else None | Some z \<Rightarrow> Some z)"
  by (induction ys) auto

lemma fold_put_lookup:
  "map_of (fold (\<lambda>a. map_put (k a) (v a)) xs m) i =
     (case find (\<lambda>a. k a = i) (rev xs) of None \<Rightarrow> map_of m i | Some a \<Rightarrow> Some (v a))"
proof (induction xs arbitrary: m)
  case (Cons x xs)
  show ?case by (auto simp: Cons.IH find_snoc split: option.splits)
qed simp

text \<open>The reference: the subscription that an asset describes, with the assets of the groups.\<close>

definition chain_head :: "azure_asset \<Rightarrow> any option" where
  "chain_head a = (case map_get (az_Properties a) ''managementGroupAncestorsChain'' of VList (c # _) \<Rightarrow> Some c | _ \<Rightarrow> None)"

definition described_subscription :: "azure_asset list \<Rightarrow> azure_asset \<Rightarrow> any \<Rightarrow> subscription" where
  "described_subscription assets a c =
     \<lparr>FullyQualifiedID = az_Id a, ShortID = az_SubscriptionId a, sub_DisplayName = FirstNonEmpty [az_DisplayName a, az_Name a],
      ManagementGroup = (case find (\<lambda>g. az_Type g = managementGroupType \<and> az_Name g = FromMap (as_map c) ''name'') (rev assets) of
         None \<Rightarrow> no_group | Some g \<Rightarrow> group_of_asset g)\<rparr>"

lemma find_filter: "find P (filter Q xs) = find (\<lambda>x. Q x \<and> P x) xs"
  by (induction xs) auto

lemma fold_filter_id: "\<forall>x\<in>set xs. \<not> P x \<longrightarrow> (\<forall>s. f x s = s) \<Longrightarrow> fold f xs = fold f (filter P xs)"
  by (induction xs) (auto simp: fun_eq_iff)

lemma scan_lookup:
  "map_of (fst (scan (Inr assets))) i =
     map_option (\<lambda>a. described_subscription assets a (the (chain_head a)))
       (find (\<lambda>a. az_Type a = subscriptionType \<and> chain_head a \<noteq> None \<and> az_SubscriptionId a = i) (rev assets))"
proof -
  let ?groups = "fold (\<lambda>a. map_put (az_Name a) (group_of_asset a)) (filter (typeFilter managementGroupType) assets) []"
  have g: "(case map_of ?groups n of None \<Rightarrow> no_group | Some g \<Rightarrow> g) =
      (case find (\<lambda>g. az_Type g = managementGroupType \<and> az_Name g = n) (rev assets) of
         None \<Rightarrow> no_group | Some g \<Rightarrow> group_of_asset g)" for n
    by (simp add: fold_put_lookup rev_filter find_filter typeFilter_def split: option.splits)
  let ?subs = "filter (typeFilter subscriptionType) assets"
  have "add_subscription ?groups a = map_put (az_SubscriptionId a) (described_subscription assets a (the (chain_head a)))"
    if "chain_head a \<noteq> None" for a
    using that unfolding add_subscription_def described_subscription_def chain_head_def
    by (auto simp: fun_eq_iff Let_def g split: any.splits list.splits)
  moreover have "add_subscription ?groups a s = s" if "chain_head a = None" for a s
    using that by (auto simp: add_subscription_def chain_head_def split: any.splits list.splits)
  ultimately have "fold (add_subscription ?groups) ?subs [] =
      fold (\<lambda>a. map_put (az_SubscriptionId a) (described_subscription assets a (the (chain_head a))))
        (filter (\<lambda>a. chain_head a \<noteq> None) ?subs) []"
    by (subst fold_filter_id [where P = "\<lambda>a. chain_head a \<noteq> None"]) (auto intro!: fold_cong)
  then show ?thesis
    by (simp add: scan_def Let_def fold_put_lookup rev_filter find_filter typeFilter_def conj_ac split: option.splits)
qed


lemma encryptions_of_databases_eq:
  "encryptions_of_databases cl s g n dbs assets errs =
     (assets @ concat (oks (map (\<lambda>db. listTransparentDataEncryptionsByDB cl s g n (deref [] db)) (List.map_filter id dbs))),
      snd (encryptions_of_databases cl s g n dbs assets errs)) \<and>
   (snd (encryptions_of_databases cl s g n dbs assets errs) = None \<longleftrightarrow>
      errs = None \<and> (\<forall>db\<in>set (List.map_filter id dbs). is_ok (listTransparentDataEncryptionsByDB cl s g n (deref [] db))))"
proof (induction cl s g n dbs assets errs rule: encryptions_of_databases.induct)
  case (3 cl s g n db dbs assets errs)
  then show ?case
    by (cases "listTransparentDataEncryptionsByDB cl s g n (deref [] db)") (auto simp: List.map_filter_simps prod_eq_iff)
qed (simp_all add: List.map_filter_simps)

section \<open>Properties\<close>

text \<open>
  C32. A query of the resource graph: when the service answers the query, and each continuation that it
  gives a token for, with pages of rows, the listing returns the assets of all the rows, in order; the last
  page is one that is not truncated or has no token.
\<close>

theorem runPaginatedQuery_complete:
  assumes "query_chain assetQuery \<lparr>Query = generateQuery assetGroup assets, SkipToken = None\<rparr> rs"
    and "list_all2 row_maps rs rows"
  shows "graph_ListAllAssetTypesByName assetQuery assetGroup assets =
    Some (Returns (Inr (map getAssetFromData (concat rows))))"
  using runPaginatedQuery_chain [OF assms] by (simp add: graph_ListAllAssetTypesByName_def)

lemma runPaginatedQuery_complete_witness:
  "graph_ListAllAssetTypesByName (\<lambda>q. case SkipToken q of
       None \<Rightarrow> Inr \<lparr>resp_Data = VList [VMap [(''id'', VStr ''a'')]], ResultTruncated = Some True, resp_SkipToken = Some ''t''\<rparr>
     | Some t \<Rightarrow> Inr \<lparr>resp_Data = VList [VMap [(''id'', VStr t)]], ResultTruncated = Some False, resp_SkipToken = None\<rparr>)
     ''resources'' [''x''] =
   Some (Returns (Inr [getAssetFromData [(''id'', VStr ''a'')], getAssetFromData [(''id'', VStr ''t'')]]))"
  using runPaginatedQuery_complete [of "\<lambda>q. case SkipToken q of
       None \<Rightarrow> Inr \<lparr>resp_Data = VList [VMap [(''id'', VStr ''a'')]], ResultTruncated = Some True, resp_SkipToken = Some ''t''\<rparr>
     | Some t \<Rightarrow> Inr \<lparr>resp_Data = VList [VMap [(''id'', VStr t)]], ResultTruncated = Some False, resp_SkipToken = None\<rparr>"
      "''resources''" "[''x'']"
      "[\<lparr>resp_Data = VList [VMap [(''id'', VStr ''a'')]], ResultTruncated = Some True, resp_SkipToken = Some ''t''\<rparr>,
        \<lparr>resp_Data = VList [VMap [(''id'', VStr ''t'')]], ResultTruncated = Some False, resp_SkipToken = None\<rparr>]"
      "[[[(''id'', VStr ''a'')]], [[(''id'', VStr ''t'')]]]"]
  by (simp add: row_maps_def Dereference_def)



text \<open>
  The subscriptions: the scan answers, under the id of a subscription, the last asset of that id that is
  a subscription below a management group, with its display name or else its name, and with the management
  group, the last of the name, that comes first in its chain; a group that is not listed is left empty, and a
  subscription without a chain is not answered. When the resource graph fails, nothing is.
\<close>

lemma scan_subscriptions:
  "map_of (fst (scan listed)) i =
     (case listed of
        Inl err \<Rightarrow> None
      | Inr assets \<Rightarrow>
          map_option (\<lambda>a. described_subscription assets a (the (chain_head a)))
            (find (\<lambda>a. az_Type a = subscriptionType \<and> chain_head a \<noteq> None \<and> az_SubscriptionId a = i) (rev assets))) \<and>
   (snd (scan listed) = None \<longleftrightarrow> is_ok listed)"
proof (cases listed)
  case (Inl err)
  then show ?thesis by (simp add: scan_def)
next
  case (Inr assets)
  have "snd (scan (Inr assets)) = None" by (simp add: scan_def Let_def)
  then show ?thesis unfolding Inr sum.case by (simp add: scan_lookup)
qed

text \<open>
  The encryptions of the databases of a server: one database whose encryptions cannot be listed does not
  keep those of the others from being answered, in the order of the databases; the answer has an
  error exactly when the databases or the encryptions of one of them could not be listed.
\<close>

lemma ListSQLTransparentDataEncryptions_partial:
  "ListSQLTransparentDataEncryptions cl s g n =
     (case AssetSQLDatabases cl s g n of
        Inl err \<Rightarrow> []
      | Inr pages \<Rightarrow> concat (oks (map (\<lambda>db. listTransparentDataEncryptionsByDB cl s g n (deref [] db))
          (List.map_filter id (concat pages)))),
      snd (ListSQLTransparentDataEncryptions cl s g n)) \<and>
   (snd (ListSQLTransparentDataEncryptions cl s g n) = None \<longleftrightarrow>
     (case AssetSQLDatabases cl s g n of
        Inl err \<Rightarrow> False
      | Inr pages \<Rightarrow> list_all (\<lambda>db. is_ok (listTransparentDataEncryptionsByDB cl s g n (deref [] db)))
          (List.map_filter id (concat pages))))"
proof (cases "AssetSQLDatabases cl s g n")
  case (Inl err)
  then show ?thesis by (simp add: ListSQLTransparentDataEncryptions_def)
next
  case (Inr pages)
  then have e: "ListSQLTransparentDataEncryptions cl s g n = encryptions_of_databases cl s g n (concat pages) [] None"
    by (simp add: ListSQLTransparentDataEncryptions_def)
  show ?thesis
    unfolding e Inr sum.case list_all_iff
    using encryptions_of_databases_eq [of cl s g n "concat pages" "[]" None] by simp
qed

text \<open>Only a kind of credentials that the code does not know, and a user without name or password, are refused.\<close>

lemma wrap_error_refuses [simp]:
  "wrap_error pre r \<noteq> Inl ErrWrongCredentialsType" "wrap_error pre r \<noteq> Inl ErrIncompleteUsernamePassword"
  by (auto simp: wrap_error_def ErrWrongCredentialsType_def ErrIncompleteUsernamePassword_def split: sum.splits)

lemma GetAzureClientConfig_refuses:
  "GetAzureClientConfig p cfg = Inl ErrWrongCredentialsType \<longleftrightarrow>
     ClientCredentialsType (azure_Credentials cfg) \<notin>
       {AzureClientCredentialsTypeSecret, AzureClientCredentialsTypeCertificate, AzureClientCredentialsTypeUsernamePassword,
        [], AzureClientCredentialsTypeManagedIdentity, AzureClientCredentialsTypeARMTemplate, AzureClientCredentialsTypeManual}"
  "GetAzureClientConfig p cfg = Inl ErrIncompleteUsernamePassword \<longleftrightarrow>
     ClientCredentialsType (azure_Credentials cfg) = AzureClientCredentialsTypeUsernamePassword \<and>
     (ClientUsername (azure_Credentials cfg) = [] \<or> ClientPassword (azure_Credentials cfg) = [])"
proof -
  have kinds: "distinct [AzureClientCredentialsTypeSecret, AzureClientCredentialsTypeCertificate,
      AzureClientCredentialsTypeUsernamePassword]" by code_simp
  note defs = GetAzureClientConfig_def getSecretCredentialsConfig_def getCertificateCredentialsConfig_def
    getUsernamePasswordCredentialsConfig_def getDefaultCredentialsConfig_def Let_def
  have e: "ErrWrongCredentialsType \<noteq> ErrIncompleteUsernamePassword"
    by (simp add: ErrWrongCredentialsType_def ErrIncompleteUsernamePassword_def)
  show "GetAzureClientConfig p cfg = Inl ErrWrongCredentialsType \<longleftrightarrow>
     ClientCredentialsType (azure_Credentials cfg) \<notin>
       {AzureClientCredentialsTypeSecret, AzureClientCredentialsTypeCertificate, AzureClientCredentialsTypeUsernamePassword,
        [], AzureClientCredentialsTypeManagedIdentity, AzureClientCredentialsTypeARMTemplate, AzureClientCredentialsTypeManual}"
    using e by (auto simp: defs)
  show "GetAzureClientConfig p cfg = Inl ErrIncompleteUsernamePassword \<longleftrightarrow>
     ClientCredentialsType (azure_Credentials cfg) = AzureClientCredentialsTypeUsernamePassword \<and>
     (ClientUsername (azure_Credentials cfg) = [] \<or> ClientPassword (azure_Credentials cfg) = [])"
    using e [symmetric] kinds by (auto simp: defs)
qed

end
