(* ===== verification/Azure_Fetchers.thy ===== *)
theory Azure_Fetchers
  imports Azure_Inventory AWS_Fetchers
begin

text \<open>
  \<open>resources/fetching/fetchers/azure\<close> and \<open>resources/providers/azurelib/provider.go\<close>: the fetchers of the Azure
  benchmark, and the enrichers that add what belongs to an asset as its extensions. The provider is a
  record of its operations; those that cache their answer for a cycle change its state. A fetch answers
  what it sends, in order, and its error; the budget says after how many sends the context is done.
\<close>

section \<open>Provider\<close>

record 'w azure_api =
  api_ListAllAssetTypesByName :: "string \<Rightarrow> string list \<Rightarrow> azure_asset list result"
  api_GetSubscriptions :: "metadata \<Rightarrow> 'w \<Rightarrow> ((string \<times> subscription) list \<times> go_error option) \<times> 'w"
  api_ListDiagnosticSettings :: "metadata \<Rightarrow> string list \<Rightarrow> 'w \<Rightarrow> (azure_asset list \<times> go_error option) \<times> 'w"
  api_ListStorageAccountBlobServices :: "azure_asset list \<Rightarrow> azure_asset list result"
  api_ListBlobDiagnosticSettings :: "azure_asset list \<Rightarrow> azure_asset list result"
  api_ListTableDiagnosticSettings :: "azure_asset list \<Rightarrow> azure_asset list result"
  api_ListQueueDiagnosticSettings :: "azure_asset list \<Rightarrow> azure_asset list result"
  api_ListSQLEncryptionProtector :: "string \<Rightarrow> string \<Rightarrow> string \<Rightarrow> azure_asset list result"
  api_GetSQLBlobAuditingPolicies :: "string \<Rightarrow> string \<Rightarrow> string \<Rightarrow> azure_asset list result"
  api_ListSQLTransparentDataEncryptions :: "string \<Rightarrow> string \<Rightarrow> string \<Rightarrow> azure_asset list \<times> go_error option"

type_synonym azure_caches = "subscriptions_cache \<times> azure_asset list cache"

text \<open>
  The provider over the clients of the SDK, each of which may fail to be made; \<open>listAll\<close> is what the resource
  graph answers where it returns.
\<close>

definition azure_Init ::
  "(string \<Rightarrow> string list \<Rightarrow> azure_asset list result) result \<Rightarrow> storage_client result \<Rightarrow> sql_client \<Rightarrow>
     (azure_caches azure_api \<times> azure_caches) result" where
  "azure_Init factory diagnosticSettingsClient sql =
     (case factory of
        Inl err \<Rightarrow> Inl (Wrapf ''failed to initialize resource graph factory: '' err)
      | Inr listAll \<Rightarrow>
          (case diagnosticSettingsClient of
             Inl err \<Rightarrow> Inl (Wrapf ''failed to init monitor client: '' err)
           | Inr st \<Rightarrow>
               Inr (\<lparr>api_ListAllAssetTypesByName = listAll,
                     api_GetSubscriptions = (\<lambda>m (subs, ds).
                       let (subs', v, err) = GetSubscriptions (listAll ''resourcecontainers'' [managementGroupType, subscriptionType]) m subs
                       in ((v, err), (subs', ds))),
                     api_ListDiagnosticSettings = (\<lambda>m ids (subs, ds).
                       let (ds', v, err) = ListDiagnosticSettingsAssetTypes st m ids ds in ((v, err), (subs, ds'))),
                     api_ListStorageAccountBlobServices = ListStorageAccountBlobServices st,
                     api_ListBlobDiagnosticSettings = ListStorageAccountsBlobDiagnosticSettings st,
                     api_ListTableDiagnosticSettings = ListStorageAccountsTableDiagnosticSettings st,
                     api_ListQueueDiagnosticSettings = ListStorageAccountsQueueDiagnosticSettings st,
                     api_ListSQLEncryptionProtector = ListSQLEncryptionProtector sql,
                     api_GetSQLBlobAuditingPolicies = GetSQLBlobAuditingPolicies sql,
                     api_ListSQLTransparentDataEncryptions = ListSQLTransparentDataEncryptions sql\<rparr>,
                    (governance_NewProvider, NewCache []))))"

section \<open>Enrichers\<close>

type_synonym 'w enricher = "metadata \<Rightarrow> azure_asset list \<Rightarrow> 'w \<Rightarrow> (azure_asset list \<times> go_error option) \<times> 'w"

text \<open>A loop that replaces the assets of a type in place and joins the errors.\<close>

fun enrich_each ::
  "(azure_asset \<Rightarrow> azure_asset \<times> go_error option) \<Rightarrow> string \<Rightarrow> azure_asset list \<Rightarrow> go_error option \<Rightarrow>
     azure_asset list \<times> go_error option" where
  "enrich_each f t [] errs = ([], errs)"
| "enrich_each f t (a # assets) errs =
     (if az_Type a \<noteq> t then (let (rest, errs) = enrich_each f t assets errs in (a # rest, errs))
      else let (a', err) = f a;
               (rest, errs) = enrich_each f t assets (case err of None \<Rightarrow> errs | Some e \<Rightarrow> join_err errs (Some e))
           in (a' # rest, errs))"

subsection \<open>SQL servers\<close>

definition properties_list :: "azure_asset list \<Rightarrow> any" where
  "properties_list assets = VList (map (\<lambda>a. VMap (az_Properties a)) assets)"

definition enrichSQLEncryptionProtector :: "'w azure_api \<Rightarrow> azure_asset \<Rightarrow> azure_asset \<times> go_error option" where
  "enrichSQLEncryptionProtector p a =
     (case api_ListSQLEncryptionProtector p (az_SubscriptionId a) (az_ResourceGroup a) (az_Name a) of
        Inl err \<Rightarrow> (a, Some err)
      | Inr eps \<Rightarrow> (if eps = [] then (a, None) else (AddExtension ''sqlEncryptionProtectors'' (properties_list eps) a, None)))"

definition enrichSQLBlobAuditPolicy :: "'w azure_api \<Rightarrow> azure_asset \<Rightarrow> azure_asset \<times> go_error option" where
  "enrichSQLBlobAuditPolicy p a =
     (case api_GetSQLBlobAuditingPolicies p (az_SubscriptionId a) (az_ResourceGroup a) (az_Name a) of
        Inl err \<Rightarrow> (a, Some err)
      | Inr [] \<Rightarrow> (a, None)
      | Inr (policy # _) \<Rightarrow> (AddExtension ''sqlBlobAuditPolicy'' (VMap (az_Properties policy)) a, None))"

definition enrichTransparentDataEncryption :: "'w azure_api \<Rightarrow> azure_asset \<Rightarrow> azure_asset \<times> go_error option" where
  "enrichTransparentDataEncryption p a =
     (case api_ListSQLTransparentDataEncryptions p (az_SubscriptionId a) (az_ResourceGroup a) (az_Name a) of
        (tdes, Some err) \<Rightarrow> (a, Some err)
      | (tdes, None) \<Rightarrow>
          (if tdes = [] then (a, None) else (AddExtension ''sqlTransparentDataEncryptions'' (properties_list tdes) a, None)))"

fun apply_all ::
  "(azure_asset \<Rightarrow> azure_asset \<times> go_error option) list \<Rightarrow> azure_asset \<Rightarrow> go_error option \<Rightarrow> azure_asset \<times> go_error option" where
  "apply_all [] a errs = (a, errs)"
| "apply_all (f # fs) a errs =
     (let (a', err) = f a in apply_all fs a' (case err of None \<Rightarrow> errs | Some e \<Rightarrow> join_err errs (Some e)))"

text \<open>The errors of all servers are joined one by one.\<close>

fun sql_servers :: "'w azure_api \<Rightarrow> azure_asset list \<Rightarrow> go_error option \<Rightarrow> azure_asset list \<times> go_error option" where
  "sql_servers p [] errs = ([], errs)"
| "sql_servers p (a # assets) errs =
     (if az_Type a \<noteq> SQLServersAssetType then (let (rest, errs) = sql_servers p assets errs in (a # rest, errs))
      else let (a', errs) = apply_all [enrichSQLEncryptionProtector p, enrichSQLBlobAuditPolicy p,
                 enrichTransparentDataEncryption p] a errs;
               (rest, errs) = sql_servers p assets errs
           in (a' # rest, errs))"

definition sqlServer_Enrich :: "'w azure_api \<Rightarrow> 'w enricher" where
  "sqlServer_Enrich p cycleMetadata assets w = (sql_servers p assets None, w)"

subsection \<open>Networks of virtual machines\<close>

record security_rules =
  sr_Access :: string
  DestinationPortRange :: string
  DestinationPortRanges :: "string list"
  sr_Direction :: string
  sr_Protocol :: string
  SourceAddressPrefix :: string
  SourceAddressPrefixes :: "string list"

text \<open>\<open>mapstructure.Decode\<close> into the three types; an interface is its id.\<close>

record decoders =
  decode_interfaces :: "any \<Rightarrow> string list result"
  decode_rules :: "any \<Rightarrow> security_rules list result"
  decode_profile :: "any \<Rightarrow> string list result"

type_synonym rules_by_interface = "(string \<times> security_rules list) list"

definition extractNetworkSecurityGroupRules ::
  "decoders \<Rightarrow> azure_asset \<Rightarrow> rules_by_interface \<Rightarrow> rules_by_interface \<times> go_error option" where
  "extractNetworkSecurityGroupRules d a m =
     (case decode_interfaces d (map_get (az_Properties a) ''networkInterfaces'') of
        Inl err \<Rightarrow> (m, Some err)
      | Inr nics \<Rightarrow>
          (case decode_rules d (map_get (az_Properties a) ''securityRules'') of
             Inl err \<Rightarrow> (m, Some err)
           | Inr securityRules \<Rightarrow> (fold (\<lambda>nic m. map_put nic (group_at m nic @ securityRules) m) nics m, None)))"

fun rules_of_groups ::
  "decoders \<Rightarrow> azure_asset list \<Rightarrow> rules_by_interface \<Rightarrow> go_error option \<Rightarrow> rules_by_interface \<times> go_error option" where
  "rules_of_groups d [] m errAgg = (m, errAgg)"
| "rules_of_groups d (a # assets) m errAgg =
     (if az_Type a \<noteq> NetworkSecurityGroupAssetType then rules_of_groups d assets m errAgg
      else case extractNetworkSecurityGroupRules d a m of
             (m', None) \<Rightarrow> rules_of_groups d assets m' errAgg
           | (m', Some err) \<Rightarrow> rules_of_groups d assets m' (join_err errAgg (Some err)))"

definition rule_value :: "security_rules \<Rightarrow> any" where
  "rule_value r = VMap
     [(''access'', VStr (sr_Access r)), (''destinationPortRange'', VStr (DestinationPortRange r)),
      (''destinationPortRanges'', VList (map VStr (DestinationPortRanges r))), (''direction'', VStr (sr_Direction r)),
      (''protocol'', VStr (sr_Protocol r)), (''sourceAddressPrefix'', VStr (SourceAddressPrefix r)),
      (''sourceAddressPrefixes'', VList (map VStr (SourceAddressPrefixes r)))]"

definition addNetworkRulesToAssetExtensions ::
  "decoders \<Rightarrow> rules_by_interface \<Rightarrow> azure_asset \<Rightarrow> azure_asset \<times> go_error option" where
  "addNetworkRulesToAssetExtensions d m vm =
     (case decode_profile d (map_get (az_Properties vm) ''networkProfile'') of
        Inl err \<Rightarrow> (vm, Some err)
      | Inr nics \<Rightarrow>
          (let rules = map rule_value (concat (map (group_at m) nics))
           in if rules = [] then (vm, None)
              else (AddExtension ''network'' (VMap [(''securityRules'', VList rules)]) vm, None)))"

definition vm_Enrich :: "decoders \<Rightarrow> 'w enricher" where
  "vm_Enrich d cycleMetadata assets w =
     (let (m, errAgg) = rules_of_groups d assets [] None
      in (enrich_each (addNetworkRulesToAssetExtensions d m) VirtualMachineAssetType assets errAgg, w))"

subsection \<open>Storage accounts\<close>

definition used_flag :: "string list \<Rightarrow> azure_asset \<Rightarrow> azure_asset \<times> go_error option" where
  "used_flag ids a = (if az_Id a \<notin> set ids then (a, None) else (AddExtension ''usedForActivityLogs'' (VBool True) a, None))"

definition addUsedForActivityLogsFlag ::
  "'w azure_api \<Rightarrow> metadata \<Rightarrow> azure_asset list \<Rightarrow> string list \<Rightarrow> 'w \<Rightarrow> (azure_asset list \<times> go_error option) \<times> 'w" where
  "addUsedForActivityLogsFlag p cycleMetadata assets subscriptionIDs w =
     (case api_ListDiagnosticSettings p cycleMetadata subscriptionIDs w of
        ((_, Some err), w) \<Rightarrow>
          ((assets, Some (Wrapf ''storageAccountEnricher: error while getting diagnostic settings: '' err)), w)
      | ((diagSettings, None), w) \<Rightarrow>
          (let ids = filter (\<lambda>i. i \<noteq> []) (map (\<lambda>d. FromMap (az_Properties d) ''storageAccountId'') diagSettings)
           in (enrich_each (used_flag ids) StorageAccountAssetType assets None, w)))"

text \<open>\<open>as_any\<close> is \<open>AsMapStringAny\<close> of an asset; the map of a failed conversion is nil.\<close>

definition extension_of ::
  "(azure_asset \<Rightarrow> (string \<times> any) list result) \<Rightarrow> string \<Rightarrow> (string \<times> azure_asset) list \<Rightarrow> azure_asset \<Rightarrow>
     azure_asset \<times> go_error option" where
  "extension_of as_any extensionField perStorageAccountID a =
     (case map_of perStorageAccountID (az_Id a) of
        None \<Rightarrow> (a, None)
      | Some ext \<Rightarrow>
          (case as_any ext of
             Inl err \<Rightarrow> (AddExtension extensionField (VMap []) a, Some err)
           | Inr extMap \<Rightarrow> (AddExtension extensionField (VMap extMap) a, None)))"

fun collect_each ::
  "(azure_asset \<Rightarrow> azure_asset \<times> go_error option) \<Rightarrow> string \<Rightarrow> azure_asset list \<Rightarrow> azure_asset list \<times> go_error option list" where
  "collect_each f t [] = ([], [])"
| "collect_each f t (a # assets) =
     (let (rest, errs) = collect_each f t assets
      in if az_Type a \<noteq> t then (a # rest, errs) else let (a', err) = f a in (a' # rest, err # errs))"

definition appendExtensionAssets ::
  "(azure_asset \<Rightarrow> (string \<times> any) list result) \<Rightarrow> string \<Rightarrow> azure_asset list \<Rightarrow> azure_asset list \<Rightarrow>
     azure_asset list \<times> go_error option" where
  "appendExtensionAssets as_any extensionField extensions assets =
     (if extensions = [] then (assets, None)
      else let per = fold (\<lambda>d. map_put (FromMap (az_Extension d) ''storageAccountId'') d) extensions [];
               (assets', errs) = collect_each (extension_of as_any extensionField per) StorageAccountAssetType assets
           in (assets', errors_join errs))"

definition add_extensions ::
  "(azure_asset \<Rightarrow> (string \<times> any) list result) \<Rightarrow> string \<Rightarrow> (azure_asset list \<Rightarrow> azure_asset list result) \<Rightarrow>
     azure_asset list \<Rightarrow> azure_asset list \<Rightarrow> azure_asset list \<times> go_error option" where
  "add_extensions as_any extensionField listing storageAccounts assets =
     (case listing storageAccounts of
        Inl err \<Rightarrow> (assets, Some err)
      | Inr extensions \<Rightarrow> appendExtensionAssets as_any extensionField extensions assets)"

definition addStorageAccountBlobServices ::
  "(azure_asset \<Rightarrow> (string \<times> any) list result) \<Rightarrow> 'w azure_api \<Rightarrow> azure_asset list \<Rightarrow> azure_asset list \<Rightarrow>
     azure_asset list \<times> go_error option" where
  "addStorageAccountBlobServices as_any p storageAccounts assets =
     (if storageAccounts = [] then (assets, None)
      else add_extensions as_any ''blobService'' (api_ListStorageAccountBlobServices p) storageAccounts assets)"

definition addStorageAccountServicesDiagnosticSettings ::
  "(azure_asset \<Rightarrow> (string \<times> any) list result) \<Rightarrow> 'w azure_api \<Rightarrow> azure_asset list \<Rightarrow> azure_asset list \<Rightarrow>
     azure_asset list \<times> go_error option" where
  "addStorageAccountServicesDiagnosticSettings as_any p storageAccounts assets =
     (if storageAccounts = [] then (assets, None)
      else let (assets, err1) = add_extensions as_any ''blobDiagnosticSettings'' (api_ListBlobDiagnosticSettings p) storageAccounts assets;
               (assets, err2) = add_extensions as_any ''tableDiagnosticSettings'' (api_ListTableDiagnosticSettings p) storageAccounts assets;
               (assets, err3) = add_extensions as_any ''queueDiagnosticSettings'' (api_ListQueueDiagnosticSettings p) storageAccounts assets
           in (assets, errors_join [err1, err2, err3]))"

text \<open>\<open>keys\<close> orders the ids of the subscriptions.\<close>

definition storageAccount_Enrich ::
  "((string \<times> subscription) list \<Rightarrow> string list) \<Rightarrow> (azure_asset \<Rightarrow> (string \<times> any) list result) \<Rightarrow> 'w azure_api \<Rightarrow>
     'w enricher" where
  "storageAccount_Enrich keys as_any p cycleMetadata assets w =
     (case api_GetSubscriptions p cycleMetadata w of
        ((_, Some err), w) \<Rightarrow> ((assets, Some (Wrapf ''storageAccountEnricher: error while getting subscription: '' err)), w)
      | ((subscriptions, None), w) \<Rightarrow>
          (let ((assets, err1), w) = addUsedForActivityLogsFlag p cycleMetadata assets (keys subscriptions) w;
               storageAccounts = filter (\<lambda>a. az_Type a = StorageAccountAssetType) assets;
               (assets, err2) = addStorageAccountBlobServices as_any p storageAccounts assets;
               (assets, err3) = addStorageAccountServicesDiagnosticSettings as_any p storageAccounts assets
           in ((assets, errors_join
                 [err1,
                  map_option (Wrapf ''storageAccountEnricher: error while getting data protection settings: '') err2,
                  map_option (Wrapf ''storageAccountEnricher: error while getting services diagnostic settings: '') err3]),
               w)))"


text \<open>The three enrichers, in their order, and the loop over them.\<close>

definition initEnrichers ::
  "((string \<times> subscription) list \<Rightarrow> string list) \<Rightarrow> (azure_asset \<Rightarrow> (string \<times> any) list result) \<Rightarrow> decoders \<Rightarrow>
     'w azure_api \<Rightarrow> 'w enricher list" where
  "initEnrichers keys as_any d p = [storageAccount_Enrich keys as_any p, vm_Enrich d, sqlServer_Enrich p]"

fun enrich_all :: "'w enricher list \<Rightarrow> metadata \<Rightarrow> azure_asset list \<Rightarrow> go_error option \<Rightarrow> 'w \<Rightarrow>
    (azure_asset list \<times> go_error option) \<times> 'w" where
  "enrich_all [] m assets errAgg w = ((assets, errAgg), w)"
| "enrich_all (e # es) m assets errAgg w =
     (case e m assets w of
        ((assets, None), w) \<Rightarrow> enrich_all es m assets errAgg w
      | ((assets, Some err), w) \<Rightarrow>
          enrich_all es m assets (join_err errAgg (Some (Wrapf ''error while enriching assets: '' err))) w)"

section \<open>Assets\<close>

record type_pair =
  tp_SubType :: string
  tp_Type :: string

definition newPair :: "string \<Rightarrow> string \<Rightarrow> type_pair" where
  "newPair subType tpe = \<lparr>tp_SubType = subType, tp_Type = tpe\<rparr>"

definition AzureAssetTypeToTypePair :: "(string \<times> type_pair) list" where
  "AzureAssetTypeToTypePair =
     [(''microsoft.classicstorage/storageaccounts'', newPair ''azure-classic-storage-account'' ''cloud-storage''),
      (''microsoft.compute/disks'', newPair ''azure-disk'' ''cloud-compute''),
      (''microsoft.documentdb/databaseaccounts'', newPair ''azure-document-db-database-account'' ''cloud-database''),
      (''microsoft.dbformysql/servers'', newPair ''azure-mysql-server-db'' ''cloud-database''),
      (''microsoft.network/networkwatchers'', newPair ''azure-network-watcher'' ''monitoring''),
      (''microsoft.network/networkwatchers/flowlogs'', newPair ''azure-network-watchers-flow-log'' ''monitoring''),
      (''microsoft.dbforpostgresql/servers'', newPair ''azure-postgresql-server-db'' ''cloud-database''),
      (SQLServersAssetType, newPair ''azure-sql-server'' ''cloud-database''),
      (StorageAccountAssetType, newPair ''azure-storage-account'' ''cloud-storage''),
      (VirtualMachineAssetType, newPair ''azure-vm'' ''cloud-compute''),
      (''microsoft.web/sites'', newPair ''azure-web-site'' ''cloud-compute''),
      (''microsoft.keyvault/vaults'', newPair ''azure-vault'' ''key-management''),
      (''microsoft.authorization/roledefinitions'', newPair ''azure-role-definition'' ''identity-management''),
      (NetworkSecurityGroupAssetType, newPair ''azure-network-group'' ''monitoring'')]"

definition AzureAssetGroups :: "string list" where
  "AzureAssetGroups = [''resources'', ''authorizationresources'']"

record azure_resource =
  ar_Type :: string
  ar_SubType :: string
  Asset :: azure_asset
  Subscription :: subscription

definition no_pair :: type_pair where
  "no_pair = \<lparr>tp_SubType = [], tp_Type = []\<rparr>"

definition resourceFromAsset :: "azure_asset \<Rightarrow> metadata \<Rightarrow> (string \<times> subscription) list \<Rightarrow> azure_resource \<times> metadata" where
  "resourceFromAsset a cycleMetadata subscriptions =
     (let pair = (case map_of AzureAssetTypeToTypePair (az_Type a) of None \<Rightarrow> no_pair | Some p \<Rightarrow> p);
          sub = (case map_of subscriptions (az_SubscriptionId a) of
                   Some s \<Rightarrow> s
                 | None \<Rightarrow> \<lparr>FullyQualifiedID = az_SubscriptionId a, ShortID = [], sub_DisplayName = [], ManagementGroup = no_group\<rparr>)
      in (\<lparr>ar_Type = tp_Type pair, ar_SubType = tp_SubType pair, Asset = a, Subscription = sub\<rparr>, cycleMetadata))"

fun list_groups ::
  "'w azure_api \<Rightarrow> string list \<Rightarrow> string list \<Rightarrow> azure_asset list \<Rightarrow> go_error option \<Rightarrow> azure_asset list \<times> go_error option" where
  "list_groups p types [] assets errAgg = (assets, errAgg)"
| "list_groups p types (assetGroup # groups) assets errAgg =
     (case api_ListAllAssetTypesByName p assetGroup types of
        Inl err \<Rightarrow> list_groups p types groups assets (join_err errAgg (Some err))
      | Inr r \<Rightarrow> list_groups p types groups (assets @ r) errAgg)"

text \<open>The sends of a loop, and the aggregated error with the one of the context where it is done.\<close>

definition send_within ::
  "budget \<Rightarrow> go_error \<Rightarrow> go_error option \<Rightarrow> 'r list \<Rightarrow> 'r list \<times> go_error option" where
  "send_within c ctxErr errAgg rs =
     (case send_all c rs of
        (sends, None) \<Rightarrow> (sends, join_err errAgg (Some ctxErr))
      | (sends, Some _) \<Rightarrow> (sends, errAgg))"

text \<open>\<open>types\<close> are the keys of the map of types in the order in which Go answers them.\<close>

definition AzureAssetsFetcher_Fetch ::
  "'w azure_api \<Rightarrow> 'w enricher list \<Rightarrow> string list \<Rightarrow> budget \<Rightarrow> go_error \<Rightarrow> metadata \<Rightarrow> 'w \<Rightarrow>
     ((azure_resource \<times> metadata) list \<times> go_error option) \<times> 'w" where
  "AzureAssetsFetcher_Fetch p enrichers types c ctxErr cycleMetadata w =
     (let (assets, errAgg) = list_groups p types AzureAssetGroups [] None;
          ((subscriptions, _), w) = api_GetSubscriptions p cycleMetadata w;
          ((assets, errAgg), w) = enrich_all enrichers cycleMetadata assets errAgg w
      in (send_within c ctxErr errAgg (map (\<lambda>a. resourceFromAsset a cycleMetadata subscriptions) assets), w))"

definition azure_metadata ::
  "subscription \<Rightarrow> string \<Rightarrow> string \<Rightarrow> string \<Rightarrow> string \<Rightarrow> string \<Rightarrow> resource_metadata" where
  "azure_metadata s i t st n r =
     cloud_account_metadata.extend (GetCloudAccountMetadata s) (resource_metadata.fields i t st n r)"

definition AzureResource_GetMetadata :: "azure_resource \<Rightarrow> resource_metadata result" where
  "AzureResource_GetMetadata r =
     Inr (azure_metadata (Subscription r) (az_Id (Asset r)) (ar_Type r) (ar_SubType r) (az_Name (Asset r)) (az_Location (Asset r)))"

section \<open>Batches\<close>

definition AzureBatchAssets :: "(string \<times> type_pair) list" where
  "AzureBatchAssets =
     [(''microsoft.insights/activitylogalerts'', newPair ''azure-activity-log-alert'' ''monitoring''),
      (''microsoft.insights/components'', newPair ''azure-insights-component'' ''monitoring''),
      (''microsoft.network/bastionhosts'', newPair ''azure-bastion'' ''cloud-dns'')]"

definition AzureBatchAssetGroups :: "string list" where
  "AzureBatchAssetGroups = [''resources'']"

record azure_batch_resource =
  batch_pair :: type_pair
  batch_Subscription :: subscription
  batch_Assets :: "azure_asset list"

text \<open>The orders in which the loops range over the subscriptions and, for each, over the types.\<close>

record batch_order =
  subscription_order :: "(string \<times> subscription) list \<Rightarrow> (string \<times> subscription) list"
  type_order :: "subscription \<Rightarrow> (string \<times> type_pair) list \<Rightarrow> (string \<times> type_pair) list"

definition batches_of ::
  "batch_order \<Rightarrow> (string \<times> azure_asset list) list \<Rightarrow> metadata \<Rightarrow> subscription \<Rightarrow> (azure_batch_resource \<times> metadata) list" where
  "batches_of ord subscriptionGroups cycleMetadata sub =
     (let assetGroups = group_by az_Type (group_at subscriptionGroups (ShortID sub))
      in map (\<lambda>(assetType, pair). (\<lparr>batch_pair = pair, batch_Subscription = sub, batch_Assets = group_at assetGroups assetType\<rparr>,
           cycleMetadata)) (type_order ord sub AzureBatchAssets))"

definition AzureBatchAssetFetcher_Fetch ::
  "'w azure_api \<Rightarrow> batch_order \<Rightarrow> string list \<Rightarrow> budget \<Rightarrow> go_error \<Rightarrow> metadata \<Rightarrow> 'w \<Rightarrow>
     ((azure_batch_resource \<times> metadata) list \<times> go_error option) \<times> 'w" where
  "AzureBatchAssetFetcher_Fetch p ord types c ctxErr cycleMetadata w =
     (case api_GetSubscriptions p cycleMetadata w of
        ((_, Some err), w) \<Rightarrow> (([], Some (Wrapf ''failed to fetch governance info: '' err)), w)
      | ((subscriptions, None), w) \<Rightarrow>
          (let (assets, errAgg) = list_groups p types AzureBatchAssetGroups [] None;
               subscriptionGroups = group_by az_SubscriptionId assets
           in (send_within c ctxErr errAgg
                 (concat (map (batches_of ord subscriptionGroups cycleMetadata)
                    (map snd (subscription_order ord subscriptions)))), w)))"

definition AzureBatch_GetMetadata :: "azure_batch_resource \<Rightarrow> resource_metadata result" where
  "AzureBatch_GetMetadata r =
     (let i = tp_SubType (batch_pair r) @ ''-'' @ ShortID (batch_Subscription r)
      in Inr (azure_metadata (batch_Subscription r) i (tp_Type (batch_pair r)) (tp_SubType (batch_pair r)) i ''global''))"

definition azure_GetElasticCommonData :: "(string \<times> any) list result" where
  "azure_GetElasticCommonData = Inr []"

section \<open>Insights\<close>

definition AzureInsightsBatchAssetFetcher_Fetch ::
  "'w azure_api \<Rightarrow> ((string \<times> subscription) list \<Rightarrow> string list) \<Rightarrow> batch_order \<Rightarrow> budget \<Rightarrow> go_error \<Rightarrow> metadata \<Rightarrow> 'w \<Rightarrow>
     ((azure_batch_resource \<times> metadata) list \<times> go_error option) \<times> 'w" where
  "AzureInsightsBatchAssetFetcher_Fetch p keys ord c ctxErr cycleMetadata w =
     (case api_GetSubscriptions p cycleMetadata w of
        ((_, Some err), w) \<Rightarrow> (([], Some (Wrapf ''azure insights fetcher: error while receiving subscriptions: '' err)), w)
      | ((subscriptions, None), w) \<Rightarrow>
          (case api_ListDiagnosticSettings p cycleMetadata (keys subscriptions) w of
             ((_, Some err), w) \<Rightarrow>
               (([], Some (Wrapf ''azure insights fetcher: error while receiving diagnostic settings: '' err)), w)
           | ((assets, None), w) \<Rightarrow>
               (let subscriptionGroups = group_by az_SubscriptionId assets;
                    rs = map (\<lambda>(subId, sub). (\<lparr>batch_pair = newPair ''azure-diagnostic-settings'' ''monitoring'',
                           batch_Subscription = sub, batch_Assets = group_at subscriptionGroups subId\<rparr>, cycleMetadata))
                         (subscription_order ord subscriptions)
                in (case send_all c rs of
                      (sends, None) \<Rightarrow> (sends, Some ctxErr)
                    | (sends, Some _) \<Rightarrow> (sends, None),
                    w))))"

section \<open>The contract of the enrichers\<close>

text \<open>
  An enricher touches the assets of one type only, and of them only its own extensions; it keeps their
  number and order.
\<close>

definition only_extends :: "string \<Rightarrow> string set \<Rightarrow> azure_asset \<Rightarrow> azure_asset \<Rightarrow> bool" where
  "only_extends t K a b \<longleftrightarrow>
     b\<lparr>az_Extension := az_Extension a\<rparr> = a \<and> (az_Type a \<noteq> t \<longrightarrow> b = a) \<and>
     (\<forall>k. k \<notin> K \<longrightarrow> map_of (az_Extension b) k = map_of (az_Extension a) k)"

lemma only_extends_refl [simp]: "only_extends t K a a"
  by (simp add: only_extends_def)

lemma only_extends_type: "only_extends t K a b \<Longrightarrow> az_Type b = az_Type a"
  unfolding only_extends_def by (metis azure_asset.select_convs(10) azure_asset.surjective azure_asset.update_convs(6))

lemma only_extends_trans: "only_extends t K a b \<Longrightarrow> only_extends t K b c \<Longrightarrow> only_extends t K a c"
  using only_extends_type [of t K a b] unfolding only_extends_def
  by (cases a, cases b, cases c) auto

lemma only_extends_AddExtension: "az_Type a = t \<Longrightarrow> k \<in> K \<Longrightarrow> only_extends t K a (AddExtension k v a)"
  by (auto simp: only_extends_def AddExtension_def)

locale assets_enricher =
  fixes Enrich :: "'w enricher" and t :: string and K :: "string set"
  assumes extends: "list_all2 (only_extends t K) assets (fst (fst (Enrich m assets w)))"
begin

lemma same_length: "length (fst (fst (Enrich m assets w))) = length assets"
  using list_all2_lengthD [OF extends] by simp

lemma same_but_extension:
  "map (az_Extension_update (\<lambda>_. [])) (fst (fst (Enrich m assets w))) = map (az_Extension_update (\<lambda>_. [])) assets"
proof -
  have "only_extends t K a b \<Longrightarrow> b\<lparr>az_Extension := []\<rparr> = a\<lparr>az_Extension := []\<rparr>" for a b
    unfolding only_extends_def by (cases a, cases b) simp
  with extends [of assets m w] show ?thesis by (induction rule: list_all2_induct) simp_all
qed

lemma others_untouched:
  "i < length assets \<Longrightarrow> az_Type (assets ! i) \<noteq> t \<Longrightarrow> fst (fst (Enrich m assets w)) ! i = assets ! i"
  using list_all2_nthD [OF extends [of assets m w], of i] by (simp add: only_extends_def)

lemma foreign_extensions:
  "i < length assets \<Longrightarrow> k \<notin> K \<Longrightarrow>
   map_of (az_Extension (fst (fst (Enrich m assets w)) ! i)) k = map_of (az_Extension (assets ! i)) k"
  using list_all2_nthD [OF extends [of assets m w], of i] by (simp add: only_extends_def)

end


lemma enrich_each_extends:
  "(\<And>a. az_Type a = t \<Longrightarrow> only_extends t K a (fst (f a))) \<Longrightarrow>
   list_all2 (only_extends t K) assets (fst (enrich_each f t assets errs))"
  by (induction assets arbitrary: errs) (auto simp: Let_def case_prod_beta)

lemma collect_each_extends:
  "(\<And>a. az_Type a = t \<Longrightarrow> only_extends t K a (fst (f a))) \<Longrightarrow>
   list_all2 (only_extends t K) assets (fst (collect_each f t assets))"
  by (induction assets) (auto simp: Let_def case_prod_beta)

lemma list_all2_extends_trans:
  "list_all2 (only_extends t K) xs ys \<Longrightarrow> list_all2 (only_extends t K) ys zs \<Longrightarrow> list_all2 (only_extends t K) xs zs"
  by (rule list_all2_trans [OF only_extends_trans])

lemmas list_extends_refl = list.rel_refl [of "only_extends t K" for t K, OF only_extends_refl]

definition sql_keys :: "string set" where
  "sql_keys = {''sqlEncryptionProtectors'', ''sqlBlobAuditPolicy'', ''sqlTransparentDataEncryptions''}"

definition vm_keys :: "string set" where
  "vm_keys = {''network''}"

definition storage_keys :: "string set" where
  "storage_keys = {''usedForActivityLogs'', ''blobService'', ''blobDiagnosticSettings'', ''tableDiagnosticSettings'',
     ''queueDiagnosticSettings''}"

lemma sql_parts_extend:
  assumes "az_Type a = SQLServersAssetType"
  shows "only_extends SQLServersAssetType sql_keys a (fst (enrichSQLEncryptionProtector p a))"
    "only_extends SQLServersAssetType sql_keys a (fst (enrichSQLBlobAuditPolicy p a))"
    "only_extends SQLServersAssetType sql_keys a (fst (enrichTransparentDataEncryption p a))"
  using assms unfolding enrichSQLEncryptionProtector_def enrichSQLBlobAuditPolicy_def enrichTransparentDataEncryption_def
  by (auto simp: sql_keys_def intro!: only_extends_AddExtension split: sum.splits list.splits prod.splits option.splits)

lemma apply_all_extends:
  "(\<And>f b. f \<in> set fs \<Longrightarrow> az_Type b = t \<Longrightarrow> only_extends t K b (fst (f b))) \<Longrightarrow> az_Type a = t \<Longrightarrow>
   only_extends t K a (fst (apply_all fs a errs))"
proof (induction fs arbitrary: a errs)
  case (Cons f fs)
  have "only_extends t K a (fst (f a))" using Cons.prems by auto
  moreover have "only_extends t K (fst (f a)) (fst (apply_all fs (fst (f a)) errs'))" for errs'
    using Cons.IH Cons.prems only_extends_type [OF \<open>only_extends t K a (fst (f a))\<close>] by auto
  ultimately show ?case by (auto simp: case_prod_beta intro: only_extends_trans)
qed simp

lemma sql_servers_extends: "list_all2 (only_extends SQLServersAssetType sql_keys) assets (fst (sql_servers p assets errs))"
proof (induction assets arbitrary: errs)
  case (Cons a assets)
  let ?fs = "[enrichSQLEncryptionProtector p, enrichSQLBlobAuditPolicy p, enrichTransparentDataEncryption p]"
  have "only_extends SQLServersAssetType sql_keys a (fst (apply_all ?fs a errs))" if "az_Type a = SQLServersAssetType"
    using that sql_parts_extend by (intro apply_all_extends) auto
  then show ?case using Cons.IH by (simp add: Let_def case_prod_beta del: apply_all.simps)
qed simp

lemma addNetworkRules_extends:
  "az_Type a = VirtualMachineAssetType \<Longrightarrow>
   only_extends VirtualMachineAssetType vm_keys a (fst (addNetworkRulesToAssetExtensions d m a))"
  by (auto simp: addNetworkRulesToAssetExtensions_def vm_keys_def Let_def intro!: only_extends_AddExtension split: sum.splits)

lemma add_extensions_extends:
  assumes "k \<in> storage_keys"
  shows "list_all2 (only_extends StorageAccountAssetType storage_keys) assets (fst (add_extensions as_any k listing accounts assets))"
proof -
  have "only_extends StorageAccountAssetType storage_keys a (fst (extension_of as_any k per a))"
    if "az_Type a = StorageAccountAssetType" for a per
    using that assms by (auto simp: extension_of_def intro!: only_extends_AddExtension split: option.splits sum.splits)
  then show ?thesis
    by (auto simp: add_extensions_def appendExtensionAssets_def Let_def case_prod_beta list_extends_refl
        intro!: collect_each_extends split: sum.splits)
qed

lemma storage_parts_extend:
  "list_all2 (only_extends StorageAccountAssetType storage_keys) assets (fst (fst (addUsedForActivityLogsFlag p m assets ids w)))"
  "list_all2 (only_extends StorageAccountAssetType storage_keys) assets (fst (addStorageAccountBlobServices as_any p accounts assets))"
  "list_all2 (only_extends StorageAccountAssetType storage_keys) assets (fst (addStorageAccountServicesDiagnosticSettings as_any p accounts assets))"
proof -
  have "only_extends StorageAccountAssetType storage_keys a (fst (used_flag i a))" if "az_Type a = StorageAccountAssetType" for a i
    using that by (auto simp: used_flag_def storage_keys_def intro!: only_extends_AddExtension)
  then show "list_all2 (only_extends StorageAccountAssetType storage_keys) assets (fst (fst (addUsedForActivityLogsFlag p m assets ids w)))"
    by (auto simp: addUsedForActivityLogsFlag_def Let_def list_extends_refl intro!: enrich_each_extends
        split: prod.splits option.splits)
  have keys: "''blobService'' \<in> storage_keys" "''blobDiagnosticSettings'' \<in> storage_keys"
      "''tableDiagnosticSettings'' \<in> storage_keys" "''queueDiagnosticSettings'' \<in> storage_keys"
    by (simp_all add: storage_keys_def)
  show "list_all2 (only_extends StorageAccountAssetType storage_keys) assets (fst (addStorageAccountBlobServices as_any p accounts assets))"
    by (simp add: addStorageAccountBlobServices_def list_extends_refl add_extensions_extends keys)
  show "list_all2 (only_extends StorageAccountAssetType storage_keys) assets
      (fst (addStorageAccountServicesDiagnosticSettings as_any p accounts assets))"
    by (auto simp: addStorageAccountServicesDiagnosticSettings_def Let_def case_prod_beta list_extends_refl
        intro!: list_all2_extends_trans [OF add_extensions_extends [OF keys(2)]
          list_all2_extends_trans [OF add_extensions_extends [OF keys(3)] add_extensions_extends [OF keys(4)]]])
qed

interpretation storage: assets_enricher "storageAccount_Enrich keys as_any p" StorageAccountAssetType storage_keys for keys as_any p
proof unfold_locales
  fix assets m and w :: 'a
  show "list_all2 (only_extends StorageAccountAssetType storage_keys) assets (fst (fst (storageAccount_Enrich keys as_any p m assets w)))"
    by (auto simp: storageAccount_Enrich_def Let_def case_prod_beta list_extends_refl split: option.splits
        intro!: list_all2_extends_trans [OF storage_parts_extend(1)
          list_all2_extends_trans [OF storage_parts_extend(2) storage_parts_extend(3)]])
qed

interpretation vm: assets_enricher "vm_Enrich d" VirtualMachineAssetType vm_keys for d
  by unfold_locales (simp add: vm_Enrich_def case_prod_beta enrich_each_extends addNetworkRules_extends)

interpretation sql: assets_enricher "sqlServer_Enrich p" SQLServersAssetType sql_keys for p
  by unfold_locales (simp add: sqlServer_Enrich_def sql_servers_extends)


section \<open>Lemmas\<close>

abbreviation without_extension :: "azure_asset \<Rightarrow> azure_asset" where
  "without_extension \<equiv> az_Extension_update (\<lambda>_. [])"

lemma enrich_all_keeps:
  "(\<And>e assets w. e \<in> set es \<Longrightarrow> map without_extension (fst (fst (e m assets w))) = map without_extension assets) \<Longrightarrow>
   map without_extension (fst (fst (enrich_all es m assets errAgg w))) = map without_extension assets"
proof (induction es arbitrary: assets errAgg w)
  case (Cons e es)
  obtain assets1 err w1 where e: "e m assets w = ((assets1, err), w1)" by (metis prod.collapse)
  have "map without_extension assets1 = map without_extension assets" using Cons.prems [of e assets w] e by simp
  moreover have "map without_extension (fst (fst (enrich_all es m assets1 errAgg' w1))) = map without_extension assets1" for errAgg'
    using Cons.IH Cons.prems by simp
  ultimately show ?case by (cases err) (simp_all add: e)
qed simp

lemma initEnrichers_keep:
  "map without_extension (fst (fst (enrich_all (initEnrichers keys as_any d p) m assets errAgg w))) = map without_extension assets"
  by (rule enrich_all_keeps)
    (auto simp: initEnrichers_def storage.same_but_extension vm.same_but_extension sql.same_but_extension)

lemma list_groups_eq:
  "list_groups p types groups assets errAgg =
     (assets @ concat (oks (map (\<lambda>g. api_ListAllAssetTypesByName p g types) groups)),
      snd (list_groups p types groups assets errAgg))"
  "snd (list_groups p types groups assets errAgg) = None \<longleftrightarrow>
     errAgg = None \<and> (\<forall>g\<in>set groups. is_ok (api_ListAllAssetTypesByName p g types))"
proof (induction groups arbitrary: assets errAgg)
  case (Cons g groups)
  { case 1 show ?case using Cons(1) by (cases "api_ListAllAssetTypesByName p g types") (simp_all add: prod_eq_iff)
  next
    case 2 show ?case using Cons(2) by (cases "api_ListAllAssetTypesByName p g types") simp_all }
qed simp_all

lemma send_within_eq: "fst (send_within c ctxErr errAgg rs) = within c rs"
  using send_all_within [of c rs] by (auto simp: send_within_def split: prod.splits option.splits)

text \<open>What a security group contributes to an interface.\<close>

definition contribution :: "decoders \<Rightarrow> string \<Rightarrow> azure_asset \<Rightarrow> security_rules list" where
  "contribution d nic g =
     (case (decode_interfaces d (map_get (az_Properties g) ''networkInterfaces''),
            decode_rules d (map_get (az_Properties g) ''securityRules'')) of
        (Inr nics, Inr rules) \<Rightarrow> concat (map (\<lambda>n. if n = nic then rules else []) nics)
      | _ \<Rightarrow> [])"

lemma fold_put_group:
  "group_at (fold (\<lambda>n m. map_put n (group_at m n @ rules) m) nics m) nic =
     group_at m nic @ concat (map (\<lambda>n. if n = nic then rules else []) nics)"
  by (induction nics arbitrary: m) (auto simp: group_at_def)

lemma rules_of_groups_at:
  "group_at (fst (rules_of_groups d assets m errAgg)) nic =
     group_at m nic @ concat (map (contribution d nic) (filter (\<lambda>a. az_Type a = NetworkSecurityGroupAssetType) assets))"
proof (induction assets arbitrary: m errAgg)
  case (Cons a assets)
  have "group_at (fst (extractNetworkSecurityGroupRules d a m)) nic = group_at m nic @ contribution d nic a"
    by (auto simp: extractNetworkSecurityGroupRules_def contribution_def fold_put_group split: sum.splits)
  then show ?case using Cons.IH by (auto split: prod.splits option.splits)
qed simp

lemma enrich_each_nth:
  "i < length assets \<Longrightarrow> az_Type (assets ! i) = t \<Longrightarrow> fst (enrich_each f t assets errs) ! i = fst (f (assets ! i))"
proof (induction assets arbitrary: i errs)
  case (Cons a assets)
  then show ?case by (cases i) (auto simp: Let_def case_prod_beta)
qed simp

section \<open>Properties\<close>

lemma AzureAssetsFetcher_eq:
  obtains enriched err where
    "AzureAssetsFetcher_Fetch p (initEnrichers keys as_any d p) types c ctxErr m w =
      ((within c (map (\<lambda>a. resourceFromAsset a m (fst (fst (api_GetSubscriptions p m w)))) enriched), err),
       snd (AzureAssetsFetcher_Fetch p (initEnrichers keys as_any d p) types c ctxErr m w))"
    "map without_extension enriched =
      map without_extension (concat (oks (map (\<lambda>g. api_ListAllAssetTypesByName p g types) AzureAssetGroups)))"
proof -
  let ?listed = "concat (oks (map (\<lambda>g. api_ListAllAssetTypesByName p g types) AzureAssetGroups))"
  obtain e where groups: "list_groups p types AzureAssetGroups [] None = (?listed, e)"
    using list_groups_eq(1) [of p types AzureAssetGroups "[]" None] by (metis append_Nil)
  let ?subs = "fst (fst (api_GetSubscriptions p m w))"
  let ?run = "enrich_all (initEnrichers keys as_any d p) m ?listed e (snd (api_GetSubscriptions p m w))"
  have "AzureAssetsFetcher_Fetch p (initEnrichers keys as_any d p) types c ctxErr m w =
      (send_within c ctxErr (snd (fst ?run)) (map (\<lambda>a. resourceFromAsset a m ?subs) (fst (fst ?run))), snd ?run)"
    unfolding AzureAssetsFetcher_Fetch_def groups by (simp add: case_prod_beta Let_def)
  moreover have "map without_extension (fst (fst ?run)) = map without_extension ?listed" by (rule initEnrichers_keep)
  ultimately show ?thesis
    using that [of "fst (fst ?run)" "snd (send_within c ctxErr (snd (fst ?run)) (map (\<lambda>a. resourceFromAsset a m ?subs) (fst (fst ?run))))"]
    by (simp add: prod_eq_iff send_within_eq)
qed

lemma resourceFromAsset_typed:
  assumes "az_Type a \<in> fst ` set AzureAssetTypeToTypePair"
  shows "typed_metadata (AzureResource_GetMetadata (fst (resourceFromAsset a m subs)))"
proof -
  obtain pair where pair: "map_of AzureAssetTypeToTypePair (az_Type a) = Some pair"
    using assms by (cases "map_of AzureAssetTypeToTypePair (az_Type a)") (auto simp: map_of_eq_None_iff)
  have "list_all (\<lambda>(t, pr). declared_type (tp_Type pr) \<and> declared_type (tp_SubType pr)) AzureAssetTypeToTypePair"
    by code_simp
  then have "declared_type (tp_Type pair) \<and> declared_type (tp_SubType pair)"
    using map_of_SomeD [OF pair] by (auto simp: list_all_iff)
  then show ?thesis
    by (simp add: typed_metadata_def AzureResource_GetMetadata_def azure_metadata_def resourceFromAsset_def pair Let_def
        cloud_account_metadata.extend_def resource_metadata.fields_def GetCloudAccountMetadata_def)
qed

text \<open>
  The assets of Azure: a fetch sends, in the order of the listing, a resource for each asset that the two
  groups list, a group that fails leaving out its own only, until the context is done; the enrichers
  change nothing of an asset but its extensions, and an asset of a type that was asked for has a declared
  type and subtype.
\<close>

lemma AzureAssetsFetcher_sends:
  "\<exists>enriched err w'. AzureAssetsFetcher_Fetch p (initEnrichers keys as_any d p) types c ctxErr m w =
      ((within c (map (\<lambda>a. resourceFromAsset a m (fst (fst (api_GetSubscriptions p m w)))) enriched), err), w') \<and>
    map without_extension enriched =
      map without_extension (concat (oks (map (\<lambda>g. api_ListAllAssetTypesByName p g types) AzureAssetGroups))) \<and>
    (\<forall>a\<in>set enriched. az_Type a \<in> fst ` set AzureAssetTypeToTypePair \<longrightarrow>
      typed_metadata (AzureResource_GetMetadata (fst (resourceFromAsset a m (fst (fst (api_GetSubscriptions p m w)))))))"
  by (rule AzureAssetsFetcher_eq [of p keys as_any d types c ctxErr m w]) (use resourceFromAsset_typed in blast)

text \<open>
  C34. The rules of a virtual machine: when its network profile can be read, the extension of a machine holds, for
  the interfaces of the profile in order, the rules of every readable security group on the
  interface, in the order of the listing, and there is none when there are no rules.
\<close>

theorem vm_Enrich_rules:
  assumes "i < length assets" "az_Type (assets ! i) = VirtualMachineAssetType"
    and "decode_profile d (map_get (az_Properties (assets ! i)) ''networkProfile'') = Inr nics"
  shows "let rules = concat (map (\<lambda>nic. concat (map (contribution d nic)
        (filter (\<lambda>a. az_Type a = NetworkSecurityGroupAssetType) assets))) nics)
    in fst (fst (vm_Enrich d m assets w)) ! i =
      (if rules = [] then assets ! i
       else AddExtension ''network'' (VMap [(''securityRules'', VList (map rule_value rules))]) (assets ! i))"
proof -
  have "group_at (fst (rules_of_groups d assets [] None)) = (\<lambda>nic. concat (map (contribution d nic)
      (filter (\<lambda>a. az_Type a = NetworkSecurityGroupAssetType) assets)))"
    using rules_of_groups_at [of d assets "[]" None] by (simp add: group_at_def fun_eq_iff)
  then show ?thesis
    using assms(3)
    by (simp add: vm_Enrich_def case_prod_beta enrich_each_nth [OF assms(1,2)] addNetworkRulesToAssetExtensions_def Let_def
        del: concat_eq_Nil_conv)
qed

definition sample_azure_asset :: "string \<Rightarrow> string \<Rightarrow> azure_asset" where
  "sample_azure_asset i t = (getAssetFromData [])\<lparr>az_Id := i, az_Type := t\<rparr>"

lemma vm_Enrich_rules_witness:
  "\<exists>r. fst (fst (vm_Enrich \<lparr>decode_interfaces = \<lambda>_. Inr [''n''], decode_rules = \<lambda>_. Inr [r], decode_profile = \<lambda>_. Inr [''n'']\<rparr>
       \<lparr>Sequence = 1\<rparr> [sample_azure_asset ''g'' NetworkSecurityGroupAssetType, sample_azure_asset ''v'' VirtualMachineAssetType] ())) ! 1 =
     AddExtension ''network'' (VMap [(''securityRules'', VList [rule_value r])]) (sample_azure_asset ''v'' VirtualMachineAssetType)"
proof
  let ?r = "\<lparr>sr_Access = ''Allow'', DestinationPortRange = ''22'', DestinationPortRanges = [], sr_Direction = ''Inbound'',
      sr_Protocol = ''TCP'', SourceAddressPrefix = ''*'', SourceAddressPrefixes = []\<rparr>"
  show "fst (fst (vm_Enrich \<lparr>decode_interfaces = \<lambda>_. Inr [''n''], decode_rules = \<lambda>_. Inr [?r], decode_profile = \<lambda>_. Inr [''n'']\<rparr>
       \<lparr>Sequence = 1\<rparr> [sample_azure_asset ''g'' NetworkSecurityGroupAssetType, sample_azure_asset ''v'' VirtualMachineAssetType] ())) ! 1 =
     AddExtension ''network'' (VMap [(''securityRules'', VList [rule_value ?r])]) (sample_azure_asset ''v'' VirtualMachineAssetType)"
    using vm_Enrich_rules [of 1 "[sample_azure_asset ''g'' NetworkSecurityGroupAssetType, sample_azure_asset ''v'' VirtualMachineAssetType]"
        "\<lparr>decode_interfaces = \<lambda>_. Inr [''n''], decode_rules = \<lambda>_. Inr [?r], decode_profile = \<lambda>_. Inr [''n'']\<rparr>" "[''n'']"
        "\<lparr>Sequence = 1\<rparr>" "()"]
    by (simp add: sample_azure_asset_def contribution_def NetworkSecurityGroupAssetType_def VirtualMachineAssetType_def)
qed

lemma AzureAssetsFetcher_sends_witness:
  "\<exists>p :: unit azure_api. \<exists>r err w'. AzureAssetsFetcher_Fetch p
     (initEnrichers (map fst) (\<lambda>_. Inr []) \<lparr>decode_interfaces = \<lambda>_. Inr [], decode_rules = \<lambda>_. Inr [], decode_profile = \<lambda>_. Inr []\<rparr> p)
     [''microsoft.compute/disks''] (Some 3) (Errorf ''done'') \<lparr>Sequence = 1\<rparr> () = (([r], err), w') \<and>
     typed_metadata (AzureResource_GetMetadata (fst r))"
proof -
  let ?disk = "sample_azure_asset ''d'' ''microsoft.compute/disks''"
  let ?p = "\<lparr>api_ListAllAssetTypesByName = \<lambda>g types. if g = ''resources'' then Inr [?disk] else Inl (Errorf ''denied''),
      api_GetSubscriptions = \<lambda>m w. (([], None), w), api_ListDiagnosticSettings = \<lambda>m i w. (([], None), w),
      api_ListStorageAccountBlobServices = \<lambda>_. Inr [], api_ListBlobDiagnosticSettings = \<lambda>_. Inr [],
      api_ListTableDiagnosticSettings = \<lambda>_. Inr [], api_ListQueueDiagnosticSettings = \<lambda>_. Inr [],
      api_ListSQLEncryptionProtector = \<lambda>_ _ _. Inr [], api_GetSQLBlobAuditingPolicies = \<lambda>_ _ _. Inr [],
      api_ListSQLTransparentDataEncryptions = \<lambda>_ _ _. ([], None)\<rparr> :: unit azure_api"
  let ?d = "\<lparr>decode_interfaces = \<lambda>_. Inr [], decode_rules = \<lambda>_. Inr [], decode_profile = \<lambda>_. Inr []\<rparr>"
  obtain enriched err w' where run: "AzureAssetsFetcher_Fetch ?p (initEnrichers (map fst) (\<lambda>_. Inr []) ?d ?p) [''microsoft.compute/disks'']
        (Some 3) (Errorf ''done'') \<lparr>Sequence = 1\<rparr> () = ((take 3 (map (\<lambda>a. resourceFromAsset a \<lparr>Sequence = 1\<rparr> []) enriched), err), w')"
      "map without_extension enriched = map without_extension [?disk]"
      "\<forall>a\<in>set enriched. az_Type a \<in> fst ` set AzureAssetTypeToTypePair \<longrightarrow>
        typed_metadata (AzureResource_GetMetadata (fst (resourceFromAsset a \<lparr>Sequence = 1\<rparr> [])))"
    using AzureAssetsFetcher_sends [of ?p "map fst" "\<lambda>_. Inr []" ?d "[''microsoft.compute/disks'']" "Some 3" "Errorf ''done''"
        "\<lparr>Sequence = 1\<rparr>" "()"]
    by (elim exE conjE) (simp add: AzureAssetGroups_def)
  from run(2) obtain a where a: "enriched = [a]" "without_extension a = without_extension ?disk" by auto
  have "az_Type a = ''microsoft.compute/disks''"
    using arg_cong [OF a(2), where f = az_Type] by (simp add: sample_azure_asset_def)
  then have "az_Type a \<in> fst ` set AzureAssetTypeToTypePair"
    by (simp add: AzureAssetTypeToTypePair_def)
  with run(1,3) a(1) show ?thesis by (intro exI [of _ ?p]) auto
qed

end
