(* ===== verification/Channel_World.thy ===== *)
theory Channel_World
  imports Fetch_Manager Data_Model
begin

text \<open>
  The fetchers on the channel that they share (\<open>resourceCh\<close> of \<open>resources/fetching/fetchers\<close>, made by
  \<open>flavors/benchmark\<close>), run by the cycles of \<open>resources/fetching/manager/manager.go\<close>: the state of the world is
  what the provider keeps and what has been sent. What a fetcher promises of its sends is a locale; its
  lemmas carry the promise from one fetch to any number of cycles.
\<close>

section \<open>Sending\<close>

record 'c fetch_world =
  provider_state :: 'c
  channel :: "resource_info list"

text \<open>\<open>fetching.ResourceInfo{Resource: r, CycleMetadata: m}\<close>, the resource as the interface sees it.\<close>

definition send_resource :: "('r \<Rightarrow> resource) \<Rightarrow> 'r \<times> metadata \<Rightarrow> resource_info" where
  "send_resource as_resource s = resource.extend (as_resource (fst s)) (resource_info.fields (snd s))"

lemma send_resource_simps [simp]:
  "GetMetadata (send_resource f s) = GetMetadata (f (fst s))"
  "GetData (send_resource f s) = GetData (f (fst s))"
  "GetElasticCommonData (send_resource f s) = GetElasticCommonData (f (fst s))"
  "CycleMetadata (send_resource f s) = snd s"
  by (simp_all add: send_resource_def resource.extend_def resource_info.fields_def)

text \<open>A fetcher as the registry holds it: what \<open>fetch\<close> sends goes to the channel, its error to the caller.\<close>

definition fetcher_on ::
  "('r \<Rightarrow> resource) \<Rightarrow> (metadata \<Rightarrow> 'c \<Rightarrow> (('r \<times> metadata) list \<times> go_error option) \<times> 'c) \<Rightarrow> 'c fetch_world fetcher" where
  "fetcher_on as_resource fetch =
     \<lparr>Fetch = (\<lambda>m w.
        let ((sends, err), c) = fetch m (provider_state w)
        in (RunReturned err, \<lparr>provider_state = c, channel = channel w @ map (send_resource as_resource) sends\<rparr>)),
      fetcher_Stop = (\<lambda>w. w)\<rparr>"

lemma Fetch_fetcher_on [simp]:
  "Fetch (fetcher_on as_resource fetch) m w =
     (RunReturned (snd (fst (fetch m (provider_state w)))),
      \<lparr>provider_state = snd (fetch m (provider_state w)),
       channel = channel w @ map (send_resource as_resource) (fst (fst (fetch m (provider_state w))))\<rparr>)"
  by (simp add: fetcher_on_def Let_def case_prod_beta)

lemma fetcher_on_sends:
  assumes "good (snd (fetch m (provider_state w)))"
    and "list_all (\<lambda>s. fits (Sequence m) (send_resource f s)) (fst (fst (fetch m (provider_state w))))"
  shows "\<exists>rs. channel (snd (Fetch (fetcher_on f fetch) m w)) = channel w @ rs \<and> list_all (fits (Sequence m)) rs \<and>
    good (provider_state (snd (Fetch (fetcher_on f fetch) m w)))"
  using assms by (auto simp: list.pred_map comp_def)

text \<open>
  The same for a fetch that may not answer (\<open>None\<close>): it has panicked, or it does not return and the manager goes on
  when its context ends, \<open>lost\<close> being what it then sees. What is sent reaches the channel through \<open>ch\<close>.
\<close>

definition fetcher_via ::
  "run_outcome \<Rightarrow> (resource_info \<Rightarrow> resource_info) \<Rightarrow> ('r \<Rightarrow> resource) \<Rightarrow>
     (metadata \<Rightarrow> 'c \<Rightarrow> (('r \<times> metadata) list \<times> go_error option) option \<times> 'c) \<Rightarrow> 'c fetch_world fetcher" where
  "fetcher_via lost ch as_resource fetch =
     \<lparr>Fetch = (\<lambda>m w.
        case fetch m (provider_state w) of
          (None, c) \<Rightarrow> (lost, w\<lparr>provider_state := c\<rparr>)
        | (Some (sends, err), c) \<Rightarrow>
            (RunReturned err, \<lparr>provider_state = c, channel = channel w @ map (\<lambda>s. ch (send_resource as_resource s)) sends\<rparr>)),
      fetcher_Stop = (\<lambda>w. w)\<rparr>"

lemma fetcher_via_sends:
  assumes "good (snd (fetch m (provider_state w)))"
    and "\<And>sends err. fst (fetch m (provider_state w)) = Some (sends, err) \<Longrightarrow>
      list_all (\<lambda>s. fits (Sequence m) (ch (send_resource f s))) sends"
  shows "\<exists>rs. channel (snd (Fetch (fetcher_via lost ch f fetch) m w)) = channel w @ rs \<and> list_all (fits (Sequence m)) rs \<and>
    good (provider_state (snd (Fetch (fetcher_via lost ch f fetch) m w)))"
  using assms by (cases "fetch m (provider_state w)") (auto simp: fetcher_via_def list.pred_map comp_def split: option.splits)

text \<open>And for a fetch that may panic after some sends, its error then being \<open>None\<close>.\<close>

definition fetcher_until ::
  "run_outcome \<Rightarrow> ('r \<Rightarrow> resource) \<Rightarrow>
     (metadata \<Rightarrow> 'c \<Rightarrow> (('r \<times> metadata) list \<times> go_error option option) \<times> 'c) \<Rightarrow> 'c fetch_world fetcher" where
  "fetcher_until lost as_resource fetch =
     \<lparr>Fetch = (\<lambda>m w.
        let ((sends, r), c) = fetch m (provider_state w)
        in (case r of None \<Rightarrow> lost | Some err \<Rightarrow> RunReturned err,
            \<lparr>provider_state = c, channel = channel w @ map (send_resource as_resource) sends\<rparr>)),
      fetcher_Stop = (\<lambda>w. w)\<rparr>"

lemma fetcher_until_sends:
  assumes "good (snd (fetch m (provider_state w)))"
    and "list_all (\<lambda>s. fits (Sequence m) (send_resource f s)) (fst (fst (fetch m (provider_state w))))"
  shows "\<exists>rs. channel (snd (Fetch (fetcher_until lost f fetch) m w)) = channel w @ rs \<and> list_all (fits (Sequence m)) rs \<and>
    good (provider_state (snd (Fetch (fetcher_until lost f fetch) m w)))"
  using assms by (auto simp: fetcher_until_def case_prod_beta Let_def list.pred_map comp_def)

section \<open>The cycles of the manager\<close>

text \<open>
  The iterations that the ticks of \<open>fetchAndSleep\<close> start, one after the other; each has its time and the
  events of its fetchers.
\<close>

fun run_cycles ::
  "('r, 'w) registry_iface \<Rightarrow> string \<Rightarrow> 'r \<Rightarrow> (int \<times> (string \<Rightarrow> single_event)) list \<Rightarrow> 'w \<Rightarrow> 'r \<times> 'w" where
  "run_cycles ops secs r [] w = (r, w)"
| "run_cycles ops secs r ((now, evs) # ticks) w =
     (let (r', errs, w') = fetchIteration ops secs r now evs w in run_cycles ops secs r' ticks w')"

section \<open>What the fetchers of a registry promise\<close>

text \<open>
  A fetch whose conditions hold adds to the channel only, and only what fits; it keeps the invariant of the
  provider's state.
\<close>

locale sending_registry =
  fixes rg :: "'c fetch_world registry"
    and fits :: "int \<Rightarrow> resource_info \<Rightarrow> bool"
    and good :: "'c \<Rightarrow> bool"
  assumes fetch_sends: "(k, rf) \<in> set (reg rg) \<Longrightarrow> all_conditions (Condition rf) w \<Longrightarrow> good (provider_state w) \<Longrightarrow>
      \<exists>rs. channel (snd (Fetch (Fetcher rf) m w)) = channel w @ rs \<and> list_all (fits (Sequence m)) rs \<and>
        good (provider_state (snd (Fetch (Fetcher rf) m w)))"
begin

lemma fetchSingle_sends:
  assumes "good (provider_state w)"
  shows "\<exists>rs. channel (snd (fetchSingle registry_ops secs rg k m ev w)) = channel w @ rs \<and>
    list_all (fits (Sequence m)) rs \<and> good (provider_state (snd (fetchSingle registry_ops secs rg k m ev w)))"
proof (cases "ShouldRun rg k w")
  case True
  then obtain rf where rf: "map_of (reg rg) k = Some rf" and runs: "all_conditions (Condition rf) w"
    by (auto simp: ShouldRun_def split: option.splits)
  have "snd (fetchSingle registry_ops secs rg k m ev w) = snd (Fetch (Fetcher rf) m w)"
    using True rf
    by (auto simp: fetchSingle_def fetchProtected_def registry_Run_def Let_def
        split: prod.splits run_outcome.splits single_event.splits ctx_err.splits)
  with fetch_sends [OF map_of_SomeD [OF rf] runs assms] show ?thesis by simp
qed (simp add: fetchSingle_def assms)

lemma fetch_keys_sends:
  "good (provider_state w) \<Longrightarrow>
   \<exists>rs. channel (snd (fetch_keys registry_ops secs rg m evs ks w)) = channel w @ rs \<and>
     list_all (fits (Sequence m)) rs \<and> good (provider_state (snd (fetch_keys registry_ops secs rg m evs ks w)))"
proof (induction ks arbitrary: w)
  case (Cons k ks)
  obtain err w1 where 1: "fetchSingle registry_ops secs rg k m (evs k) w = (err, w1)" by fastforce
  with fetchSingle_sends [OF Cons.prems, of secs k m "evs k"] obtain rs where
    "channel w1 = channel w @ rs" "list_all (fits (Sequence m)) rs" "good (provider_state w1)" by auto
  moreover from Cons.IH [OF this(3)] obtain rs2 where
    "channel (snd (fetch_keys registry_ops secs rg m evs ks w1)) = channel w1 @ rs2" "list_all (fits (Sequence m)) rs2"
    "good (provider_state (snd (fetch_keys registry_ops secs rg m evs ks w1)))" by blast
  ultimately show ?case by (intro exI [of _ "rs @ rs2"]) (simp add: 1 case_prod_beta Let_def)
qed simp

end

text \<open>
  The registries that an update can leave: all of them make this promise, and an update sends nothing.
\<close>

locale sending_fetchers =
  fixes sound :: "'c fetch_world registry \<Rightarrow> bool"
    and fits :: "int \<Rightarrow> resource_info \<Rightarrow> bool"
    and good :: "'c \<Rightarrow> bool"
  assumes update_keeps: "sound rg \<Longrightarrow> good (provider_state w) \<Longrightarrow> registry_Update rg w = (rg', w') \<Longrightarrow>
      sound rg' \<and> good (provider_state w') \<and> channel w' = channel w"
    and registries_send: "sound rg \<Longrightarrow> sending_registry rg fits good"
begin

lemma fetchIteration_sends:
  assumes "sound rg" "good (provider_state w)" "fetchIteration registry_ops secs rg now evs w = (rg', errs, w')"
  shows "sound rg' \<and> good (provider_state w') \<and> (\<exists>rs. channel w' = channel w @ rs \<and> list_all (fits now) rs)"
proof -
  obtain wu where update: "registry_Update rg w = (rg', wu)"
    and keys: "(errs, w') = fetch_keys registry_ops secs rg' \<lparr>Sequence = now\<rparr> evs (Keys rg') wu"
    using assms(3) by (auto simp: fetchIteration_def split: prod.splits)
  from update_keeps [OF assms(1,2) update]
  have wu: "sound rg'" "good (provider_state wu)" "channel wu = channel w" by blast+
  from sending_registry.fetch_keys_sends [OF registries_send [OF wu(1)] wu(2), of secs "\<lparr>Sequence = now\<rparr>" evs "Keys rg'"]
  show ?thesis using wu keys [symmetric] by auto
qed

lemma run_cycles_sends:
  "sound rg \<Longrightarrow> good (provider_state w) \<Longrightarrow>
   \<exists>rg' w'. run_cycles registry_ops secs rg ticks w = (rg', w') \<and> sound rg' \<and> good (provider_state w') \<and>
     (\<exists>rss. channel w' = channel w @ concat rss \<and> list_all2 (\<lambda>(now, evs). list_all (fits now)) ticks rss)"
proof (induction ticks arbitrary: rg w)
  case (Cons tick ticks)
  obtain now evs where tick: "tick = (now, evs)" by (cases tick)
  obtain r1 errs w1 where it: "fetchIteration registry_ops secs rg now evs w = (r1, errs, w1)"
    by (cases "fetchIteration registry_ops secs rg now evs w") auto
  from fetchIteration_sends [OF Cons.prems it] obtain rs where
    1: "sound r1" "good (provider_state w1)" "channel w1 = channel w @ rs" "list_all (fits now) rs" by blast
  from Cons.IH [OF 1(1,2)] obtain rg' w' rss where
    2: "run_cycles registry_ops secs r1 ticks w1 = (rg', w')" "sound rg'" "good (provider_state w')"
      "channel w' = channel w1 @ concat rss" "list_all2 (\<lambda>(now, evs). list_all (fits now)) ticks rss" by blast
  show ?case
    by (intro exI [of _ rg'] exI [of _ w'] conjI exI [of _ "rs # rss"]) (use 1 2 it in \<open>simp_all add: tick\<close>)
qed simp

end

text \<open>A registry without an updater stays as it is.\<close>

lemma fixed_registry_sends:
  assumes "updater rg = None" "sending_registry rg fits good"
  shows "sending_fetchers (\<lambda>r. r = rg) fits good"
  using assms by (auto simp: sending_fetchers_def registry_Update_def)

text \<open>
  An iteration without an updater: each fetcher whose conditions hold at its turn fetches, in the order of the keys;
  what the manager does with the error of one, or with its timeout, does not take anything from the channel.
\<close>

definition fetch_turn :: "metadata \<Rightarrow> string \<times> 'w registered_fetcher \<Rightarrow> 'w \<Rightarrow> 'w" where
  "fetch_turn m e w = (if all_conditions (Condition (snd e)) w then snd (Fetch (Fetcher (snd e)) m w) else w)"

lemma fetch_keys_channel:
  assumes "distinct (Keys rg)" "set fs \<subseteq> set (reg rg)"
  shows "snd (fetch_keys registry_ops secs rg m evs (map fst fs) w) = fold (fetch_turn m) fs w"
  using assms(2)
proof (induction fs arbitrary: w)
  case (Cons f fs)
  obtain k rf where f: "f = (k, rf)" by (cases f)
  have rf: "map_of (reg rg) k = Some rf" using Cons.prems assms(1) f by (simp add: Keys_def)
  have "snd (fetchSingle registry_ops secs rg k m ev w) = fetch_turn m f w" for ev w
    using rf f
    by (auto simp: fetch_turn_def fetchSingle_def fetchProtected_def registry_Run_def ShouldRun_def Let_def
        split: prod.splits run_outcome.splits single_event.splits ctx_err.splits)
  with Cons.IH Cons.prems show ?case by (simp add: f case_prod_beta Let_def)
qed simp

lemma fetchIteration_channel:
  assumes "updater rg = None" "distinct (Keys rg)"
    and "fetchIteration registry_ops secs rg now evs w = (r', errs, w')"
  shows "w' = fold (fetch_turn \<lparr>Sequence = now\<rparr>) (reg rg) w"
  using fetch_keys_channel [OF assms(2) order_refl, of secs "\<lparr>Sequence = now\<rparr>" evs w] assms(1,3)
  by (auto simp: fetchIteration_def registry_Update_def Keys_def split: prod.splits)

end
