(* ===== verification/Azure_Cycle.thy ===== *)
theory Azure_Cycle
  imports Channel_World Azure_Fetchers Benchmark_Model
begin

text \<open>
  The Azure benchmark as a whole: the provider that \<open>ProviderInitializer.Init\<close> makes
  (\<open>resources/providers/azurelib\<close>), the three fetchers of \<open>preset.NewCisAzureFactory\<close> on it and on one channel, and
  the registry of \<open>Azure.initialize\<close> (\<open>flavors/benchmark/azure.go\<close>), run by the manager.
\<close>

section \<open>The resources\<close>

text \<open>\<open>as_data\<close> is the asset as \<open>GetData\<close> hands it out, boxed in an interface.\<close>

definition azure_as_resource :: "(azure_asset \<Rightarrow> any) \<Rightarrow> azure_resource \<Rightarrow> resource" where
  "azure_as_resource as_data r =
     \<lparr>GetMetadata = AzureResource_GetMetadata r, GetData = as_data (Asset r),
      GetElasticCommonData = azure_GetElasticCommonData\<rparr>"

definition batch_as_resource :: "(azure_asset \<Rightarrow> any) \<Rightarrow> azure_batch_resource \<Rightarrow> resource" where
  "batch_as_resource as_data r =
     \<lparr>GetMetadata = AzureBatch_GetMetadata r, GetData = VList (map as_data (batch_Assets r)),
      GetElasticCommonData = azure_GetElasticCommonData\<rparr>"

section \<open>The fetchers\<close>

text \<open>
  What the fetchers take from outside: Go's orders of its maps, the decoders, the boxing of assets, and for
  each fetcher when its context is done and with which error.
\<close>

record azure_env =
  env_keys :: "(string \<times> subscription) list \<Rightarrow> string list"
  env_as_any :: "azure_asset \<Rightarrow> (string \<times> any) list result"
  env_decoders :: decoders
  env_types :: "string list"
  env_batch_types :: "string list"
  env_order :: batch_order
  env_data :: "azure_asset \<Rightarrow> any"
  env_budget :: "metadata \<Rightarrow> string \<Rightarrow> budget"
  env_ctxErr :: go_error

definition azure_fetchers :: "azure_env \<Rightarrow> 'c azure_api \<Rightarrow> 'c fetch_world azure_constructors" where
  "azure_fetchers env p =
     \<lparr>mk_AzureAssetsFetcher = fetcher_on (azure_as_resource (env_data env)) (\<lambda>m.
        AzureAssetsFetcher_Fetch p (initEnrichers (env_keys env) (env_as_any env) (env_decoders env) p)
          (env_types env) (env_budget env m ''assets'') (env_ctxErr env) m),
      mk_AzureBatchAssetFetcher = fetcher_on (batch_as_resource (env_data env)) (\<lambda>m.
        AzureBatchAssetFetcher_Fetch p (env_order env) (env_batch_types env) (env_budget env m ''batches'') (env_ctxErr env) m),
      mk_AzureInsightsBatchAssetFetcher = fetcher_on (batch_as_resource (env_data env)) (\<lambda>m.
        AzureInsightsBatchAssetFetcher_Fetch p (env_keys env) (env_order env) (env_budget env m ''insights'') (env_ctxErr env) m)\<rparr>"

text \<open>Go's maps: an order visits every entry once, and the keys of a map are its keys.\<close>

definition ranges_over :: "azure_env \<Rightarrow> bool" where
  "ranges_over env \<longleftrightarrow>
     (\<forall>s. mset (subscription_order (env_order env) s) = mset s) \<and>
     (\<forall>sub ts. mset (type_order (env_order env) sub ts) = mset ts) \<and>
     (\<forall>s. mset (env_keys env s) = mset (map fst s)) \<and>
     mset (env_types env) = mset (map fst AzureAssetTypeToTypePair) \<and>
     mset (env_batch_types env) = mset (map fst AzureBatchAssets)"

section \<open>The subscriptions of a cycle\<close>

text \<open>The map of subscriptions has the id of each as its key.\<close>

definition subscriptions_keyed :: "(string \<times> subscription) list \<Rightarrow> bool" where
  "subscriptions_keyed s \<longleftrightarrow> distinct (map fst s) \<and> (\<forall>(k, sub)\<in>set s. ShortID sub = k)"

lemma map_put_keyed: "subscriptions_keyed s \<Longrightarrow> subscriptions_keyed (map_put (ShortID sub) sub s)"
  by (auto simp: subscriptions_keyed_def distinct_map_put) (auto simp: map_put_def)

lemma add_subscription_keyed: "subscriptions_keyed s \<Longrightarrow> subscriptions_keyed (add_subscription groups a s)"
  using map_put_keyed [of s "\<lparr>FullyQualifiedID = az_Id a, ShortID = az_SubscriptionId a,
      sub_DisplayName = FirstNonEmpty [az_DisplayName a, az_Name a], ManagementGroup = g\<rparr>" for g]
  by (auto simp: add_subscription_def Let_def split: any.splits list.splits)

lemma scan_keyed: "subscriptions_keyed (fst (scan listed))"
proof -
  have "subscriptions_keyed s \<Longrightarrow> subscriptions_keyed (fold (add_subscription groups) as s)" for groups as s
    by (induction as arbitrary: s) (simp_all add: add_subscription_keyed)
  from this [of "[]"] show ?thesis by (auto simp: scan_def Let_def subscriptions_keyed_def split: sum.splits)
qed

lemma GetValue_keeps:
  assumes "Q (cachedValue c)" "Q (fst f)"
  shows "Q (cachedValue (fst (GetValue c m f))) \<and> Q (fst (snd (GetValue c m f)))"
  using assms by (cases f) (auto simp: GetValue_def renew_def Let_def split: option.splits)

definition caches_keyed :: "azure_caches \<Rightarrow> bool" where
  "caches_keyed w \<longleftrightarrow> subscriptions_keyed (cachedValue (fst w))"

section \<open>The provider\<close>

text \<open>The provider where the clients could be made.\<close>

definition azure_provider ::
  "(string \<Rightarrow> string list \<Rightarrow> azure_asset list result) \<Rightarrow> storage_client \<Rightarrow> sql_client \<Rightarrow> azure_caches azure_api" where
  "azure_provider listAll st sql = fst (projr (azure_Init (Inr listAll) (Inr st) sql))"

lemma azure_Init_provider:
  "azure_Init (Inr listAll) (Inr st) sql = Inr (azure_provider listAll st sql, (NewCache [], NewCache []))"
  by (simp add: azure_provider_def azure_Init_def governance_NewProvider_def)

abbreviation containers :: "(string \<Rightarrow> string list \<Rightarrow> azure_asset list result) \<Rightarrow> azure_asset list result" where
  "containers listAll \<equiv> listAll ''resourcecontainers'' [managementGroupType, subscriptionType]"

lemma azure_provider_simps:
  "api_ListAllAssetTypesByName (azure_provider listAll st sql) = listAll"
  "api_GetSubscriptions (azure_provider listAll st sql) m w =
     (let (c, v, err) = GetSubscriptions (containers listAll) m (fst w) in ((v, err), (c, snd w)))"
  "api_ListDiagnosticSettings (azure_provider listAll st sql) m ids w =
     (let (c, v, err) = ListDiagnosticSettingsAssetTypes st m ids (snd w) in ((v, err), (fst w, c)))"
  by (simp_all add: azure_provider_def azure_Init_def case_prod_beta)

text \<open>
  What the fetchers of a cycle rely on: a condition on the caches that asking keeps, and one on the
  subscriptions that are answered. \<open>keys\<close> orders their ids.
\<close>

locale cycle_provider =
  fixes p :: "'w azure_api" and m :: metadata and keys :: "(string \<times> subscription) list \<Rightarrow> string list"
    and good :: "'w \<Rightarrow> bool" and usable :: "(string \<times> subscription) list \<Rightarrow> bool"
  assumes subscriptions: "good w \<Longrightarrow> good (snd (api_GetSubscriptions p m w)) \<and>
      usable (fst (fst (api_GetSubscriptions p m w)))"
    and settings: "good w \<Longrightarrow> usable s \<Longrightarrow> good (snd (api_ListDiagnosticSettings p m (keys s) w))"
begin

lemma storage_keeps: "good w \<Longrightarrow> good (snd (storageAccount_Enrich keys as_any p m assets w))"
  using subscriptions [of w] settings
  by (auto simp: storageAccount_Enrich_def addUsedForActivityLogsFlag_def Let_def case_prod_beta split: prod.splits option.splits)

lemma enrich_all_keeps_good: "good w \<Longrightarrow> good (snd (enrich_all (initEnrichers keys as_any d p) m assets errAgg w))"
  using storage_keeps [of w as_any assets]
  by (simp add: initEnrichers_def vm_Enrich_def sqlServer_Enrich_def case_prod_beta split: prod.splits option.splits)

lemma assets_keeps: "good w \<Longrightarrow> good (snd (AzureAssetsFetcher_Fetch p (initEnrichers keys as_any d p) types c ctxErr m w))"
  using subscriptions [of w] by (simp add: AzureAssetsFetcher_Fetch_def Let_def case_prod_beta enrich_all_keeps_good)

lemma batches_keeps: "good w \<Longrightarrow> good (snd (AzureBatchAssetFetcher_Fetch p ord types c ctxErr m w))"
  using subscriptions [of w]
  by (auto simp: AzureBatchAssetFetcher_Fetch_def Let_def case_prod_beta split: prod.splits option.splits)

lemma insights_keeps: "good w \<Longrightarrow> good (snd (AzureInsightsBatchAssetFetcher_Fetch p keys ord c ctxErr m w))"
  using subscriptions [of w] settings
  by (auto simp: AzureInsightsBatchAssetFetcher_Fetch_def Let_def case_prod_beta split: prod.splits option.splits)

end

interpretation keyed: cycle_provider "azure_provider listAll st sql" m keys caches_keyed subscriptions_keyed
  for listAll st sql m keys
proof unfold_locales
  fix w
  assume "caches_keyed w"
  then show "caches_keyed (snd (api_GetSubscriptions (azure_provider listAll st sql) m w)) \<and>
      subscriptions_keyed (fst (fst (api_GetSubscriptions (azure_provider listAll st sql) m w)))"
    using GetValue_keeps [of subscriptions_keyed "fst w" "scan (containers listAll)" m] scan_keyed [of "containers listAll"]
    by (simp add: azure_provider_simps GetSubscriptions_def case_prod_beta caches_keyed_def)
next
  fix w s
  assume "caches_keyed w"
  then show "caches_keyed (snd (api_ListDiagnosticSettings (azure_provider listAll st sql) m (keys s) w))"
    by (simp add: azure_provider_simps case_prod_beta caches_keyed_def)
qed


text \<open>Within one cycle a cache is as it was made or has the value of this cycle; the answer is the same.\<close>

definition in_cycle :: "metadata \<Rightarrow> 'a \<Rightarrow> 'a cache \<Rightarrow> bool" where
  "in_cycle m v c \<longleftrightarrow> Sequence (lastCycle c) < 0 \<or> c = \<lparr>lastCycle = m, cachedValue = v\<rparr>"

lemma GetValue_in_cycle: "in_cycle m v c \<Longrightarrow> GetValue c m (v, None) = (\<lparr>lastCycle = m, cachedValue = v\<rparr>, v, None)"
  by (cases c) (auto simp: in_cycle_def GetValue_def needsUpdate_def needsUpdateLocked_def renew_def Let_def)

definition caches_in_cycle :: "metadata \<Rightarrow> (string \<times> subscription) list \<Rightarrow> azure_asset list \<Rightarrow> azure_caches \<Rightarrow> bool" where
  "caches_in_cycle m subs settings w \<longleftrightarrow> in_cycle m subs (fst w) \<and> in_cycle m settings (snd w)"

lemma answers_in_cycle:
  assumes "scan (containers listAll) = (subs, None)" "getDiagnosticSettings st (keys subs) = Inr settings"
    and "caches_in_cycle m subs settings w"
  shows "\<exists>w'. api_GetSubscriptions (azure_provider listAll st sql) m w = ((subs, None), w') \<and> caches_in_cycle m subs settings w'"
    "\<exists>w'. api_ListDiagnosticSettings (azure_provider listAll st sql) m (keys subs) w = ((settings, None), w') \<and>
      caches_in_cycle m subs settings w'"
  using assms
  by (auto simp: azure_provider_simps GetSubscriptions_def ListDiagnosticSettingsAssetTypes_def caches_in_cycle_def
      GetValue_in_cycle) (auto simp: in_cycle_def)

lemma provider_in_cycle:
  assumes "scan (containers listAll) = (subs, None)" "getDiagnosticSettings st (keys subs) = Inr settings"
  shows "cycle_provider (azure_provider listAll st sql) m keys (caches_in_cycle m subs settings) (\<lambda>s. s = subs)"
proof
  fix w
  assume "caches_in_cycle m subs settings w"
  from answers_in_cycle(1) [where keys = keys and subs = subs and listAll = listAll, OF assms this, of sql]
  show "caches_in_cycle m subs settings (snd (api_GetSubscriptions (azure_provider listAll st sql) m w)) \<and>
      fst (fst (api_GetSubscriptions (azure_provider listAll st sql) m w)) = subs" by auto
next
  fix w s
  assume "caches_in_cycle m subs settings w" and s: "s = subs"
  from answers_in_cycle(2) [where keys = keys and subs = subs and listAll = listAll, OF assms this(1), of sql]
  show "caches_in_cycle m subs settings (snd (api_ListDiagnosticSettings (azure_provider listAll st sql) m (keys s) w))"
    unfolding s by auto
qed

section \<open>The batches\<close>

text \<open>For each subscription and each type of the table, the assets of both, in the order of the listing.\<close>

definition expected_batches :: "(string \<times> subscription) list \<Rightarrow> azure_asset list \<Rightarrow> azure_batch_resource list" where
  "expected_batches subs listed =
     concat (map (\<lambda>(k, sub). map (\<lambda>(t, pair).
        \<lparr>batch_pair = pair, batch_Subscription = sub,
         batch_Assets = filter (\<lambda>a. az_Type a = t \<and> az_SubscriptionId a = k) listed\<rparr>) AzureBatchAssets) subs)"

definition expected_insights :: "(string \<times> subscription) list \<Rightarrow> azure_asset list \<Rightarrow> azure_batch_resource list" where
  "expected_insights subs settings =
     map (\<lambda>(k, sub).
        \<lparr>batch_pair = newPair ''azure-diagnostic-settings'' ''monitoring'', batch_Subscription = sub,
         batch_Assets = filter (\<lambda>a. az_SubscriptionId a = k) settings\<rparr>) subs"

text \<open>The elements of a list that have one of some different keys are those of each key.\<close>

lemma mset_filter_keys:
  "distinct ks \<Longrightarrow> mset (concat (map (\<lambda>k. filter (\<lambda>x. f x = k \<and> P x) xs) ks)) = mset (filter (\<lambda>x. f x \<in> set ks \<and> P x) xs)"
proof (induction ks)
  case (Cons k ks)
  have "mset (filter (\<lambda>x. f x = k \<and> P x) xs) + mset (filter (\<lambda>x. f x \<in> set ks \<and> P x) xs) =
      mset (filter (\<lambda>x. f x \<in> set (k # ks) \<and> P x) xs)"
    using Cons.prems by (induction xs) auto
  with Cons show ?case by simp
qed simp

lemma mset_concat_map:
  assumes "mset xs = mset ys"
  shows "mset (concat (map f xs)) = mset (concat (map f ys))"
proof -
  have "mset (concat (map f zs)) = \<Sum>\<^sub># (image_mset (mset \<circ> f) (mset zs))" for zs
    by (induction zs) auto
  then show ?thesis using assms by simp
qed

lemma expected_batches_assets:
  assumes "subscriptions_keyed subs"
  shows "mset (concat (map batch_Assets (expected_batches subs listed))) =
    mset (filter (\<lambda>a. az_Type a \<in> fst ` set AzureBatchAssets \<and> az_SubscriptionId a \<in> fst ` set subs) listed)"
proof -
  have types: "distinct (map fst AzureBatchAssets)" by (simp add: AzureBatchAssets_def)
  have per_sub: "mset (concat (map (\<lambda>(t, pair). filter (\<lambda>a. az_Type a = t \<and> az_SubscriptionId a = k) listed) AzureBatchAssets)) =
      mset (filter (\<lambda>a. az_SubscriptionId a = k \<and> az_Type a \<in> fst ` set AzureBatchAssets) listed)" for k
    using mset_filter_keys [OF types, of az_Type "\<lambda>a. az_SubscriptionId a = k" listed]
    by (simp add: comp_def case_prod_beta conj_commute cong: map_cong)
  have "mset (concat (map batch_Assets (expected_batches subs listed))) =
      mset (concat (map (\<lambda>k. filter (\<lambda>a. az_SubscriptionId a = k \<and> az_Type a \<in> fst ` set AzureBatchAssets) listed) (map fst subs)))"
    unfolding expected_batches_def
  proof (induction subs)
    case (Cons e subs)
    then show ?case using per_sub [of "fst e"] by (simp add: case_prod_unfold comp_def)
  qed simp
  also have "\<dots> = mset (filter (\<lambda>a. az_SubscriptionId a \<in> set (map fst subs) \<and> az_Type a \<in> fst ` set AzureBatchAssets) listed)"
    using assms by (intro mset_filter_keys) (simp add: subscriptions_keyed_def)
  finally show ?thesis by (simp add: conj_commute)
qed

lemma batches_of_expected:
  assumes "mset (type_order ord sub AzureBatchAssets) = mset AzureBatchAssets" "ShortID sub = k"
  shows "mset (map fst (batches_of ord (group_by az_SubscriptionId listed) m sub)) = mset (expected_batches [(k, sub)] listed)"
proof -
  have "map fst (batches_of ord (group_by az_SubscriptionId listed) m sub) =
      map (\<lambda>(t, pair). \<lparr>batch_pair = pair, batch_Subscription = sub,
         batch_Assets = filter (\<lambda>a. az_Type a = t \<and> az_SubscriptionId a = k) listed\<rparr>) (type_order ord sub AzureBatchAssets)"
    using assms(2) by (simp add: batches_of_def Let_def comp_def case_prod_beta conj_commute)
  then show ?thesis using assms(1) by (simp add: expected_batches_def)
qed

lemma AzureBatchAssetFetcher_batches:
  assumes "api_GetSubscriptions p m w = ((subs, None), w')" "subscriptions_keyed subs"
    and "mset (subscription_order ord subs) = mset subs" "\<And>sub. mset (type_order ord sub AzureBatchAssets) = mset AzureBatchAssets"
  shows "\<exists>sends err. AzureBatchAssetFetcher_Fetch p ord types c ctxErr m w = ((within c sends, err), w') \<and>
    (\<forall>s\<in>set sends. snd s = m) \<and>
    mset (map fst sends) = mset (expected_batches subs (concat (oks (map (\<lambda>g. api_ListAllAssetTypesByName p g types) AzureBatchAssetGroups))))"
proof -
  let ?listed = "concat (oks (map (\<lambda>g. api_ListAllAssetTypesByName p g types) AzureBatchAssetGroups))"
  obtain e where groups: "list_groups p types AzureBatchAssetGroups [] None = (?listed, e)"
    using list_groups_eq(1) [of p types AzureBatchAssetGroups "[]" None] by (metis append_Nil)
  let ?sends = "concat (map (batches_of ord (group_by az_SubscriptionId ?listed) m) (map snd (subscription_order ord subs)))"
  have "AzureBatchAssetFetcher_Fetch p ord types c ctxErr m w = (send_within c ctxErr e ?sends, w')"
    unfolding AzureBatchAssetFetcher_Fetch_def groups by (simp add: assms(1) Let_def)
  then have "AzureBatchAssetFetcher_Fetch p ord types c ctxErr m w =
      ((within c ?sends, snd (send_within c ctxErr e ?sends)), w')"
    by (metis prod.collapse send_within_eq)
  moreover have "\<forall>s\<in>set ?sends. snd s = m" by (auto simp: batches_of_def Let_def)
  moreover have "mset (map fst (concat (map (batches_of ord (group_by az_SubscriptionId listed) m) (map snd ss)))) =
      mset (expected_batches ss listed)" if "\<forall>(k, sub)\<in>set ss. ShortID sub = k" for ss listed
    using that
  proof (induction ss)
    case (Cons e ss)
    then show ?case
      using batches_of_expected [where k = "fst e" and sub = "snd e", OF assms(4)]
      by (auto simp: expected_batches_def case_prod_beta)
  qed (simp add: expected_batches_def)
  moreover have "\<forall>(k, sub)\<in>set (subscription_order ord subs). ShortID sub = k"
    using assms(2) mset_eq_setD [OF assms(3)] by (simp add: subscriptions_keyed_def)
  moreover have "mset (expected_batches (subscription_order ord subs) listed) = mset (expected_batches subs listed)" for listed
    unfolding expected_batches_def by (rule mset_concat_map [OF assms(3)])
  ultimately show ?thesis by metis
qed


lemma AzureInsightsBatchAssetFetcher_batches:
  assumes "api_GetSubscriptions p m w = ((subs, None), w1)"
    and "api_ListDiagnosticSettings p m (keys subs) w1 = ((settings, None), w')"
    and "mset (subscription_order ord subs) = mset subs"
  shows "\<exists>sends err. AzureInsightsBatchAssetFetcher_Fetch p keys ord c ctxErr m w = ((within c sends, err), w') \<and>
    (\<forall>s\<in>set sends. snd s = m) \<and> mset (map fst sends) = mset (expected_insights subs settings)"
proof -
  let ?sends = "map (\<lambda>(subId, sub). (\<lparr>batch_pair = newPair ''azure-diagnostic-settings'' ''monitoring'',
      batch_Subscription = sub, batch_Assets = group_at (group_by az_SubscriptionId settings) subId\<rparr>, m))
      (subscription_order ord subs)"
  have "\<exists>err. AzureInsightsBatchAssetFetcher_Fetch p keys ord c ctxErr m w = ((within c ?sends, err), w')"
    using send_all_within [of c ?sends]
    by (auto simp: AzureInsightsBatchAssetFetcher_Fetch_def assms(1,2) Let_def split: prod.splits option.splits)
  moreover have "mset (map fst ?sends) = mset (expected_insights subs settings)"
    using assms(3) by (simp add: expected_insights_def case_prod_unfold comp_def)
  moreover have "\<forall>s\<in>set ?sends. snd s = m" by auto
  ultimately show ?thesis by blast
qed

section \<open>The registry\<close>

definition azure_registry :: "azure_env \<Rightarrow> 'c azure_api \<Rightarrow> 'c fetch_world registry" where
  "azure_registry env p = NewRegistry [WithFetchersMap (projr (NewCisAzureFactory (azure_fetchers env p)))]"

text \<open>\<open>Azure.initialize\<close> with the clients of the SDK for a configuration; the caches start empty.\<close>

definition azure_initialize ::
  "(azure_config \<Rightarrow> 'az result) \<Rightarrow> ('az \<Rightarrow> (string \<Rightarrow> string list \<Rightarrow> azure_asset list result) result) \<Rightarrow>
     ('az \<Rightarrow> storage_client result) \<Rightarrow> ('az \<Rightarrow> sql_client) \<Rightarrow> azure_env \<Rightarrow> strategy \<Rightarrow> ('cred, 'proc) config \<Rightarrow>
     azure_caches fetch_world initialized result" where
  "azure_initialize getAzureClientConfig factory monitor sql env =
     Azure_initialize getAzureClientConfig (\<lambda>az. azure_Init (factory az) (monitor az) (sql az))
       (\<lambda>(p, w). azure_fetchers env p)"

definition Azure_NewBenchmark ::
  "(string \<Rightarrow> 'opa result) \<Rightarrow> (cloudbeat_version_info \<Rightarrow> (string \<times> any) list result) \<Rightarrow> version \<Rightarrow>
     (azure_config \<Rightarrow> 'az result) \<Rightarrow> ('az \<Rightarrow> (string \<Rightarrow> string list \<Rightarrow> azure_asset list result) result) \<Rightarrow>
     ('az \<Rightarrow> storage_client result) \<Rightarrow> ('az \<Rightarrow> sql_client) \<Rightarrow> azure_env \<Rightarrow> strategy \<Rightarrow> ('cred, 'proc) config \<Rightarrow>
     (azure_caches fetch_world, 'opa) bench result" where
  "Azure_NewBenchmark sdkNew dec ver getCfg factory monitor sql env strat cfg =
     NewBenchmark_cloud sdkNew dec ver cfg (azure_initialize getCfg factory monitor sql env strat cfg)"

lemma azure_initialize_ok:
  assumes "azure_initialize getCfg factory monitor sql env strat cfg = Inr (rg, bdp, idp)"
  obtains az listAll st where "getCfg (Azure (CloudConfig cfg)) = Inr az" "factory az = Inr listAll" "monitor az = Inr st"
    "rg = azure_registry env (azure_provider listAll st (sql az))"
    "bdp = cloud_provider [WithAccount \<lparr>Provider = ''azure'', Account = [], AccountAlias = [],
        OrganizationId = [], OrganizationName = []\<rparr>]" "idp = None"
proof -
  from assms obtain az where az: "getCfg (Azure (CloudConfig cfg)) = Inr az"
    by (auto simp: azure_initialize_def Azure_initialize_def split: option.splits sum.splits)
  obtain listAll st where "factory az = Inr listAll" "monitor az = Inr st"
    using assms az
    by (auto simp: azure_initialize_def Azure_initialize_def azure_Init_def split: option.splits sum.splits)
  with az assms show ?thesis
    by (intro that) (auto simp: azure_initialize_def Azure_initialize_def azure_Init_provider NewCisAzureFactory_def
        azure_registry_def split: option.splits)
qed

lemma azure_registry_reg:
  "reg (azure_registry env p) =
     [(''azure_cloud_assets_fetcher'', \<lparr>Fetcher = mk_AzureAssetsFetcher (azure_fetchers env p), Condition = []\<rparr>),
      (''azure_cloud_batch_asset_fetcher'', \<lparr>Fetcher = mk_AzureBatchAssetFetcher (azure_fetchers env p), Condition = []\<rparr>),
      (''azure_cloud_insights_batch_asset_fetcher'',
        \<lparr>Fetcher = mk_AzureInsightsBatchAssetFetcher (azure_fetchers env p), Condition = []\<rparr>)]"
  "updater (azure_registry env p) = None"
  by (simp_all add: azure_registry_def NewRegistry_def WithFetchersMap_def NewCisAzureFactory_def)

section \<open>What the fetchers send\<close>

text \<open>Azure answers the types that it is asked for, and these are the types of the table.\<close>

definition answers_asked :: "azure_env \<Rightarrow> (string \<Rightarrow> string list \<Rightarrow> azure_asset list result) \<Rightarrow> bool" where
  "answers_asked env listAll \<longleftrightarrow>
     set (env_types env) \<subseteq> fst ` set AzureAssetTypeToTypePair \<and>
     (\<forall>g assets. listAll g (env_types env) = Inr assets \<longrightarrow> (\<forall>a\<in>set assets. az_Type a \<in> set (env_types env)))"

text \<open>A resource of a cycle: its metadata can be read, with declared types, and it adds no fields of its own.\<close>

definition azure_fits :: "bool \<Rightarrow> int \<Rightarrow> resource_info \<Rightarrow> bool" where
  "azure_fits asked now r \<longleftrightarrow>
     CycleMetadata r = \<lparr>Sequence = now\<rparr> \<and> GetElasticCommonData r = Inr [] \<and> is_ok (GetMetadata r) \<and>
     (asked \<longrightarrow> typed_metadata (GetMetadata r))"

lemma batch_fits:
  assumes "declared_type (tp_Type (batch_pair (fst s))) \<and> declared_type (tp_SubType (batch_pair (fst s)))" "snd s = m"
  shows "azure_fits asked (Sequence m) (send_resource (batch_as_resource d) s)"
  using assms by (simp add: azure_fits_def batch_as_resource_def AzureBatch_GetMetadata_def azure_GetElasticCommonData_def Let_def
      typed_metadata_def azure_metadata_def cloud_account_metadata.extend_def resource_metadata.fields_def GetCloudAccountMetadata_def)

lemma batch_pairs_declared:
  "list_all (\<lambda>(t, pr). declared_type (tp_Type pr) \<and> declared_type (tp_SubType pr)) AzureBatchAssets"
  "declared_type ''azure-diagnostic-settings''" "declared_type ''monitoring''"
  by code_simp+


lemma in_within: "s \<in> set (within c xs) \<Longrightarrow> s \<in> set xs"
  by (auto simp: within_def split: option.splits dest: in_set_takeD)

lemma batch_sends:
  assumes "s \<in> set (fst (fst (AzureBatchAssetFetcher_Fetch p ord types c ctxErr m w)))"
  shows "snd s = m \<and> ((\<forall>sub ts. set (type_order ord sub ts) = set ts) \<longrightarrow> (\<exists>t. (t, batch_pair (fst s)) \<in> set AzureBatchAssets))"
proof -
  obtain subs e w1 where subs: "api_GetSubscriptions p m w = ((subs, e), w1)" by (metis prod.collapse)
  obtain assets errAgg where l: "list_groups p types AzureBatchAssetGroups [] None = (assets, errAgg)" by fastforce
  have "s \<in> set (within c (concat (map (batches_of ord (group_by az_SubscriptionId assets) m) (map snd (subscription_order ord subs)))))"
    using assms unfolding AzureBatchAssetFetcher_Fetch_def subs l by (cases e) (simp_all add: Let_def send_within_eq)
  from in_within [OF this] obtain sub where "s \<in> set (batches_of ord (group_by az_SubscriptionId assets) m sub)" by auto
  then obtain t where "snd s = m" "(t, batch_pair (fst s)) \<in> set (type_order ord sub AzureBatchAssets)"
    by (auto simp: batches_of_def Let_def)
  then show ?thesis by metis
qed

lemma insights_sends:
  assumes "s \<in> set (fst (fst (AzureInsightsBatchAssetFetcher_Fetch p keys ord c ctxErr m w)))"
  shows "snd s = m \<and> batch_pair (fst s) = newPair ''azure-diagnostic-settings'' ''monitoring''"
proof -
  obtain subs e w1 where subs: "api_GetSubscriptions p m w = ((subs, e), w1)" by (metis prod.collapse)
  obtain settings e2 w2 where settings: "api_ListDiagnosticSettings p m (keys subs) w1 = ((settings, e2), w2)"
    by (metis prod.collapse)
  have "\<exists>ys. s \<in> set (within c (map (\<lambda>(subId, sub). (\<lparr>batch_pair = newPair ''azure-diagnostic-settings'' ''monitoring'',
      batch_Subscription = sub, batch_Assets = group_at (group_by az_SubscriptionId settings) subId\<rparr>, m)) ys))"
    using assms unfolding send_all_within [symmetric]
    by (cases e; cases e2; intro exI [of _ "subscription_order ord subs"])
      (auto simp: AzureInsightsBatchAssetFetcher_Fetch_def subs settings Let_def simp del: group_at_group_by
        split: prod.splits option.splits)
  then show ?thesis by (auto dest!: in_within)
qed

lemma asset_fits:
  assumes "asked \<Longrightarrow> az_Type a \<in> fst ` set AzureAssetTypeToTypePair"
  shows "azure_fits asked (Sequence m) (send_resource (azure_as_resource d) (resourceFromAsset a m subs))"
  using resourceFromAsset_typed [of a m subs] assms
  by (auto simp: azure_fits_def azure_as_resource_def AzureResource_GetMetadata_def azure_GetElasticCommonData_def
      resourceFromAsset_def Let_def)

lemma assets_fit:
  assumes "asked \<Longrightarrow> answers_asked env (api_ListAllAssetTypesByName p)"
  shows "list_all (\<lambda>s. azure_fits asked (Sequence m) (send_resource (azure_as_resource d) s))
    (fst (fst (AzureAssetsFetcher_Fetch p (initEnrichers keys as_any dec p) (env_types env) c ctxErr m w)))"
proof -
  obtain enriched err where run: "AzureAssetsFetcher_Fetch p (initEnrichers keys as_any dec p) (env_types env) c ctxErr m w =
      ((within c (map (\<lambda>a. resourceFromAsset a m (fst (fst (api_GetSubscriptions p m w)))) enriched), err),
       snd (AzureAssetsFetcher_Fetch p (initEnrichers keys as_any dec p) (env_types env) c ctxErr m w))"
    and "map without_extension enriched =
      map without_extension (concat (oks (map (\<lambda>g. api_ListAllAssetTypesByName p g (env_types env)) AzureAssetGroups)))"
    by (rule AzureAssetsFetcher_eq)
  from arg_cong [OF this(2), where f = "map az_Type"]
  have "map az_Type enriched =
      map az_Type (concat (oks (map (\<lambda>g. api_ListAllAssetTypesByName p g (env_types env)) AzureAssetGroups)))"
    by (simp add: comp_def)
  from arg_cong [OF this, where f = set]
  have "az_Type ` set enriched = az_Type ` set (concat (oks (map (\<lambda>g. api_ListAllAssetTypesByName p g (env_types env)) AzureAssetGroups)))"
    unfolding set_map .
  moreover have "az_Type ` set (concat (oks (map (\<lambda>g. api_ListAllAssetTypesByName p g (env_types env)) AzureAssetGroups)))
      \<subseteq> fst ` set AzureAssetTypeToTypePair" if "asked"
    using assms [OF that] unfolding answers_asked_def by (auto dest!: sym [of "Inr _"])
  ultimately have "az_Type a \<in> fst ` set AzureAssetTypeToTypePair" if "asked" "a \<in> set enriched" for a
    using that by blast
  then have "list_all (\<lambda>s. azure_fits asked (Sequence m) (send_resource (azure_as_resource d) s))
      (map (\<lambda>a. resourceFromAsset a m (fst (fst (api_GetSubscriptions p m w)))) enriched)"
    by (simp add: list_all_iff asset_fits)
  then have "list_all (\<lambda>s. azure_fits asked (Sequence m) (send_resource (azure_as_resource d) s))
      (within c (map (\<lambda>a. resourceFromAsset a m (fst (fst (api_GetSubscriptions p m w)))) enriched))"
    unfolding list_all_iff by (blast dest: in_within)
  then show ?thesis by (subst run) simp
qed


text \<open>The orders and the answers under which the types are declared.\<close>

definition usual_azure :: "azure_env \<Rightarrow> (string \<Rightarrow> string list \<Rightarrow> azure_asset list result) \<Rightarrow> bool" where
  "usual_azure env listAll \<longleftrightarrow> ranges_over env \<and> answers_asked env listAll"

lemma batches_fit:
  assumes "asked \<Longrightarrow> ranges_over env"
  shows "list_all (\<lambda>s. azure_fits asked (Sequence m) (send_resource (batch_as_resource d) s))
    (fst (fst (AzureBatchAssetFetcher_Fetch p (env_order env) types c ctxErr m w)))"
  unfolding list_all_iff
proof
  fix s
  assume "s \<in> set (fst (fst (AzureBatchAssetFetcher_Fetch p (env_order env) types c ctxErr m w)))"
  from batch_sends [OF this] have s: "snd s = m"
      "(\<forall>sub ts. set (type_order (env_order env) sub ts) = set ts) \<Longrightarrow> \<exists>t. (t, batch_pair (fst s)) \<in> set AzureBatchAssets"
    by blast+
  show "azure_fits asked (Sequence m) (send_resource (batch_as_resource d) s)"
  proof (cases asked)
    case True
    with assms have "set (type_order (env_order env) sub ts) = set ts" for sub ts
      unfolding ranges_over_def by (metis set_mset_mset)
    with s(2) batch_pairs_declared(1) show ?thesis by (intro batch_fits s(1)) (auto simp: list_all_iff)
  next
    case False
    then show ?thesis
      by (simp add: azure_fits_def batch_as_resource_def AzureBatch_GetMetadata_def azure_GetElasticCommonData_def Let_def s(1))
  qed
qed

lemma insights_fit:
  "list_all (\<lambda>s. azure_fits asked (Sequence m) (send_resource (batch_as_resource d) s))
     (fst (fst (AzureInsightsBatchAssetFetcher_Fetch p keys ord c ctxErr m w)))"
  unfolding list_all_iff
  by (auto intro!: batch_fits dest!: insights_sends simp: newPair_def batch_pairs_declared)

interpretation azure_regs: sending_registry "azure_registry env (azure_provider listAll st sql)"
  "azure_fits (usual_azure env listAll)" caches_keyed for env listAll st sql
proof unfold_locales
  fix k rf m and w :: "azure_caches fetch_world"
  assume rf: "(k, rf) \<in> set (reg (azure_registry env (azure_provider listAll st sql)))"
    and w: "caches_keyed (provider_state w)"
  have "usual_azure env listAll \<Longrightarrow> answers_asked env (api_ListAllAssetTypesByName (azure_provider listAll st sql))"
    "usual_azure env listAll \<Longrightarrow> ranges_over env"
    by (simp_all add: usual_azure_def azure_provider_simps)
  note fit = assets_fit [OF this(1)] batches_fit [OF this(2)] insights_fit
  from rf show "\<exists>rs. channel (snd (Fetch (Fetcher rf) m w)) = channel w @ rs \<and>
      list_all (azure_fits (usual_azure env listAll) (Sequence m)) rs \<and> caches_keyed (provider_state (snd (Fetch (Fetcher rf) m w)))"
    unfolding azure_registry_reg
    by (auto simp del: Fetch_fetcher_on simp: azure_fetchers_def
        intro!: fetcher_on_sends fit w keyed.assets_keeps keyed.batches_keeps keyed.insights_keeps)
qed

interpretation azure: sending_fetchers "\<lambda>r. r = azure_registry env (azure_provider listAll st sql)"
  "azure_fits (usual_azure env listAll)" caches_keyed for env listAll st sql
  by (rule fixed_registry_sends [OF azure_registry_reg(2) azure_regs.sending_registry_axioms])


section \<open>The channel after a cycle\<close>

definition new_azure_world :: "azure_caches fetch_world" where
  "new_azure_world = \<lparr>provider_state = (NewCache [], NewCache []), channel = []\<rparr>"

lemma new_azure_world_caches:
  "caches_keyed (provider_state new_azure_world)" "caches_in_cycle m subs settings (provider_state new_azure_world)"
  by (simp_all add: new_azure_world_def caches_keyed_def subscriptions_keyed_def caches_in_cycle_def in_cycle_def NewCache_def)

text \<open>
  What one cycle puts on the channel: the assets of the two groups with extensions, a batch for each
  subscription and type, and the diagnostic settings of each subscription.
\<close>

definition cycle_resources ::
  "azure_env \<Rightarrow> (string \<Rightarrow> string list \<Rightarrow> azure_asset list result) \<Rightarrow> (string \<times> subscription) list \<Rightarrow> azure_asset list \<Rightarrow>
     metadata \<Rightarrow> azure_asset list \<Rightarrow> azure_batch_resource list \<Rightarrow> azure_batch_resource list \<Rightarrow> bool" where
  "cycle_resources env listAll subs settings m enriched batches insights \<longleftrightarrow>
     map without_extension enriched = map without_extension (concat (oks (map (\<lambda>g. listAll g (env_types env)) AzureAssetGroups))) \<and>
     mset batches = mset (expected_batches subs (concat (oks (map (\<lambda>g. listAll g (env_batch_types env)) AzureBatchAssetGroups)))) \<and>
     mset insights = mset (expected_insights subs settings)"

definition on_channel ::
  "azure_env \<Rightarrow> (string \<times> subscription) list \<Rightarrow> metadata \<Rightarrow> azure_asset list \<Rightarrow> azure_batch_resource list \<Rightarrow>
     azure_batch_resource list \<Rightarrow> resource_info list" where
  "on_channel env subs m enriched batches insights =
     map (send_resource (azure_as_resource (env_data env)))
       (within (env_budget env m ''assets'') (map (\<lambda>a. resourceFromAsset a m subs) enriched)) @
     map (send_resource (batch_as_resource (env_data env)))
       (within (env_budget env m ''batches'') (map (\<lambda>b. (b, m)) batches)) @
     map (send_resource (batch_as_resource (env_data env)))
       (within (env_budget env m ''insights'') (map (\<lambda>b. (b, m)) insights))"

lemma pairs_with: "\<forall>s\<in>set xs. snd s = m \<Longrightarrow> xs = map (\<lambda>b. (b, m)) (map fst xs)"
  by (induction xs) auto

lemma azure_cycle_channel:
  assumes ranges: "ranges_over env"
    and subs: "scan (containers listAll) = (subs, None)" "getDiagnosticSettings st (env_keys env subs) = Inr settings"
    and w: "caches_in_cycle \<lparr>Sequence = now\<rparr> subs settings (provider_state w)"
    and run: "fetchIteration registry_ops secs (azure_registry env (azure_provider listAll st sql)) now evs w = (r', errs, w')"
  shows "\<exists>enriched batches insights. channel w' = channel w @ on_channel env subs \<lparr>Sequence = now\<rparr> enriched batches insights \<and>
    cycle_resources env listAll subs settings \<lparr>Sequence = now\<rparr> enriched batches insights"
proof -
  let ?p = "azure_provider listAll st sql" and ?m = "\<lparr>Sequence = now\<rparr>" and ?keys = "env_keys env"
  let ?init = "initEnrichers ?keys (env_as_any env) (env_decoders env) ?p"
  let ?good = "caches_in_cycle ?m subs settings"
  note in_cycle = provider_in_cycle [where keys = ?keys and subs = subs and listAll = listAll and sql = sql and m = ?m, OF subs]
  define A where "A c = AzureAssetsFetcher_Fetch ?p ?init (env_types env) (env_budget env ?m ''assets'') (env_ctxErr env) ?m c" for c
  define B where "B c = AzureBatchAssetFetcher_Fetch ?p (env_order env) (env_batch_types env) (env_budget env ?m ''batches'')
      (env_ctxErr env) ?m c" for c
  define I where "I c = AzureInsightsBatchAssetFetcher_Fetch ?p ?keys (env_order env) (env_budget env ?m ''insights'')
      (env_ctxErr env) ?m c" for c
  let ?c0 = "provider_state w"
  let ?c1 = "snd (A ?c0)"
  let ?c2 = "snd (B ?c1)"
  have c1: "?good ?c1" unfolding A_def by (rule cycle_provider.assets_keeps [OF in_cycle w])
  have c2: "?good ?c2" unfolding B_def by (rule cycle_provider.batches_keeps [OF in_cycle c1])
  have "w' = fold (fetch_turn ?m) (reg (azure_registry env ?p)) w"
    by (rule fetchIteration_channel [OF _ _ run]) (auto simp: azure_registry_reg Keys_def)
  then have channel: "channel w' = channel w @
      map (send_resource (azure_as_resource (env_data env))) (fst (fst (A ?c0))) @
      map (send_resource (batch_as_resource (env_data env))) (fst (fst (B ?c1))) @
      map (send_resource (batch_as_resource (env_data env))) (fst (fst (I ?c2)))"
    by (simp add: fetch_turn_def azure_registry_reg azure_fetchers_def A_def B_def I_def)
  from answers_in_cycle(1) [where keys = ?keys and subs = subs and listAll = listAll, OF subs w, of sql]
  have s0: "fst (fst (api_GetSubscriptions ?p ?m ?c0)) = subs" by auto
  obtain enriched err where assets: "A ?c0 = ((within (env_budget env ?m ''assets'') (map (\<lambda>a. resourceFromAsset a ?m subs) enriched), err), ?c1)"
      "map without_extension enriched = map without_extension (concat (oks (map (\<lambda>g. listAll g (env_types env)) AzureAssetGroups)))"
    by (rule AzureAssetsFetcher_eq [of ?p ?keys "env_as_any env" "env_decoders env" "env_types env" "env_budget env ?m ''assets''"
        "env_ctxErr env" ?m ?c0, folded A_def, unfolded s0 azure_provider_simps(1)]) (rule that)
  have keyed: "subscriptions_keyed subs" using scan_keyed [of "containers listAll"] subs(1) by simp
  have orders: "mset (subscription_order (env_order env) subs) = mset subs"
    "mset (type_order (env_order env) sub AzureBatchAssets) = mset AzureBatchAssets" for sub
    using ranges by (simp_all add: ranges_over_def)
  obtain w1 where w1: "api_GetSubscriptions ?p ?m ?c1 = ((subs, None), w1)"
    using answers_in_cycle(1) [where keys = ?keys and subs = subs and listAll = listAll, OF subs c1] by blast
  obtain batches where batches: "fst (fst (B ?c1)) = within (env_budget env ?m ''batches'') batches" "\<forall>s\<in>set batches. snd s = ?m"
      "mset (map fst batches) = mset (expected_batches subs (concat (oks (map (\<lambda>g. listAll g (env_batch_types env)) AzureBatchAssetGroups))))"
    using AzureBatchAssetFetcher_batches [OF w1 keyed orders, of "env_batch_types env" "env_budget env ?m ''batches''" "env_ctxErr env"]
    unfolding B_def azure_provider_simps by auto
  obtain w2 w3 where w2: "api_GetSubscriptions ?p ?m ?c2 = ((subs, None), w2)" "?good w2"
      "api_ListDiagnosticSettings ?p ?m (?keys subs) w2 = ((settings, None), w3)"
    using answers_in_cycle(1) [where keys = ?keys and subs = subs and listAll = listAll, OF subs c2]
      answers_in_cycle(2) [where keys = ?keys and subs = subs and listAll = listAll, OF subs] by blast
  obtain insights where insights: "fst (fst (I ?c2)) = within (env_budget env ?m ''insights'') insights" "\<forall>s\<in>set insights. snd s = ?m"
      "mset (map fst insights) = mset (expected_insights subs settings)"
    using AzureInsightsBatchAssetFetcher_batches [where keys = ?keys and subs = subs, OF w2(1,3) orders(1), of "env_budget env ?m ''insights''" "env_ctxErr env"]
    unfolding I_def by auto
  have "fst (fst (A ?c0)) = within (env_budget env ?m ''assets'') (map (\<lambda>a. resourceFromAsset a ?m subs) enriched)"
    using arg_cong [OF assets(1), where f = "\<lambda>x. fst (fst x)"] by simp
  with channel have "channel w' = channel w @ on_channel env subs ?m enriched (map fst batches) (map fst insights)"
    unfolding on_channel_def pairs_with [OF batches(2), symmetric] pairs_with [OF insights(2), symmetric] batches(1) insights(1)
    by simp
  moreover have "cycle_resources env listAll subs settings ?m enriched (map fst batches) (map fst insights)"
    unfolding cycle_resources_def using assets(2) batches(3) insights(3) by blast
  ultimately show ?thesis by blast
qed


section \<open>Properties\<close>


text \<open>
  The batches are a partition: when the subscriptions are known and the context is not done, the fetcher of
  batches sends exactly one batch for each subscription and each type of its table, holding the listed
  assets of both in the order of the listing; every listed asset of such a type in a known subscription is
  in exactly one batch, and no other asset is.
\<close>

lemma AzureBatchAssetFetcher_partition:
  assumes "caches_keyed w" "api_GetSubscriptions (azure_provider listAll st sql) m w = ((subs, None), w')"
    and "ranges_over env"
  shows "\<exists>sends err. AzureBatchAssetFetcher_Fetch (azure_provider listAll st sql) (env_order env) types None ctxErr m w =
      ((sends, err), w') \<and>
    (let listed = concat (oks (map (\<lambda>g. listAll g types) AzureBatchAssetGroups)); batches = map fst sends in
      mset batches = mset (expected_batches subs listed) \<and>
      mset (concat (map batch_Assets batches)) =
        mset (filter (\<lambda>a. az_Type a \<in> fst ` set AzureBatchAssets \<and> az_SubscriptionId a \<in> fst ` set subs) listed))"
proof -
  have keyed: "subscriptions_keyed subs" using keyed.subscriptions [OF assms(1), of listAll st sql m] assms(2) by simp
  have orders: "mset (subscription_order (env_order env) subs) = mset subs"
    "mset (type_order (env_order env) sub AzureBatchAssets) = mset AzureBatchAssets" for sub
    using assms(3) by (simp_all add: ranges_over_def)
  let ?listed = "concat (oks (map (\<lambda>g. listAll g types) AzureBatchAssetGroups))"
  obtain sends err where run: "AzureBatchAssetFetcher_Fetch (azure_provider listAll st sql) (env_order env) types None ctxErr m w =
      ((sends, err), w')" and batches: "mset (map fst sends) = mset (expected_batches subs ?listed)"
    using AzureBatchAssetFetcher_batches [OF assms(2) keyed orders, of types None ctxErr]
    unfolding within_simps azure_provider_simps(1) by blast
  show ?thesis
    unfolding Let_def expected_batches_assets [OF keyed, symmetric]
    by (intro exI conjI, rule run) (rule batches, rule mset_concat_map [OF batches])
qed


text \<open>A subscription with a disk and a component; the second group cannot be listed.\<close>

definition sample_listing :: "string \<Rightarrow> string list \<Rightarrow> azure_asset list result" where
  "sample_listing g types =
     (if g = ''authorizationresources'' then Inl (Errorf ''denied'')
      else Inr (filter (\<lambda>a. az_Type a \<in> set types)
        [(sample_azure_asset ''/subscriptions/s'' subscriptionType)
           \<lparr>az_SubscriptionId := ''s'', az_Properties := [(''managementGroupAncestorsChain'', VList [VMap []])]\<rparr>,
         (sample_azure_asset ''d'' ''microsoft.compute/disks'')\<lparr>az_SubscriptionId := ''s''\<rparr>,
         (sample_azure_asset ''c'' ''microsoft.insights/components'')\<lparr>az_SubscriptionId := ''s''\<rparr>]))"

definition sample_env :: azure_env where
  "sample_env =
     \<lparr>env_keys = map fst, env_as_any = (\<lambda>_. Inr []),
      env_decoders = \<lparr>decode_interfaces = (\<lambda>_. Inr []), decode_rules = (\<lambda>_. Inr []), decode_profile = (\<lambda>_. Inr [])\<rparr>,
      env_types = map fst AzureAssetTypeToTypePair, env_batch_types = map fst AzureBatchAssets,
      env_order = \<lparr>subscription_order = (\<lambda>s. s), type_order = (\<lambda>_ ts. ts)\<rparr>,
      env_data = (\<lambda>a. VOpaque (az_Id a)), env_budget = (\<lambda>_ _. None), env_ctxErr = Errorf ''done''\<rparr>"

definition sample_storage :: storage_client where
  "sample_storage = \<lparr>diagnosticSettingsPager = (\<lambda>_. []), blobServicesPager = (\<lambda>_. Inr (\<lambda>_ _. []))\<rparr>"

definition sample_sql :: sql_client where
  "sample_sql = \<lparr>encryptionProtectorsPager = (\<lambda>_. Inr (\<lambda>_ _. [])), blobAuditingPolicies = (\<lambda>_. Inl (Errorf ''denied'')),
     dataEncryptionsPager = (\<lambda>_. Inr (\<lambda>_ _ _. [])), databasesPager = (\<lambda>_. Inr (\<lambda>_ _. []))\<rparr>"

definition sample_subscription :: subscription where
  "sample_subscription = \<lparr>FullyQualifiedID = ''/subscriptions/s'', ShortID = ''s'', sub_DisplayName = [], ManagementGroup = no_group\<rparr>"

lemma sample_usual: "usual_azure sample_env sample_listing" "ranges_over sample_env"
  by (auto simp: usual_azure_def answers_asked_def ranges_over_def sample_env_def sample_listing_def)

lemma sample_scan: "scan (containers sample_listing) = ([(''s'', sample_subscription)], None)"
  by code_simp

lemma sample_settings: "getDiagnosticSettings sample_storage (env_keys sample_env [(''s'', sample_subscription)]) = Inr []"
  by code_simp

lemma sample_lengths:
  "length (concat (oks (map (\<lambda>g. sample_listing g (env_types sample_env)) AzureAssetGroups))) = 1"
  "length (expected_batches [(''s'', sample_subscription)]
     (concat (oks (map (\<lambda>g. sample_listing g (env_batch_types sample_env)) AzureBatchAssetGroups)))) = 3"
  "length (expected_insights [(''s'', sample_subscription)] []) = 1"
  by code_simp+

lemma sample_initialize:
  "azure_initialize (\<lambda>_. Inr ()) (\<lambda>_. Inr sample_listing) (\<lambda>_. Inr sample_storage) (\<lambda>_. sample_sql) sample_env
     (Azure_Strategy True True) cfg =
   Inr (azure_registry sample_env (azure_provider sample_listing sample_storage sample_sql),
     cloud_provider [WithAccount \<lparr>Provider = ''azure'', Account = [], AccountAlias = [],
        OrganizationId = [], OrganizationName = []\<rparr>], None)"
  by (simp add: azure_initialize_def Azure_initialize_def azure_Init_provider NewCisAzureFactory_def azure_registry_def)


lemma AzureBatchAssetFetcher_partition_witness:
  "\<exists>sends err w'. AzureBatchAssetFetcher_Fetch (azure_provider sample_listing sample_storage sample_sql) (env_order sample_env)
       (map fst AzureBatchAssets) None (Errorf ''done'') \<lparr>Sequence = 7\<rparr> (provider_state new_azure_world) = ((sends, err), w') \<and>
     length sends = 3 \<and> map az_Id (concat (map (batch_Assets \<circ> fst) sends)) = [''c'']"
proof -
  obtain w' where w': "api_GetSubscriptions (azure_provider sample_listing sample_storage sample_sql) \<lparr>Sequence = 7\<rparr>
      (provider_state new_azure_world) = (([(''s'', sample_subscription)], None), w')"
    using answers_in_cycle(1) [where keys = "env_keys sample_env" and subs = "[(''s'', sample_subscription)]" and listAll = sample_listing,
        OF sample_scan sample_settings new_azure_world_caches(2), of sample_sql] by blast
  let ?listed = "concat (oks (map (\<lambda>g. sample_listing g (map fst AzureBatchAssets)) AzureBatchAssetGroups))"
  obtain sends err where sends: "AzureBatchAssetFetcher_Fetch (azure_provider sample_listing sample_storage sample_sql) (env_order sample_env)
       (map fst AzureBatchAssets) None (Errorf ''done'') \<lparr>Sequence = 7\<rparr> (provider_state new_azure_world) = ((sends, err), w')"
    "mset (map fst sends) = mset (expected_batches [(''s'', sample_subscription)] ?listed)"
    "mset (concat (map batch_Assets (map fst sends))) = mset (filter (\<lambda>a. az_Type a \<in> fst ` set AzureBatchAssets \<and>
        az_SubscriptionId a \<in> fst ` set [(''s'', sample_subscription)]) ?listed)"
    using AzureBatchAssetFetcher_partition [OF new_azure_world_caches(1) w' sample_usual(2), of "map fst AzureBatchAssets" "Errorf ''done''"]
    unfolding Let_def by blast
  have "length (expected_batches [(''s'', sample_subscription)] ?listed) = 3" by code_simp
  then have "length sends = 3" using mset_eq_length [OF sends(2)] by simp
  moreover have "filter (\<lambda>a. az_Type a \<in> fst ` set AzureBatchAssets \<and>
        az_SubscriptionId a \<in> fst ` set [(''s'', sample_subscription)]) ?listed =
      [(sample_azure_asset ''c'' ''microsoft.insights/components'')\<lparr>az_SubscriptionId := ''s''\<rparr>]"
    by (simp add: sample_listing_def AzureBatchAssets_def AzureBatchAssetGroups_def sample_azure_asset_def subscriptionType_def)
  then have "concat (map (batch_Assets \<circ> fst) sends) =
      [(sample_azure_asset ''c'' ''microsoft.insights/components'')\<lparr>az_SubscriptionId := ''s''\<rparr>]"
    using sends(3) by (simp add: comp_def)
  ultimately show ?thesis using sends(1) by (intro exI conjI) (auto simp: sample_azure_asset_def)
qed

end
