(* ===== verification/AWS_Cycle.thy ===== *)
theory AWS_Cycle
  imports Channel_World AWS_Fetchers Benchmark_Model
begin

text \<open>
  The AWS benchmarks as a whole: the seven fetchers of \<open>preset.NewCisAwsFetchers\<close> on the providers of one account
  (\<open>resources/fetching/fetchers/aws\<close>), and on those of every account of an organization, where a
  goroutine wraps what an account's fetchers send (\<open>preset/aws_org_preset.go\<close>), with the registries of
  \<open>AWS.initialize\<close> and \<open>AWSOrg.initialize\<close> (\<open>flavors/benchmark\<close>), run by the manager.
\<close>

section \<open>The resources\<close>

text \<open>What \<open>GetData\<close> hands out; \<open>box\<close> is its boxing in an interface.\<close>

datatype aws_value =
    S3Value "bucket_description aws_resource"
  | KmsValue "kms_info aws_resource"
  | RdsValue "db_instance aws_resource"
  | NetworkValue "network_resource aws_resource"
  | IamValue "iam_resource aws_resource"
  | TrailValue "enriched_trail aws_resource"
  | ConfigsValue "recorder_config aws_resource list"
  | MonitoringValue monitoring_resource

definition S3_as_resource :: "(aws_value \<Rightarrow> any) \<Rightarrow> bucket_description aws_resource \<Rightarrow> resource" where
  "S3_as_resource box r =
     \<lparr>GetMetadata = S3Resource_GetMetadata r, GetData = box (S3Value r),
      GetElasticCommonData = S3Resource_GetElasticCommonData\<rparr>"

definition Kms_as_resource :: "(aws_value \<Rightarrow> any) \<Rightarrow> kms_info aws_resource \<Rightarrow> resource" where
  "Kms_as_resource box r =
     \<lparr>GetMetadata = KmsResource_GetMetadata r, GetData = box (KmsValue r),
      GetElasticCommonData = KmsResource_GetElasticCommonData Some r\<rparr>"

definition Rds_as_resource :: "(aws_value \<Rightarrow> any) \<Rightarrow> db_instance aws_resource \<Rightarrow> resource" where
  "Rds_as_resource box r =
     \<lparr>GetMetadata = RdsResource_GetMetadata r, GetData = box (RdsValue r),
      GetElasticCommonData = RdsResource_GetElasticCommonData\<rparr>"

definition Network_as_resource :: "(aws_value \<Rightarrow> any) \<Rightarrow> network_resource aws_resource \<Rightarrow> resource" where
  "Network_as_resource box r =
     \<lparr>GetMetadata = NetworkResource_GetMetadata r, GetData = box (NetworkValue r),
      GetElasticCommonData = NetworkResource_GetElasticCommonData\<rparr>"

definition IAM_as_resource :: "(aws_value \<Rightarrow> any) \<Rightarrow> identity \<Rightarrow> iam_resource aws_resource \<Rightarrow> resource" where
  "IAM_as_resource box ident r =
     \<lparr>GetMetadata = IAMResource_GetMetadata ident r, GetData = box (IamValue r),
      GetElasticCommonData = IAMResource_GetElasticCommonData\<rparr>"

definition logging_as_resource :: "(aws_value \<Rightarrow> any) \<Rightarrow> logging_resource \<Rightarrow> resource" where
  "logging_as_resource box r =
     \<lparr>GetMetadata = logging_GetMetadata r,
      GetData = box (case r of LoggingTrail t \<Rightarrow> TrailValue t | ConfigResource configs ident \<Rightarrow> ConfigsValue configs),
      GetElasticCommonData = logging_GetElasticCommonData r\<rparr>"

definition monitoring_as_resource :: "(aws_value \<Rightarrow> any) \<Rightarrow> monitoring_resource \<Rightarrow> resource" where
  "monitoring_as_resource box r =
     \<lparr>GetMetadata = monitoring_GetMetadata r, GetData = box (MonitoringValue r),
      GetElasticCommonData = monitoring_GetElasticCommonData r\<rparr>"

section \<open>The fetchers of an account\<close>

text \<open>
  The providers that the preset makes for the configuration of an account, most with its id; what they answer may
  change with the cycle and with the state. The last two are the order of a Go map and what the manager sees
  of a fetch that does not answer.
\<close>

record ('aws, 't, 'c) aws_services =
  svc_iam :: "'aws \<Rightarrow> metadata \<Rightarrow> 'c \<Rightarrow> ('t, 'c) iam_provider"
  svc_kms :: "'aws \<Rightarrow> metadata \<Rightarrow> 'c \<Rightarrow> 't kms_client clients"
  svc_logging :: "'aws \<Rightarrow> string \<Rightarrow> metadata \<Rightarrow> 'c \<Rightarrow> logging_provider"
  svc_config :: "'aws \<Rightarrow> string \<Rightarrow> metadata \<Rightarrow> 'c \<Rightarrow> config_client clients \<times> string"
  svc_monitoring :: "'aws \<Rightarrow> metadata \<Rightarrow> 'c \<Rightarrow> monitoring_provider"
  svc_hub :: "'aws \<Rightarrow> string \<Rightarrow> metadata \<Rightarrow> 'c \<Rightarrow> string option result clients \<times> string"
  svc_ec2 :: "'aws \<Rightarrow> string \<Rightarrow> metadata \<Rightarrow> 'c \<Rightarrow> 'c ec2_provider"
  svc_rds :: "'aws \<Rightarrow> string \<Rightarrow> metadata \<Rightarrow> 'c \<Rightarrow> 't rds_provider"
  svc_s3 :: "'aws \<Rightarrow> string \<Rightarrow> metadata \<Rightarrow> 'c \<Rightarrow> s3_provider"
  svc_box :: "aws_value \<Rightarrow> any"
  svc_ranged :: "(string \<times> string list) list \<Rightarrow> (string \<times> string list) list"
  svc_lost :: "string \<Rightarrow> run_outcome"

text \<open>The part of the state that the fetchers of an account use.\<close>

record ('s, 'c) part =
  part_get :: "'s \<Rightarrow> 'c"
  part_put :: "'c \<Rightarrow> 's \<Rightarrow> 's"

definition on_part :: "('s, 'c) part \<Rightarrow> (metadata \<Rightarrow> 'c \<Rightarrow> 'a \<times> 'c) \<Rightarrow> metadata \<Rightarrow> 's \<Rightarrow> 'a \<times> 's" where
  "on_part part fetch m s = (let (a, c) = fetch m (part_get part s) in (a, part_put part c s))"

text \<open>
  The constructors of the fetchers, on the provider as it answers in a cycle and a state. \<open>ch\<close> is what becomes of a resource on its
  way to the channel and \<open>lost\<close> what the manager sees of a fetch that does not answer. The fetchers of users, trails
  and alarms keep the pointer to the identity; \<open>identity\<close> is what they find behind it when they fetch.
\<close>

record ('s, 'c) fetch_site =
  site_part :: "('s, 'c) part"
  site_ch :: "resource_info \<Rightarrow> resource_info"
  site_box :: "aws_value \<Rightarrow> any"
  site_lost :: "string \<Rightarrow> run_outcome"

definition aws_fetcher ::
  "('s, 'c) fetch_site \<Rightarrow> string \<Rightarrow> ((aws_value \<Rightarrow> any) \<Rightarrow> 'r \<Rightarrow> resource) \<Rightarrow>
     (metadata \<Rightarrow> 'c \<Rightarrow> (('r \<times> metadata) list \<times> go_error option) option \<times> 'c) \<Rightarrow> 's fetch_world fetcher" where
  "aws_fetcher site k as_resource fetch =
     fetcher_via (site_lost site k) (site_ch site) (as_resource (site_box site)) (on_part (site_part site) fetch)"

definition NewIAMFetcher ::
  "(metadata \<Rightarrow> 'c \<Rightarrow> ('t, 'c) iam_provider) \<Rightarrow> ('s, 'c) fetch_site \<Rightarrow> identity \<Rightarrow> 's fetch_world fetcher" where
  "NewIAMFetcher provider site identity =
     aws_fetcher site ''aws-iam'' (\<lambda>box. IAM_as_resource box identity) (\<lambda>m c. IAMFetcher_Fetch (provider m c) m c)"

definition NewKMSFetcher ::
  "(metadata \<Rightarrow> 'c \<Rightarrow> 't kms_client clients) \<Rightarrow> ('s, 'c) fetch_site \<Rightarrow> 's fetch_world fetcher" where
  "NewKMSFetcher provider site =
     aws_fetcher site ''aws-kms'' Kms_as_resource (\<lambda>m c.
       (map_option (\<lambda>keys. KmsFetcher_Fetch (map_prod (map kms_resource) id keys) m) (DescribeSymmetricKeys (provider m c)), c))"

definition NewLoggingFetcher ::
  "(metadata \<Rightarrow> 'c \<Rightarrow> logging_provider) \<Rightarrow> (metadata \<Rightarrow> 'c \<Rightarrow> config_client clients \<times> string) \<Rightarrow> ('s, 'c) fetch_site \<Rightarrow> identity \<Rightarrow>
     's fetch_world fetcher" where
  "NewLoggingFetcher loggingProvider configserviceProvider site identity =
     aws_fetcher site ''aws-trail'' logging_as_resource (\<lambda>m c.
       (map_option (\<lambda>trails. LoggingFetcher_Fetch identity (map_sum id (map EnrichedTrail_resource) trails)
            (map_prod (map config_resource) id (DescribeConfigRecorders (configserviceProvider m c))) m)
          (logging_DescribeTrails (loggingProvider m c)), c))"

definition NewMonitoringFetcher ::
  "(metadata \<Rightarrow> 'c \<Rightarrow> monitoring_provider) \<Rightarrow> (metadata \<Rightarrow> 'c \<Rightarrow> string option result clients \<times> string) \<Rightarrow> ('s, 'c) fetch_site \<Rightarrow>
     identity \<Rightarrow> 's fetch_world fetcher" where
  "NewMonitoringFetcher provider securityHubProvider site identity =
     aws_fetcher site ''aws-monitoring'' monitoring_as_resource (\<lambda>m c.
       (MonitoringFetcher_Fetch identity (AggregateResources (provider m c)) (hub_Describe (securityHubProvider m c)) m, c))"

definition NewNetworkFetcher ::
  "(metadata \<Rightarrow> 'c \<Rightarrow> 'e ec2_provider) \<Rightarrow> ('s, 'c) fetch_site \<Rightarrow> 's fetch_world fetcher" where
  "NewNetworkFetcher ec2Client site =
     aws_fetcher site ''aws-ec2-network'' Network_as_resource (\<lambda>m c. (NetworkFetcher_Fetch (ec2Client m c) m, c))"

definition NewRdsFetcher ::
  "(metadata \<Rightarrow> 'c \<Rightarrow> 't rds_provider) \<Rightarrow> ('s, 'c) fetch_site \<Rightarrow> 's fetch_world fetcher" where
  "NewRdsFetcher provider site =
     aws_fetcher site ''aws-rds'' Rds_as_resource (\<lambda>m c.
       (map_option (\<lambda>dbs. RdsFetcher_Fetch (map_prod (map rds_resource) id dbs) m) (DescribeDBInstances (provider m c)), c))"

text \<open>\<open>ranged\<close> is the order in which Go ranges over the regions of the buckets.\<close>

definition NewS3Fetcher ::
  "((string \<times> string list) list \<Rightarrow> (string \<times> string list) list) \<Rightarrow> (metadata \<Rightarrow> 'c \<Rightarrow> s3_provider) \<Rightarrow> ('s, 'c) fetch_site \<Rightarrow>
     's fetch_world fetcher" where
  "NewS3Fetcher ranged s3 site =
     aws_fetcher site ''aws-s3'' S3_as_resource (\<lambda>m c.
       (map_option (\<lambda>buckets. S3Fetcher_Fetch (map_sum id (map bucket_resource) buckets) m) (DescribeBuckets ranged (s3 m c)), c))"

text \<open>\<open>seen\<close> is what the fetchers find behind the pointer, which need not be what the preset found there.\<close>

definition aws_fetchers ::
  "('aws, 't, 'c) aws_services \<Rightarrow> ('s, 'c) part \<Rightarrow> (resource_info \<Rightarrow> resource_info) \<Rightarrow> (identity \<Rightarrow> identity) \<Rightarrow> 'aws \<Rightarrow>
     's fetch_world aws_constructors" where
  "aws_fetchers svc part ch seen cfg =
     (let site = \<lparr>site_part = part, site_ch = ch, site_box = svc_box svc, site_lost = svc_lost svc\<rparr>
      in \<lparr>mk_IAMFetcher = (\<lambda>ident. NewIAMFetcher (svc_iam svc cfg) site (seen ident)),
          mk_KMSFetcher = NewKMSFetcher (svc_kms svc cfg) site,
          mk_LoggingFetcher = (\<lambda>ident.
            NewLoggingFetcher (svc_logging svc cfg (Account ident)) (svc_config svc cfg (Account ident)) site (seen ident)),
          mk_MonitoringFetcher = (\<lambda>ident.
            NewMonitoringFetcher (svc_monitoring svc cfg) (svc_hub svc cfg (Account ident)) site (seen ident)),
          mk_NetworkFetcher = (\<lambda>account. NewNetworkFetcher (svc_ec2 svc cfg account) site),
          mk_RdsFetcher = (\<lambda>account. NewRdsFetcher (svc_rds svc cfg account) site),
          mk_S3Fetcher = (\<lambda>account. NewS3Fetcher (svc_ranged svc) (svc_s3 svc cfg account) site)\<rparr>)"

lemmas aws_fetcher_defs = aws_fetchers_def NewIAMFetcher_def NewKMSFetcher_def NewLoggingFetcher_def NewMonitoringFetcher_def
  NewNetworkFetcher_def NewRdsFetcher_def NewS3Fetcher_def aws_fetcher_def

section \<open>What the fetchers send\<close>

text \<open>A resource of a cycle: its metadata can be read, with declared types, and it adds no field of the transformer.\<close>

definition aws_fits :: "int \<Rightarrow> resource_info \<Rightarrow> bool" where
  "aws_fits now r \<longleftrightarrow>
     CycleMetadata r = \<lparr>Sequence = now\<rparr> \<and> foreign_keys (GetElasticCommonData r) \<and> is_ok (GetMetadata r) \<and>
     typed_metadata (GetMetadata r)"

lemma service_names_foreign:
  "foreign_keys S3Resource_GetElasticCommonData" "foreign_keys RdsResource_GetElasticCommonData"
  "foreign_keys NetworkResource_GetElasticCommonData" "foreign_keys IAMResource_GetElasticCommonData"
  "foreign_keys (logging_GetElasticCommonData l)" "foreign_keys (monitoring_GetElasticCommonData mr)"
proof -
  have "list_all (\<lambda>k. key_root k \<notin> own_fields \<union> {''@timestamp'', ''@metadata''}) [''cloud.service.name'']" by code_simp
  then have name: "foreign_keys (Inr [(''cloud.service.name'', v)])" for v by (intro foreign_keysI) simp
  have none: "foreign_keys (Inr [])" by (simp add: foreign_keys_def)
  show "foreign_keys S3Resource_GetElasticCommonData" "foreign_keys RdsResource_GetElasticCommonData"
    "foreign_keys NetworkResource_GetElasticCommonData" "foreign_keys IAMResource_GetElasticCommonData"
    by (simp_all add: S3Resource_GetElasticCommonData_def RdsResource_GetElasticCommonData_def
        NetworkResource_GetElasticCommonData_def IAMResource_GetElasticCommonData_def name)
  show "foreign_keys (logging_GetElasticCommonData l)" by (cases l) (simp_all add: name none)
  show "foreign_keys (monitoring_GetElasticCommonData mr)" by (simp add: monitoring_GetElasticCommonData_def none)
qed

lemma Kms_foreign: "foreign_keys (KmsResource_GetElasticCommonData as_kms r)"
proof -
  have roots: "list_all (\<lambda>k. key_root k \<notin> own_fields \<union> {''@timestamp'', ''@metadata''})
      [''cloud.service.name'', ''x509.not_after'', ''x509.not_before'', ''x509.signature_algorithm'', ''x509.public_key_algorithm'']"
    by code_simp
  show ?thesis
    unfolding KmsResource_GetElasticCommonData_def Let_def
    by (auto intro!: foreign_keysI simp: map_put_def roots [simplified] split: option.splits)
qed


lemma aws_metadata_ok:
  "is_ok (S3Resource_GetMetadata r)" "is_ok (KmsResource_GetMetadata r)" "is_ok (RdsResource_GetMetadata r)"
  "is_ok (NetworkResource_GetMetadata r)" "is_ok (IAMResource_GetMetadata ident r)" "is_ok (logging_GetMetadata l)"
  "is_ok (monitoring_GetMetadata mr)"
  by (cases l; cases mr; simp add: S3Resource_GetMetadata_def KmsResource_GetMetadata_def RdsResource_GetMetadata_def
      NetworkResource_GetMetadata_def IAMResource_GetMetadata_def Let_def)+

lemma aws_resources_fit:
  "aws_fits (Sequence m) (send_resource (S3_as_resource box) (bucket_resource b, m))"
  "aws_fits (Sequence m) (send_resource (Kms_as_resource box) (kms_resource k, m))"
  "aws_fits (Sequence m) (send_resource (Rds_as_resource box) (rds_resource d, m))"
  "aws_fits (Sequence m) (send_resource (Network_as_resource box) (network_aws_resource n, m))"
  "aws_fits (Sequence m) (send_resource (IAM_as_resource box ident) (iam_aws_resource i, m))"
  "aws_fits (Sequence m) (send_resource (logging_as_resource box) (LoggingTrail (EnrichedTrail_resource t), m))"
  "aws_fits (Sequence m) (send_resource (logging_as_resource box) (ConfigResource cs ident, m))"
  "aws_fits (Sequence m) (send_resource (monitoring_as_resource box) (mr, m))"
  by (simp_all add: aws_fits_def aws_typed aws_metadata_ok service_names_foreign Kms_foreign S3_as_resource_def
      Kms_as_resource_def Rds_as_resource_def Network_as_resource_def IAM_as_resource_def logging_as_resource_def
      monitoring_as_resource_def del: logging_GetMetadata.simps logging_GetElasticCommonData.simps)

text \<open>Each fetch sends resources of its own kind.\<close>

lemma S3_fits: "S3Fetcher_Fetch (map_sum id (map bucket_resource) buckets) m = (sends, err) \<Longrightarrow>
    list_all (\<lambda>s. aws_fits (Sequence m) (send_resource (S3_as_resource box) s)) sends"
  by (cases buckets) (auto simp: S3Fetcher_Fetch_def fetch_unless_error_def list_all_iff aws_resources_fit send_each_def)

lemma Kms_fits: "KmsFetcher_Fetch (map kms_resource keys, e) m = (sends, err) \<Longrightarrow>
    list_all (\<lambda>s. aws_fits (Sequence m) (send_resource (Kms_as_resource box) s)) sends"
  by (cases e) (auto simp: KmsFetcher_Fetch_def fetch_unless_error_def list_all_iff aws_resources_fit send_each_def)

lemma Rds_fits: "RdsFetcher_Fetch (map rds_resource dbs, e) m = (sends, err) \<Longrightarrow>
    list_all (\<lambda>s. aws_fits (Sequence m) (send_resource (Rds_as_resource box) s)) sends"
  by (auto simp: RdsFetcher_Fetch_def fetch_despite_error_def list_all_iff aws_resources_fit send_each_def)

lemma Network_fits: "NetworkFetcher_Fetch p m = Some (sends, err) \<Longrightarrow>
    list_all (\<lambda>s. aws_fits (Sequence m) (send_resource (Network_as_resource box) s)) sends"
  by (erule NetworkFetcher_network) (auto simp: list_all_iff send_each_def aws_resources_fit)

lemma IAM_fits: "fst (IAMFetcher_Fetch p m c) = Some (sends, err) \<Longrightarrow>
    list_all (\<lambda>s. aws_fits (Sequence m) (send_resource (IAM_as_resource box ident) s)) sends"
  by (auto simp: IAMFetcher_Fetch_def list_all_iff send_each_def aws_resources_fit split: prod.splits option.splits)

lemma logging_fits: "LoggingFetcher_Fetch ident (map_sum id (map EnrichedTrail_resource) trails) configs m = (sends, err) \<Longrightarrow>
    list_all (\<lambda>s. aws_fits (Sequence m) (send_resource (logging_as_resource box) s)) sends"
  by (cases trails; cases configs; cases "snd configs")
    (auto simp: LoggingFetcher_Fetch_def list_all_iff send_each_def aws_resources_fit)

lemma monitoring_fits: "MonitoringFetcher_Fetch ident aggregated hubs m = Some (sends, err) \<Longrightarrow>
    list_all (\<lambda>s. aws_fits (Sequence m) (send_resource (monitoring_as_resource box) s)) sends"
  by (auto simp: MonitoringFetcher_Fetch_def list_all_iff send_each_def aws_resources_fit split: option.splits sum.splits)

lemma on_part_simps:
  "fst (on_part part fetch m s) = fst (fetch m (part_get part s))"
  "snd (on_part part fetch m s) = part_put part (snd (fetch m (part_get part s))) s"
  by (simp_all add: on_part_def case_prod_beta)

lemma account_sends:
  assumes rf: "(k, rf) \<in> set (NewCisAwsFetchers (aws_fetchers svc part ch seen cfg) ident)"
    and ch: "\<And>now r. aws_fits now r \<Longrightarrow> fits now (ch r)"
    and put: "\<And>c s. good s \<Longrightarrow> good (part_put part c s)" and w: "good (provider_state w)"
  shows "\<exists>rs. channel (snd (Fetch (Fetcher rf) m w)) = channel w @ rs \<and> list_all (fits (Sequence m)) rs \<and>
    good (provider_state (snd (Fetch (Fetcher rf) m w)))"
proof -
  have via: "\<exists>rs. channel (snd (Fetch (fetcher_via lost ch f (on_part part fetch)) m w)) = channel w @ rs \<and>
      list_all (fits (Sequence m)) rs \<and> good (provider_state (snd (Fetch (fetcher_via lost ch f (on_part part fetch)) m w)))"
    if "\<And>c sends err. fst (fetch m c) = Some (sends, err) \<Longrightarrow> list_all (\<lambda>s. aws_fits (Sequence m) (send_resource f s)) sends"
    for lost and f :: "'r \<Rightarrow> resource" and fetch
    by (rule fetcher_via_sends) (auto simp: on_part_simps put w intro!: ch dest: that intro: list.pred_mono_strong)
  show ?thesis
    using rf unfolding NewCisAwsFetchers_def aws_fetcher_defs Let_def
    by (auto intro!: via)
      (erule S3_fits Kms_fits Rds_fits Network_fits IAM_fits logging_fits monitoring_fits)+
qed

section \<open>One account\<close>

definition whole_state :: "('c, 'c) part" where
  "whole_state = \<lparr>part_get = (\<lambda>s. s), part_put = (\<lambda>c s. c)\<rparr>"

definition aws_registry :: "('aws, 't, 'c) aws_services \<Rightarrow> 'aws \<Rightarrow> identity \<Rightarrow> 'c fetch_world registry" where
  "aws_registry svc cfg ident =
     NewRegistry [WithFetchersMap (NewCisAwsFetchers (aws_fetchers svc whole_state (\<lambda>r. r) (\<lambda>i. i) cfg) ident)]"

definition aws_initialize ::
  "('cred, 'aws) aws_env \<Rightarrow> ('aws, 't, 'c) aws_services \<Rightarrow> strategy \<Rightarrow> ('cred, 'proc) config \<Rightarrow>
     'c fetch_world initialized result" where
  "aws_initialize env svc = AWS_initialize env (aws_fetchers svc whole_state (\<lambda>r. r) (\<lambda>i. i))"

lemma aws_initialize_ok:
  assumes "aws_initialize env svc strat cfg = Inr (rg, bdp, idp)"
  obtains aws ident where "rg = aws_registry svc aws ident" "bdp = cloud_provider [WithAccount ident]" "idp = None"
  using assms by (auto simp: aws_initialize_def AWS_initialize_def aws_registry_def split: option.splits sum.splits)

interpretation aws_regs: sending_registry "aws_registry svc cfg ident" aws_fits "\<lambda>_. True" for svc cfg ident
proof unfold_locales
  fix k rf m and w :: "'c fetch_world"
  assume "(k, rf) \<in> set (reg (aws_registry svc cfg ident))"
  then have "(k, rf) \<in> set (NewCisAwsFetchers (aws_fetchers svc whole_state (\<lambda>r. r) (\<lambda>i. i) cfg) ident)"
    by (simp add: aws_registry_def NewRegistry_def WithFetchersMap_def)
  from account_sends [OF this, of aws_fits "\<lambda>_. True" w m]
  show "\<exists>rs. channel (snd (Fetch (Fetcher rf) m w)) = channel w @ rs \<and> list_all (aws_fits (Sequence m)) rs \<and> True" by simp
qed

interpretation aws: sending_fetchers "\<lambda>r. r = aws_registry svc cfg ident" aws_fits "\<lambda>_. True" for svc cfg ident
  by (rule fixed_registry_sends [OF _ aws_regs.sending_registry_axioms])
    (simp add: aws_registry_def NewRegistry_def WithFetchersMap_def)

text \<open>The benchmark of one account: in any number of cycles, every resource on the channel fits its cycle.\<close>

lemma aws_cycles_send:
  assumes "aws_initialize env svc strat cfg = Inr (rg, bdp, idp)"
  shows "\<exists>rg' w' rss. run_cycles registry_ops secs rg ticks \<lparr>provider_state = c, channel = []\<rparr> = (rg', w') \<and>
    channel w' = concat rss \<and> list_all2 (\<lambda>(now, evs). list_all (aws_fits now)) ticks rss"
proof -
  obtain aws ident where "rg = aws_registry svc aws ident" by (rule aws_initialize_ok [OF assms])
  from aws.run_cycles_sends [OF this, where w = "\<lparr>provider_state = c, channel = []\<rparr>" and secs = secs and ticks = ticks]
  show ?thesis by auto
qed

section \<open>An organization\<close>

text \<open>
  The state is the cache that the updater's closure captures, where an account with the identity behind its pointer
  stands for its fetchers, and that of the services. \<open>listing\<close> is what the organization answers; what a member's fetchers send is wrapped.
\<close>

definition member_state :: "('k \<times> 'c, 'c) part" where
  "member_state = \<lparr>part_get = snd, part_put = (\<lambda>c s. (fst s, c))\<rparr>"

definition member_fetchers ::
  "('aws, 't, 'c) aws_services \<Rightarrow> 'aws aws_account \<times> identity \<Rightarrow> ('k \<times> 'c) fetch_world fetchers_map" where
  "member_fetchers svc m =
     (let (acc, shown) = m
      in NewCisAwsFetchers (aws_fetchers svc member_state (wrapResource (acc_Identity acc)) (\<lambda>_. shown) (acc_Config acc))
           (acc_Identity acc))"

type_synonym ('aws, 'c) org_world = "((string \<times> 'aws aws_account \<times> identity) list \<times> 'c) fetch_world"

definition aws_org_env ::
  "('aws, 't, 'c) aws_services \<Rightarrow> ('c \<Rightarrow> 'aws \<Rightarrow> identity list result) \<Rightarrow>
     ('aws, ('aws, 'c) org_world, 'aws aws_account \<times> identity) org_env" where
  "aws_org_env svc listing =
     \<lparr>ListAccounts = (\<lambda>w. listing (snd (provider_state w))), org_factory = Pair, fetchers_of = member_fetchers svc,
      get_cache = (\<lambda>w. fst (provider_state w)), set_cache = (\<lambda>c w. w\<lparr>provider_state := (c, snd (provider_state w))\<rparr>)\<rparr>"

definition aws_org_initialize ::
  "('cred, 'aws) aws_env \<Rightarrow> ('aws, 't, 'c) aws_services \<Rightarrow> ('c \<Rightarrow> 'aws \<Rightarrow> identity list result) \<Rightarrow> strategy \<Rightarrow>
     ('cred, 'proc) config \<Rightarrow> ('aws, 'c) org_world initialized result" where
  "aws_org_initialize env svc listing = AWSOrg_initialize env (aws_org_env svc listing)"

definition new_org_world :: "'c \<Rightarrow> ('aws, 'c) org_world" where
  "new_org_world c = \<lparr>provider_state = ([], c), channel = []\<rparr>"

text \<open>An identity that the organization answers at some time, and one that is listed under its account.\<close>

definition listed :: "('c \<Rightarrow> 'aws \<Rightarrow> identity list result) \<Rightarrow> identity \<Rightarrow> bool" where
  "listed listing ident \<longleftrightarrow> (\<exists>c aws idents. listing c aws = Inr idents \<and> ident \<in> set idents)"

definition member_entry :: "('c \<Rightarrow> 'aws \<Rightarrow> identity list result) \<Rightarrow> string \<times> 'aws aws_account \<times> identity \<Rightarrow> bool" where
  "member_entry listing e \<longleftrightarrow> fst e = acc_key (fst (snd e)) \<and> listed listing (acc_Identity (fst (snd e)))"

definition members_only :: "('c \<Rightarrow> 'aws \<Rightarrow> identity list result) \<Rightarrow> (string \<times> 'aws aws_account \<times> identity) list \<times> 'c \<Rightarrow> bool" where
  "members_only listing s \<longleftrightarrow> list_all (member_entry listing) (fst s)"

text \<open>A resource of a member: it fits, and its metadata name the member.\<close>

definition names_member :: "identity \<Rightarrow> resource_info \<Rightarrow> bool" where
  "names_member ident r \<longleftrightarrow>
     (\<exists>md. GetMetadata r = Inr md \<and> AccountId md = Account ident \<and> AccountName md = AccountAlias ident \<and>
        OrganisationId md = OrganizationId ident \<and> account_OrganizationName md = OrganizationName ident)"

definition org_fits :: "(identity \<Rightarrow> bool) \<Rightarrow> int \<Rightarrow> resource_info \<Rightarrow> bool" where
  "org_fits member now r \<longleftrightarrow> aws_fits now r \<and> (\<exists>ident. member ident \<and> names_member ident r)"

lemma wrapResource_fits:
  assumes "aws_fits now r" "member ident"
  shows "org_fits member now (wrapResource ident r)"
  using assms
  by (cases "GetMetadata r")
    (auto simp: org_fits_def aws_fits_def names_member_def wrapResource_def wrapResource_GetMetadata_def typed_metadata_def
      intro!: exI [of _ ident])

definition org_registry ::
  "('cred, 'aws) aws_env \<Rightarrow> ('aws, 't, 'c) aws_services \<Rightarrow> ('c \<Rightarrow> 'aws \<Rightarrow> identity list result) \<Rightarrow> 'aws \<Rightarrow> identity \<Rightarrow>
     (identity \<Rightarrow> bool) \<Rightarrow> ('aws, 'c) org_world registry \<Rightarrow> bool" where
  "org_registry env svc listing aws ident member rg \<longleftrightarrow>
     updater rg = Some (org_updater env (aws_org_env svc listing) aws ident) \<and>
     (\<forall>(k, rf)\<in>set (reg rg). \<exists>m key. member (acc_Identity (fst m)) \<and> (key, rf) \<in> set (member_fetchers svc m))"

lemma org_registry_sends:
  fixes listing :: "'c \<Rightarrow> 'aws \<Rightarrow> identity list result"
  assumes "org_registry env svc listing aws ident member rg"
  shows "sending_registry rg (org_fits member) (members_only listing)"
proof
  fix k rf m and w :: "('aws, 'c) org_world"
  assume "(k, rf) \<in> set (reg rg)" and w: "members_only listing (provider_state w)"
  have "\<forall>e\<in>set (reg rg). \<exists>m key. member (acc_Identity (fst m)) \<and> (key, snd e) \<in> set (member_fetchers svc m)"
    using assms unfolding org_registry_def by (auto simp: case_prod_beta)
  from bspec [OF this \<open>(k, rf) \<in> set (reg rg)\<close>] obtain acc shown key where acc: "member (acc_Identity acc)"
      and "(key, rf) \<in> set (member_fetchers svc (acc, shown))" by auto
  then have rf: "(key, rf) \<in> set (NewCisAwsFetchers (aws_fetchers svc member_state (wrapResource (acc_Identity acc)) (\<lambda>_. shown)
      (acc_Config acc)) (acc_Identity acc))" by (simp add: member_fetchers_def)
  show "\<exists>rs. channel (snd (Fetch (Fetcher rf) m w)) = channel w @ rs \<and> list_all (org_fits member (Sequence m)) rs \<and>
      members_only listing (provider_state (snd (Fetch (Fetcher rf) m w)))"
    by (rule account_sends [where good = "members_only listing", OF rf _ _ w])
      (simp_all add: wrapResource_fits acc member_state_def members_only_def)
qed

section \<open>The refresh of the accounts\<close>

text \<open>
  \<open>ok\<close> holds of the listed accounts and of the cached ones, and then of all that the refresh answers and caches; and
  an answer is under the key of a listed account.
\<close>

definition refresh_ok :: "(string \<times> 'f \<Rightarrow> bool) \<Rightarrow> string set \<Rightarrow> ('cfg, 'f) org_state \<Rightarrow> bool" where
  "refresh_ok ok keys s \<longleftrightarrow>
     (\<exists>c. org_cache s = Some c \<and> list_all ok c) \<and> list_all (\<lambda>e. ok e \<and> fst e \<in> keys) (org_m s)"

lemma list_all_map_put: "list_all P m \<Longrightarrow> P (k, v) \<Longrightarrow> list_all P (map_put k v m)"
  by (auto simp: map_put_def list_all_iff)

lemma org_account_ok:
  assumes "refresh_ok ok keys s" "acc_key a \<in> keys" "ok (acc_key a, factory a)"
  shows "refresh_ok ok keys (org_account factory a s)"
proof -
  obtain c where c: "org_cache s = Some c" "list_all ok c" "list_all (\<lambda>e. ok e \<and> fst e \<in> keys) (org_m s)"
    using assms(1) by (auto simp: refresh_ok_def)
  show ?thesis
  proof (cases "map_of c (acc_key a)")
    case None
    then show ?thesis using c assms(2,3) org_account_new [OF c(1) None, of factory]
      by (simp add: refresh_ok_def list_all_map_put)
  next
    case (Some f)
    then have "ok (acc_key a, f)" using c(2) by (auto simp: list_all_iff dest: map_of_SomeD)
    then show ?thesis using c assms(2) org_account_cached [OF c(1) Some, of factory]
      by (simp add: refresh_ok_def list_all_map_put)
  qed
qed

lemma org_accounts_ok:
  "refresh_ok ok keys s \<Longrightarrow> \<forall>a\<in>set accounts. acc_key a \<in> keys \<and> ok (acc_key a, factory a) \<Longrightarrow>
   refresh_ok ok keys (fold (org_account factory) accounts s)"
  by (induction accounts arbitrary: s) (simp_all add: org_account_ok)

lemma org_delete_unseen_subset: "set (org_delete_unseen seen c) \<subseteq> set c"
proof (induction seen arbitrary: c)
  case (Cons e seen)
  have "set (map_delete (fst e) c) \<subseteq> set c" by (auto simp: map_delete_def)
  with Cons.IH [of c] Cons.IH [of "map_delete (fst e) c"] show ?case by (cases e) auto
qed simp

lemma refresh_members:
  assumes "newCisAwsOrganizationFetchers accounts (Some c) factory = (fm, mc, created)"
    and "list_all ok c" "\<forall>a\<in>set accounts. ok (acc_key a, factory a)"
  shows "list_all (\<lambda>e. ok e \<and> fst e \<in> acc_key ` set accounts) fm \<and> (\<exists>c'. mc = Some c' \<and> list_all ok c')"
proof -
  let ?s = "fold (org_account factory) accounts
      \<lparr>org_cache = Some c, org_seen = map (\<lambda>(key, _). (key, False)) c, org_m = [], org_created = []\<rparr>"
  have "refresh_ok ok (acc_key ` set accounts) ?s"
    by (rule org_accounts_ok) (use assms in \<open>auto simp: refresh_ok_def\<close>)
  then obtain c' where c': "org_cache ?s = Some c'" "list_all ok c'"
      "list_all (\<lambda>e. ok e \<and> fst e \<in> acc_key ` set accounts) (org_m ?s)" by (auto simp: refresh_ok_def)
  have "list_all ok (org_delete_unseen (org_seen ?s) c')"
    using c'(2) org_delete_unseen_subset by (fastforce simp: list_all_iff)
  with assms(1) c' show ?thesis by (auto simp: newCisAwsOrganizationFetchers_def Let_def)
qed

abbreviation root_role :: "('cred, 'aws) aws_env \<Rightarrow> 'aws \<Rightarrow> identity \<Rightarrow> 'aws" where
  "root_role env aws ident \<equiv> AssumeRole env aws aws (fmtIAMRole (Account ident) ''cloudbeat-root'')"

lemma accounts_of_listing:
  assumes "getAwsAccounts env list aws ident = Inr accounts"
  obtains idents where "list (root_role env aws ident) = Inr idents" "map acc_Identity accounts = idents"
  using assms by (auto simp: getAwsAccounts_def Let_def comp_def split: sum.splits)

lemma org_update:
  fixes listing :: "'c \<Rightarrow> 'aws \<Rightarrow> identity list result"
  assumes "org_registry env svc listing aws ident member rg" "members_only listing (provider_state w)"
    and "registry_Update rg w = (rg', w')"
  shows "channel w' = channel w \<and> members_only listing (provider_state w') \<and>
    (case listing (snd (provider_state w)) (root_role env aws ident) of
       Inl err \<Rightarrow> rg' = rg
     | Inr idents \<Rightarrow> org_registry env svc listing aws ident (\<lambda>i. listed listing i \<and> Account i \<in> Account ` set idents) rg')"
proof (cases "listing (snd (provider_state w)) (root_role env aws ident)")
  case (Inl err)
  then show ?thesis using assms
    by (auto simp: registry_Update_def org_registry_def org_updater_def getAwsAccounts_def Let_def aws_org_env_def)
next
  case (Inr idents)
  then obtain accounts where acc: "getAwsAccounts env (listing (snd (provider_state w))) aws ident = Inr accounts"
    by (simp add: getAwsAccounts_def Let_def)
  then have ids: "map acc_Identity accounts = idents" using Inr by (elim accounts_of_listing) simp
  obtain fm mc created where fm:
    "newCisAwsOrganizationFetchers accounts (Some (fst (provider_state w)))
       (\<lambda>account. (account, acc_Identity (last accounts))) = (fm, mc, created)"
    by (cases "newCisAwsOrganizationFetchers accounts (Some (fst (provider_state w)))
        (\<lambda>account :: 'aws aws_account. (account, acc_Identity (last accounts)))") auto
  have "listed listing (acc_Identity a)" if "a \<in> set accounts" for a
    using Inr ids that by (force simp: listed_def)
  then have "\<forall>a\<in>set accounts. member_entry listing (acc_key a, a, acc_Identity (last accounts))"
    by (simp add: member_entry_def acc_key_def)
  from refresh_members [OF fm _ this] assms(2)
  have members: "list_all (\<lambda>e. member_entry listing e \<and> fst e \<in> acc_key ` set accounts) fm"
    and kept: "list_all (member_entry listing) (the mc)" by (auto simp: members_only_def)
  have keys: "acc_key ` set accounts = Account ` set idents"
    using ids by (force simp: acc_key_def)
  have rg': "rg' = rg\<lparr>reg := merge_accounts (member_fetchers svc) fm\<rparr>" "w' = w\<lparr>provider_state := (the mc, snd (provider_state w))\<rparr>"
    using assms(1,3) acc fm
    by (auto simp: registry_Update_def org_registry_def org_updater_def aws_org_env_def)
  have "\<exists>m key. (listed listing (acc_Identity (fst m)) \<and> Account (acc_Identity (fst m)) \<in> Account ` set idents) \<and>
      (key, rf) \<in> set (member_fetchers svc m)" if "(k, rf) \<in> set (merge_accounts (member_fetchers svc) fm)" for k rf
  proof -
    from that obtain key m key2 where "(key, m) \<in> set fm" "(key2, rf) \<in> set (member_fetchers svc m)"
      by (auto simp: merge_accounts_def)
    with members keys have "listed listing (acc_Identity (fst m)) \<and> Account (acc_Identity (fst m)) \<in> Account ` set idents"
      unfolding list_all_iff member_entry_def acc_key_def by (auto dest!: bspec)
    with \<open>(key2, rf) \<in> _\<close> show ?thesis by blast
  qed
  then show ?thesis using assms(1) kept by (auto simp: rg' Inr org_registry_def members_only_def)
qed


lemma org_registry_mono:
  "org_registry env svc listing aws ident member rg \<Longrightarrow> (\<And>i. member i \<Longrightarrow> member' i) \<Longrightarrow>
   org_registry env svc listing aws ident member' rg"
  unfolding org_registry_def by fast

interpretation aws_org: sending_fetchers "org_registry env svc listing aws ident (listed listing)"
  "org_fits (listed listing)" "members_only listing" for env svc listing aws ident
proof (rule sending_fetchers.intro)
  fix rg rg' w w'
  assume rg: "org_registry env svc listing aws ident (listed listing) rg" and w: "members_only listing (provider_state w)"
    and update: "registry_Update rg w = (rg', w')"
  from org_update [OF rg w update]
  show "org_registry env svc listing aws ident (listed listing) rg' \<and> members_only listing (provider_state w') \<and> channel w' = channel w"
    using rg by (auto split: sum.splits elim: org_registry_mono)
qed (rule org_registry_sends)

text \<open>The cycle after a listing that answers: only the accounts of this listing send.\<close>

lemma org_cycle_sends:
  assumes rg: "org_registry env svc listing aws ident (listed listing) rg" and w: "members_only listing (provider_state w)"
    and idents: "listing (snd (provider_state w)) (root_role env aws ident) = Inr idents"
    and run: "fetchIteration registry_ops secs rg now evs w = (rg', errs, w')"
  shows "\<exists>rs. channel w' = channel w @ rs \<and> list_all (org_fits (\<lambda>i. Account i \<in> Account ` set idents) now) rs"
proof -
  obtain wu where update: "registry_Update rg w = (rg', wu)"
    and keys: "fetch_keys registry_ops secs rg' \<lparr>Sequence = now\<rparr> evs (Keys rg') wu = (errs, w')"
    using run by (auto simp: fetchIteration_def split: prod.splits)
  from org_update [OF rg w update] idents
  have wu: "channel wu = channel w" "members_only listing (provider_state wu)"
    and "org_registry env svc listing aws ident (\<lambda>i. listed listing i \<and> Account i \<in> Account ` set idents) rg'" by auto
  from this(3) have "org_registry env svc listing aws ident (\<lambda>i. Account i \<in> Account ` set idents) rg'"
    by (rule org_registry_mono) simp
  from sending_registry.fetch_keys_sends [OF org_registry_sends [OF this] wu(2), of secs "\<lparr>Sequence = now\<rparr>" evs "Keys rg'"]
  show ?thesis using keys wu(1) by auto
qed

definition AWSOrg_NewBenchmark ::
  "(string \<Rightarrow> 'opa result) \<Rightarrow> (cloudbeat_version_info \<Rightarrow> (string \<times> any) list result) \<Rightarrow> version \<Rightarrow>
     ('cred, 'aws) aws_env \<Rightarrow> ('aws, 't, 'c) aws_services \<Rightarrow> ('c \<Rightarrow> 'aws \<Rightarrow> identity list result) \<Rightarrow> strategy \<Rightarrow>
     ('cred, 'proc) config \<Rightarrow> (('aws, 'c) org_world, 'opa) bench result" where
  "AWSOrg_NewBenchmark sdkNew dec ver env svc listing strat cfg =
     NewBenchmark_cloud sdkNew dec ver cfg (aws_org_initialize env svc listing strat cfg)"

lemma aws_org_initialize_sound:
  assumes "aws_org_initialize env svc listing strat cfg = Inr (rg, bdp, idp)"
  obtains aws ident where "InitializeAWSConfig env (aws_Cred (Aws (CloudConfig cfg))) = Inr aws" "GetIdentity env aws = Inr ident"
    "org_registry env svc listing aws ident (listed listing) rg" "bdp = cloud_provider []" "idp = None"
  using assms by (auto simp: aws_org_initialize_def AWSOrg_initialize_def org_registry_def NewRegistry_def WithUpdater_def
      split: option.splits sum.splits)

lemma new_org_world_members [simp]: "members_only listing (provider_state (new_org_world c))"
  by (simp add: members_only_def new_org_world_def)

section \<open>Properties\<close>



definition sample_services :: "(unit, nat, nat) aws_services" where
  "sample_services =
     \<lparr>svc_iam = (\<lambda>_ _ _. sample_iam ''root''), svc_kms = (\<lambda>_ _ _. []),
      svc_logging = (\<lambda>_ _ _ _. \<lparr>s3Provider = sample_s3, trailProvider = Some (Inr [])\<rparr>), svc_config = (\<lambda>_ a _ _. ([], a)),
      svc_monitoring = (\<lambda>_ _ _. sample_monitoring), svc_hub = (\<lambda>_ a _ _. ([], a)),
      svc_ec2 = (\<lambda>_ a _ _. \<lparr>ec2_clients = [], awsAccountID = a\<rparr>),
      svc_rds = (\<lambda>_ _ _ _. \<lparr>rds_clients = [], rds_ec2 = (\<lambda>_ _ _. Inl (Errorf ''denied''))\<rparr>), svc_s3 = (\<lambda>_ _ _ _. sample_s3),
      svc_box = (\<lambda>_. VNil), svc_ranged = (\<lambda>m. m), svc_lost = (\<lambda>_. RunReturned None)\<rparr>"

definition sample_aws_env :: "(unit, unit) aws_env" where
  "sample_aws_env =
     \<lparr>InitializeAWSConfig = (\<lambda>_. Inr ()), eks_InitializeAWSConfig = (\<lambda>_. Inr ()), GetIdentity = (\<lambda>_. Inr (sample_identity ''1'' ''a'' ''o'')),
      AssumeRole = (\<lambda>_ _ _. ()), aws_Region = (\<lambda>_. ''us-east-1''), no_aws = (), no_cred = ()\<rparr>"

definition sample_members :: "nat \<Rightarrow> unit \<Rightarrow> identity list result" where
  "sample_members c _ = (if c = 0 then Inr [sample_identity ''1'' ''a'' ''o'', sample_identity ''2'' ''b'' ''o''] else Inl (Errorf ''denied''))"

text \<open>
  The fetcher of trails of a member sends its configuration at least, wrapped with the identity of the member; but
  the configuration is named after the identity behind the pointer.
\<close>

lemma member_configuration_sent:
  "channel (snd (fetchSingle registry_ops secs \<lparr>reg = member_fetchers sample_services (acc, shown), updater = upd\<rparr>
       ''aws-trail'' m Finished w)) =
   channel w @ [wrapResource (acc_Identity acc) (send_resource (logging_as_resource (\<lambda>_. VNil)) (ConfigResource [] shown, m))]"
  by (simp add: fetchSingle_def ShouldRun_def fetchProtected_def registry_Run_def member_fetchers_def NewCisAwsFetchers_def
      aws_fetcher_defs fetcher_via_def on_part_def member_state_def sample_services_def logging_DescribeTrails_def
      DescribeConfigRecorders_def MultiRegionFetch_def LoggingFetcher_Fetch_def send_each_def Let_def)

text \<open>
  So the members that one refresh finds send configurations of the same identity, that of the member listed last: of the
  accounts 1 and 2, listed in this order for the first time, 1 sends its configuration as \<open>configservice-2\<close>.
\<close>

lemma sample_refresh:
  "registry_Update (NewRegistry [WithUpdater (org_updater sample_aws_env (aws_org_env sample_services sample_members) ()
       (sample_identity ''1'' ''a'' ''o''))]) (new_org_world 0) =
   (let one = \<lparr>acc_Identity = sample_identity ''1'' ''a'' ''o'', acc_Config = ()\<rparr>;
        two = \<lparr>acc_Identity = sample_identity ''2'' ''b'' ''o'', acc_Config = ()\<rparr>;
        fetchers = [(''2'', two, acc_Identity two), (''1'', one, acc_Identity two)]
    in (\<lparr>reg = merge_accounts (member_fetchers sample_services) fetchers,
         updater = Some (org_updater sample_aws_env (aws_org_env sample_services sample_members) ()
           (sample_identity ''1'' ''a'' ''o''))\<rparr>, (new_org_world 0)\<lparr>provider_state := (fetchers, 0)\<rparr>))"
  by (simp add: registry_Update_def NewRegistry_def WithUpdater_def org_updater_def getAwsAccounts_def sample_aws_env_def
      aws_org_env_def sample_members_def newCisAwsOrganizationFetchers_def org_account_def cache_lookup_def map_put_def
      new_org_world_def sample_identity_def Let_def)

lemma configuration_named_after_last_member:
  "(let (rg, w) = registry_Update (NewRegistry [WithUpdater (org_updater sample_aws_env
         (aws_org_env sample_services sample_members) () (sample_identity ''1'' ''a'' ''o''))]) (new_org_world 0);
        w' = snd (fetchSingle registry_ops ''600'' rg ''1-aws-trail'' \<lparr>Sequence = 7\<rparr> Finished w)
    in map (\<lambda>r. map_sum id (\<lambda>md. (AccountId md, ID md)) (GetMetadata r)) (channel w')) = [Inr (''1'', ''configservice-2'')]"
  unfolding sample_refresh Let_def
  by (simp add: fetchSingle_def ShouldRun_def fetchProtected_def registry_Run_def merge_accounts_def
      member_fetchers_def NewCisAwsFetchers_def
      aws_fetcher_defs fetcher_via_def on_part_def member_state_def sample_services_def logging_DescribeTrails_def
      DescribeConfigRecorders_def MultiRegionFetch_def LoggingFetcher_Fetch_def send_each_def new_org_world_def
      wrapResource_def wrapResource_GetMetadata_def logging_as_resource_def sample_identity_def Let_def)


end
