(* ===== verification/K8s_Cycle.thy ===== *)
theory K8s_Cycle
  imports Channel_World FS_Fetcher Proc_Fetcher Kube_Fetcher AWS_Fetchers Benchmark_Model
begin

text \<open>
  The Kubernetes and EKS benchmarks as a whole: the fetchers of files, processes and Kubernetes objects, on EKS also those of
  the registry and the load balancers (\<open>resources/fetching/fetchers\<close>), with the registries of \<open>K8S.initialize\<close> and
  \<open>EKS.initialize\<close> (\<open>flavors/benchmark\<close>), run by the manager. Which of them run depends on the leadership of the
  instance at their turn.
\<close>

section \<open>The resources\<close>

text \<open>
  What \<open>GetData\<close> hands out. A file whose information has another type than \<open>syscall.Stat_t\<close> is sent as a nil pointer,
  on which the methods panic; the statements assume that there is no such file.
\<close>

datatype node_value = ProcessValue eval_proc_resource | EcrValue ecr_repository | ElbValue load_balancer

definition nil_resource :: resource where
  "nil_resource = \<lparr>GetMetadata = Inl (Errorf ''nil pointer''), GetData = VNil, GetElasticCommonData = Inl (Errorf ''nil pointer'')\<rparr>"

definition FS_as_resource :: "fs_resource option \<Rightarrow> resource" where
  "FS_as_resource rsc =
     (case rsc of
        None \<Rightarrow> nil_resource
      | Some r \<Rightarrow>
          \<lparr>GetMetadata = FSResource_GetMetadata r, GetData = FSResource_GetData r,
           GetElasticCommonData = FSResource_GetElasticCommonData r\<rparr>)"

definition Proc_as_resource :: "(node_value \<Rightarrow> any) \<Rightarrow> proc_resource \<Rightarrow> resource" where
  "Proc_as_resource box r =
     \<lparr>GetMetadata = ProcResource_GetMetadata r, GetData = box (ProcessValue (pr_EvalResource r)),
      GetElasticCommonData = ProcResource_GetElasticCommonData r\<rparr>"

definition K8s_as_resource :: "kube_object \<Rightarrow> resource" where
  "K8s_as_resource r =
     \<lparr>GetMetadata = K8sResource_GetMetadata r, GetData = K8sResource_GetData r,
      GetElasticCommonData = K8sResource_GetElasticCommonData r\<rparr>"

definition Ecr_as_resource :: "(node_value \<Rightarrow> any) \<Rightarrow> ecr_repository \<Rightarrow> resource" where
  "Ecr_as_resource box r =
     \<lparr>GetMetadata = EcrResource_GetMetadata r, GetData = box (EcrValue r),
      GetElasticCommonData = EcrResource_GetElasticCommonData\<rparr>"

definition Elb_as_resource :: "(node_value \<Rightarrow> any) \<Rightarrow> identity \<Rightarrow> load_balancer \<Rightarrow> resource" where
  "Elb_as_resource box ident r =
     \<lparr>GetMetadata = ElbResource_GetMetadata ident r, GetData = box (ElbValue r),
      GetElasticCommonData = ElbResource_GetElasticCommonData\<rparr>"

section \<open>The fetchers\<close>

text \<open>
  The node as the fetchers see it, which may change from one access to the next.
  The state \<open>'c\<close> is also that of the watchers; next to it the state of the fetcher of Kubernetes objects.
\<close>

record ('h, 'c) node_services =
  svc_fs :: "metadata \<Rightarrow> 'c \<Rightarrow> fs_api \<times> 'c"
  svc_proc :: "metadata \<Rightarrow> 'c \<Rightarrow> proc_api \<times> 'c"
  svc_watchers :: "('h, 'c) watcher_api"
  svc_kinds :: "kube_object \<Rightarrow> group_version_kind list result"
  svc_node_box :: "node_value \<Rightarrow> any"

text \<open>On EKS: the client of the cluster, the providers, and the compiled patterns for images and host names.\<close>

record ('h, 'c) eks_services = "('h, 'c) node_services" +
  svc_pods :: "metadata \<Rightarrow> 'c \<Rightarrow> string list list result \<times> 'c"
  svc_lb_services :: "metadata \<Rightarrow> 'c \<Rightarrow> string list list result \<times> 'c"
  svc_DescribeRepositories :: "metadata \<Rightarrow> 'c \<Rightarrow> string list \<Rightarrow> string \<Rightarrow> ecr_repository list result option"
  svc_DescribeLoadBalancer :: "metadata \<Rightarrow> 'c \<Rightarrow> string list \<Rightarrow> load_balancer list result option"
  svc_images :: "string \<Rightarrow> image_filter"
  svc_hosts :: "string \<Rightarrow> string \<Rightarrow> string option"
  svc_map_order :: "(string \<times> string list) list \<Rightarrow> (string \<times> string list) list"
  svc_cut_off :: "string \<Rightarrow> run_outcome"

type_synonym ('h, 'c) node_state = "'h kube_fetcher \<times> 'c"

definition fs_fetch ::
  "('h, 'c, 'm) node_services_scheme \<Rightarrow> string list \<Rightarrow> metadata \<Rightarrow> ('h, 'c) node_state \<Rightarrow>
     ((fs_resource option \<times> metadata) list \<times> go_error option) \<times> ('h, 'c) node_state" where
  "fs_fetch svc ps m s = (let (os, c) = svc_fs svc m (snd s) in (FileSystemFetcher_Fetch os (NewFsFetcher ps) m, (fst s, c)))"

definition proc_fetch ::
  "('h, 'c, 'm) node_services_scheme \<Rightarrow> processes_config_map \<Rightarrow> metadata \<Rightarrow> ('h, 'c) node_state \<Rightarrow>
     ((proc_resource \<times> metadata) list \<times> go_error option) \<times> ('h, 'c) node_state" where
  "proc_fetch svc processes m s = (let (os, c) = svc_proc svc m (snd s) in (ProcessesFetcher_Fetch os processes m, (fst s, c)))"

definition kube_fetch ::
  "('h, 'c, 'm) node_services_scheme \<Rightarrow> metadata \<Rightarrow> ('h, 'c) node_state \<Rightarrow>
     ((kube_object \<times> metadata) list \<times> go_error option) \<times> ('h, 'c) node_state" where
  "kube_fetch svc m s =
     (let (sends, err, f, c) = KubeFetcher_Fetch (svc_watchers svc) (svc_kinds svc) (fst s) m (snd s) in ((sends, err), (f, c)))"

definition kube_stop :: "('h, 'c, 'm) node_services_scheme \<Rightarrow> ('h, 'c) node_state fetch_world \<Rightarrow> ('h, 'c) node_state fetch_world" where
  "kube_stop svc w =
     (let (f, c) = provider_state w in w\<lparr>provider_state := (f, KubeFetcher_Stop (svc_watchers svc) f c)\<rparr>)"

definition k8s_fetchers :: "('h, 'c, 'm) node_services_scheme \<Rightarrow> ('h, 'c) node_state fetch_world k8s_constructors" where
  "k8s_fetchers svc =
     \<lparr>mk_FsFetcher = (\<lambda>ps. fetcher_on FS_as_resource (fs_fetch svc ps)),
      mk_ProcessFetcher = (\<lambda>processes. fetcher_on (Proc_as_resource (svc_node_box svc)) (proc_fetch svc processes)),
      mk_KubeFetcher = (fetcher_on K8s_as_resource (kube_fetch svc))\<lparr>fetcher_Stop := kube_stop svc\<rparr>\<rparr>"

definition ecr_fetch ::
  "('h, 'c) eks_services \<Rightarrow> string \<Rightarrow> metadata \<Rightarrow> ('h, 'c) node_state \<Rightarrow>
     ((ecr_repository \<times> metadata) list \<times> go_error option) option \<times> ('h, 'c) node_state" where
  "ecr_fetch svc regex m s =
     (let (pods, c) = svc_pods svc m (snd s)
      in (EcrFetcher_Fetch (svc_map_order svc) (svc_DescribeRepositories svc m c) (svc_images svc regex) pods m, (fst s, c)))"

definition elb_fetch ::
  "('h, 'c) eks_services \<Rightarrow> identity \<Rightarrow> string \<Rightarrow> metadata \<Rightarrow> ('h, 'c) node_state \<Rightarrow>
     ((load_balancer \<times> metadata) list \<times> go_error option) option \<times> ('h, 'c) node_state" where
  "elb_fetch svc ident loadBalancerRegex m s =
     (let (services, c) = svc_lb_services svc m (snd s)
      in (ElbFetcher_Fetch (NewElbFetcher (svc_hosts svc loadBalancerRegex) ident) services (svc_DescribeLoadBalancer svc m c) m, (fst s, c)))"

definition eks_fetchers :: "('h, 'c) eks_services \<Rightarrow> ('h, 'c) node_state fetch_world eks_constructors" where
  "eks_fetchers svc =
     k8s_constructors.extend (k8s_fetchers svc) (eks_constructors.fields
       (\<lambda>regex. fetcher_via (svc_cut_off svc ''aws-ecr'') (\<lambda>r. r) (Ecr_as_resource (svc_node_box svc)) (ecr_fetch svc regex))
       (\<lambda>ident regex. fetcher_via (svc_cut_off svc ''aws-elb'') (\<lambda>r. r) (Elb_as_resource (svc_node_box svc) ident) (elb_fetch svc ident regex)))"

section \<open>The registries\<close>

text \<open>\<open>le\<close> is the leadership of the instance, which may change with the state.\<close>

definition leads :: "('c \<Rightarrow> bool) \<Rightarrow> ('h, 'c) node_state fetch_world \<Rightarrow> bool" where
  "leads le w = le (snd (provider_state w))"

definition k8s_registry ::
  "('h, 'c, 'm) node_services_scheme \<Rightarrow> ('c \<Rightarrow> bool) \<Rightarrow> ('h, 'c) node_state fetch_world registry" where
  "k8s_registry svc le = NewRegistry [WithFetchersMap (NewCisK8sFetchers (k8s_fetchers svc) (leads le))]"

definition eks_registry ::
  "('h, 'c) eks_services \<Rightarrow> ('c \<Rightarrow> bool) \<Rightarrow> string \<Rightarrow> identity option \<Rightarrow> ('h, 'c) node_state fetch_world registry" where
  "eks_registry svc le region ident = NewRegistry [WithFetchersMap (NewCisEksFetchers (eks_fetchers svc) region (leads le) ident)]"

text \<open>The services that the strategies make for their clients.\<close>

definition k8s_initialize ::
  "('cred, 'proc, 'kube, 'aws) kube_env \<Rightarrow> ('kube \<Rightarrow> ('h, 'c) node_services) \<Rightarrow> ('c \<Rightarrow> bool) \<Rightarrow> strategy \<Rightarrow> ('cred, 'proc) config \<Rightarrow>
     (('h, 'c) node_state fetch_world initialized \<times> uniqueness_manager) result" where
  "k8s_initialize env svc le =
     K8S_initialize env (\<lambda>client. k8s_fetchers (svc client)) (leads le)"

definition eks_initialize ::
  "('cred, 'aws) aws_env \<Rightarrow> ('cred, 'proc, 'kube, 'aws) kube_env \<Rightarrow> ('aws \<Rightarrow> 'kube \<Rightarrow> ('h, 'c) eks_services) \<Rightarrow> ('c \<Rightarrow> bool) \<Rightarrow>
     strategy \<Rightarrow> ('cred, 'proc) config \<Rightarrow> (('h, 'c) node_state fetch_world initialized \<times> uniqueness_manager) result" where
  "eks_initialize aenv env svc le =
     EKS_initialize aenv env (\<lambda>aws client. eks_fetchers (svc aws client)) (leads le)"

definition EKS_NewBenchmark ::
  "(string \<Rightarrow> 'opa result) \<Rightarrow> (cloudbeat_version_info \<Rightarrow> (string \<times> any) list result) \<Rightarrow> version \<Rightarrow>
     ('cred, 'aws) aws_env \<Rightarrow> ('cred, 'proc, 'kube, 'aws) kube_env \<Rightarrow> ('aws \<Rightarrow> 'kube \<Rightarrow> ('h, 'c) eks_services) \<Rightarrow> ('c \<Rightarrow> bool) \<Rightarrow>
     strategy \<Rightarrow> ('cred, 'proc) config \<Rightarrow> (('h, 'c) node_state fetch_world, 'opa) bench result" where
  "EKS_NewBenchmark sdkNew dec ver aenv env svc le strat cfg =
     NewBenchmark_k8s sdkNew dec ver cfg (eks_initialize aenv env svc le strat cfg)"

definition new_node_world :: "'c \<Rightarrow> ('h, 'c) node_state fetch_world" where
  "new_node_world c = \<lparr>provider_state = (NewKubeFetcher, c), channel = []\<rparr>"

section \<open>What the fetchers send\<close>

text \<open>
  A resource of a cycle adds no field of the transformer; one of the node is a file or a process, and where the instance
  does not lead there are no others.
\<close>

definition of_node :: "resource_info \<Rightarrow> bool" where
  "of_node r \<longleftrightarrow> (\<exists>md. GetMetadata r = Inr md \<and> md_Type md \<in> {FSResourceType, ''process''})"

definition node_fits :: "bool \<Rightarrow> int \<Rightarrow> resource_info \<Rightarrow> bool" where
  "node_fits leading now r \<longleftrightarrow>
     CycleMetadata r = \<lparr>Sequence = now\<rparr> \<and> foreign_keys (GetElasticCommonData r) \<and> (of_node r \<or> leading)"

text \<open>Every file has information of the type \<open>syscall.Stat_t\<close>, as on the systems that the agent runs on.\<close>

definition posix :: "('h, 'c, 'm) node_services_scheme \<Rightarrow> bool" where
  "posix svc \<longleftrightarrow> (\<forall>m c path info. os_Stat (fst (svc_fs svc m c)) path = Inr info \<longrightarrow> fi_Sys info \<noteq> None)"

lemma node_keys_foreign:
  "foreign_keys (FSResource_GetElasticCommonData r)" "foreign_keys (ProcResource_GetElasticCommonData p)"
  "foreign_keys (K8sResource_GetElasticCommonData k)" "foreign_keys EcrResource_GetElasticCommonData"
  "foreign_keys ElbResource_GetElasticCommonData"
proof -
  have roots: "list_all (\<lambda>k. key_root k \<notin> own_fields \<union> {''@timestamp'', ''@metadata''})
      [''file.name'', ''file.mode'', ''file.gid'', ''file.uid'', ''file.owner'', ''file.group'', ''file.path'', ''file.inode'',
       ''file.extension'', ''file.directory'', ''file.size'', ''file.type'', ''file.accessed'', ''file.mtime'', ''file.ctime'',
       ''process.parent.pid'', ''process.pid'', ''process.name'', ''process.pgid'', ''process.command_line'', ''process.args'',
       ''process.args_count'', ''process.title'', ''process.start'', ''process.uptime'', ''orchestrator.resource.type'',
       ''orchestrator.resource.name'', ''orchestrator.resource.id'', ''cloud.service.name'']"
    by code_simp
  note roots = roots [simplified]
  show "foreign_keys (FSResource_GetElasticCommonData r)" unfolding FSResource_GetElasticCommonData_def Let_def
    by (rule foreign_keysI) (simp add: roots split: option.splits)
  show "foreign_keys (ProcResource_GetElasticCommonData p)" unfolding ProcResource_GetElasticCommonData_def Let_def
    by (rule foreign_keysI) (simp add: roots)
  show "foreign_keys (K8sResource_GetElasticCommonData k)"
    unfolding K8sResource_GetElasticCommonData_def K8sResource_GetMetadata_def Let_def sum.case
    by (rule foreign_keysI) (simp add: roots)
  show "foreign_keys EcrResource_GetElasticCommonData" "foreign_keys ElbResource_GetElasticCommonData"
    unfolding EcrResource_GetElasticCommonData_def ElbResource_GetElasticCommonData_def by (rule foreign_keysI, simp add: roots)+
qed

lemma fs_sends_fit:
  assumes "posix svc"
  shows "list_all (\<lambda>r. node_fits leading (Sequence m) (send_resource FS_as_resource r)) (fst (fst (fs_fetch svc ps m s)))"
proof -
  have "\<exists>f. r = Some f" if ok: "fetchSystemResource (fst (svc_fs svc m (snd s))) p = Inr r" for p r
  proof -
    from ok obtain stat where "os_Stat (fst (svc_fs svc m (snd s))) p = Inr stat"
      and r: "r = fst (fromFileInfo (fst (svc_fs svc m (snd s))) (Some stat) p)"
      by (auto simp: fetchSystemResource_ok)
    then have "fi_Sys stat \<noteq> None" using assms unfolding posix_def by blast
    then show ?thesis using fromFileInfo_nil [of _ stat p] r by fastforce
  qed
  then have "list_all (\<lambda>s. (\<exists>f. fst s = Some f) \<and> snd s = m) (fst (fst (fs_fetch svc ps m s)))"
    by (fastforce simp: fs_fetch_def case_prod_beta Let_def FileSystemFetcher_Fetch_def fetch_patterns_eq fetch_files_eq
        list_all_iff)
  then show ?thesis
    by (rule list.pred_mono_strong)
      (auto simp: node_fits_def of_node_def FS_as_resource_def node_keys_foreign FSResource_GetMetadata_def
        resource_metadata.fields_def cloud_account_metadata.extend_def)
qed

lemma fetch_pids_cycle: "list_all (\<lambda>s. snd s = m) (fst (fetch_pids os processes m pids))"
  by (induction pids) (auto simp: case_prod_beta split: sum.splits option.splits)

lemma proc_sends_fit:
  "list_all (\<lambda>r. node_fits leading (Sequence m) (send_resource (Proc_as_resource box) r)) (fst (fst (proc_fetch svc processes m s)))"
proof -
  have "list_all (\<lambda>s. snd s = m) (fst (ProcessesFetcher_Fetch os processes m))" for os
    by (simp add: ProcessesFetcher_Fetch_def fetch_pids_cycle split: sum.split)
  then have "list_all (\<lambda>s. snd s = m) (fst (fst (proc_fetch svc processes m s)))"
    by (simp add: proc_fetch_def case_prod_beta Let_def)
  then show ?thesis
    by (rule list.pred_mono_strong)
      (simp add: node_fits_def of_node_def Proc_as_resource_def node_keys_foreign ProcResource_GetMetadata_def
        resource_metadata.fields_def cloud_account_metadata.extend_def)
qed

lemma kube_sends_fit:
  "list_all (\<lambda>r. node_fits True (Sequence m) (send_resource K8s_as_resource r)) (fst (fst (kube_fetch svc m s)))"
  by (auto simp: kube_fetch_def case_prod_beta Let_def KubeFetcher_Fetch_def getKubeData_eq list_all_iff node_fits_def
      K8s_as_resource_def node_keys_foreign split: option.splits)

lemma ecr_sends_fit:
  "fst (ecr_fetch svc regex m s) = Some (sends, err) \<Longrightarrow>
   list_all (\<lambda>r. node_fits True (Sequence m) (send_resource (Ecr_as_resource box) r)) sends"
  by (auto simp: ecr_fetch_def case_prod_beta Let_def EcrFetcher_Fetch_def list_all_iff send_each_def node_fits_def
      Ecr_as_resource_def node_keys_foreign split: sum.splits option.splits)

lemma elb_sends_fit:
  "fst (elb_fetch svc ident regex m s) = Some (sends, err) \<Longrightarrow>
   list_all (\<lambda>r. node_fits True (Sequence m) (send_resource (Elb_as_resource box ident) r)) sends"
  by (auto simp: elb_fetch_def case_prod_beta Let_def ElbFetcher_Fetch_def list_all_iff send_each_def node_fits_def
      Elb_as_resource_def node_keys_foreign split: sum.splits option.splits)

section \<open>The cycles\<close>

lemma k8s_registry_reg:
  "reg (k8s_registry svc le) = NewCisK8sFetchers (k8s_fetchers svc) (leads le)" "updater (k8s_registry svc le) = None"
  "reg (eks_registry svc2 le region ident) = NewCisEksFetchers (eks_fetchers svc2) region (leads le) ident"
  "updater (eks_registry svc2 le region ident) = None"
  by (simp_all add: k8s_registry_def eks_registry_def NewRegistry_def WithFetchersMap_def)

lemma leads_some: "all_conditions [NewIsLeader (leads le)] w \<Longrightarrow> (\<exists>c. le c) = True"
  by (auto simp: NewIsLeader_def leads_def split: if_splits)

lemma eks_fetchers_simps [simp]:
  "mk_FsFetcher (eks_fetchers svc) = mk_FsFetcher (k8s_fetchers svc)"
  "mk_ProcessFetcher (eks_fetchers svc) = mk_ProcessFetcher (k8s_fetchers svc)"
  "mk_KubeFetcher (eks_fetchers svc) = mk_KubeFetcher (k8s_fetchers svc)"
  by (simp_all add: eks_fetchers_def k8s_constructors.extend_def eks_constructors.fields_def)

lemma eks_fetchers_aws:
  "mk_EcrFetcher (eks_fetchers svc) =
     (\<lambda>regex. fetcher_via (svc_cut_off svc ''aws-ecr'') (\<lambda>r. r) (Ecr_as_resource (svc_node_box svc)) (ecr_fetch svc regex))"
  "mk_ElbFetcher (eks_fetchers svc) =
     (\<lambda>ident regex. fetcher_via (svc_cut_off svc ''aws-elb'') (\<lambda>r. r) (Elb_as_resource (svc_node_box svc) ident) (elb_fetch svc ident regex))"
  by (simp_all add: eks_fetchers_def k8s_constructors.extend_def eks_constructors.fields_def)

lemma node_fetcher_sends:
  assumes "posix svc"
    and "f = mk_FsFetcher (k8s_fetchers svc) ps \<or> f = mk_ProcessFetcher (k8s_fetchers svc) processes \<or>
      f = mk_KubeFetcher (k8s_fetchers svc) \<and> all_conditions [NewIsLeader (leads le)] w"
  shows "\<exists>rs. channel (snd (Fetch f m w)) = channel w @ rs \<and> list_all (node_fits (\<exists>c. le c) (Sequence m)) rs"
proof -
  let ?fits = "node_fits (\<exists>c. le c)"
  have on: "\<exists>rs. channel (snd (Fetch (fetcher_on g fetch) m w)) = channel w @ rs \<and> list_all (?fits (Sequence m)) rs"
    if "list_all (\<lambda>s. ?fits (Sequence m) (send_resource g s)) (fst (fst (fetch m (provider_state w))))"
    for g :: "'r \<Rightarrow> resource" and fetch
    using fetcher_on_sends [of "\<lambda>_. True" fetch m w ?fits g] that by simp
  from assms(2) show ?thesis
  proof (elim disjE conjE)
    assume f: "f = mk_FsFetcher (k8s_fetchers svc) ps"
    have "f = fetcher_on FS_as_resource (fs_fetch svc ps)" by (simp add: f k8s_fetchers_def)
    then show ?thesis by (simp only:) (rule on, rule fs_sends_fit [OF assms(1)])
  next
    assume f: "f = mk_ProcessFetcher (k8s_fetchers svc) processes"
    have "f = fetcher_on (Proc_as_resource (svc_node_box svc)) (proc_fetch svc processes)" by (simp add: f k8s_fetchers_def)
    then show ?thesis by (simp only:) (rule on, rule proc_sends_fit)
  next
    assume f: "f = mk_KubeFetcher (k8s_fetchers svc)" and led: "all_conditions [NewIsLeader (leads le)] w"
    have "Fetch f m w = Fetch (fetcher_on K8s_as_resource (kube_fetch svc)) m w" by (simp add: f k8s_fetchers_def)
    then show ?thesis by (simp only:) (rule on, unfold leads_some [OF led], rule kube_sends_fit)
  qed
qed

lemma k8s_registry_sends:
  fixes svc :: "('h, 'c, 'm) node_services_scheme"
  assumes "posix svc"
  shows "sending_registry (k8s_registry svc le) (node_fits (\<exists>c. le c)) (\<lambda>_. True)"
proof
  fix k rf m and w :: "('h, 'c) node_state fetch_world"
  assume "(k, rf) \<in> set (reg (k8s_registry svc le))" "all_conditions (Condition rf) w"
  then have "Fetcher rf = mk_FsFetcher (k8s_fetchers svc) vanillaFsPatterns \<or>
      Fetcher rf = mk_ProcessFetcher (k8s_fetchers svc) vanillaRequiredProcesses \<or>
      Fetcher rf = mk_KubeFetcher (k8s_fetchers svc) \<and> all_conditions [NewIsLeader (leads le)] w"
    unfolding k8s_registry_reg NewCisK8sFetchers_def
    by (auto simp del: all_conditions.simps)
  from node_fetcher_sends [OF assms this]
  show "\<exists>rs. channel (snd (Fetch (Fetcher rf) m w)) = channel w @ rs \<and> list_all (node_fits (\<exists>c. le c) (Sequence m)) rs \<and> True"
    by simp
qed

lemma eks_registry_sends:
  fixes svc :: "('h, 'c) eks_services"
  assumes "posix svc"
  shows "sending_registry (eks_registry svc le region ident) (node_fits (\<exists>c. le c)) (\<lambda>_. True)"
proof
  fix k rf m and w :: "('h, 'c) node_state fetch_world"
  assume rf: "(k, rf) \<in> set (reg (eks_registry svc le region ident))" and runs: "all_conditions (Condition rf) w"
  have via: "\<exists>rs. channel (snd (Fetch (fetcher_via lost (\<lambda>r. r) g fetch) m w)) = channel w @ rs \<and>
      list_all (node_fits (\<exists>c. le c) (Sequence m)) rs"
    if "all_conditions [NewIsLeader (leads le)] w"
      "\<And>sends err. fst (fetch m (provider_state w)) = Some (sends, err) \<Longrightarrow>
        list_all (\<lambda>s. node_fits True (Sequence m) (send_resource g s)) sends"
    for lost and g :: "'r \<Rightarrow> resource" and fetch
    using fetcher_via_sends [of "\<lambda>_. True" fetch m w "node_fits (\<exists>c. le c)" "\<lambda>r. r" g lost] that(2)
    unfolding leads_some [OF that(1)] by simp
  let ?node = "Fetcher rf = mk_FsFetcher (k8s_fetchers svc) eksFsPatterns \<or>
      Fetcher rf = mk_ProcessFetcher (k8s_fetchers svc) eksRequiredProcesses \<or>
      Fetcher rf = mk_KubeFetcher (k8s_fetchers svc) \<and> all_conditions [NewIsLeader (leads le)] w"
  have "?node \<or> all_conditions [NewIsLeader (leads le)] w \<and>
      (\<exists>i. Fetcher rf = mk_EcrFetcher (eks_fetchers svc) (privateRepoRegex (Account i)) \<or>
           Fetcher rf = mk_ElbFetcher (eks_fetchers svc) i (elbRegex region))"
    using rf runs unfolding k8s_registry_reg NewCisEksFetchers_def
    by (auto simp del: all_conditions.simps split: option.splits)
  then consider (node) ?node
    | (ecr) i :: identity where "Fetcher rf = mk_EcrFetcher (eks_fetchers svc) (privateRepoRegex (Account i))"
        "all_conditions [NewIsLeader (leads le)] w"
    | (elb) i where "Fetcher rf = mk_ElbFetcher (eks_fetchers svc) i (elbRegex region)"
        "all_conditions [NewIsLeader (leads le)] w" by blast
  then show "\<exists>rs. channel (snd (Fetch (Fetcher rf) m w)) = channel w @ rs \<and>
      list_all (node_fits (\<exists>c. le c) (Sequence m)) rs \<and> True"
  proof cases
    case node
    from node_fetcher_sends [OF assms this] show ?thesis by simp
  next
    case ecr
    show ?thesis unfolding ecr(1) eks_fetchers_aws simp_thms by (rule via [OF ecr(2)], rule ecr_sends_fit)
  next
    case elb
    show ?thesis unfolding elb(1) eks_fetchers_aws simp_thms by (rule via [OF elb(2)], rule elb_sends_fit)
  qed
qed

interpretation k8s: sending_fetchers "\<lambda>r. posix svc \<and> r = k8s_registry svc le" "node_fits (\<exists>c. le c)" "\<lambda>_. True" for svc le
  by unfold_locales (auto simp: registry_Update_def k8s_registry_reg dest: sending_registry.fetch_sends [OF k8s_registry_sends])

interpretation eks: sending_fetchers "\<lambda>r. posix svc \<and> r = eks_registry svc le region ident" "node_fits (\<exists>c. le c)" "\<lambda>_. True"
  for svc le region ident
  by unfold_locales (auto simp: registry_Update_def k8s_registry_reg dest: sending_registry.fetch_sends [OF eks_registry_sends])

section \<open>Properties\<close>

lemma k8s_initialize_ok:
  assumes "k8s_initialize env svc le strat cfg = Inr ((rg, bdp, idp), el)"
  obtains client dp pr where "rg = k8s_registry (svc client) le" "bdp = (\<lambda>api. k8s_EnrichEvent api dp)" "idp = Some pr"
  using assms by (auto simp: k8s_initialize_def K8S_initialize_def k8s_registry_def split: option.splits sum.splits)

lemma eks_initialize_ok:
  assumes "eks_initialize aenv env svc le strat cfg = Inr ((rg, bdp, idp), el)"
  obtains aws client ident dp pr where "rg = eks_registry (svc aws client) le (aws_Region aenv aws) ident"
    "bdp = (\<lambda>api. k8s_EnrichEvent api dp)" "idp = Some pr"
  using assms by (auto simp: eks_initialize_def EKS_initialize_def eks_registry_def split: option.splits sum.splits)


definition sample_node_fs :: fs_api where
  "sample_node_fs =
     \<lparr>os_Glob = (\<lambda>p. Inr (if p = ''/hostfs/etc/kubernetes/admin.conf'' then [p] else [])), os_Walk = (\<lambda>p. []),
      os_Stat = (\<lambda>p. Inr \<lparr>fi_Name = p, fi_Perm = 384, fi_IsDir = False, fi_Sys = Some \<lparr>st_Uid = 0, st_Gid = 0, st_Ino = 9, st_Size = 5\<rparr>\<rparr>),
      times_Stat = (\<lambda>p. Inl (Errorf ''no times'')), os_Open = (\<lambda>p. Inl (Errorf ''no such file''))\<rparr>"

definition sample_node :: "(kube_type, nat) eks_services" where
  "sample_node =
     \<lparr>svc_fs = (\<lambda>_ c. (sample_node_fs, Suc c)), svc_proc = (\<lambda>_ c. (sample_proc, c)), svc_watchers = sample_watchers,
      svc_kinds = (\<lambda>_. Inr [\<lparr>gvk_Group = [], gvk_Version = ''v1'', gvk_Kind = ''Pod''\<rparr>]), svc_node_box = (\<lambda>_. VNil),
      svc_pods = (\<lambda>_ c. (Inr [], c)), svc_lb_services = (\<lambda>_ c. (Inr [], c)), svc_DescribeRepositories = (\<lambda>_ _ _ _. None),
      svc_DescribeLoadBalancer = (\<lambda>_ _ _. None), svc_images = (\<lambda>_ _. None), svc_hosts = (\<lambda>_ _. None), svc_map_order = (\<lambda>m. m),
      svc_cut_off = (\<lambda>_. RunReturned None)\<rparr>"

lemma sample_posix: "posix sample_node"
  by (simp add: posix_def sample_node_def sample_node_fs_def)

lemma sample_turns:
  "length (fst (fst (fs_fetch sample_node vanillaFsPatterns \<lparr>Sequence = 7\<rparr> (NewKubeFetcher, 0)))) = 1"
  "snd (fs_fetch sample_node vanillaFsPatterns \<lparr>Sequence = 7\<rparr> (NewKubeFetcher, 0)) = (NewKubeFetcher, 1)"
  "length (fst (fst (proc_fetch sample_node vanillaRequiredProcesses \<lparr>Sequence = 7\<rparr> (NewKubeFetcher, 1)))) = 1"
  "snd (proc_fetch sample_node vanillaRequiredProcesses \<lparr>Sequence = 7\<rparr> (NewKubeFetcher, 1)) = (NewKubeFetcher, 1)"
proof -
  show "length (fst (fst (fs_fetch sample_node vanillaFsPatterns \<lparr>Sequence = 7\<rparr> (NewKubeFetcher, 0)))) = 1"
    by (simp add: fs_fetch_def sample_node_def FileSystemFetcher_Fetch_def NewFsFetcher_def vanillaFsPatterns_def glob_or_none_def
        Glob_def Expand_def sample_node_fs_def has_prefix_def fetchSystemResource_def os_api.truncate_def case_prod_beta)
  show "snd (fs_fetch sample_node vanillaFsPatterns \<lparr>Sequence = 7\<rparr> (NewKubeFetcher, 0)) = (NewKubeFetcher, 1)"
    "snd (proc_fetch sample_node vanillaRequiredProcesses \<lparr>Sequence = 7\<rparr> (NewKubeFetcher, 1)) = (NewKubeFetcher, 1)"
    by (simp_all add: fs_fetch_def proc_fetch_def sample_node_def)
  show "length (fst (fst (proc_fetch sample_node vanillaRequiredProcesses \<lparr>Sequence = 7\<rparr> (NewKubeFetcher, 1)))) = 1"
    by (simp add: proc_fetch_def sample_node_def ProcessesFetcher_Fetch_def sample_proc_def sample_stat_def fetchProcessData_def
        vanillaRequiredProcesses_def)
qed


end
