(* ===== verification/GCP_Cycle.thy ===== *)
theory GCP_Cycle
  imports Channel_World GCP_Fetchers Benchmark_Model
begin

text \<open>
  The GCP benchmark as a whole: the five fetchers of \<open>resources/fetching/fetchers/gcp\<close> on the inventory provider that they share,
  with the registry of \<open>GCP.initialize\<close> (\<open>flavors/benchmark/gcp.go\<close>), run by the manager. The state is the cache of
  the provider.
\<close>

section \<open>The resources\<close>

datatype gcp_value =
    AssetValue gcp_asset
  | MonitoringAssetValue monitoring_asset
  | LogSinksValue logging_asset
  | ServicesValue service_usage_asset
  | PoliciesValue "extended_asset list"

definition GcpAsset_as_resource :: "(gcp_value \<Rightarrow> any) \<Rightarrow> gcp_asset_resource \<Rightarrow> resource" where
  "GcpAsset_as_resource box r =
     \<lparr>GetMetadata = GcpAsset_GetMetadata r, GetData = box (AssetValue (ext_Asset (ExtendedAsset r))),
      GetElasticCommonData = GcpAsset_GetElasticCommonData r\<rparr>"

definition GcpMonitoring_as_resource :: "(gcp_value \<Rightarrow> any) \<Rightarrow> monitoring_asset \<Rightarrow> resource" where
  "GcpMonitoring_as_resource box g =
     \<lparr>GetMetadata = GcpMonitoringAsset_GetMetadata g, GetData = box (MonitoringAssetValue g),
      GetElasticCommonData = GcpMonitoringAsset_GetElasticCommonData g\<rparr>"

definition GcpLogging_as_resource :: "(gcp_value \<Rightarrow> any) \<Rightarrow> logging_asset \<Rightarrow> resource" where
  "GcpLogging_as_resource box g =
     \<lparr>GetMetadata = GcpLoggingAsset_GetMetadata g, GetData = box (LogSinksValue g),
      GetElasticCommonData = GcpLoggingAsset_GetElasticCommonData g\<rparr>"

definition GcpServiceUsage_as_resource :: "(gcp_value \<Rightarrow> any) \<Rightarrow> service_usage_asset \<Rightarrow> resource" where
  "GcpServiceUsage_as_resource box g =
     \<lparr>GetMetadata = GcpServiceUsageAsset_GetMetadata g, GetData = box (ServicesValue g),
      GetElasticCommonData = GcpServiceUsageAsset_GetElasticCommonData g\<rparr>"

definition GcpPolicies_as_resource :: "(gcp_value \<Rightarrow> any) \<Rightarrow> project_policies_asset \<Rightarrow> resource" where
  "GcpPolicies_as_resource box g =
     \<lparr>GetMetadata = GcpPoliciesAsset_GetMetadata g, GetData = box (PoliciesValue (Policies g)),
      GetElasticCommonData = GcpPoliciesAsset_GetElasticCommonData g\<rparr>"

section \<open>The fetchers\<close>

text \<open>
  What the fetchers depend on beside the provider: orders of Go maps, the conversion of names, when the context of a fetch
  is done, the text of a panic, and the closing of the client.
\<close>

record gcp_env =
  gcp_ranges :: ranges
  gcp_types_order :: "(string \<times> string list) list \<Rightarrow> (string \<times> string list) list"
  gcp_kebab :: "string \<Rightarrow> string"
  gcp_budget :: "metadata \<Rightarrow> string \<Rightarrow> budget"
  gcp_panic :: string
  gcp_box :: "gcp_value \<Rightarrow> any"
  inventory_Close :: "crm_cache fetch_world \<Rightarrow> go_error option \<times> crm_cache fetch_world"

text \<open>A panic comes before anything is sent; what the cache has learnt before it is not followed.\<close>

definition answering :: "(metadata \<Rightarrow> 'c \<Rightarrow> ('a \<times> 'c) option) \<Rightarrow> metadata \<Rightarrow> 'c \<Rightarrow> 'a option \<times> 'c" where
  "answering fetch m c = (case fetch m c of None \<Rightarrow> (None, c) | Some (a, c') \<Rightarrow> (Some a, c'))"

definition with_close :: "gcp_env \<Rightarrow> crm_cache fetch_world fetcher \<Rightarrow> crm_cache fetch_world fetcher" where
  "with_close env f = f\<lparr>fetcher_Stop := GcpFetcher_Stop (inventory_Close env)\<rparr>"

text \<open>\<open>p\<close> is the provider in each cycle: what the service lists may change.\<close>

definition gcp_fetchers :: "gcp_env \<Rightarrow> (metadata \<Rightarrow> gcp_provider) \<Rightarrow> crm_cache fetch_world gcp_constructors" where
  "gcp_fetchers env p =
     (let rg = gcp_ranges env; box = gcp_box env; lost = RunPanicked (gcp_panic env); done = gcp_budget env
      in \<lparr>mk_GcpAssetsFetcher = with_close env (fetcher_until lost (GcpAsset_as_resource box) (\<lambda>m.
            GcpAssetsFetcher_Fetch (gcp_types_order env) (gcp_kebab env) (ListAllAssetTypesByName (merged_order rg) (p m))
              (done m ''assets'') m)),
          mk_GcpMonitoringFetcher = with_close env (fetcher_via lost (\<lambda>r. r) (GcpMonitoring_as_resource box) (answering (\<lambda>m.
            GcpMonitoringFetcher_Fetch (ListMonitoringAssets rg (p m)) (done m ''monitoring'') m))),
          mk_GcpServiceUsageFetcher = with_close env (fetcher_via lost (\<lambda>r. r) (GcpServiceUsage_as_resource box) (answering (\<lambda>m.
            GcpServiceUsageFetcher_Fetch (ListServiceUsageAssets rg (p m)) (done m ''services'') m))),
          mk_GcpLogSinkFetcher = with_close env (fetcher_via lost (\<lambda>r. r) (GcpLogging_as_resource box) (answering (\<lambda>m.
            GcpLogSinkFetcher_Fetch (ListLoggingAssets rg (p m)) (done m ''sinks'') m))),
          mk_GcpPoliciesFetcher = with_close env (fetcher_via lost (\<lambda>r. r) (GcpPolicies_as_resource box) (answering (\<lambda>m.
            GcpPoliciesFetcher_Fetch (ListProjectsAncestorsPolicies (p m)) (done m ''policies'') m)))\<rparr>)"

definition gcp_registry :: "gcp_env \<Rightarrow> (metadata \<Rightarrow> gcp_provider) \<Rightarrow> gcp_config \<Rightarrow> crm_cache fetch_world registry" where
  "gcp_registry env p cfg =
     NewRegistry [WithFetchersMap (case NewCisGcpFetchers (gcp_fetchers env p) cfg of Inl err \<Rightarrow> [] | Inr fm \<Rightarrow> fm)]"

text \<open>\<open>provider_of\<close> is the provider that \<open>init\<close> has made, in each cycle.\<close>

definition gcp_initialize ::
  "gcp_env \<Rightarrow> (gcp_config \<Rightarrow> 'gcp result) \<Rightarrow> ('gcp \<Rightarrow> 'inv result) \<Rightarrow> ('inv \<Rightarrow> metadata \<Rightarrow> gcp_provider) \<Rightarrow> strategy \<Rightarrow>
     ('cred, 'proc) config \<Rightarrow> crm_cache fetch_world initialized result" where
  "gcp_initialize env getCfg init provider_of = GCP_initialize getCfg init (\<lambda>inv. gcp_fetchers env (provider_of inv))"

definition GCP_NewBenchmark ::
  "(string \<Rightarrow> 'opa result) \<Rightarrow> (cloudbeat_version_info \<Rightarrow> (string \<times> any) list result) \<Rightarrow> version \<Rightarrow>
     gcp_env \<Rightarrow> (gcp_config \<Rightarrow> 'gcp result) \<Rightarrow> ('gcp \<Rightarrow> 'inv result) \<Rightarrow> ('inv \<Rightarrow> metadata \<Rightarrow> gcp_provider) \<Rightarrow> strategy \<Rightarrow>
     ('cred, 'proc) config \<Rightarrow> (crm_cache fetch_world, 'opa) bench result" where
  "GCP_NewBenchmark sdkNew dec ver env getCfg init provider_of strat cfg =
     NewBenchmark_cloud sdkNew dec ver cfg (gcp_initialize env getCfg init provider_of strat cfg)"

lemma gcp_initialize_ok:
  assumes "gcp_initialize env getCfg init provider_of strat cfg = Inr (rg, bdp, idp)"
  obtains p where "rg = gcp_registry env p (Gcp (CloudConfig cfg))" "bdp = cloud_provider []" "idp = None"
proof -
  obtain inv fm where "NewCisGcpFetchers (gcp_fetchers env (provider_of inv)) (Gcp (CloudConfig cfg)) = Inr fm"
      "rg = NewRegistry [WithFetchersMap fm]" "bdp = cloud_provider []" "idp = None"
    using assms by (auto simp: gcp_initialize_def GCP_initialize_def split: option.splits sum.splits)
  then show thesis using that [of "provider_of inv"] by (simp add: gcp_registry_def)
qed

definition new_gcp_world :: "crm_cache fetch_world" where
  "new_gcp_world = \<lparr>provider_state = [], channel = []\<rparr>"

section \<open>What the fetchers send\<close>

text \<open>A resource of a cycle: its metadata can be read, its subtype is one of GCP, and it names its project and organization.\<close>

definition gcp_fits :: "int \<Rightarrow> resource_info \<Rightarrow> bool" where
  "gcp_fits now r \<longleftrightarrow>
     CycleMetadata r = \<lparr>Sequence = now\<rparr> \<and> (\<exists>md. GetMetadata r = Inr md \<and> has_prefix (SubType md) ''gcp-'') \<and>
     (\<exists>ecs. GetElasticCommonData r = gcp_common_data ecs)"

lemma gcp_fits_foreign: "gcp_fits now r \<Longrightarrow> foreign_keys (GetElasticCommonData r)"
proof -
  have "list_all (\<lambda>k. key_root k \<notin> own_fields \<union> {''@timestamp'', ''@metadata''}) [''cloud'']" by code_simp
  then have "foreign_keys (gcp_common_data ecs)" for ecs unfolding gcp_common_data_def by (intro foreign_keysI) simp
  then show "gcp_fits now r \<Longrightarrow> foreign_keys (GetElasticCommonData r)" by (auto simp: gcp_fits_def)
qed

definition asset_of_gcp :: "metadata \<Rightarrow> gcp_asset_resource \<times> metadata \<Rightarrow> bool" where
  "asset_of_gcp m s \<longleftrightarrow> snd s = m \<and> has_prefix (ga_SubType (fst s)) ''gcp-''"

lemma send_assets_subtype: "list_all (asset_of_gcp m) (fst (send_assets kebab t m assets c))"
  by (induction assets arbitrary: c)
    (auto simp: asset_of_gcp_def getGcpSubType_def Let_def to_lower_def has_prefix_def case_prod_beta split: option.splits if_splits)

lemma fetch_types_subtype: "list_all (asset_of_gcp m) (fst (fst (fetch_types kebab listTypes m es c cch)))"
proof (induction es arbitrary: c cch)
  case (Cons e es)
  obtain t ts where e: "e = (t, ts)" by fastforce
  show ?case
    by (auto simp: e case_prod_unfold Let_def Cons.IH send_assets_subtype split: option.splits sum.splits sent_until.splits)
qed simp

lemma gcp_assets_fit:
  "list_all (\<lambda>s. gcp_fits (Sequence m) (send_resource (GcpAsset_as_resource box) s))
     (fst (fst (GcpAssetsFetcher_Fetch ranged kebab listTypes c m cch)))"
  unfolding GcpAssetsFetcher_Fetch_def
  by (rule list.pred_mono_strong [OF fetch_types_subtype])
    (auto simp: asset_of_gcp_def gcp_fits_def GcpAsset_as_resource_def GcpAsset_GetMetadata_def GcpAsset_GetElasticCommonData_def)

lemma answering_listing:
  assumes "fst (answering (\<lambda>m. fetch_listing (listing m) (c m) m) m cch) = Some (sends, err)"
  shows "list_all (\<lambda>s. snd s = m) sends"
  using assms
  by (auto simp: answering_def fetch_listing_def send_each_def list_all_iff split: option.splits sum.splits prod.splits)

lemma gcp_listing_fit:
  assumes "\<And>g. \<exists>md. GetMetadata (f g) = Inr md \<and> has_prefix (SubType md) ''gcp-''"
    and "\<And>g. \<exists>ecs. GetElasticCommonData (f g) = gcp_common_data ecs"
    and "fst (answering (\<lambda>m. fetch_listing (listing m) (c m) m) m cch) = Some (sends, err)"
  shows "list_all (\<lambda>s. gcp_fits (Sequence m) (send_resource f s)) sends"
  using answering_listing [OF assms(3)] assms(1,2) by (auto simp: list_all_iff gcp_fits_def)

section \<open>The cycles\<close>

lemma gcp_registry_reg:
  "reg (gcp_registry env p cfg) =
     (case NewCisGcpFetchers (gcp_fetchers env p) cfg of Inl err \<Rightarrow> [] | Inr fm \<Rightarrow> fm)"
  "updater (gcp_registry env p cfg) = None"
  by (simp_all add: gcp_registry_def NewRegistry_def WithFetchersMap_def)

lemma gcp_listings_fit:
  "\<exists>md. GetMetadata (GcpMonitoring_as_resource box a) = Inr md \<and> has_prefix (SubType md) ''gcp-''"
  "\<exists>md. GetMetadata (GcpLogging_as_resource box b) = Inr md \<and> has_prefix (SubType md) ''gcp-''"
  "\<exists>md. GetMetadata (GcpServiceUsage_as_resource box c) = Inr md \<and> has_prefix (SubType md) ''gcp-''"
  "\<exists>md. GetMetadata (GcpPolicies_as_resource box d) = Inr md \<and> has_prefix (SubType md) ''gcp-''"
  "\<exists>ecs. GetElasticCommonData (GcpMonitoring_as_resource box a) = gcp_common_data ecs"
  "\<exists>ecs. GetElasticCommonData (GcpLogging_as_resource box b) = gcp_common_data ecs"
  "\<exists>ecs. GetElasticCommonData (GcpServiceUsage_as_resource box c) = gcp_common_data ecs"
  "\<exists>ecs. GetElasticCommonData (GcpPolicies_as_resource box d) = gcp_common_data ecs"
  by (auto simp: GcpMonitoring_as_resource_def GcpLogging_as_resource_def GcpServiceUsage_as_resource_def
      GcpPolicies_as_resource_def GcpMonitoringAsset_GetMetadata_def GcpLoggingAsset_GetMetadata_def
      GcpServiceUsageAsset_GetMetadata_def GcpPoliciesAsset_GetMetadata_def project_metadata_def Let_def has_prefix_def
      GcpMonitoringAsset_GetElasticCommonData_def GcpLoggingAsset_GetElasticCommonData_def
      GcpServiceUsageAsset_GetElasticCommonData_def GcpPoliciesAsset_GetElasticCommonData_def)

lemma with_close_Fetch [simp]: "Fetch (with_close env f) = Fetch f"
  by (simp add: with_close_def)

interpretation gcp_regs: sending_registry "gcp_registry env p cfg" gcp_fits "\<lambda>_. True" for env p cfg
proof
  fix k rf m and w :: "crm_cache fetch_world"
  assume rf: "(k, rf) \<in> set (reg (gcp_registry env p cfg))"
  have via: "\<exists>rs. channel (snd (Fetch (fetcher_via lost (\<lambda>r. r) f (answering (\<lambda>m. fetch_listing (listing m) (c m) m))) m w)) =
      channel w @ rs \<and> list_all (gcp_fits (Sequence m)) rs"
    if md: "\<And>g. \<exists>md. GetMetadata (f g) = Inr md \<and> has_prefix (SubType md) ''gcp-''"
      and ecs: "\<And>g. \<exists>ecs. GetElasticCommonData (f g) = gcp_common_data ecs" for lost and f :: "'r \<Rightarrow> resource" and listing c
  proof -
    let ?fetch = "answering (\<lambda>m. fetch_listing (listing m) (c m) m)"
    have "list_all (\<lambda>s. gcp_fits (Sequence m) (send_resource f s)) sends" if "fst (?fetch m (provider_state w)) = Some (sends, err)" for sends err
      by (rule gcp_listing_fit [OF md ecs that])
    then show ?thesis using fetcher_via_sends [of "\<lambda>_. True" ?fetch m w gcp_fits "\<lambda>r. r" f lost] by simp
  qed
  have until: "\<exists>rs. channel (snd (Fetch (fetcher_until lost f fetch) m w)) = channel w @ rs \<and> list_all (gcp_fits (Sequence m)) rs"
    if "\<And>cch. list_all (\<lambda>s. gcp_fits (Sequence m) (send_resource f s)) (fst (fst (fetch m cch)))" for lost and f :: "'r \<Rightarrow> resource" and fetch
    using fetcher_until_sends [of "\<lambda>_. True" fetch m w gcp_fits f lost] that by simp
  show "\<exists>rs. channel (snd (Fetch (Fetcher rf) m w)) = channel w @ rs \<and> list_all (gcp_fits (Sequence m)) rs \<and> True"
    using rf unfolding gcp_registry_reg NewCisGcpFetchers_def gcp_fetchers_def Let_def GcpMonitoringFetcher_Fetch_def
      GcpServiceUsageFetcher_Fetch_def GcpLogSinkFetcher_Fetch_def GcpPoliciesFetcher_Fetch_def
    by (auto intro!: via until gcp_listings_fit gcp_assets_fit split: if_splits)
qed

interpretation gcp: sending_fetchers "\<lambda>r. r = gcp_registry env p cfg" gcp_fits "\<lambda>_. True" for env p cfg
  by (rule fixed_registry_sends [OF gcp_registry_reg(2) gcp_regs.sending_registry_axioms])

end
