(* ===== verification/Agent_Model.thy ===== *)
theory Agent_Model
  imports Flavors_Model Launcher_Model
begin

text \<open>
  The agent as libbeat starts it: \<open>beater.New\<close> (\<open>beater/beater.go\<close>), the transformation of the policy that the
  Elastic Agent sends (\<open>cmd/root.go\<close>), the version of the build (\<open>version/settings.go\<close>), the processor
  \<open>add_cluster_id\<close> (\<open>processor/add_cluster_id\<close>) and the options of Trivy's runner
  (\<open>vulnerability/runner.go\<close>). libbeat, the Kubernetes client and Trivy are parameters.
\<close>

section \<open>The policy of the agent\<close>

text \<open>
  \<open>modules\<close> is what \<open>CreateInputsFromStreams\<close> answers, \<open>source\<close> the policy as a map, and \<open>reload\<close> is
  \<open>CreateReloadConfigFromInputs\<close>.
\<close>

definition tag_module :: "any \<Rightarrow> any \<Rightarrow> (string \<times> any) list \<Rightarrow> (string \<times> any) list" where
  "tag_module packagePolicyID packagePolicyRevision m =
     map_put ''revision'' packagePolicyRevision (map_put ''package_policy_id'' packagePolicyID m)"

definition cloudbeatCfg ::
  "(string \<times> any) list list result \<Rightarrow> (string \<times> any) list \<Rightarrow>
     ((string \<times> any) list list \<Rightarrow> 'cfg list result) \<Rightarrow> 'cfg list result" where
  "cloudbeatCfg modules source reload =
     (case modules of
        Inl err \<Rightarrow> Inl (Wrapf ''error creating input list from raw expected config: '' err)
      | Inr ms \<Rightarrow>
          (case map_of source ''package_policy_id'' of
             None \<Rightarrow> Inl (Errorf (CHR 0x27 # ''package_policy_id'' @ CHR 0x27 # '' element does not exist''))
           | Some packagePolicyID \<Rightarrow>
               (case map_of source ''revision'' of
                  None \<Rightarrow> Inl (Errorf (CHR 0x27 # ''revision'' @ CHR 0x27 # '' element does not exist''))
                | Some packagePolicyRevision \<Rightarrow>
                    (case reload (map (tag_module packagePolicyID packagePolicyRevision) ms) of
                       Inl err \<Rightarrow> Inl (Wrapf ''error creating reloader config: '' err)
                     | Inr configList \<Rightarrow> Inr configList))))"

section \<open>The version of the build\<close>

text \<open>\<open>parse\<close> and \<open>format\<close> are those of \<open>time\<close>; the time that is kept of a failed parse is the zero time.\<close>

record 't vcs =
  vcsRevision :: string
  vcsTime :: 't

fun read_settings :: "(string \<Rightarrow> 't option) \<Rightarrow> 't \<Rightarrow> (string \<times> string) list \<Rightarrow> 't vcs \<Rightarrow> 't vcs" where
  "read_settings parse zero [] v = v"
| "read_settings parse zero ((k, s) # settings) v =
     read_settings parse zero settings
       (if k = ''vcs.time'' then v\<lparr>vcsTime := (case parse s of None \<Rightarrow> zero | Some t \<Rightarrow> t)\<rparr>
        else if k = ''vcs.revision'' then v\<lparr>vcsRevision := s\<rparr>
        else v)"

definition version_init :: "(string \<Rightarrow> 't option) \<Rightarrow> 't \<Rightarrow> (string \<times> string) list option \<Rightarrow> 't vcs" where
  "version_init parse zero buildInfo =
     (let v = \<lparr>vcsRevision = [], vcsTime = zero\<rparr>
      in case buildInfo of None \<Rightarrow> v | Some settings \<Rightarrow> read_settings parse zero settings v)"

definition cloudbeatCommitHash :: "'t vcs \<Rightarrow> string" where
  "cloudbeatCommitHash v = vcsRevision v"

definition cloudbeatCommitTime :: "('t \<Rightarrow> string) \<Rightarrow> 't vcs \<Rightarrow> string" where
  "cloudbeatCommitTime format v = format (vcsTime v)"

definition defaultBeatVersion :: string where
  "defaultBeatVersion = ''8.13.0''"

definition CloudbeatSemanticVersion :: string where
  "CloudbeatSemanticVersion = defaultBeatVersion"

definition CloudbeatVersion :: "('t \<Rightarrow> string) \<Rightarrow> 't vcs \<Rightarrow> version" where
  "CloudbeatVersion format v =
     \<lparr>v_Version = CloudbeatSemanticVersion, CommitHash = cloudbeatCommitHash v, CommitTime = cloudbeatCommitTime format v\<rparr>"

section \<open>The processor of the cluster id\<close>

definition clusterIdKey :: string where
  "clusterIdKey = ''cluster_id''"

definition orchestratorClusterIdKey :: string where
  "orchestratorClusterIdKey = ''orchestrator.cluster.id''"

definition processorName :: string where
  "processorName = ''add_cluster_id''"

definition makeErrConfigUnpack :: "go_error \<Rightarrow> go_error" where
  "makeErrConfigUnpack cause = Wrapf (''failed to unpack '' @ processorName @ '' processor configuration: '') cause"

definition makeErrComputeID :: "go_error \<Rightarrow> go_error" where
  "makeErrComputeID cause = Wrapf ''failed to compute ID: '' cause"

text \<open>\<open>getNamespace\<close> answers the UID of a namespace; the helper is the cluster id.\<close>

definition getClusterIdFromClient :: "(string \<Rightarrow> string result) \<Rightarrow> string result" where
  "getClusterIdFromClient getNamespace = getNamespace ''kube-system''"

definition newClusterHelper :: "(string \<Rightarrow> string result) \<Rightarrow> string result" where
  "newClusterHelper client = (case getClusterIdFromClient client of Inl err \<Rightarrow> Inl err | Inr clusterId \<Rightarrow> Inr clusterId)"

record add_cluster_id =
  helper :: string

definition processor_New :: "go_error option \<Rightarrow> (string \<Rightarrow> string result) result \<Rightarrow> add_cluster_id result" where
  "processor_New unpack client =
     (case unpack of
        Some err \<Rightarrow> Inl (makeErrConfigUnpack err)
      | None \<Rightarrow>
          (case client of
             Inl err \<Rightarrow> Inl err
           | Inr c \<Rightarrow> (case newClusterHelper c of Inl err \<Rightarrow> Inl err | Inr h \<Rightarrow> Inr \<lparr>helper = h\<rparr>)))"

text \<open>\<open>Run\<close> works on the event in place, so that the event is changed also where an error is returned.\<close>

definition processor_Run :: "beat_api \<Rightarrow> add_cluster_id \<Rightarrow> inserter" where
  "processor_Run api p event =
     (case event_PutValue api clusterIdKey (VStr (helper p)) event of
        (Some err, event) \<Rightarrow> (Some (makeErrComputeID err), event)
      | (None, event) \<Rightarrow>
          (case event_PutValue api orchestratorClusterIdKey (VStr (helper p)) event of
             (Some err, event) \<Rightarrow> (Some (makeErrComputeID err), event)
           | (None, event) \<Rightarrow> (None, event)))"

definition processor_String :: string where
  "processor_String = processorName @ ''=''"

text \<open>The processor is an enricher in the sense of the transformer's interface.\<close>

lemma only_changes_processor:
  assumes "put_only_touches_root api"
  shows "only_changes {''cluster_id'', ''orchestrator''} (processor_Run api p)"
proof -
  have root: "key_root clusterIdKey = ''cluster_id''" "key_root orchestratorClusterIdKey = ''orchestrator''"
    by (simp_all add: clusterIdKey_def orchestratorClusterIdKey_def key_root_def before_byte_def)
  note put = same_outside_put [OF assms, where roots = "{''cluster_id'', ''orchestrator''}"]
  show ?thesis
    unfolding only_changes_def processor_Run_def
    using put same_outside_trans [OF put put] root
    by (auto simp: put_value_is_put [OF assms] split: option.splits)
qed

interpretation add_cluster_id: event_enricher "\<lambda>api md. processor_Run api p" "{''cluster_id'', ''orchestrator''}" for p
  by unfold_locales (use only_changes_processor in \<open>auto simp: only_changes_def same_outside_def\<close>)

section \<open>The runner of Trivy\<close>

datatype vuln_type = VulnTypeOS | VulnTypeLibrary
datatype trivy_scanner = VulnerabilityScanner

record trivy_options =
  trivy_Timeout :: int
  trivy_Quiet :: bool
  trivy_Debug :: bool
  trivy_VulnType :: "vuln_type list"
  trivy_Scanners :: "trivy_scanner list"
  RekorURL :: string
  NoProgress :: bool
  DBRepository :: string
  JavaDBRepository :: string

definition NewVulnerabilityRunner :: "(trivy_options \<Rightarrow> 'r result) \<Rightarrow> 'r result" where
  "NewVulnerabilityRunner newRunner =
     newRunner \<lparr>trivy_Timeout = 1 * time_Hour, trivy_Quiet = False, trivy_Debug = True,
       trivy_VulnType = [VulnTypeOS, VulnTypeLibrary], trivy_Scanners = [VulnerabilityScanner],
       RekorURL = ''https://rekor.sigstore.dev'', NoProgress = True,
       DBRepository = ''ghcr.io/aquasecurity/trivy-db'', JavaDBRepository = ''ghcr.io/aquasecurity/trivy-java-db''\<rparr>"

section \<open>The agent\<close>

text \<open>
  \<open>beater.New\<close> makes a launcher of the listener, the validator and \<open>NewBeater\<close>, which libbeat then runs. What
  the validator answers for a nil configuration is a parameter.
\<close>

definition agent_validate ::
  "('raw, 'cred, 'proc, 'procs, 'client, 'w, 'opa, 'aws) beater_env \<Rightarrow> go_error option \<Rightarrow> 'raw option \<Rightarrow> go_error option" where
  "agent_validate env nil_error u =
     (case u of
        None \<Rightarrow> nil_error
      | Some raw \<Rightarrow> validator_Validate (env_cred0 env) (env_executable env) (env_unpack env) (FlattenedKeys env) raw)"

definition beater_New ::
  "('raw, 'cred, 'proc, 'procs, 'client, 'w, 'opa, 'aws) beater_env \<Rightarrow> go_error option \<Rightarrow>
     ('raw \<Rightarrow> 'raw option \<Rightarrow> 'raw \<times> go_error option) \<Rightarrow> 'raw \<Rightarrow> go_error option \<Rightarrow> bool \<Rightarrow> 'raw reconf_event list \<Rightarrow>
     ('raw wait_event \<times> bool) list \<Rightarrow> launcher_call list \<times> go_error option option" where
  "beater_New env nil_error merge cfg start_err enabled revs evs =
     launcher_Run start_err enabled (Some (agent_validate env nil_error)) revs
       (\<lambda>latest. error_of (NewBeater env latest)) merge cfg evs"

section \<open>Lemmas\<close>

text \<open>
  Every module keeps its settings and gets the policy's id and revision.
\<close>

lemma cloudbeatCfg_tags_modules:
  assumes "cloudbeatCfg modules source reload = Inr configs"
  shows "\<exists>ms i r tagged. modules = Inr ms \<and> map_of source ''package_policy_id'' = Some i \<and> map_of source ''revision'' = Some r \<and>
    reload tagged = Inr configs \<and>
    list_all2 (\<lambda>m t. map_of t = (map_of m)(''package_policy_id'' \<mapsto> i, ''revision'' \<mapsto> r)) ms tagged"
  using assms
  by (auto simp: cloudbeatCfg_def tag_module_def list_all2_conv_all_nth split: sum.splits option.splits)

lemma read_settings_last:
  "\<forall>s\<in>set later. fst s \<noteq> ''vcs.revision'' \<Longrightarrow>
   vcsRevision (read_settings parse zero (earlier @ (''vcs.revision'', hash) # later) v) = hash"
proof (induction earlier arbitrary: v)
  case Nil
  have "vcsRevision (read_settings parse zero later w) = vcsRevision w" for w
    using Nil by (induction later arbitrary: w) auto
  then show ?case by simp
qed (auto split: prod.splits)

lemma rejected_updates:
  assumes "\<forall>u\<in>set us. \<exists>e m. validate (Some u) = Some e \<and> errors_as_unhealthy e = Some m"
  shows "\<exists>status. length status = length us \<and>
    reconfigureWait (Some validate) (map (\<lambda>u. RUpdate (Some u)) us @ es) =
      (status @ fst (reconfigureWait (Some validate) es), snd (reconfigureWait (Some validate) es))"
  using assms
proof (induction us)
  case (Cons u us)
  then obtain e m status where "validate (Some u) = Some e" "errors_as_unhealthy e = Some m" "length status = length us"
    "reconfigureWait (Some validate) (map (\<lambda>u. RUpdate (Some u)) us @ es) =
      (status @ fst (reconfigureWait (Some validate) es), snd (reconfigureWait (Some validate) es))" by auto
  then show ?case by (intro exI [of _ "m # status"]) simp
qed simp

section \<open>Properties\<close>

text \<open>
  C30. The agent under Fleet: as long as the configurations it is sent unpack but are not acceptable, it
  creates no beater and reports one degraded status for each of them; with the first acceptable one it merges it
  into its own configuration and enters the loop that creates the beater from the result, and
  when that has ended the manager is stopped.
\<close>

theorem agent_waits_for_valid_policy:
  assumes "defaultConfig (env_cred0 env) (env_executable env) = Inr d"
    and "\<forall>raw\<in>set rejected. \<exists>c. env_unpack env raw d = Inr c \<and> \<not> config_ok c"
    and "env_unpack env policy d = Inr c" "config_ok c"
    and "merge cfg (Some policy) = (merged, None)"
  shows "\<exists>status. length status = length rejected \<and>
    beater_New env nil_error merge cfg None True (map (\<lambda>u. RUpdate (Some u)) rejected @ RUpdate (Some policy) # revs) evs =
      (let (calls, r) = launcher_run (\<lambda>latest. error_of (NewBeater env latest)) merge merged evs
       in (MStart # map MDegraded status @ calls @ (if r = None then [] else [MStop]), r))"
proof -
  let ?v = "agent_validate env nil_error"
  have "\<exists>e m. ?v (Some raw) = Some e \<and> errors_as_unhealthy e = Some m" if raw: "raw \<in> set rejected" for raw
  proof -
    obtain c' where c': "env_unpack env raw d = Inr c'" "\<not> config_ok c'" using assms(2) raw by blast
    then show ?thesis
      using Validate_reports_unhealthy [where raw = raw and unpack = "env_unpack env", OF assms(1) c'(1)] by (simp add: agent_validate_def)
  qed
  then have "\<forall>raw\<in>set rejected. \<exists>e m. ?v (Some raw) = Some e \<and> errors_as_unhealthy e = Some m" by blast
  from rejected_updates [OF this] obtain status where status: "length status = length rejected"
    "reconfigureWait (Some ?v) (map (\<lambda>u. RUpdate (Some u)) rejected @ RUpdate (Some policy) # revs) =
      (status @ fst (reconfigureWait (Some ?v) (RUpdate (Some policy) # revs)),
       snd (reconfigureWait (Some ?v) (RUpdate (Some policy) # revs)))" by blast
  have "?v (Some policy) = None"
    using Validate_reports_unhealthy [where raw = policy and unpack = "env_unpack env", OF assms(1,3)] assms(4) by (simp add: agent_validate_def)
  then have "reconfigureWait (Some ?v) (map (\<lambda>u. RUpdate (Some u)) rejected @ RUpdate (Some policy) # revs) =
      (status, Some (Inr (Some policy)))"
    using status(2) by simp
  then show ?thesis
    using status(1) assms(5) by (intro exI [of _ status]) (simp add: beater_New_def launcher_Run_def configUpdate_def)
qed

lemma agent_waits_for_valid_policy_witness:
  "\<exists>m. beater_New sample_beater_env None (\<lambda>l u. (case u of None \<Rightarrow> l | Some v \<Rightarrow> v, None)) ''base'' None True
      [RUpdate (Some ''cis_unknown''), RUpdate (Some ''cis_aws'')] [(BeaterErrClosed, True)] =
     ([MStart, MDegraded m, RStop, MStop], Some (Some ErrorGracefulExit))"
proof -
  let ?merge = "\<lambda>l u. (case u of None \<Rightarrow> l | Some v \<Rightarrow> v, None)"
  have env: "defaultConfig (env_cred0 sample_beater_env) (env_executable sample_beater_env) = Inr default_for_witness"
    "env_unpack sample_beater_env b default_for_witness = Inr (default_for_witness\<lparr>Benchmark := b\<rparr>)" for b
    by (simp_all add: sample_beater_env_def default_at_opt)
  have "\<not> config_ok (default_for_witness\<lparr>Benchmark := ''cis_unknown''\<rparr>)" "config_ok (default_for_witness\<lparr>Benchmark := ''cis_aws''\<rparr>)"
    by (simp_all add: config_ok_def SupportedCIS_def cis_defs account_type_ok_def default_for_witness_def
        zero_cloud_def zero_azure_def)
  then obtain status where "length status = length [''cis_unknown'']"
    "beater_New sample_beater_env None ?merge ''base'' None True
      (map (\<lambda>u. RUpdate (Some u)) [''cis_unknown''] @ RUpdate (Some ''cis_aws'') # []) [(BeaterErrClosed, True)] =
      (let (calls, r) = launcher_run (\<lambda>latest. error_of (NewBeater sample_beater_env latest)) ?merge ''cis_aws'' [(BeaterErrClosed, True)]
       in (MStart # map MDegraded status @ calls @ (if r = None then [] else [MStop]), r))"
    using agent_waits_for_valid_policy [where env = sample_beater_env and rejected = "[''cis_unknown'']" and
        policy = "''cis_aws''" and merge = ?merge and cfg = "''base''" and revs = "[]" and nil_error = None and
        evs = "[(BeaterErrClosed, True)]", OF env(1) _ env(2)] env(2) by auto
  moreover have "error_of (NewBeater sample_beater_env ''cis_aws'') = None"
    using NewBeater_kinds_witness by auto
  ultimately show ?thesis
    by (auto simp: launcher_run_def runLoop.simps isConfigUpdate_def isStopSignal_def ErrorStopSignal_def
        stopBeaterWithTimeout_def length_Suc_conv)
qed

end
