(* ===== verification/CloudFormation_Model.thy ===== *)
theory CloudFormation_Model
  imports Data_Model GoText
begin

text \<open>
  The deployment tool \<open>deploy/cloudformation\<close>: its configuration (\<open>config.go\<close>) and the creation of a stack
  from it (\<open>gomain.go\<close>). viper, yq, the file system and CloudFormation are parameters.
\<close>

section \<open>The configuration\<close>

record dev_config =
  AllowSSH :: bool
  KeyName :: string

record cf_config =
  StackName :: string
  FleetURL :: string
  EnrollmentToken :: string
  ElasticArtifactServer :: "string option"
  ElasticAgentVersion :: string
  cf_Dev :: "dev_config option"
  DeploymentType :: string

definition DeploymentTypeCSPM :: string where
  "DeploymentTypeCSPM = ''CSPM''"

definition DeploymentTypeCNVM :: string where
  "DeploymentTypeCNVM = ''CNVM''"

definition ValidDeploymentTypes :: "string list" where
  "ValidDeploymentTypes = [DeploymentTypeCSPM, DeploymentTypeCNVM]"

definition validateDevConfig :: "dev_config \<Rightarrow> go_error option" where
  "validateDevConfig cfg =
     (if AllowSSH cfg \<and> KeyName cfg = [] then Some (Errorf ''missing required flag for SSH enablement mode: DEV.KEY_NAME'')
      else None)"

definition validateConfig :: "cf_config \<Rightarrow> go_error option" where
  "validateConfig cfg =
     (if StackName cfg = [] then Some (Errorf ''missing required flag: STACK_NAME'')
      else if FleetURL cfg = [] then Some (Errorf ''missing required flag: FLEET_URL'')
      else if EnrollmentToken cfg = [] then Some (Errorf ''missing required flag: ENROLLMENT_TOKEN'')
      else if ElasticAgentVersion cfg = [] then Some (Errorf ''missing required flag: ELASTIC_AGENT_VERSION'')
      else case cf_Dev cfg of
             Some dev \<Rightarrow> validateDevConfig dev
           | None \<Rightarrow>
               if DeploymentType cfg \<noteq> [] \<and> DeploymentType cfg \<notin> set ValidDeploymentTypes
               then Some (Errorf (''DeploymentType '' @ DeploymentType cfg @ '' invalid''))
               else None)"

text \<open>
  \<open>bindEnvs\<close> walks over the type of the configuration by reflection: a field has its \<open>mapstructure\<close> tag, or none,
  and the fields of a struct are nested; a pointer is a plain field. The result lists the names that are bound,
  in order, and the error of \<open>viper.BindEnv\<close>.
\<close>

datatype go_field = Plain "string option" | Nested "string option" "go_field list"

fun bindEnvs :: "(string \<Rightarrow> go_error option) \<Rightarrow> string list \<Rightarrow> go_field list \<Rightarrow> string list \<times> go_error option" where
  "bindEnvs bind parts [] = ([], None)"
| "bindEnvs bind parts (Plain None # fs) = bindEnvs bind parts fs"
| "bindEnvs bind parts (Nested None inner # fs) = bindEnvs bind parts fs"
| "bindEnvs bind parts (Plain (Some tv) # fs) =
     (let name = join_with (CHR ''.'') (parts @ [tv])
      in case bind name of
           Some err \<Rightarrow> ([name], Some err)
         | None \<Rightarrow> (let (names, err) = bindEnvs bind parts fs in (name # names, err)))"
| "bindEnvs bind parts (Nested (Some tv) inner # fs) =
     (case bindEnvs bind (parts @ [tv]) inner of
        (names, Some err) \<Rightarrow> (names, Some err)
      | (names, None) \<Rightarrow> (let (names', err) = bindEnvs bind parts fs in (names @ names', err)))"

definition config_fields :: "go_field list" where
  "config_fields =
     [Plain (Some ''STACK_NAME''), Plain (Some ''FLEET_URL''), Plain (Some ''ENROLLMENT_TOKEN''),
      Plain (Some ''ELASTIC_ARTIFACT_SERVER''), Plain (Some ''ELASTIC_AGENT_VERSION''), Plain (Some ''DEV''),
      Plain (Some ''DEPLOYMENT_TYPE'')]"

text \<open>\<open>%v\<close> puts the text of an error into a new one.\<close>

definition errorf_v :: "string \<Rightarrow> go_error \<Rightarrow> go_error" where
  "errorf_v p err = Errorf (p @ error_text err)"

definition parseConfig ::
  "go_error option \<Rightarrow> (string \<Rightarrow> go_error option) \<Rightarrow> (string list \<Rightarrow> cf_config result) \<Rightarrow> cf_config result" where
  "parseConfig readInConfig bindEnv unmarshal =
     (case readInConfig of
        Some err \<Rightarrow> Inl (errorf_v ''failed to read configuration: '' err)
      | None \<Rightarrow>
          (case bindEnvs bindEnv [] config_fields of
             (_, Some err) \<Rightarrow> Inl (errorf_v ''failed to bind environment variables: '' err)
           | (names, None) \<Rightarrow>
               (case unmarshal names of
                  Inl err \<Rightarrow> Inl (errorf_v ''failed to unmarshal configuration file: '' err)
                | Inr cfg \<Rightarrow> (case validateConfig cfg of Some err \<Rightarrow> Inl err | None \<Rightarrow> Inr cfg))))"

section \<open>The stack\<close>

datatype env = DEV_TEMPLATE | PROD_TEMPLATE

definition templatePaths :: "(string \<times> (env \<Rightarrow> string)) list" where
  "templatePaths =
     [(DeploymentTypeCSPM, \<lambda>e. case e of DEV_TEMPLATE \<Rightarrow> ''elastic-agent-ec2-dev-cspm.yml'' | PROD_TEMPLATE \<Rightarrow> ''elastic-agent-ec2-cspm.yml''),
      (DeploymentTypeCNVM, \<lambda>e. case e of DEV_TEMPLATE \<Rightarrow> ''elastic-agent-ec2-dev-cnvm.yml'' | PROD_TEMPLATE \<Rightarrow> ''elastic-agent-ec2-cnvm.yml'')]"

definition getTemplatePath :: "string \<Rightarrow> env \<Rightarrow> string" where
  "getTemplatePath deploymentType e =
     (let t = (if deploymentType = [] then DeploymentTypeCNVM else deploymentType)
      in case map_of templatePaths t of None \<Rightarrow> [] | Some paths \<Rightarrow> paths e)"

record stack_input =
  si_StackName :: string
  TemplateBody :: string
  si_Parameters :: "(string \<times> string) list"

text \<open>
  The surroundings, over a state \<open>'w\<close> of the file system and of CloudFormation. \<open>yq\<close> evaluates the fixed
  expression on a template; \<open>order\<close> is that of the loop over the parameters.
\<close>

record 'w cf_api =
  os_ReadFile :: "string \<Rightarrow> 'w \<Rightarrow> string result"
  yq :: "string \<Rightarrow> string result"
  os_Create :: "string \<Rightarrow> 'w \<Rightarrow> go_error option \<times> 'w"
  WriteString :: "string \<Rightarrow> string \<Rightarrow> 'w \<Rightarrow> go_error option \<times> 'w"
  file_Close :: "string \<Rightarrow> 'w \<Rightarrow> go_error option \<times> 'w"
  LoadDefaultConfig :: "go_error option"
  CreateStack :: "stack_input \<Rightarrow> 'w \<Rightarrow> string result \<times> 'w"
  param_order :: "(string \<times> string) list \<Rightarrow> (string \<times> string) list"

text \<open>The deferred close reports its error only where there is none yet.\<close>

definition generateDevTemplate :: "'w cf_api \<Rightarrow> string \<Rightarrow> string \<Rightarrow> 'w \<Rightarrow> go_error option \<times> 'w" where
  "generateDevTemplate api prodTemplatePath devTemplatePath w =
     (case os_ReadFile api prodTemplatePath w of
        Inl err \<Rightarrow> (Some err, w)
      | Inr inputBytes \<Rightarrow>
          (case yq api inputBytes of
             Inl err \<Rightarrow> (Some err, w)
           | Inr generated \<Rightarrow>
               (case os_Create api devTemplatePath w of
                  (Some err, w) \<Rightarrow> (Some err, w)
                | (None, w) \<Rightarrow>
                    (let (writeErr, w) = WriteString api devTemplatePath generated w;
                         (closeErr, w) = file_Close api devTemplatePath w
                     in ((case writeErr of
                            Some err \<Rightarrow> Some (Wrapf ''failed to write to dev template: '' err)
                          | None \<Rightarrow> map_option (Wrapf ''failed to close file: '') closeErr), w)))))"

definition createStack :: "'w cf_api \<Rightarrow> string \<Rightarrow> string \<Rightarrow> (string \<times> string) list \<Rightarrow> 'w \<Rightarrow> go_error option \<times> 'w" where
  "createStack api stackName templatePath params w =
     (case LoadDefaultConfig api of
        Some err \<Rightarrow> (Some (errorf_v ''failed to load AWS SDK config: '' err), w)
      | None \<Rightarrow>
          (let cfParams = param_order api params
           in case os_ReadFile api templatePath w of
                Inl err \<Rightarrow> (Some (errorf_v ''failed to open template file: '' err), w)
              | Inr bodyBytes \<Rightarrow>
                  (case CreateStack api \<lparr>si_StackName = stackName, TemplateBody = bodyBytes, si_Parameters = cfParams\<rparr> w of
                     (Inl err, w) \<Rightarrow> (Some (errorf_v ''failed to call AWS CloudFormation CreateStack: '' err), w)
                   | (Inr stackId, w) \<Rightarrow> (None, w))))"

definition stack_params :: "cf_config \<Rightarrow> (string \<times> string) list" where
  "stack_params cfg =
     (let params = map_put ''FleetUrl'' (FleetURL cfg) [];
          params = map_put ''EnrollmentToken'' (EnrollmentToken cfg) params;
          params = map_put ''ElasticAgentVersion'' (ElasticAgentVersion cfg) params
      in case ElasticArtifactServer cfg of None \<Rightarrow> params | Some s \<Rightarrow> map_put ''ElasticArtifactServer'' s params)"

definition createFromConfig :: "'w cf_api \<Rightarrow> cf_config \<Rightarrow> 'w \<Rightarrow> go_error option \<times> 'w" where
  "createFromConfig api cfg w =
     (let params = stack_params cfg;
          templatePath = getTemplatePath (DeploymentType cfg) PROD_TEMPLATE;
          create = (\<lambda>templatePath params w.
            (case createStack api (StackName cfg) templatePath params w of
               (Some err, w) \<Rightarrow> (Some (errorf_v ''failed to create CloudFormation stack: '' err), w)
             | (None, w) \<Rightarrow> (None, w)))
      in case cf_Dev cfg of
           Some dev \<Rightarrow>
             if AllowSSH dev then
               (let params = map_put ''KeyName'' (KeyName dev) params;
                    devTemplatePath = getTemplatePath (DeploymentType cfg) DEV_TEMPLATE
                in case generateDevTemplate api templatePath devTemplatePath w of
                     (Some err, w) \<Rightarrow> (Some (errorf_v ''could not generate dev template: '' err), w)
                   | (None, w) \<Rightarrow> create devTemplatePath params w)
             else create templatePath params w
         | None \<Rightarrow> create templatePath params w)"

text \<open>The log's \<open>Fatal\<close> ends the program with the error.\<close>

definition cf_main ::
  "'w cf_api \<Rightarrow> go_error option \<Rightarrow> (string \<Rightarrow> go_error option) \<Rightarrow> (string list \<Rightarrow> cf_config result) \<Rightarrow> 'w \<Rightarrow>
     go_error option \<times> 'w" where
  "cf_main api readInConfig bindEnv unmarshal w =
     (case parseConfig readInConfig bindEnv unmarshal of
        Inl err \<Rightarrow> (Some err, w)
      | Inr cfg \<Rightarrow> createFromConfig api cfg w)"

section \<open>Lemmas\<close>

text \<open>
  The variables that are bound are the names of the top level: \<open>Dev\<close> is a pointer, so that its fields are not
  reached, and a setting such as \<open>DEV.KEY_NAME\<close> can only come from the file.
\<close>

lemma bindEnvs_config_fields:
  "bindEnvs (\<lambda>_. None) [] config_fields =
     ([''STACK_NAME'', ''FLEET_URL'', ''ENROLLMENT_TOKEN'', ''ELASTIC_ARTIFACT_SERVER'', ''ELASTIC_AGENT_VERSION'',
       ''DEV'', ''DEPLOYMENT_TYPE''], None)"
  by (simp add: config_fields_def)

text \<open>A template is named by the deployment types and by the empty one; any other has the empty path.\<close>

lemma getTemplatePath_valid:
  "getTemplatePath t e \<noteq> [] \<longleftrightarrow> t = [] \<or> t \<in> set ValidDeploymentTypes"
  by (cases e) (auto simp: getTemplatePath_def templatePaths_def ValidDeploymentTypes_def DeploymentTypeCSPM_def
      DeploymentTypeCNVM_def)

lemma createStack_ok:
  assumes "createStack api name path params w = (None, w')"
  shows "\<exists>body i. os_ReadFile api path w = Inr body \<and>
    CreateStack api \<lparr>si_StackName = name, TemplateBody = body, si_Parameters = param_order api params\<rparr> w = (Inr i, w')"
  using assms by (auto simp: createStack_def Let_def split: option.splits sum.splits prod.splits)

lemma validated_template:
  "validateConfig cfg = None \<Longrightarrow> cf_Dev cfg = None \<Longrightarrow> getTemplatePath (DeploymentType cfg) e \<noteq> []"
  by (auto simp: validateConfig_def getTemplatePath_valid split: if_splits)

text \<open>
  With a dev section the deployment type is not checked: a configuration with an unknown type is accepted, and the
  template that it asks for has an empty path.
\<close>

lemma dev_section_skips_check:
  "\<exists>cfg. validateConfig cfg = None \<and> DeploymentType cfg = ''CNVN'' \<and> getTemplatePath (DeploymentType cfg) PROD_TEMPLATE = []"
proof -
  let ?cfg = "\<lparr>StackName = ''s'', FleetURL = ''u'', EnrollmentToken = ''t'', ElasticArtifactServer = None, ElasticAgentVersion = ''8'',
      cf_Dev = Some \<lparr>AllowSSH = False, KeyName = []\<rparr>, DeploymentType = ''CNVN''\<rparr>"
  have "validateConfig ?cfg = None" "getTemplatePath (DeploymentType ?cfg) PROD_TEMPLATE = []"
    by (simp_all add: validateConfig_def validateDevConfig_def getTemplatePath_def templatePaths_def DeploymentTypeCSPM_def
        DeploymentTypeCNVM_def)
  then show ?thesis by (intro exI [of _ ?cfg]) simp
qed

section \<open>Properties\<close>

text \<open>
  When the tool ends without an error, it has created one stack: of the configured name, from the template of the
  deployment type (the dev template, generated before, where SSH is allowed) as it is in the file system at
  that moment, and with the parameters of the configuration, each once; the key is among them only where
  SSH is allowed.
\<close>

lemma createFromConfig_creates_stack:
  assumes "createFromConfig api cfg w = (None, w')" and "\<And>m. mset (param_order api m) = mset m"
  shows "let ssh = (case cf_Dev cfg of None \<Rightarrow> False | Some dev \<Rightarrow> AllowSSH dev)
    in \<exists>w1 body params i.
      (if ssh then generateDevTemplate api (getTemplatePath (DeploymentType cfg) PROD_TEMPLATE) (getTemplatePath (DeploymentType cfg) DEV_TEMPLATE) w = (None, w1)
       else w1 = w) \<and>
      os_ReadFile api (getTemplatePath (DeploymentType cfg) (if ssh then DEV_TEMPLATE else PROD_TEMPLATE)) w1 = Inr body \<and>
      CreateStack api \<lparr>si_StackName = StackName cfg, TemplateBody = body, si_Parameters = params\<rparr> w1 = (Inr i, w') \<and>
      distinct (map fst params) \<and>
      map_of params = [''FleetUrl'' \<mapsto> FleetURL cfg, ''EnrollmentToken'' \<mapsto> EnrollmentToken cfg,
          ''ElasticAgentVersion'' \<mapsto> ElasticAgentVersion cfg](''ElasticArtifactServer'' := ElasticArtifactServer cfg,
          ''KeyName'' := (if ssh then map_option KeyName (cf_Dev cfg) else None))"
proof -
  define ssh where "ssh = (case cf_Dev cfg of None \<Rightarrow> False | Some dev \<Rightarrow> AllowSSH dev)"
  define params where "params = (if ssh then map_put ''KeyName'' (KeyName (the (cf_Dev cfg))) (stack_params cfg) else stack_params cfg)"
  define path where "path = getTemplatePath (DeploymentType cfg) (if ssh then DEV_TEMPLATE else PROD_TEMPLATE)"
  have "\<exists>w1. (if ssh then generateDevTemplate api (getTemplatePath (DeploymentType cfg) PROD_TEMPLATE)
        (getTemplatePath (DeploymentType cfg) DEV_TEMPLATE) w = (None, w1) else w1 = w) \<and>
      createStack api (StackName cfg) path params w1 = (None, w')"
    using assms(1)
    by (auto simp: createFromConfig_def Let_def ssh_def params_def path_def split: option.splits if_splits prod.splits)
  then obtain w1 where w1: "createStack api (StackName cfg) path params w1 = (None, w')" and "if ssh then generateDevTemplate api (getTemplatePath (DeploymentType cfg) PROD_TEMPLATE)
        (getTemplatePath (DeploymentType cfg) DEV_TEMPLATE) w = (None, w1) else w1 = w" by blast
  with createStack_ok [OF w1] obtain body i where created: "if ssh then generateDevTemplate api (getTemplatePath (DeploymentType cfg) PROD_TEMPLATE)
        (getTemplatePath (DeploymentType cfg) DEV_TEMPLATE) w = (None, w1) else w1 = w"
      "os_ReadFile api path w1 = Inr body"
      "CreateStack api \<lparr>si_StackName = StackName cfg, TemplateBody = body, si_Parameters = param_order api params\<rparr> w1 = (Inr i, w')"
    by blast
  have params: "distinct (map fst params)" "map_of params = [''FleetUrl'' \<mapsto> FleetURL cfg, ''EnrollmentToken'' \<mapsto> EnrollmentToken cfg,
          ''ElasticAgentVersion'' \<mapsto> ElasticAgentVersion cfg](''ElasticArtifactServer'' := ElasticArtifactServer cfg,
          ''KeyName'' := (if ssh then map_option KeyName (cf_Dev cfg) else None))"
    by (cases "ElasticArtifactServer cfg"; cases "cf_Dev cfg";
        simp add: params_def stack_params_def Let_def ssh_def distinct_map_put fun_upd_idem)+
  have order: "mset (param_order api params) = mset params" by (rule assms(2))
  then have distinct: "distinct (map fst (param_order api params))"
    using params(1) by (metis mset_eq_imp_distinct_iff mset_map)
  have "map_of (param_order api params) = map_of params"
    by (rule map_of_inject_set [THEN iffD2, OF distinct params(1) mset_eq_setD [OF order]])
  note params_map = trans [OF this params(2)]
  show ?thesis
    unfolding Let_def ssh_def [symmetric]
    by (intro exI conjI) (rule created(1) created(2) [unfolded path_def] created(3) distinct params_map)+
qed

definition sample_cf_api :: "(stack_input list) cf_api" where
  "sample_cf_api =
     \<lparr>os_ReadFile = \<lambda>p w. if p = ''elastic-agent-ec2-cspm.yml'' then Inr ''template'' else Inl (Errorf ''no such file''),
      yq = Inr, os_Create = \<lambda>p w. (None, w), WriteString = \<lambda>p t w. (None, w), file_Close = \<lambda>p w. (None, w),
      LoadDefaultConfig = None, CreateStack = \<lambda>si w. (Inr ''arn'', w @ [si]), param_order = rev\<rparr>"

definition sample_cf :: cf_config where
  "sample_cf = \<lparr>StackName = ''s'', FleetURL = ''u'', EnrollmentToken = ''t'', ElasticArtifactServer = None,
     ElasticAgentVersion = ''8.13.0'', cf_Dev = None, DeploymentType = ''CSPM''\<rparr>"

lemma createFromConfig_creates_stack_witness:
  "\<exists>params. createFromConfig sample_cf_api sample_cf [] =
     (None, [\<lparr>si_StackName = ''s'', TemplateBody = ''template'', si_Parameters = params\<rparr>]) \<and>
   map_of params ''FleetUrl'' = Some ''u'' \<and> map_of params ''KeyName'' = None"
proof -
  have run: "createFromConfig sample_cf_api sample_cf [] =
     (None, [\<lparr>si_StackName = ''s'', TemplateBody = ''template'', si_Parameters = rev (stack_params sample_cf)\<rparr>])"
    by (simp add: createFromConfig_def createStack_def sample_cf_api_def sample_cf_def getTemplatePath_def templatePaths_def
        DeploymentTypeCSPM_def)
  have "mset (param_order sample_cf_api m) = mset m" for m by (simp add: sample_cf_api_def)
  from createFromConfig_creates_stack [OF run this] obtain params where
    "params = rev (stack_params sample_cf)" "map_of params ''FleetUrl'' = Some ''u''" "map_of params ''KeyName'' = None"
    by (auto simp: sample_cf_def sample_cf_api_def)
  with run show ?thesis by blast
qed

end
