(* ===== verification/Spec2Isabelle.thy ===== *)
theory Spec2Isabelle
  imports UserLookup Config_Model Launcher_Model Cycle_Cache Fetch_Registry Fetch_Manager Pipeline_Step
    Publisher_Model Data_Model Data_Providers Evaluator_Model Transformer_Model FS_Fetcher Proc_Fetcher
    Kube_Fetcher Preset_Model Uniqueness_Model Benchmark_Model AWS_Regions EC2_Model Vuln_Stages
    Vuln_Events Flavors_Model AWS_Accounts AWS_Storage AWS_Audit AWS_IAM AWS_Fetchers GCP_Inventory GCP_Fetchers
    Azure_Inventory Azure_Fetchers Channel_World Azure_Cycle AWS_Cycle
    K8s_Cycle GCP_Cycle Progress Agent_Model CloudFormation_Model
begin

text \<open>
  Cloudbeat, the agent that evaluates the configuration of clouds and clusters against benchmarks (the
  posture flavor) and scans the volumes of EC2 instances for vulnerabilities (the vulnerability flavor).
  This development models its Go code and proves what the parts promise each other.

  \<^bold>\<open>The program and its theories.\<close>

  \<^item> \<open>Prelude\<close> has what all theories share: Go's errors and their wrapping, results (\<open>Inl\<close> the error, \<open>Inr\<close> the
    value), and the collections \<open>go_result\<close> and \<open>go_seq\<close>. \<open>Progress\<close> has what it takes for goroutines to come to
    rest. \<open>GoText\<close> has the functions of Go's packages \<open>strings\<close>,
    \<open>bytes\<close>, \<open>strconv\<close> and \<open>time\<close> that the code calls. \<open>Data_Model\<close> has the types that the components exchange
    (\<open>resources/fetching/fetcher.go\<close>, \<open>evaluator/evaluator.go\<close>) and Go's maps, kept as association lists with
    distinct keys; the order in which a loop ranges over one is an argument where it matters.

  \<^item> Start and configuration. \<open>Launcher_Model\<close> (\<open>launcher\<close>) waits for a valid configuration, starts a beater,
    and replaces it on an update; \<open>run\<close> is a function of the sequence of ready cases of its \<open>select\<close>, and the
    interleaving with the beater's goroutine is the step relation \<open>launcher_step\<close>. \<open>Config_Model\<close> (\<open>config\<close>,
    \<open>beater/validator.go\<close>) unpacks, completes and validates. \<open>Flavors_Model\<close> (\<open>flavors\<close>, \<open>beater/beater.go\<close>) builds the
    flavor that the configuration names and runs it; \<open>Benchmark_Model\<close> (\<open>flavors/benchmark\<close> and its \<open>builder\<close>)
    chooses the strategy of a benchmark, checks its dependencies and builds the fetchers, the evaluator and
    the transformer. \<open>Agent_Model\<close> (\<open>beater.New\<close>, \<open>cmd\<close>, \<open>version\<close>, \<open>processor/add_cluster_id\<close>, the options of
    \<open>vulnerability/runner.go\<close>) is the agent as libbeat starts it.

  \<^item> Fetching. \<open>Fetch_Registry\<close> and \<open>Fetch_Manager\<close> (\<open>resources/fetching/registry\<close>, \<open>condition\<close>, \<open>manager\<close>) run the
    fetchers whose conditions hold, each with its recovery of panics, under the timeout of an iteration.
    \<open>Preset_Model\<close> (\<open>preset\<close>) says which fetchers a benchmark has. \<open>Uniqueness_Model\<close> (\<open>uniqueness\<close>) decides who
    leads the cluster, a step relation over the elector's goroutine. \<open>Cycle_Cache\<close> (\<open>cycle\<close>) keeps a value for a
    cycle. The fetchers are in \<open>FS_Fetcher\<close>, \<open>Proc_Fetcher\<close>, \<open>Kube_Fetcher\<close> (\<open>fetchers/k8s\<close>, with \<open>UserLookup\<close> for
    \<open>resources/utils/user\<close>), \<open>AWS_Fetchers\<close> (\<open>fetchers/aws\<close>),
    \<open>GCP_Fetchers\<close> (\<open>fetchers/gcp\<close>) and \<open>Azure_Fetchers\<close> (\<open>fetchers/azure\<close>, with the enrichers of assets).

  \<^item> Providers. \<open>AWS_Regions\<close> (\<open>multi_region.go\<close>, and the paging that the providers share) and \<open>EC2_Model\<close>,
    \<open>AWS_Accounts\<close> (the regions and their cache, identity, the accounts of an organization, the name of the EKS
    cluster), \<open>AWS_Storage\<close> (S3, KMS, RDS, ELB, ECR), \<open>AWS_Audit\<close> (CloudTrail, CloudWatch, SNS, Config, Security
    Hub and the aggregations of \<open>aws_cis\<close>), \<open>AWS_IAM\<close> (users with their credential report, policies, analyzers),
    all under \<open>resources/providers\<close>; \<open>GCP_Inventory\<close> (\<open>gcplib\<close>: credentials, the listing
    of assets with their cloud data, grouping by project) and \<open>Azure_Inventory\<close> (\<open>azurelib\<close>: credentials, the resource
    graph, subscriptions, storage and SQL servers).

  \<^item> From resources to events. \<open>Pipeline_Step\<close> (\<open>pipeline\<close>) is a stage between two buffered channels, as a function
    of the items and as a step relation of the goroutine; \<open>Evaluator_Model\<close> (\<open>evaluator\<close>) asks the policy,
    \<open>Transformer_Model\<close> (\<open>transformer\<close>) makes one event of each finding, \<open>Data_Providers\<close> (\<open>dataprovider\<close>) enriches it,
    and \<open>Publisher_Model\<close> (\<open>flavors/publisher.go\<close>, \<open>repeater.go\<close>) hands batches to the client.

  \<^item> Vulnerabilities. \<open>Vuln_Types\<close>, \<open>Vuln_Stages\<close> and \<open>Vuln_Events\<close> (\<open>vulnerability\<close>): instances, snapshots, their
    verification and scan, the events of what was found, and the clean-up.

  \<^item> \<open>CloudFormation_Model\<close> (\<open>deploy/cloudformation\<close>) is the tool that creates the stack of an agent.

  \<^item> The benchmarks as a whole. \<open>Channel_World\<close> puts what a fetcher sends on the channel that all fetchers of a
    benchmark share, and runs the cycles of the manager; \<open>Azure_Cycle\<close>, \<open>AWS_Cycle\<close> (one account, and the accounts of an
    organization), \<open>K8s_Cycle\<close> (Kubernetes and EKS) and \<open>GCP_Cycle\<close> instantiate the presets and strategies with the
    modelled fetchers and their providers. The root theory joins them with the pipeline and the publisher.

  \<^bold>\<open>How code corresponds to definitions.\<close> A struct is a record with the source's fields, an interface or a
  union a datatype, a function or method a definition of its name (qualified where two packages use the
  same name). A call that leaves the repository (an SDK's client, the operating system, OPA, libbeat, a
  compiled regular expression, a decoder) is an argument: a function to its answer or error, with a state
  where an answer depends on earlier calls. Nil is \<open>None\<close>; a panic is a value of its own wherever the code can
  reach one. A \<open>select\<close> loop is a recursion over the list of its ready cases, so that a statement about all
  lists is one about all schedules; goroutines that share state are step relations.

  \<^bold>\<open>Loops and bounds.\<close> No definition has fuel. A loop over the pages of a service is a \<open>partial_function\<close>: \<open>None\<close> is a
  service whose pages never end, and the properties that promise an answer assume a finite chain of pages
  (\<open>page_chain\<close>, \<open>query_chain\<close>), from which they prove that the loop returns. A pager or an iterator whose loop
  the SDK bounds is the finite list of what it yields. The wait for the credential report is a
  recursion over the attempts that are left, at most five, so a fetch makes at most seven requests
  (\<open>credential_report_bounded\<close>). The polling of snapshots is a recursion over the answers of the service.

  \<^bold>\<open>What the lemmas show.\<close> Each component has its functional behaviour on every branch, errors included. What
  several components share is a locale, interpreted on the code's definitions in their theories:
  \<open>stream_stage\<close> and \<open>two_stages\<close> (a stage answers each item once and in order; stages compose), used by the
  pipeline and the scanner; \<open>event_enricher\<close> (an enricher writes below its own key only); \<open>registry_contract\<close>;
  \<open>row_matcher\<close> (passwd and group rows); \<open>assets_enricher\<close> (an enricher of Azure assets adds extensions of its own keys
  to assets of its own type); \<open>coming_to_rest\<close> (the steps of a component lower a number), interpreted on the
  shutdown of the launcher and on the election's goroutines, whose \<open>Stop\<close> therefore returns; \<open>cycle_provider\<close> (a
  provider whose cache belongs to a cycle); \<open>sending_registry\<close> and \<open>sending_fetchers\<close> (fetchers that only append
  resources of their cycle to the channel), interpreted on the registries of the benchmarks, from which the statements
  about any number of cycles follow. On top: nothing is lost, doubled or reordered from the fetchers to the client
  (\<open>posture_publishes_findings\<close>); the events that the client gets from Azure, an AWS organization, GCP and EKS are
  those of the resources that the cycles send (\<open>azure_cycle_publishes\<close>, \<open>aws_org_publishes_members\<close>,
  \<open>gcp_cycles_publish\<close>, \<open>eks_node_publishes\<close>); one beater at a time, one panic stops one fetcher only, created
  snapshots are deleted and only completed ones scanned, a cached value is never older than what was
  stored, the calls that page answer what every page holds, the caches of the providers answer what
  asking again would, and under Fleet no beater is created before an acceptable policy.

  \<^bold>\<open>Not modelled.\<close> Logging; the contents of log lines. The registration with libbeat (\<open>cmd.RootCmd\<close>, \<open>main.go\<close>,
  \<open>reload.RegisterV2\<close>), which has no logic of its own. The rules, an external bundle. Mocks, build scripts, the
  deployment files and test helpers. Time is an argument, and memory races are only modelled where the code
  says that it is safe for concurrent use (the cycle cache, the launcher, the leader election).
\<close>

section \<open>From the resources to the client\<close>

lemma events_read_closed: "events_read (map Events made @ [ChClosed]) = made"
  by (induction made) auto

lemma posture_Run_handled:
  assumes "newPostureFromCfg newBenchmark newProcessors ConnectWith cfg = (Inr bt, cancelled)"
    and "posture_Run leConfig newElector es bt = (RunHandled batches out, bt')"
  shows "concat batches @ waiting out = concat (events_read es) \<and> [] \<notin> set batches"
proof -
  obtain p where "HandleEvents p es [] [] = (batches, out)"
    using assms(2) by (auto simp: posture_Run_def split: prod.splits option.splits)
  then show ?thesis using HandleEvents_concat HandleEvents_nonempty by fastforce
qed

lemma newPosture_benchmark:
  assumes "newPostureFromCfg newBenchmark newProcessors ConnectWith cfg = (Inr bt, cancelled)"
  obtains strat where "newBenchmark strat cfg = Inr (post_benchmark bt)"
  using assms by (auto simp: newPostureFromCfg_def split: sum.splits)

lemma posture_outcomes:
  assumes "put_only_touches_root api"
    and "NewBenchmark_cloud sdkNew dec ver cfg (Inr (rg, cloud_provider opts, None)) = Inr (post_benchmark bt) \<or>
      NewBenchmark_k8s sdkNew dec ver cfg (Inr ((rg, \<lambda>api. k8s_EnrichEvent api dp, Some idp), le)) =
        Inr (post_benchmark bt)"
    and "newPostureFromCfg newBenchmark newProcessors ConnectWith cfg = (Inr bt, cancelled)"
    and "\<forall>r\<in>set resources. foreign_keys (GetElasticCommonData r)"
    and "events_read es = basebenchmark_Run api Decision decode clock uuid (post_benchmark bt) resources"
    and "posture_Run leConfig newElector es bt = (RunHandled batches out, bt')"
  obtains outcomes where "concat batches @ waiting out = concat (oks outcomes)" "[] \<notin> set batches"
    "list_all2 (outcome_of api Decision decode clock uuid (post_benchmark bt)) resources outcomes"
proof -
  obtain outcomes where
    "basebenchmark_Run api Decision decode clock uuid (post_benchmark bt) resources = oks outcomes"
    "list_all2 (outcome_of api Decision decode clock uuid (post_benchmark bt)) resources outcomes"
    using basebenchmark_Run_describes [OF assms(1,2,4)] by blast
  with posture_Run_handled [OF assms(3,6)] assms(5) that show thesis by simp
qed

text \<open>
  C1. The posture flavor, end to end: when the publisher reads what the pipeline of the benchmark makes of
  the resources that the fetchers send, the batches that it hands to the client, followed by what it still
  holds, are the events of these resources, one outcome for each resource, in the order in which they were
  sent. An outcome is the error of the policy evaluation or of the transformation, which drops the
  resource, or one event for each finding that the evaluation reports, each describing its finding and
  this resource.
\<close>

theorem posture_publishes_findings:
  assumes "put_only_touches_root api"
    and "NewBenchmark_cloud sdkNew dec ver cfg (Inr (rg, cloud_provider opts, None)) = Inr (post_benchmark bt) \<or>
      NewBenchmark_k8s sdkNew dec ver cfg (Inr ((rg, \<lambda>api. k8s_EnrichEvent api dp, Some idp), le)) =
        Inr (post_benchmark bt)"
    and "newPostureFromCfg newBenchmark newProcessors ConnectWith cfg = (Inr bt, cancelled)"
    and "\<forall>r\<in>set resources. foreign_keys (GetElasticCommonData r)"
    and "events_read es = basebenchmark_Run api Decision decode clock uuid (post_benchmark bt) resources"
    and "posture_Run leConfig newElector es bt = (RunHandled batches out, bt')"
  shows "\<exists>outcomes. concat batches @ waiting out = concat (oks outcomes) \<and> [] \<notin> set batches \<and>
    list_all2 (outcome_of api Decision decode clock uuid (post_benchmark bt)) resources outcomes"
  using posture_outcomes [OF assms] by metis

definition sample_new_benchmark :: "strategy \<Rightarrow> (unit, unit) config \<Rightarrow> (bool, unit) bench result" where
  "sample_new_benchmark s cfg =
     NewBenchmark_cloud (\<lambda>_. Inr ()) (\<lambda>_. Inr []) \<lparr>v_Version = ''8.13.0'', CommitHash = [], CommitTime = []\<rparr>
       cfg (Inr (NewRegistry [], cloud_provider [], None))"

lemma posture_publishes_findings_witness:
  "\<exists>(bt :: (unit, unit, nat, bool, unit) posture) batches out bt' outcomes.
     newPostureFromCfg sample_new_benchmark (\<lambda>_. Inr ()) (\<lambda>_. Inr 3) (default_for_witness\<lparr>Benchmark := ''cis_gcp''\<rparr>) =
       (Inr bt, False) \<and>
     posture_Run (Inl (Errorf [])) (\<lambda>_. None)
       (map Events (basebenchmark_Run flat_api (\<lambda>_ _. Inr VNil) (\<lambda>_. (RuleResult sample_event_data, None))
          (\<lambda>_. 9) (\<lambda>_ _. ''u'') (post_benchmark bt) [ResourceInfo sample_event_data]) @ [ChClosed]) bt =
       (RunHandled batches out, bt') \<and>
     concat batches @ waiting out = concat (oks outcomes) \<and> length outcomes = 1"
proof -
  let ?cfg = "default_for_witness\<lparr>Benchmark := ''cis_gcp''\<rparr>"
  have "\<exists>b. sample_new_benchmark (GCP True True) ?cfg = Inr b"
    by (simp add: sample_new_benchmark_def NewBenchmark_cloud_def Build_def buildBase_def NewOpaEvaluator_def
        common_New_def Let_def)
  then obtain b where b: "sample_new_benchmark (GCP True True) ?cfg = Inr b" ..
  then have "\<exists>bt :: (unit, unit, nat, bool, unit) posture.
      newPostureFromCfg sample_new_benchmark (\<lambda>_. Inr ()) (\<lambda>_. Inr 3) ?cfg = (Inr bt, False) \<and> post_benchmark bt = b"
    by (simp add: newPostureFromCfg_def GetStrategy_def cis_defs NewClient_def configureProcessors_def)
  then obtain bt :: "(unit, unit, nat, bool, unit) posture" where bt:
      "newPostureFromCfg sample_new_benchmark (\<lambda>_. Inr ()) (\<lambda>_. Inr 3) ?cfg = (Inr bt, False)"
      "post_benchmark bt = b" by blast
  have built: "NewBenchmark_cloud (\<lambda>_. Inr ()) (\<lambda>_. Inr []) \<lparr>v_Version = ''8.13.0'', CommitHash = [], CommitTime = []\<rparr>
      ?cfg (Inr (NewRegistry [], cloud_provider [], None)) = Inr (post_benchmark bt)"
    using b bt(2) by (simp add: sample_new_benchmark_def)
  let ?made = "basebenchmark_Run flat_api (\<lambda>_ _. Inr VNil) (\<lambda>_. (RuleResult sample_event_data, None))
      (\<lambda>_. 9) (\<lambda>_ _. ''u'') (post_benchmark bt) [ResourceInfo sample_event_data]"
  obtain batches out where "HandleEvents (fb_publisher bt) (map Events ?made @ [ChClosed]) [] [] = (batches, out)"
    by fastforce
  then have run: "posture_Run (Inl (Errorf [])) (\<lambda>_. None) (map Events ?made @ [ChClosed]) bt =
      (RunHandled batches out, bt\<lparr>post_benchmark := post_benchmark bt\<rparr>)"
    using NewBenchmark_cloud_ok [OF built] by (simp add: posture_Run_def bench_Run_def)
  have foreign: "\<forall>r\<in>set [ResourceInfo sample_event_data]. foreign_keys (GetElasticCommonData r)"
    by (simp add: sample_event_data_def foreign_keys_def)
  obtain outcomes where "concat batches @ waiting out = concat (oks outcomes)"
      "list_all2 (outcome_of flat_api (\<lambda>_ _. Inr VNil) (\<lambda>_. (RuleResult sample_event_data, None)) (\<lambda>_. 9)
        (\<lambda>_ _. ''u'') (post_benchmark bt)) [ResourceInfo sample_event_data] outcomes"
    using posture_publishes_findings [OF flat_api_ok disjI1 [OF built] bt(1) foreign events_read_closed run] by blast
  moreover from this(2) have "length outcomes = 1" using list_all2_lengthD by fastforce
  ultimately show ?thesis using bt(1) run by blast
qed



definition sample_azure_benchmark :: "strategy \<Rightarrow> (unit, unit) config \<Rightarrow> (azure_caches fetch_world, unit) bench result" where
  "sample_azure_benchmark =
     Azure_NewBenchmark (\<lambda>_. Inr ()) (\<lambda>_. Inr []) \<lparr>v_Version = ''8.13.0'', CommitHash = [], CommitTime = []\<rparr>
       (\<lambda>_. Inr ()) (\<lambda>_. Inr sample_listing) (\<lambda>_. Inr sample_storage) (\<lambda>_. sample_sql) sample_env"



section \<open>The cycles of an AWS organization\<close>

text \<open>What the metadata of the resource of an event say, up to its id, which the id provider changes.\<close>

definition event_resource :: "(resource_metadata \<Rightarrow> bool) \<Rightarrow> beat_event \<Rightarrow> bool" where
  "event_resource P e \<longleftrightarrow> (\<exists>rsc. map_of (Fields e) ''resource'' = Some (FResource rsc) \<and> P (fields_Metadata rsc))"

lemma outcome_resource:
  assumes "outcome_of api Decision decode clock uuid b r (Inr events)"
    and "\<And>md i. GetMetadata r = Inr md \<Longrightarrow> P (md\<lparr>ID := i\<rparr>)"
  shows "list_all (event_resource P) events"
proof -
  obtain j d md where md: "GetMetadata r = Inr md"
      and describe: "list_all2 (describes (bm_transformer b) (clock j) d md) (Findings (RuleResult d)) events"
    using assms(1) by (auto simp: outcome_of_def)
  have "event_resource P e" if "describes (bm_transformer b) (clock j) d md f e" for f e
    using that assms(2) [OF md] by (auto simp: describes_def event_resource_def)
  then show ?thesis using describe by (auto simp: list_all2_conv_all_nth list_all_length)
qed

lemma cycles_fit:
  "list_all2 (\<lambda>(now, evs). list_all (fits now)) ticks rss \<Longrightarrow> list_all (\<lambda>r. \<exists>now. fits now r) (concat rss)"
  by (induction rule: list_all2_induct) (auto elim!: list.pred_mono_strong)

definition names_account :: "identity \<Rightarrow> resource_metadata \<Rightarrow> bool" where
  "names_account ident md \<longleftrightarrow> AccountId md = Account ident \<and> AccountName md = AccountAlias ident \<and>
     OrganisationId md = OrganizationId ident \<and> account_OrganizationName md = OrganizationName ident"

lemma oks_concat_all:
  "list_all2 P rs outcomes \<Longrightarrow> list_all R rs \<Longrightarrow> (\<And>r evs. P r (Inr evs) \<Longrightarrow> R r \<Longrightarrow> list_all Q evs) \<Longrightarrow>
   list_all Q (concat (oks outcomes))"
proof (induction rule: list_all2_induct)
  case (Cons r rs outcome outcomes)
  then show ?case by (cases outcome) auto
qed simp

text \<open>
  C2. The benchmark of an AWS organization, end to end: in any number of cycles, whatever the organization lists and the
  services answer, what the client is given, followed by what the publisher still holds, is the events of the resources
  that the cycles send, one outcome for each in their order, and the resource of every event names the
  account and the organization of an identity that the organization has listed.
\<close>

theorem aws_org_publishes_members:
  assumes "put_only_touches_root api"
    and "newPostureFromCfg (AWSOrg_NewBenchmark sdkNew dec ver env svc listing) newProcessors ConnectWith cfg = (Inr bt, cancelled)"
    and "run_cycles registry_ops secs (bm_registry (post_benchmark bt)) ticks (new_org_world c) = (rg', w')"
    and "events_read es = basebenchmark_Run api Decision decode clock uuid (post_benchmark bt) (channel w')"
    and "posture_Run leConfig newElector es bt = (RunHandled batches out, bt')"
  shows "\<exists>rss outcomes. channel w' = concat rss \<and>
    list_all2 (\<lambda>(now, evs). list_all (org_fits (listed listing) now)) ticks rss \<and>
    concat batches @ waiting out = concat (oks outcomes) \<and>
    list_all2 (outcome_of api Decision decode clock uuid (post_benchmark bt)) (channel w') outcomes \<and>
    list_all (\<lambda>e. \<exists>ident. listed listing ident \<and> event_resource (names_account ident) e) (concat batches @ waiting out)"
proof -
  obtain strat where new: "AWSOrg_NewBenchmark sdkNew dec ver env svc listing strat cfg = Inr (post_benchmark bt)"
    by (rule newPosture_benchmark [OF assms(2)])
  then obtain rg bdp idp where ini: "aws_org_initialize env svc listing strat cfg = Inr (rg, bdp, idp)"
    unfolding AWSOrg_NewBenchmark_def by (metis NewBenchmark_initialized(1) prod_cases3)
  from aws_org_initialize_sound [OF ini] obtain aws ident where
    sound: "org_registry env svc listing aws ident (listed listing) rg" and given: "bdp = cloud_provider []" "idp = None" by metis
  note built = new [unfolded AWSOrg_NewBenchmark_def ini given]
  have "bm_registry (post_benchmark bt) = rg" using NewBenchmark_cloud_ok [OF built] by simp
  with aws_org.run_cycles_sends [OF sound new_org_world_members [of listing c], of secs ticks] assms(3)
  obtain rss where rss: "channel w' = concat rss"
      "list_all2 (\<lambda>(now, evs). list_all (org_fits (listed listing) now)) ticks rss" by (auto simp: new_org_world_def)
  have "list_all (\<lambda>r. \<exists>now. org_fits (listed listing) now r) (concat rss)" by (rule cycles_fit [OF rss(2)])
  then have fit: "list_all (\<lambda>r. foreign_keys (GetElasticCommonData r) \<and> (\<exists>ident. listed listing ident \<and> names_member ident r))
      (channel w')" unfolding rss(1) by (auto simp: org_fits_def aws_fits_def elim!: list.pred_mono_strong)
  then have foreign: "\<forall>r\<in>set (channel w'). foreign_keys (GetElasticCommonData r)" by (simp add: list_all_iff)
  obtain outcomes where published: "concat batches @ waiting out = concat (oks outcomes)"
      and outcomes: "list_all2 (outcome_of api Decision decode clock uuid (post_benchmark bt)) (channel w') outcomes"
    using posture_outcomes [OF assms(1) disjI1 [OF built] assms(2) foreign assms(4,5)] by blast
  have "list_all (\<lambda>e. \<exists>ident. listed listing ident \<and> event_resource (names_account ident) e) (concat (oks outcomes))"
  proof (rule oks_concat_all [OF outcomes fit])
    fix r evs
    assume made: "outcome_of api Decision decode clock uuid (post_benchmark bt) r (Inr evs)"
      and "foreign_keys (GetElasticCommonData r) \<and> (\<exists>ident. listed listing ident \<and> names_member ident r)"
    then obtain i where "listed listing i" "names_member i r" by blast
    from outcome_resource [OF made, of "names_account i"] this
    have "list_all (event_resource (names_account i)) evs" by (auto simp: names_member_def names_account_def)
    with \<open>listed listing i\<close>
    show "list_all (\<lambda>e. \<exists>ident. listed listing ident \<and> event_resource (names_account ident) e) evs" by (auto simp: list_all_iff)
  qed
  then show ?thesis
    by (intro exI [of _ rss] exI [of _ outcomes] conjI rss outcomes published) (simp only: published)
qed


definition sample_org_config :: "(unit, unit) config" where
  "sample_org_config = default_for_witness\<lparr>Benchmark := ''cis_aws'',
     CloudConfig := (zero_cloud ())\<lparr>Aws := \<lparr>aws_Cred = (), aws_AccountType = OrganizationAccount\<rparr>\<rparr>\<rparr>"

definition sample_org_benchmark :: "strategy \<Rightarrow> (unit, unit) config \<Rightarrow> ((unit, nat) org_world, unit) bench result" where
  "sample_org_benchmark =
     AWSOrg_NewBenchmark (\<lambda>_. Inr ()) (\<lambda>_. Inr []) \<lparr>v_Version = ''8.13.0'', CommitHash = [], CommitTime = []\<rparr>
       sample_aws_env sample_services sample_members"

lemma aws_org_publishes_members_witness:
  "\<exists>(bt :: (unit, unit, nat, (unit, nat) org_world, unit) posture) rg' w' batches out bt' outcomes.
     newPostureFromCfg sample_org_benchmark (\<lambda>_. Inr ()) (\<lambda>_. Inr 3) sample_org_config = (Inr bt, False) \<and>
     run_cycles registry_ops ''600'' (bm_registry (post_benchmark bt)) [(7, \<lambda>_. Finished), (8, \<lambda>_. Finished)] (new_org_world 0) = (rg', w') \<and>
     posture_Run (Inl (Errorf [])) (\<lambda>_. None)
       (map Events (basebenchmark_Run flat_api (\<lambda>_ _. Inr VNil) (\<lambda>_. (RuleResult sample_event_data, None))
          (\<lambda>_. 9) (\<lambda>_ _. ''u'') (post_benchmark bt) (channel w')) @ [ChClosed]) bt = (RunHandled batches out, bt') \<and>
     concat batches @ waiting out = concat (oks outcomes) \<and> length outcomes = length (channel w') \<and>
     list_all (\<lambda>e. \<exists>ident. listed sample_members ident \<and> event_resource (names_account ident) e) (concat batches @ waiting out)"
proof -
  let ?cfg = sample_org_config and ?s = "AWSOrg True True" and ?ticks = "[(7, \<lambda>_::string. Finished), (8, \<lambda>_. Finished)]"
  obtain ini where ini: "aws_org_initialize sample_aws_env sample_services sample_members ?s ?cfg = Inr ini"
    by (simp add: aws_org_initialize_def AWSOrg_initialize_def sample_aws_env_def)
  then have "\<exists>b. sample_org_benchmark ?s ?cfg = Inr b"
    by (cases ini) (simp add: sample_org_benchmark_def AWSOrg_NewBenchmark_def NewBenchmark_cloud_def Build_def buildBase_def NewOpaEvaluator_def
        common_New_def Let_def)
  then obtain b where b: "sample_org_benchmark ?s ?cfg = Inr b" ..
  then have "\<exists>bt :: (unit, unit, nat, (unit, nat) org_world, unit) posture.
      newPostureFromCfg sample_org_benchmark (\<lambda>_. Inr ()) (\<lambda>_. Inr 3) ?cfg = (Inr bt, False) \<and> post_benchmark bt = b"
    by (simp add: newPostureFromCfg_def GetStrategy_def sample_org_config_def default_for_witness_def cis_defs NewClient_def configureProcessors_def)
  then obtain bt :: "(unit, unit, nat, (unit, nat) org_world, unit) posture" where bt:
      "newPostureFromCfg sample_org_benchmark (\<lambda>_. Inr ()) (\<lambda>_. Inr 3) ?cfg = (Inr bt, False)"
      "post_benchmark bt = b" by blast
  note built = b [unfolded sample_org_benchmark_def AWSOrg_NewBenchmark_def ini, folded bt(2)]
  have new: "newPostureFromCfg (AWSOrg_NewBenchmark (\<lambda>_. Inr ()) (\<lambda>_. Inr []) \<lparr>v_Version = ''8.13.0'', CommitHash = [], CommitTime = []\<rparr>
      sample_aws_env sample_services sample_members) (\<lambda>_. Inr ()) (\<lambda>_. Inr 3) ?cfg = (Inr bt, False)"
    using bt(1) unfolding sample_org_benchmark_def .
  from built have elector: "bm_leaderElector (post_benchmark bt) = None"
    by (cases ini) (auto dest: NewBenchmark_cloud_ok)
  obtain rg' w' where it: "run_cycles registry_ops ''600'' (bm_registry (post_benchmark bt)) ?ticks (new_org_world 0) = (rg', w')"
    by (metis prod.collapse)
  let ?made = "basebenchmark_Run flat_api (\<lambda>_ _. Inr VNil) (\<lambda>_. (RuleResult sample_event_data, None))
      (\<lambda>_. 9) (\<lambda>_ _. ''u'') (post_benchmark bt) (channel w')"
  obtain batches out where "HandleEvents (fb_publisher bt) (map Events ?made @ [ChClosed]) [] [] = (batches, out)"
    by fastforce
  then have run: "posture_Run (Inl (Errorf [])) (\<lambda>_. None) (map Events ?made @ [ChClosed]) bt =
      (RunHandled batches out, bt\<lparr>post_benchmark := post_benchmark bt\<rparr>)"
    using elector by (simp add: posture_Run_def bench_Run_def)
  obtain outcomes where published: "concat batches @ waiting out = concat (oks outcomes)"
      "list_all2 (outcome_of flat_api (\<lambda>_ _. Inr VNil) (\<lambda>_. (RuleResult sample_event_data, None)) (\<lambda>_. 9)
        (\<lambda>_ _. ''u'') (post_benchmark bt)) (channel w') outcomes"
      "list_all (\<lambda>e. \<exists>ident. listed sample_members ident \<and> event_resource (names_account ident) e) (concat batches @ waiting out)"
    using aws_org_publishes_members [OF flat_api_ok new it events_read_closed run] by blast
  have "length outcomes = length (channel w')" using list_all2_lengthD [OF published(2)] by simp
  with bt(1) it run published(1,3) show ?thesis by blast
qed

section \<open>The cycles of a node\<close>

definition file_or_process :: "resource_metadata \<Rightarrow> bool" where
  "file_or_process md \<longleftrightarrow> md_Type md \<in> {FSResourceType, ''process''}"


definition sample_kube_env :: "(unit, unit, unit, unit) kube_env" where
  "sample_kube_env =
     \<lparr>GetClient = (\<lambda>_. Inr ()), k8s_ClusterName = (\<lambda>_ _. Inr ''k''), eks_ClusterName = (\<lambda>_. Inr ''e''),
      ServerVersion = (\<lambda>_. Inr ''1.27''), Namespace_UID = (\<lambda>_ _. Inr ''c''), DiscoverNode = (\<lambda>_. Inr ''n''),
      Node_UID = (\<lambda>_ _. Inr ''u''), NewV5 = (\<lambda>_ i. i)\<rparr>"

definition sample_eks_benchmark :: "strategy \<Rightarrow> (unit, unit) config \<Rightarrow> ((kube_type, nat) node_state fetch_world, unit) bench result" where
  "sample_eks_benchmark =
     EKS_NewBenchmark (\<lambda>_. Inr ()) (\<lambda>_. Inr []) \<lparr>v_Version = ''8.13.0'', CommitHash = [], CommitTime = []\<rparr>
       sample_aws_env sample_kube_env (\<lambda>_ _. sample_node) (\<lambda>_. False)"

definition sample_le_config :: le_config where
  "sample_le_config =
     \<lparr>Identity = ''agent'', LeaseName = LeaderLeaseName, LeaseNamespace = ''kube-system'', le_LeaseDuration = 15 * time_Second,
      le_RenewDeadline = 10 * time_Second, le_RetryPeriod = 2 * time_Second, ReleaseOnCancel = True\<rparr>"

lemma posture_Run_starts:
  assumes "fst (bench_Run leConfig newElector (post_benchmark bt)) = None"
  obtains batches out bt' where "posture_Run leConfig newElector es bt = (RunHandled batches out, bt')"
proof (cases "bench_Run leConfig newElector (post_benchmark bt)")
  case (fields err b m)
  with assms that show thesis by (cases "HandleEvents (fb_publisher bt) es [] []") (auto simp: posture_Run_def)
qed


section \<open>The cycles of GCP\<close>

definition subtype_of_gcp :: "resource_metadata \<Rightarrow> bool" where
  "subtype_of_gcp md \<longleftrightarrow> has_prefix (SubType md) ''gcp-''"


definition sample_gcp_env :: gcp_env where
  "sample_gcp_env =
     \<lparr>gcp_ranges = \<lparr>merged_order = (\<lambda>m. m), project_order = (\<lambda>m. m)\<rparr>, gcp_types_order = rev, gcp_kebab = (\<lambda>s. s),
      gcp_budget = (\<lambda>_ _. None), gcp_panic = ''index out of range'', gcp_box = (\<lambda>_. VNil), inventory_Close = (\<lambda>w. (None, w))\<rparr>"

definition sample_gcp_provider :: "unit \<Rightarrow> metadata \<Rightarrow> gcp_provider" where
  "sample_gcp_provider _ _ =
     \<lparr>gp_config = \<lparr>Parent = ''projects/1'', ClientOpts = []\<rparr>, ListAssets = (\<lambda>_. []),
      crm = \<lparr>getProjectDisplayName = (\<lambda>_. []), getOrganizationDisplayName = (\<lambda>_. [])\<rparr>\<rparr>"

definition sample_gcp_benchmark :: "strategy \<Rightarrow> (unit, unit) config \<Rightarrow> (crm_cache fetch_world, unit) bench result" where
  "sample_gcp_benchmark =
     GCP_NewBenchmark (\<lambda>_. Inr ()) (\<lambda>_. Inr []) \<lparr>v_Version = ''8.13.0'', CommitHash = [], CommitTime = []\<rparr>
       sample_gcp_env (\<lambda>_. Inr ()) (\<lambda>_. Inr ()) sample_gcp_provider"


end
